(* ===== verification/Prelude.thy ===== *)
theory Prelude
  imports Main "HOL-Library.Word"
begin

text \<open>
  Shared vocabulary of the development.

  \<^item> The machine types of the Rust sources: \<open>u8\<close>, \<open>u32\<close>, \<open>i32\<close>, \<open>u64\<close> and \<open>i64\<close> are words of
    their width; an \<open>i32\<close> or \<open>i64\<close> is read with \<^const>\<open>sint\<close>, and its \<open>+\<close> and \<open>-\<close> wrap, which is what
    the arithmetic operators of a release build do (\<^verbatim>\<open>Cargo.toml\<close> sets no \<open>overflow-checks\<close>).
  \<^item> \<open>Result<T, E>\<close> is the sum \<open>'e + 't\<close>; the operator \<open>?\<close> is \<open>bindE\<close> and \<open>map_err\<close> is \<open>mapErr\<close>.
  \<^item> Duplicate detection through \<open>BTreeSet::insert\<close> inside an \<open>any\<close>, which several validators share.
\<close>

type_synonym byte = "8 word"
type_synonym bytes = "8 word list"
type_synonym u32 = "32 word"
type_synonym i32 = "32 word"
type_synonym u64 = "64 word"
type_synonym i64 = "64 word"

named_theorems ok_iff \<open>when a fallible operation of the model returns a value\<close>
named_theorems err_iff \<open>when a fallible operation of the model returns an error\<close>

section \<open>Results\<close>

definition bindE :: "'e + 'a \<Rightarrow> ('a \<Rightarrow> 'e + 'b) \<Rightarrow> 'e + 'b" where
  "bindE m f = (case m of Inl e \<Rightarrow> Inl e | Inr x \<Rightarrow> f x)"

definition mapErr :: "('e \<Rightarrow> 'f) \<Rightarrow> 'e + 'a \<Rightarrow> 'f + 'a" where
  "mapErr g m = (case m of Inl e \<Rightarrow> Inl (g e) | Inr x \<Rightarrow> Inr x)"

definition ok_or :: "'e \<Rightarrow> 'a option \<Rightarrow> 'e + 'a" where
  "ok_or e m = (case m of None \<Rightarrow> Inl e | Some x \<Rightarrow> Inr x)"

definition is_ok :: "'e + 'a \<Rightarrow> bool" where
  "is_ok m = (case m of Inl _ \<Rightarrow> False | Inr _ \<Rightarrow> True)"

lemma bindE_simps [simp]:
  "bindE (Inl e) f = Inl e"
  "bindE (Inr x) f = f x"
  by (simp_all add: bindE_def)

lemma mapErr_simps [simp]:
  "mapErr g (Inl e) = Inl (g e)"
  "mapErr g (Inr x) = Inr x"
  by (simp_all add: mapErr_def)

lemma ok_or_simps [simp]:
  "ok_or e None = Inl e"
  "ok_or e (Some x) = Inr x"
  by (simp_all add: ok_or_def)

lemma is_ok_simps [simp]:
  "\<not> is_ok (Inl e)"
  "is_ok (Inr x)"
  by (simp_all add: is_ok_def)

lemma bindE_ok [ok_iff]: "bindE m f = Inr y \<longleftrightarrow> (\<exists>x. m = Inr x \<and> f x = Inr y)"
  by (cases m) auto

lemma bindE_err [err_iff]: "bindE m f = Inl e \<longleftrightarrow> m = Inl e \<or> (\<exists>x. m = Inr x \<and> f x = Inl e)"
  by (cases m) auto

lemma mapErr_ok [ok_iff]: "mapErr g m = Inr y \<longleftrightarrow> m = Inr y"
  by (cases m) auto

lemma mapErr_err [err_iff]: "mapErr g m = Inl e \<longleftrightarrow> (\<exists>e'. m = Inl e' \<and> e = g e')"
  by (cases m) auto

lemma ok_or_ok [ok_iff]: "ok_or e m = Inr y \<longleftrightarrow> m = Some y"
  by (cases m) auto

lemma ok_or_err [err_iff]: "ok_or e m = Inl e' \<longleftrightarrow> m = None \<and> e' = e"
  by (cases m) auto

lemma if_err_ok [ok_iff]: "(if b then Inl e else m) = Inr y \<longleftrightarrow> \<not> b \<and> m = Inr y"
  by simp

lemma is_ok_iff: "is_ok m \<longleftrightarrow> (\<exists>x. m = Inr x)"
  by (cases m) auto

text \<open>\<open>bindE\<close> is associative, so a prefix of a chain of \<open>?\<close> can be named.\<close>

lemma bindE_assoc: "bindE (bindE m f) g = bindE m (\<lambda>x. bindE (f x) g)"
  by (cases m) simp_all

section \<open>Signed 64-bit arithmetic\<close>

text \<open>
  The difference and the sum of two \<open>i64\<close> are exact when they lie in the range of the type, and
  off by \<open>2 ^ 64\<close> otherwise.
\<close>

lemma sint_bounds64: "- (2 ^ 63) \<le> sint (a :: i64)" "sint (a :: i64) < 2 ^ 63"
  using sint_greater_eq [of a] sint_lt [of a] by simp_all

lemma sint_sub64:
  "sint (a - b :: i64) = (sint a - sint b + 2 ^ 63) mod 2 ^ 64 - 2 ^ 63"
  by (simp add: sint_word_ariths signed_take_bit_eq_take_bit_shift take_bit_eq_mod)

lemma sint_add64:
  "sint (a + b :: i64) = (sint a + sint b + 2 ^ 63) mod 2 ^ 64 - 2 ^ 63"
  by (simp add: sint_word_ariths signed_take_bit_eq_take_bit_shift take_bit_eq_mod)

lemma sint_sub_exact:
  assumes "- (2 ^ 63) \<le> sint (a :: i64) - sint b" and "sint a - sint b < 2 ^ 63"
  shows "sint (a - b) = sint a - sint b"
  using assms by (simp add: sint_sub64)

lemma sint_add_exact:
  assumes "- (2 ^ 63) \<le> sint (a :: i64) + sint b" and "sint a + sint b < 2 ^ 63"
  shows "sint (a + b) = sint a + sint b"
  using assms by (simp add: sint_add64)

lemma sint_sub_wraps:
  assumes "2 ^ 63 \<le> sint (a :: i64) - sint b"
  shows "sint (a - b) = sint a - sint b - 2 ^ 64"
proof -
  have "sint a - sint b < 2 ^ 64"
    using sint_bounds64 [of a] sint_bounds64 [of b] by simp
  with assms have "(sint a - sint b + 2 ^ 63 - 2 ^ 64) mod 2 ^ 64 = sint a - sint b + 2 ^ 63 - 2 ^ 64"
    by (intro mod_pos_pos_trivial) (simp_all only: power_numeral, simp_all)
  then show ?thesis
    unfolding sint_sub64 minus_mod_self2 by simp
qed

text \<open>\<open>i64::from\<close> of a \<open>u32\<close> keeps the value.\<close>

definition i64_of_u32 :: "u32 \<Rightarrow> i64" where
  "i64_of_u32 x = ucast x"

lemma sint_i64_of_u32: "sint (i64_of_u32 x) = uint x"
  proof -
  have "uint (ucast x :: i64) = uint x"
    by (simp add: uint_up_ucast is_up)
  moreover have "signed_take_bit 63 (uint x) = uint x"
    using uint_lt2p [of x]
    by (intro signed_take_bit_int_eq_self) (simp_all add: order_trans [OF _ uint_ge_0])
  ultimately show ?thesis
    by (simp add: i64_of_u32_def sint_uint)
qed

text \<open>\<open>u64::checked_add(1)\<close>.\<close>

definition checked_succ :: "u64 \<Rightarrow> u64 option" where
  "checked_succ n = (if n = -1 then None else Some (n + 1))"

lemma checked_succ_Some: "checked_succ n = Some m \<Longrightarrow> unat m = Suc (unat n)"
proof -
  assume "checked_succ n = Some m"
  then have "n \<noteq> -1" and m: "m = n + 1"
    by (auto simp: checked_succ_def split: if_splits)
  then have "1 + n \<noteq> 0"
    by (metis add.commute eq_neg_iff_add_eq_0)
  then show ?thesis
    by (simp add: m unatSuc add.commute)
qed

lemma checked_succ_nonzero: "checked_succ n = Some m \<Longrightarrow> m \<noteq> 0"
  using checked_succ_Some [of n m] by auto

section \<open>Duplicate detection\<close>

text \<open>
  \<open>values.iter().any(|v| bad(v) || !seen.insert(key(v)))\<close> with a fresh set: the first element that is
  bad or repeats a key makes it true.
\<close>

fun bad_or_duplicate :: "('a \<Rightarrow> bool) \<Rightarrow> ('a \<Rightarrow> 'k) \<Rightarrow> 'k set \<Rightarrow> 'a list \<Rightarrow> bool" where
  "bad_or_duplicate bad key seen [] = False"
| "bad_or_duplicate bad key seen (x # xs) =
     (bad x \<or> key x \<in> seen \<or> bad_or_duplicate bad key (insert (key x) seen) xs)"

lemma bad_or_duplicate_iff:
  "\<not> bad_or_duplicate bad key seen xs \<longleftrightarrow>
     (\<forall>x \<in> set xs. \<not> bad x) \<and> distinct (map key xs) \<and> key ` set xs \<inter> seen = {}"
  by (induction xs arbitrary: seen) auto

end
