(* ===== verification/RustText.thy ===== *)
theory RustText
  imports Prelude
begin

text \<open>
  The parts of Rust's \<open>str\<close>, \<open>char\<close> and \<open>u8\<close> that the sources use, and the two encodings of bytes as
  text (\<^verbatim>\<open>b"..."\<close> literals and lower-case hexadecimal).

  A \<open>String\<close> is its UTF-8 bytes, one \<^typ>\<open>char\<close> each, so \<^const>\<open>length\<close> is \<open>str::len\<close>.
  \<open>utf8_chars\<close> is \<open>str::chars\<close> as a list of code points. A Rust string is valid UTF-8 by
  construction; on other byte lists \<open>utf8_chars\<close> is total but means nothing.
\<close>

abbreviation code :: "char \<Rightarrow> nat" where
  "code c \<equiv> of_char c"

section \<open>ASCII classes of a byte\<close>

definition is_ascii_digit :: "char \<Rightarrow> bool" where
  "is_ascii_digit c \<longleftrightarrow> 48 \<le> code c \<and> code c \<le> 57"

definition is_ascii_upper :: "char \<Rightarrow> bool" where
  "is_ascii_upper c \<longleftrightarrow> 65 \<le> code c \<and> code c \<le> 90"

definition is_ascii_lower :: "char \<Rightarrow> bool" where
  "is_ascii_lower c \<longleftrightarrow> 97 \<le> code c \<and> code c \<le> 122"

definition is_ascii_alphabetic :: "char \<Rightarrow> bool" where
  "is_ascii_alphabetic c \<longleftrightarrow> is_ascii_upper c \<or> is_ascii_lower c"

definition is_ascii_alphanumeric :: "char \<Rightarrow> bool" where
  "is_ascii_alphanumeric c \<longleftrightarrow> is_ascii_alphabetic c \<or> is_ascii_digit c"

definition is_ascii_hexdigit :: "char \<Rightarrow> bool" where
  "is_ascii_hexdigit c \<longleftrightarrow>
     is_ascii_digit c \<or> 65 \<le> code c \<and> code c \<le> 70 \<or> 97 \<le> code c \<and> code c \<le> 102"

lemmas ascii_class_defs =
  is_ascii_digit_def is_ascii_upper_def is_ascii_lower_def is_ascii_alphabetic_def
  is_ascii_alphanumeric_def is_ascii_hexdigit_def

definition ascii_lower :: "char \<Rightarrow> char" where
  "ascii_lower c = (if is_ascii_upper c then char_of (code c + 32) else c)"

definition ascii_upper :: "char \<Rightarrow> char" where
  "ascii_upper c = (if is_ascii_lower c then char_of (code c - 32) else c)"

definition to_ascii_lowercase :: "string \<Rightarrow> string" where
  "to_ascii_lowercase s = map ascii_lower s"

definition to_ascii_uppercase :: "string \<Rightarrow> string" where
  "to_ascii_uppercase s = map ascii_upper s"

definition eq_ignore_ascii_case :: "string \<Rightarrow> string \<Rightarrow> bool" where
  "eq_ignore_ascii_case a b \<longleftrightarrow> to_ascii_lowercase a = to_ascii_lowercase b"

lemma code_ascii_lower:
  "code (ascii_lower c) = (if is_ascii_upper c then code c + 32 else code c)"
  by (auto simp: ascii_lower_def is_ascii_upper_def of_char_of take_bit_nat_eq_self)

lemma ascii_lower_idem [simp]: "ascii_lower (ascii_lower c) = ascii_lower c"
  by (auto simp: ascii_lower_def [of "ascii_lower c"] is_ascii_upper_def code_ascii_lower
      split: if_splits)

lemma to_ascii_lowercase_idem [simp]:
  "to_ascii_lowercase (to_ascii_lowercase s) = to_ascii_lowercase s"
  by (simp add: to_ascii_lowercase_def)

lemma length_to_ascii_lowercase [simp]: "length (to_ascii_lowercase s) = length s"
  by (simp add: to_ascii_lowercase_def)

lemma eq_ignore_ascii_case_refl [simp]: "eq_ignore_ascii_case s s"
  by (simp add: eq_ignore_ascii_case_def)

section \<open>Characters\<close>

fun utf8_chars :: "string \<Rightarrow> nat list" where
  "utf8_chars [] = []"
| "utf8_chars (c # cs) =
     (if code c < 192 then code c # utf8_chars cs
      else if code c < 224 then
        (case cs of
           c1 # rest \<Rightarrow> ((code c - 192) * 64 + (code c1 - 128)) # utf8_chars rest
         | _ \<Rightarrow> [])
      else if code c < 240 then
        (case cs of
           c1 # c2 # rest \<Rightarrow>
             ((code c - 224) * 4096 + (code c1 - 128) * 64 + (code c2 - 128)) # utf8_chars rest
         | _ \<Rightarrow> [])
      else
        (case cs of
           c1 # c2 # c3 # rest \<Rightarrow>
             ((code c - 240) * 262144 + (code c1 - 128) * 4096 + (code c2 - 128) * 64
               + (code c3 - 128)) # utf8_chars rest
         | _ \<Rightarrow> []))"

text \<open>\<open>char::is_control\<close>: the general category \<open>Cc\<close>.\<close>

definition is_control :: "nat \<Rightarrow> bool" where
  "is_control n \<longleftrightarrow> n < 32 \<or> 127 \<le> n \<and> n < 160"

text \<open>\<open>char::is_whitespace\<close>: the Unicode property \<open>White_Space\<close>, which \<open>str::trim\<close> removes.\<close>

definition is_whitespace :: "nat \<Rightarrow> bool" where
  "is_whitespace n \<longleftrightarrow>
     9 \<le> n \<and> n \<le> 13 \<or> n = 32 \<or> n = 133 \<or> n = 160 \<or> n = 5760 \<or> 8192 \<le> n \<and> n \<le> 8202 \<or>
     n = 8232 \<or> n = 8233 \<or> n = 8239 \<or> n = 8287 \<or> n = 12288"

definition trim_chars :: "nat list \<Rightarrow> nat list" where
  "trim_chars xs = rev (dropWhile is_whitespace (rev (dropWhile is_whitespace xs)))"

definition has_control :: "string \<Rightarrow> bool" where
  "has_control s \<longleftrightarrow> list_ex is_control (utf8_chars s)"

lemma utf8_chars_ascii:
  "\<forall>c \<in> set s. code c < 128 \<Longrightarrow> utf8_chars s = map of_char s"
  by (induction s) auto

lemma is_ascii_alphanumeric_bounds:
  "is_ascii_alphanumeric c \<Longrightarrow> 48 \<le> code c \<and> code c \<le> 122"
  by (auto simp: ascii_class_defs)

section \<open>Splitting, searching and replacing\<close>

text \<open>\<open>str::split\<close> with a set of separators: \<open>n\<close> separators give \<open>n + 1\<close> parts.\<close>

fun split_on :: "(char \<Rightarrow> bool) \<Rightarrow> string \<Rightarrow> string list" where
  "split_on p [] = [[]]"
| "split_on p (c # cs) =
     (if p c then [] # split_on p cs
      else (case split_on p cs of [] \<Rightarrow> [[c]] | w # ws \<Rightarrow> (c # w) # ws))"

definition starts_with :: "string \<Rightarrow> string \<Rightarrow> bool" where
  "starts_with s pre \<longleftrightarrow> take (length pre) s = pre"

definition ends_with :: "string \<Rightarrow> string \<Rightarrow> bool" where
  "ends_with s suf \<longleftrightarrow> length suf \<le> length s \<and> drop (length s - length suf) s = suf"

definition replace_char :: "char \<Rightarrow> char \<Rightarrow> string \<Rightarrow> string" where
  "replace_char a b s = map (\<lambda>c. if c = a then b else c) s"

lemma split_on_nonempty [simp]: "split_on p s \<noteq> []"
  by (induction s) (auto split: list.splits)

lemma split_on_parts: "w \<in> set (split_on p s) \<Longrightarrow> c \<in> set w \<Longrightarrow> \<not> p c \<and> c \<in> set s"
proof (induction s arbitrary: w)
  case (Cons d s)
  then show ?case
    by (cases "split_on p s") (fastforce split: if_splits)+
qed simp

lemma split_on_append_sep:
  "p c \<Longrightarrow> split_on p (u @ c # v) = split_on p u @ split_on p v"
proof (induction u)
  case (Cons d u)
  then show ?case
    by (cases "split_on p u") auto
qed simp

lemma split_on_no_sep: "\<forall>c \<in> set s. \<not> p c \<Longrightarrow> split_on p s = [s]"
  by (induction s) auto

lemma starts_with_append [simp]: "starts_with (pre @ s) pre"
  by (simp add: starts_with_def)

lemma starts_with_iff: "starts_with s pre \<longleftrightarrow> (\<exists>t. s = pre @ t)"
  by (metis append_take_drop_id starts_with_def starts_with_append)

section \<open>Numbers as text\<close>

text \<open>\<open>to_string\<close> and \<open>format!("{}")\<close> of an unsigned number.\<close>

fun show_nat :: "nat \<Rightarrow> string" where
  "show_nat n =
     (if n < 10 then [char_of (48 + n)] else show_nat (n div 10) @ [char_of (48 + n mod 10)])"

declare show_nat.simps [simp del]

text \<open>\<open>str::parse\<close> for an unsigned type of the given width: an optional \<open>+\<close>, then digits.\<close>

definition digits_value :: "string \<Rightarrow> nat option" where
  "digits_value s =
     (if s \<noteq> [] \<and> list_all is_ascii_digit s
      then Some (foldl (\<lambda>n c. 10 * n + (code c - 48)) 0 s) else None)"

definition parse_unsigned :: "nat \<Rightarrow> string \<Rightarrow> nat option" where
  "parse_unsigned bits s =
     (case digits_value (if starts_with s ''+'' then drop 1 s else s) of
        None \<Rightarrow> None
      | Some n \<Rightarrow> if n < 2 ^ bits then Some n else None)"

section \<open>Lines and words\<close>

text \<open>The characters of a string, each as its bytes.\<close>

fun utf8_groups :: "string \<Rightarrow> string list" where
  "utf8_groups [] = []"
| "utf8_groups (c # cs) =
     (if code c < 192 then [c] # utf8_groups cs
      else if code c < 224 then (c # take 1 cs) # utf8_groups (drop 1 cs)
      else if code c < 240 then (c # take 2 cs) # utf8_groups (drop 2 cs)
      else (c # take 3 cs) # utf8_groups (drop 3 cs))"

definition white_group :: "string \<Rightarrow> bool" where
  "white_group g = list_all is_whitespace (utf8_chars g)"

definition trim_start :: "string \<Rightarrow> string" where
  "trim_start s = concat (dropWhile white_group (utf8_groups s))"

definition trim :: "string \<Rightarrow> string" where
  "trim s =
     concat (rev (dropWhile white_group (rev (dropWhile white_group (utf8_groups s)))))"

fun words_of :: "string list \<Rightarrow> string \<Rightarrow> string list" where
  "words_of [] w = (if w = [] then [] else [w])"
| "words_of (g # gs) w =
     (if white_group g then (if w = [] then words_of gs [] else w # words_of gs [])
      else words_of gs (w @ g))"

definition split_whitespace :: "string \<Rightarrow> string list" where
  "split_whitespace s = words_of (utf8_groups s) []"

text \<open>\<open>str::lines\<close>: split at line feeds, without a final empty line and without a carriage return at the
  end of a line.\<close>

definition strip_cr :: "string \<Rightarrow> string" where
  "strip_cr l = (if l \<noteq> [] \<and> last l = CHR 0x0D then butlast l else l)"

definition lines :: "string \<Rightarrow> string list" where
  "lines s =
     (let ls = split_on (\<lambda>c. c = CHR 0x0A) s in
      map strip_cr (butlast ls) @ (if last ls = [] then [] else [last ls]))"

text \<open>\<open>str::rsplit_once\<close> at a character, the part after it.\<close>

definition after_last :: "char \<Rightarrow> string \<Rightarrow> string option" where
  "after_last c s = (if c \<in> set s then Some (rev (takeWhile (\<lambda>d. d \<noteq> c) (rev s))) else None)"

lemma after_last_append:
  "c \<notin> set t \<Longrightarrow> after_last c (s @ c # t) = Some t"
proof -
  assume "c \<notin> set t"
  then have "takeWhile (\<lambda>d. d \<noteq> c) (rev t @ c # rev s) = rev t"
    by (subst takeWhile_append2) auto
  then show ?thesis
    by (simp add: after_last_def)
qed

lemma split_on_refine:
  "(\<And>c. p c \<Longrightarrow> q c) \<Longrightarrow> split_on q s = concat (map (split_on q) (split_on p s))"
proof (induction s)
  case (Cons c s)
  then have IH: "split_on q s = concat (map (split_on q) (split_on p s))"
    by blast
  obtain w ws where p: "split_on p s = w # ws"
    by (cases "split_on p s") auto
  show ?case
  proof (cases "p c")
    case True
    with Cons.prems IH show ?thesis by simp
  next
    case False
    obtain v vs where "split_on q w = v # vs"
      by (cases "split_on q w") auto
    with False IH p show ?thesis by simp
  qed
qed simp

section \<open>Bytes as text\<close>

text \<open>A \<^verbatim>\<open>b"..."\<close> literal.\<close>

definition bytes_of :: "string \<Rightarrow> bytes" where
  "bytes_of s = map of_char s"

text \<open>\<open>hex::encode\<close> of the \<^verbatim>\<open>hex\<close> crate as documented: two lower-case digits per byte.\<close>

definition hex_digit :: "nat \<Rightarrow> char" where
  "hex_digit n = (if n < 10 then char_of (48 + n) else char_of (87 + n))"

definition hex_encode :: "bytes \<Rightarrow> string" where
  "hex_encode bs = concat (map (\<lambda>b. [hex_digit (unat b div 16), hex_digit (unat b mod 16)]) bs)"

lemma length_bytes_of [simp]: "length (bytes_of s) = length s"
  by (simp add: bytes_of_def)

lemma length_hex_encode [simp]: "length (hex_encode bs) = 2 * length bs"
  by (induction bs) (simp_all add: hex_encode_def)

lemma code_hex_digit: "n < 16 \<Longrightarrow> code (hex_digit n) = (if n < 10 then 48 + n else 87 + n)"
  by (simp add: hex_digit_def take_bit_nat_eq_self)

lemma hex_digit_is_hexdigit: "n < 16 \<Longrightarrow> is_ascii_hexdigit (hex_digit n)"
  by (auto simp: is_ascii_hexdigit_def is_ascii_digit_def code_hex_digit)

lemma hex_digit_inj: "m < 16 \<Longrightarrow> n < 16 \<Longrightarrow> hex_digit m = hex_digit n \<Longrightarrow> m = n"
  by (drule arg_cong [where f = code]) (auto simp: code_hex_digit split: if_splits)

lemma unat_byte_lt: "unat (b :: byte) < 256"
  using unsigned_less [of b, where ?'a = nat] by simp

lemma unat_byte_div16 [simp]: "unat (b :: byte) div 16 < 16"
  using unat_byte_lt [of b] by simp

lemma hex_encode_hexdigits: "\<forall>c \<in> set (hex_encode bs). is_ascii_hexdigit c"
  by (induction bs) (auto simp: hex_encode_def hex_digit_is_hexdigit)

lemma hex_encode_Cons:
  "hex_encode (b # bs) = hex_digit (unat b div 16) # hex_digit (unat b mod 16) # hex_encode bs"
  by (simp add: hex_encode_def)

lemma hex_encode_inj: "hex_encode as = hex_encode bs \<Longrightarrow> as = bs"
proof (induction as arbitrary: bs)
  case Nil
  then show ?case by (cases bs) (simp_all add: hex_encode_def)
next
  case (Cons a as)
  then obtain b bs' where bs: "bs = b # bs'"
    by (cases bs) (simp_all add: hex_encode_def)
  from Cons.prems have
    "unat a div 16 = unat b div 16" "unat a mod 16 = unat b mod 16" "hex_encode as = hex_encode bs'"
    unfolding bs hex_encode_Cons by (auto intro: hex_digit_inj)
  then have "unat a = unat b" and "as = bs'"
    using div_mult_mod_eq [of "unat a" 16] div_mult_mod_eq [of "unat b" 16] Cons.IH [of bs']
    by argo+
  then show ?case by (simp add: bs word_unat_eq_iff)
qed

lemma hex_encode_lowercase [simp]: "to_ascii_lowercase (hex_encode bs) = hex_encode bs"
proof -
  have "ascii_lower (hex_digit n) = hex_digit n" if "n < 16" for n
    using that by (auto simp: ascii_lower_def is_ascii_upper_def code_hex_digit)
  then show ?thesis
    by (induction bs) (simp_all add: hex_encode_def to_ascii_lowercase_def)
qed

text \<open>\<open>hex::decode\<close>.\<close>

definition hex_value :: "char \<Rightarrow> nat option" where
  "hex_value c =
     (if is_ascii_digit c then Some (code c - 48)
      else if 97 \<le> code c \<and> code c \<le> 102 then Some (code c - 87)
      else if 65 \<le> code c \<and> code c \<le> 70 then Some (code c - 55)
      else None)"

fun hex_decode :: "string \<Rightarrow> bytes option" where
  "hex_decode [] = Some []"
| "hex_decode [c] = None"
| "hex_decode (c # d # s) =
     (case (hex_value c, hex_value d, hex_decode s) of
        (Some h, Some l, Some bs) \<Rightarrow> Some (of_nat (16 * h + l) # bs)
      | _ \<Rightarrow> None)"

lemma hex_value_digit: "n < 16 \<Longrightarrow> hex_value (hex_digit n) = Some n"
  by (simp add: hex_value_def is_ascii_digit_def code_hex_digit)

lemma hex_decode_encode [simp]: "hex_decode (hex_encode bs) = Some bs"
proof (induction bs)
  case Nil
  then show ?case by (simp add: hex_encode_def)
next
  case (Cons b bs)
  have "16 * (unat b div 16) + unat b mod 16 = unat b"
    by simp
  with Cons show ?case
    by (simp add: hex_encode_Cons hex_value_digit)
qed

end
