(* ===== verification/ProtocolTypes.thy ===== *)
theory ProtocolTypes
  imports RustText
begin

text \<open>
  The data of \<^verbatim>\<open>crates/certael-agent-protocol/src/lib.rs\<close>: one \<^theory_text>\<open>record\<close> per message struct, with the
  struct's fields in order (each field name carries a prefix, because record fields are global
  constants), one \<^theory_text>\<open>datatype\<close> per enum, and the constants.

  The seven \<^verbatim>\<open>Signed...V1\<close> structs have the same three fields with the same tags, so one record
  \<open>signed_object\<close> carries them and each struct is a synonym of it.

  The record \<open>lib\<close> collects what the crate takes from third-party packages, as parameters of the
  model: SHA-256 (\<^verbatim>\<open>sha2\<close>), Ed25519 (\<^verbatim>\<open>ed25519-dalek\<close>), version parsing and ordering (\<^verbatim>\<open>semver\<close>), and
  the Protobuf encoder and decoder \<^verbatim>\<open>prost\<close> derives for each message. A verifying or signing key is
  represented by its bytes.
\<close>

section \<open>Constants\<close>

definition PROTOCOL_VERSION :: u32 where
  "PROTOCOL_VERSION = 1"

definition MAX_MESSAGE_BYTES :: nat where
  "MAX_MESSAGE_BYTES = 64 * 1024"

definition REPORT_DOMAIN :: bytes where
  "REPORT_DOMAIN = bytes_of ''certael.agent.report.v1'' @ [0]"

definition LAUNCH_DOMAIN :: bytes where
  "LAUNCH_DOMAIN = bytes_of ''certael.agent.launch.v1'' @ [0]"

definition POLICY_DOMAIN :: bytes where
  "POLICY_DOMAIN = bytes_of ''certael.agent.policy.v1'' @ [0]"

definition BUILD_MANIFEST_DOMAIN :: bytes where
  "BUILD_MANIFEST_DOMAIN = bytes_of ''certael.agent.build-manifest.v1'' @ [0]"

definition REGISTRATION_DOMAIN :: bytes where
  "REGISTRATION_DOMAIN = bytes_of ''certael.agent.registration.v1'' @ [0]"

definition BRANDING_DOMAIN :: bytes where
  "BRANDING_DOMAIN = bytes_of ''certael.agent.branding.v1'' @ [0]"

definition REVOCATION_DOMAIN :: bytes where
  "REVOCATION_DOMAIN = bytes_of ''certael.agent.revocation.v1'' @ [0]"

definition COMPATIBILITY_DOMAIN :: bytes where
  "COMPATIBILITY_DOMAIN = bytes_of ''certael.compatibility.v1'' @ [0]"

lemmas domain_defs =
  REPORT_DOMAIN_def LAUNCH_DOMAIN_def POLICY_DOMAIN_def BUILD_MANIFEST_DOMAIN_def
  REGISTRATION_DOMAIN_def BRANDING_DOMAIN_def REVOCATION_DOMAIN_def COMPATIBILITY_DOMAIN_def

section \<open>Compatibility messages\<close>

datatype CertaelProductV1 =
  Unspecified | Core | Agent | GodotAdapter | UnityAdapter | UnrealAdapter | DotNetServerSdk
| NativeServerSdk

text \<open>\<open>product as i32\<close>, and the \<open>TryFrom<i32>\<close> that \<^verbatim>\<open>prost::Enumeration\<close> derives from the discriminants.\<close>

primrec product_i32 :: "CertaelProductV1 \<Rightarrow> i32" where
  "product_i32 Unspecified = 0"
| "product_i32 Core = 1"
| "product_i32 Agent = 2"
| "product_i32 GodotAdapter = 3"
| "product_i32 UnityAdapter = 4"
| "product_i32 UnrealAdapter = 5"
| "product_i32 DotNetServerSdk = 6"
| "product_i32 NativeServerSdk = 7"

definition all_products :: "CertaelProductV1 list" where
  "all_products =
     [Unspecified, Core, Agent, GodotAdapter, UnityAdapter, UnrealAdapter, DotNetServerSdk,
      NativeServerSdk]"

definition product_try_from :: "i32 \<Rightarrow> CertaelProductV1 option" where
  "product_try_from v = find (\<lambda>p. product_i32 p = v) all_products"

record CompatibilityProductRuleV1 =
  rule_product :: i32
  rule_minimum_supported_version :: string
  rule_recommended_version :: string
  rule_minimum_protocol_version :: u32
  rule_maximum_protocol_version :: u32

record CompatibilityRevocationV1 =
  crev_product :: i32
  crev_version :: string
  crev_effective_at_unix :: i64
  crev_reason :: string

record CompatibilityManifestClaimsV1 =
  cm_schema_version :: u32
  cm_revision :: u64
  cm_issued_at_unix :: i64
  cm_expires_at_unix :: i64
  cm_products :: "CompatibilityProductRuleV1 list"
  cm_revocations :: "CompatibilityRevocationV1 list"

record signed_object =
  so_claims :: bytes
  so_signature :: bytes
  so_key_id :: string

type_synonym SignedCompatibilityManifestV1 = signed_object
type_synonym SignedAgentPolicyV1 = signed_object
type_synonym SignedAgentLaunchGrantV1 = signed_object
type_synonym SignedBuildManifestV1 = signed_object
type_synonym SignedGameRegistrationV1 = signed_object
type_synonym SignedBrandingManifestV1 = signed_object
type_synonym SignedAgentRevocationV1 = signed_object

datatype CompatibilityStateV1 =
  Supported | Deprecated | UpdateRequired | Revoked | Unknown | Indeterminate

record CompatibilityDecisionV1 =
  dec_state :: CompatibilityStateV1
  dec_public_reason :: string
  dec_recommended_version :: "string option"
  dec_manifest_revision :: u64

definition allows_new_protected_session :: "CompatibilityDecisionV1 \<Rightarrow> bool" where
  "allows_new_protected_session d \<longleftrightarrow>
     (case dec_state d of Supported \<Rightarrow> True | Deprecated \<Rightarrow> True | _ \<Rightarrow> False)"

section \<open>Launch messages\<close>

datatype AgentRequirementModeV1 = Disabled | Optional | Required

primrec mode_i32 :: "AgentRequirementModeV1 \<Rightarrow> i32" where
  "mode_i32 Disabled = 0"
| "mode_i32 Optional = 1"
| "mode_i32 Required = 2"

definition mode_try_from :: "i32 \<Rightarrow> AgentRequirementModeV1 option" where
  "mode_try_from v = find (\<lambda>m. mode_i32 m = v) [Disabled, Optional, Required]"

record AgentPolicyClaimsV1 =
  pol_protocol_version :: u32
  pol_policy_id :: string
  pol_game_id :: string
  pol_environment_id :: string
  pol_requirement_mode :: i32
  pol_heartbeat_seconds :: u32
  pol_report_seconds :: u32
  pol_disconnect_grace_seconds :: u32
  pol_minimum_agent_version :: string
  pol_expires_at_unix :: i64
  pol_tenant_id :: string

record AgentLaunchGrantClaimsV1 =
  grant_protocol_version :: u32
  grant_grant_id :: string
  grant_tenant_id :: string
  grant_game_id :: string
  grant_environment_id :: string
  grant_player_subject :: string
  grant_match_id :: string
  grant_build_id :: string
  grant_agent_public_key :: bytes
  grant_issued_at_unix :: i64
  grant_expires_at_unix :: i64
  grant_policy_digest :: bytes
  grant_authoritative_server_id :: string
  grant_build_manifest_digest :: bytes

record AgentHelloV1 =
  hello_protocol_version :: u32
  hello_agent_version :: string
  hello_agent_public_key :: bytes
  hello_build_id :: string
  hello_executable_sha256 :: bytes

record AgentLaunchBundleV1 =
  bundle_signed_policy :: bytes
  bundle_signed_launch_grant :: bytes
  bundle_signed_build_manifest :: bytes

record ProtectedBuildFileV1 =
  bf_path :: string
  bf_size :: u64
  bf_sha256 :: bytes

record BuildManifestClaimsV1 =
  man_protocol_version :: u32
  man_manifest_id :: string
  man_tenant_id :: string
  man_game_id :: string
  man_environment_id :: string
  man_build_id :: string
  man_files :: "ProtectedBuildFileV1 list"
  man_not_before_unix :: i64
  man_expires_at_unix :: i64
  man_core_sdk_version :: string
  man_engine_adapter :: string
  man_engine_adapter_version :: string
  man_core_c_abi_version :: u32
  man_action_protocol_version :: u32
  man_agent_protocol_version :: u32
  man_agent_probe_abi_version :: u32

record RegisteredGameFileV1 =
  rgf_relative_path :: string
  rgf_size :: u64
  rgf_sha256 :: bytes

record GameRegistrationClaimsV1 =
  reg_protocol_version :: u32
  reg_registration_id :: string
  reg_publisher_id :: string
  reg_tenant_id :: string
  reg_game_id :: string
  reg_environment_id :: string
  reg_executable_relative_path :: string
  reg_trust_store_sha256 :: bytes
  reg_update_root_sha256 :: bytes
  reg_update_metadata_url :: string
  reg_update_targets_url :: string
  reg_update_channel :: string
  reg_not_before_unix :: i64
  reg_expires_at_unix :: i64
  reg_registered_files :: "RegisteredGameFileV1 list"
  reg_repair_executable_relative_path :: string
  reg_repair_arguments :: "string list"
  reg_offline_play_allowed :: bool
  reg_offline_arguments :: "string list"

record BrandingManifestClaimsV1 =
  brand_protocol_version :: u32
  brand_registration_id :: string
  brand_game_id :: string
  brand_display_name :: string
  brand_publisher_name :: string
  brand_icon_relative_path :: string
  brand_icon_sha256 :: bytes
  brand_not_before_unix :: i64
  brand_expires_at_unix :: i64
  brand_hero_relative_path :: string
  brand_hero_sha256 :: bytes

record BoundAgentLaunch =
  launch_session_id :: string
  launch_tenant_id :: string
  launch_game_id :: string
  launch_environment_id :: string
  launch_player_subject :: string
  launch_match_id :: string
  launch_build_id :: string
  launch_authoritative_server_id :: string
  launch_build_manifest :: BuildManifestClaimsV1
  launch_build_manifest_digest :: bytes
  launch_heartbeat_seconds :: u32
  launch_report_seconds :: u32
  launch_disconnect_grace_seconds :: u32
  launch_policy_expires_at_unix :: i64
  launch_grant_expires_at_unix :: i64

section \<open>Session messages\<close>

record AgentReportChallengeV1 =
  chal_agent_session_id :: string
  chal_nonce :: bytes
  chal_expires_at_unix :: i64

record IntegrityObservationV1 =
  obs_code :: string
  obs_value :: string

record AgentIntegrityReportV1 =
  rep_protocol_version :: u32
  rep_agent_session_id :: string
  rep_sequence :: u64
  rep_challenge_nonce :: bytes
  rep_observed_at_unix :: i64
  rep_build_id :: string
  rep_executable_sha256 :: bytes
  rep_observations :: "IntegrityObservationV1 list"
  rep_previous_report_digest :: bytes
  rep_signature :: bytes

record AgentHealthV1 =
  health_agent_session_id :: string
  health_state :: string
  health_last_report_at_unix :: i64
  health_public_reasons :: "string list"

record AgentRevocationClaimsV1 =
  rev_protocol_version :: u32
  rev_tenant_id :: string
  rev_game_id :: string
  rev_environment_id :: string
  rev_agent_session_id :: string
  rev_reason :: string
  rev_revoked_at_unix :: i64
  rev_expires_at_unix :: i64

section \<open>Errors and keys\<close>

datatype ProtocolError =
  TooLarge | Empty | LaunchBundleComponent string ProtocolError | InvalidSignature
| InvalidField string | Decode | Expired | UnknownKey | NonCanonical

record VerificationKey =
  vk_key_id :: string
  vk_key :: bytes
  vk_not_before_unix :: i64
  vk_not_after_unix :: i64
  vk_revoked :: bool

section \<open>Third-party operations\<close>

record 'm codec =
  encode_to_vec :: "'m \<Rightarrow> bytes"
  decode :: "bytes \<Rightarrow> 'm option"

text \<open>
  \<open>sig_from_slice\<close> is \<open>Signature::from_slice\<close>, \<open>vk_verify key message signature\<close> is whether
  \<open>key.verify(message, signature)\<close> returns \<open>Ok\<close>, \<open>sk_verifying\<close> is \<open>SigningKey::verifying_key\<close> (as the
  bytes of the key), \<open>sk_sign\<close> is \<open>SigningKey::sign\<close>, and \<open>'v\<close> is \<open>semver::Version\<close>.
\<close>

record 'v lib =
  sha256 :: "bytes \<Rightarrow> bytes"
  sig_from_slice :: "bytes \<Rightarrow> bytes option"
  vk_verify :: "bytes \<Rightarrow> bytes \<Rightarrow> bytes \<Rightarrow> bool"
  sk_verifying :: "bytes \<Rightarrow> bytes"
  sk_sign :: "bytes \<Rightarrow> bytes \<Rightarrow> bytes"
  version_parse :: "string \<Rightarrow> 'v option"
  version_less :: "'v \<Rightarrow> 'v \<Rightarrow> bool"
  policy_codec :: "AgentPolicyClaimsV1 codec"
  grant_codec :: "AgentLaunchGrantClaimsV1 codec"
  manifest_codec :: "BuildManifestClaimsV1 codec"
  registration_codec :: "GameRegistrationClaimsV1 codec"
  branding_codec :: "BrandingManifestClaimsV1 codec"
  revocation_codec :: "AgentRevocationClaimsV1 codec"
  compatibility_codec :: "CompatibilityManifestClaimsV1 codec"
  signed_codec :: "signed_object codec"
  bundle_codec :: "AgentLaunchBundleV1 codec"
  challenge_codec :: "AgentReportChallengeV1 codec"
  report_codec :: "AgentIntegrityReportV1 codec"
  health_codec :: "AgentHealthV1 codec"
  hello_codec :: "AgentHelloV1 codec"

section \<open>Facts on the enumerations\<close>

lemma product_i32_inj: "product_i32 p = product_i32 q \<Longrightarrow> p = q"
  by (cases p; cases q; simp)

lemma product_try_from_iff: "product_try_from v = Some p \<longleftrightarrow> product_i32 p = v"
proof
  assume "product_try_from v = Some p"
  then show "product_i32 p = v"
    by (auto simp: product_try_from_def find_Some_iff)
next
  assume v: "product_i32 p = v"
  show "product_try_from v = Some p"
    unfolding v [symmetric] by (cases p) (simp_all add: product_try_from_def all_products_def)
qed

lemma mode_try_from_iff: "mode_try_from v = Some m \<longleftrightarrow> mode_i32 m = v"
  by (cases m) (auto simp: mode_try_from_def split: if_splits)

end
