(* ===== verification/ProtocolValidate.thy ===== *)
theory ProtocolValidate
  imports ProtocolTypes
begin

text \<open>
  The validators of \<^verbatim>\<open>crates/certael-agent-protocol/src/lib.rs\<close>: the lexical predicates (\<open>is_identifier\<close>,
  \<open>safe_relative_path\<close>, \<open>safe_display\<close>, \<dots>) and the \<open>validate_...\<close> functions, with the conditions in
  the order of the source. The time \<open>now\<close> is the argument \<open>now_unix\<close>.

  The lemmas say what an accepted value satisfies: a path accepted by \<open>safe_relative_path\<close> never
  leaves the directory it is joined to, as Unix and as Windows read it, accepted file lists have pairwise distinct paths, and a
  launch grant lives for at most 120 seconds unless its issue time makes the subtraction overflow.
\<close>

section \<open>Lexical predicates\<close>

definition is_identifier :: "string \<Rightarrow> bool" where
  "is_identifier value \<longleftrightarrow>
     value \<noteq> [] \<and> length value \<le> 128 \<and>
     list_all (\<lambda>c. is_ascii_alphanumeric c \<or> c \<in> {CHR ''.'', CHR ''_'', CHR ''-''}) value"

definition version_identifier :: "string \<Rightarrow> bool" where
  "version_identifier value \<longleftrightarrow>
     value \<noteq> [] \<and> length value \<le> 64 \<and>
     list_all (\<lambda>c. is_ascii_alphanumeric c \<or> c \<in> {CHR ''.'', CHR ''+'', CHR ''-''}) value"

definition is_separator :: "char \<Rightarrow> bool" where
  "is_separator c \<longleftrightarrow> c = CHR ''/'' \<or> c = CHR 0x5C"

definition safe_relative_path :: "string \<Rightarrow> bool" where
  "safe_relative_path value \<longleftrightarrow>
     value \<noteq> [] \<and> length value \<le> 512 \<and>
     \<not> starts_with value ''/'' \<and> \<not> starts_with value [CHR 0x5C] \<and>
     \<not> (2 \<le> length value \<and> value ! 1 = CHR '':'') \<and>
     list_all (\<lambda>part. part \<noteq> [] \<and> part \<noteq> ''.'' \<and> part \<noteq> ''..'') (split_on is_separator value)"

definition is_bidi_control :: "nat \<Rightarrow> bool" where
  "is_bidi_control n \<longleftrightarrow>
     n = 0x61C \<or> n = 0x200E \<or> n = 0x200F \<or> 0x202A \<le> n \<and> n \<le> 0x202E \<or> 0x2066 \<le> n \<and> n \<le> 0x2069"

definition safe_display :: "string \<Rightarrow> nat \<Rightarrow> bool" where
  "safe_display value maximum \<longleftrightarrow>
     value \<noteq> [] \<and> trim_chars (utf8_chars value) = utf8_chars value \<and>
     length (utf8_chars value) \<le> maximum \<and>
     \<not> list_ex (\<lambda>n. is_control n \<or> is_bidi_control n) (utf8_chars value)"

definition https_url :: "string \<Rightarrow> bool" where
  "https_url value \<longleftrightarrow>
     length value \<le> 2048 \<and> starts_with value ''https://'' \<and>
     CHR ''.'' \<in> set (drop 8 value) \<and> \<not> has_control value"

definition safe_arguments :: "string list \<Rightarrow> bool" where
  "safe_arguments values \<longleftrightarrow>
     length values \<le> 32 \<and> sum_list (map length values) \<le> 4096 \<and>
     list_all (\<lambda>v. v \<noteq> [] \<and> length v \<le> 512 \<and> \<not> has_control v) values"

section \<open>Validators of signed claims\<close>

definition validate_policy :: "AgentPolicyClaimsV1 \<Rightarrow> i64 \<Rightarrow> ProtocolError + unit" where
  "validate_policy c now =
     (if pol_protocol_version c \<noteq> PROTOCOL_VERSION
        \<or> \<not> is_identifier (pol_policy_id c)
        \<or> \<not> is_identifier (pol_tenant_id c)
        \<or> \<not> is_identifier (pol_game_id c)
        \<or> \<not> is_identifier (pol_environment_id c)
        \<or> mode_try_from (pol_requirement_mode c) = None
        \<or> \<not> (5 \<le> pol_heartbeat_seconds c \<and> pol_heartbeat_seconds c \<le> 300)
        \<or> \<not> (15 \<le> pol_report_seconds c \<and> pol_report_seconds c \<le> 3600)
        \<or> pol_report_seconds c < pol_heartbeat_seconds c
        \<or> 300 < pol_disconnect_grace_seconds c
        \<or> \<not> version_identifier (pol_minimum_agent_version c)
      then Inl (InvalidField ''policy'')
      else if sint (pol_expires_at_unix c) \<le> sint now then Inl Expired
      else Inr ())"

definition validate_launch_grant :: "AgentLaunchGrantClaimsV1 \<Rightarrow> i64 \<Rightarrow> ProtocolError + unit" where
  "validate_launch_grant c now =
     (if grant_protocol_version c \<noteq> PROTOCOL_VERSION
        \<or> \<not> is_identifier (grant_grant_id c)
        \<or> \<not> is_identifier (grant_tenant_id c)
        \<or> \<not> is_identifier (grant_game_id c)
        \<or> \<not> is_identifier (grant_environment_id c)
        \<or> \<not> is_identifier (grant_player_subject c)
        \<or> \<not> is_identifier (grant_match_id c)
        \<or> \<not> is_identifier (grant_build_id c)
        \<or> \<not> is_identifier (grant_authoritative_server_id c)
        \<or> length (grant_agent_public_key c) \<noteq> 32
        \<or> length (grant_policy_digest c) \<noteq> 32
        \<or> length (grant_build_manifest_digest c) \<noteq> 32
        \<or> sint (now + 30) < sint (grant_issued_at_unix c)
        \<or> sint (grant_expires_at_unix c) \<le> sint (grant_issued_at_unix c)
        \<or> 120 < sint (grant_expires_at_unix c - grant_issued_at_unix c)
      then Inl (InvalidField ''launch_grant'')
      else if sint (grant_expires_at_unix c) \<le> sint now then Inl Expired
      else Inr ())"

definition validate_build_manifest :: "BuildManifestClaimsV1 \<Rightarrow> i64 \<Rightarrow> ProtocolError + unit" where
  "validate_build_manifest c now =
     (if man_protocol_version c \<noteq> PROTOCOL_VERSION
        \<or> \<not> is_identifier (man_manifest_id c)
        \<or> \<not> is_identifier (man_tenant_id c)
        \<or> \<not> is_identifier (man_game_id c)
        \<or> \<not> is_identifier (man_environment_id c)
        \<or> \<not> is_identifier (man_build_id c)
        \<or> man_files c = []
        \<or> 16384 < length (man_files c)
        \<or> sint (now + 30) < sint (man_not_before_unix c)
        \<or> sint (man_expires_at_unix c) \<le> sint now
        \<or> sint (man_expires_at_unix c) \<le> sint (man_not_before_unix c)
        \<or> \<not> version_identifier (man_core_sdk_version c)
        \<or> \<not> is_identifier (man_engine_adapter c)
        \<or> \<not> version_identifier (man_engine_adapter_version c)
        \<or> man_core_c_abi_version c \<noteq> 1
        \<or> man_action_protocol_version c \<noteq> 1
        \<or> man_agent_protocol_version c \<noteq> PROTOCOL_VERSION
        \<or> man_agent_probe_abi_version c \<noteq> 1
      then Inl (InvalidField ''build_manifest'')
      else if bad_or_duplicate
        (\<lambda>file. \<not> safe_relative_path (bf_path file) \<or> length (bf_sha256 file) \<noteq> 32)
        (\<lambda>file. to_ascii_lowercase (bf_path file)) {} (man_files c)
      then Inl (InvalidField ''build_manifest_file'')
      else Inr ())"

definition registration_path_key :: "string \<Rightarrow> string" where
  "registration_path_key p = to_ascii_lowercase (replace_char (CHR 0x5C) (CHR ''/'') p)"

text \<open>The loop over \<open>registered_files\<close>, returning the set of normalised paths it built.\<close>

fun register_paths :: "string set \<Rightarrow> RegisteredGameFileV1 list \<Rightarrow> ProtocolError + string set" where
  "register_paths seen [] = Inr seen"
| "register_paths seen (file # files) =
     (if \<not> safe_relative_path (rgf_relative_path file)
        \<or> length (rgf_sha256 file) \<noteq> 32
        \<or> registration_path_key (rgf_relative_path file) \<in> seen
      then Inl (InvalidField ''registered_files'')
      else register_paths (insert (registration_path_key (rgf_relative_path file)) seen) files)"

definition validate_game_registration ::
    "GameRegistrationClaimsV1 \<Rightarrow> i64 \<Rightarrow> ProtocolError + unit" where
  "validate_game_registration c now =
     (if reg_protocol_version c \<noteq> PROTOCOL_VERSION
        \<or> \<not> is_identifier (reg_registration_id c)
        \<or> \<not> is_identifier (reg_publisher_id c)
        \<or> \<not> is_identifier (reg_tenant_id c)
        \<or> \<not> is_identifier (reg_game_id c)
        \<or> \<not> is_identifier (reg_environment_id c)
        \<or> \<not> safe_relative_path (reg_executable_relative_path c)
        \<or> length (reg_trust_store_sha256 c) \<noteq> 32
        \<or> length (reg_update_root_sha256 c) \<noteq> 32
        \<or> \<not> https_url (reg_update_metadata_url c)
        \<or> \<not> https_url (reg_update_targets_url c)
        \<or> reg_update_channel c \<notin> {''stable'', ''beta''}
        \<or> sint (now + 30) < sint (reg_not_before_unix c)
        \<or> sint (reg_expires_at_unix c) \<le> sint now
        \<or> sint (reg_expires_at_unix c) \<le> sint (reg_not_before_unix c)
      then Inl (InvalidField ''game_registration'')
      else if 4096 < length (reg_registered_files c) then Inl (InvalidField ''registered_files'')
      else bindE (register_paths {} (reg_registered_files c)) (\<lambda>registered_paths.
        if reg_repair_executable_relative_path c \<noteq> []
             \<and> (\<not> safe_relative_path (reg_repair_executable_relative_path c)
                \<or> registration_path_key (reg_repair_executable_relative_path c) \<notin> registered_paths)
          \<or> reg_repair_executable_relative_path c = [] \<and> reg_repair_arguments c \<noteq> []
          \<or> \<not> safe_arguments (reg_repair_arguments c)
          \<or> \<not> safe_arguments (reg_offline_arguments c)
          \<or> \<not> reg_offline_play_allowed c \<and> reg_offline_arguments c \<noteq> []
        then Inl (InvalidField ''launch_recovery'')
        else Inr ()))"

definition png_path :: "string \<Rightarrow> bool" where
  "png_path p \<longleftrightarrow> ends_with (to_ascii_lowercase p) ''.png''"

text \<open>The checks \<open>verify_branding_manifest\<close> and \<open>verify_revocation\<close> make on their claims.\<close>

definition validate_branding :: "BrandingManifestClaimsV1 \<Rightarrow> i64 \<Rightarrow> ProtocolError + unit" where
  "validate_branding c now =
     (if brand_protocol_version c \<noteq> PROTOCOL_VERSION
        \<or> \<not> is_identifier (brand_registration_id c)
        \<or> \<not> is_identifier (brand_game_id c)
        \<or> \<not> safe_display (brand_display_name c) 96
        \<or> \<not> safe_display (brand_publisher_name c) 128
        \<or> \<not> safe_relative_path (brand_icon_relative_path c)
        \<or> \<not> png_path (brand_icon_relative_path c)
        \<or> length (brand_icon_sha256 c) \<noteq> 32
        \<or> (brand_hero_relative_path c = []) \<noteq> (brand_hero_sha256 c = [])
        \<or> brand_hero_relative_path c \<noteq> []
            \<and> (\<not> safe_relative_path (brand_hero_relative_path c)
               \<or> \<not> png_path (brand_hero_relative_path c)
               \<or> length (brand_hero_sha256 c) \<noteq> 32)
        \<or> sint (now + 30) < sint (brand_not_before_unix c)
        \<or> sint (brand_expires_at_unix c) \<le> sint now
        \<or> sint (brand_expires_at_unix c) \<le> sint (brand_not_before_unix c)
      then Inl (InvalidField ''branding_manifest'')
      else Inr ())"

definition validate_revocation :: "AgentRevocationClaimsV1 \<Rightarrow> i64 \<Rightarrow> ProtocolError + unit" where
  "validate_revocation c now =
     (if rev_protocol_version c \<noteq> PROTOCOL_VERSION
        \<or> \<not> is_identifier (rev_tenant_id c)
        \<or> \<not> is_identifier (rev_game_id c)
        \<or> \<not> is_identifier (rev_environment_id c)
        \<or> \<not> is_identifier (rev_agent_session_id c)
        \<or> \<not> is_identifier (rev_reason c)
        \<or> sint (now + 30) < sint (rev_revoked_at_unix c)
        \<or> sint (rev_expires_at_unix c) \<le> sint now
        \<or> 300 < sint (rev_expires_at_unix c - rev_revoked_at_unix c)
      then Inl (InvalidField ''revocation'')
      else Inr ())"

definition validate_report :: "AgentIntegrityReportV1 \<Rightarrow> ProtocolError + unit" where
  "validate_report r =
     (if rep_protocol_version r \<noteq> PROTOCOL_VERSION then Inl (InvalidField ''protocol_version'')
      else if rep_agent_session_id r = [] \<or> 128 < length (rep_agent_session_id r)
      then Inl (InvalidField ''agent_session_id'')
      else if rep_sequence r = 0 then Inl (InvalidField ''sequence'')
      else if length (rep_challenge_nonce r) < 16 \<or> 256 < length (rep_challenge_nonce r)
      then Inl (InvalidField ''challenge_nonce'')
      else if rep_build_id r = [] \<or> 128 < length (rep_build_id r)
      then Inl (InvalidField ''build_id'')
      else if length (rep_executable_sha256 r) \<noteq> 32 then Inl (InvalidField ''executable_sha256'')
      else if rep_previous_report_digest r \<noteq> [] \<and> length (rep_previous_report_digest r) \<noteq> 32
      then Inl (InvalidField ''previous_report_digest'')
      else if 1024 < length (rep_observations r) then Inl (InvalidField ''observations'')
      else Inr ())"

section \<open>Lexical safety\<close>

text \<open>
  Lexical resolution of a path below a directory, as an operating system without symbolic links
  does it: empty and \<open>.\<close> components stay, \<open>..\<close> goes up.
\<close>

fun lex_resolve :: "string list \<Rightarrow> string list \<Rightarrow> string list" where
  "lex_resolve base [] = base"
| "lex_resolve base (p # ps) =
     (if p = [] \<or> p = ''.'' then lex_resolve base ps
      else if p = ''..'' then lex_resolve (butlast base) ps
      else lex_resolve (base @ [p]) ps)"

text \<open>
  What joining \<open>p\<close> to a directory names, component by component, read as the operating system
  does and not as \<open>safe_relative_path\<close> does. On Unix only the slash separates and a leading slash
  discards the directory. On Windows both slashes separate, a leading one keeps only the drive of the
  directory, and a path with a drive discards the directory.
\<close>

definition resolve_unix :: "string list \<Rightarrow> string \<Rightarrow> nat \<Rightarrow> string list" where
  "resolve_unix base p n =
     lex_resolve (if take 1 p = ''/'' then [] else base) (take n (split_on (\<lambda>c. c = CHR ''/'') p))"

definition resolve_windows :: "string list \<Rightarrow> string \<Rightarrow> nat \<Rightarrow> string list" where
  "resolve_windows base p n =
     (if 2 \<le> length p \<and> p ! 1 = CHR '':''
      then lex_resolve [take 2 p] (take n (split_on (\<lambda>c. c = CHR ''/'' \<or> c = CHR 0x5C) (drop 2 p)))
      else lex_resolve (if take 1 p \<in> {''/'', [CHR 0x5C]} then take 1 base else base)
        (take n (split_on (\<lambda>c. c = CHR ''/'' \<or> c = CHR 0x5C) p)))"

lemma lex_resolve_normal:
  "list_all (\<lambda>p. p \<noteq> [] \<and> p \<noteq> ''.'' \<and> p \<noteq> ''..'') ps \<Longrightarrow> lex_resolve base ps = base @ ps"
  by (induction ps arbitrary: base) auto

lemma list_all_take: "list_all P xs \<Longrightarrow> list_all P (take n xs)"
  by (auto simp: list_all_iff dest: in_set_takeD)

lemma safe_relative_path_parts:
  "safe_relative_path p \<Longrightarrow>
     list_all (\<lambda>q. q \<noteq> [] \<and> q \<noteq> ''.'' \<and> q \<noteq> ''..'') (split_on is_separator p)"
  by (simp add: safe_relative_path_def)

text \<open>The same holds of the pieces between the separators of either kind alone.\<close>

lemma safe_relative_path_pieces:
  assumes "safe_relative_path p" and "\<And>c. sep c \<Longrightarrow> c = CHR ''/'' \<or> c = CHR 0x5C"
  shows "list_all (\<lambda>q. q \<noteq> [] \<and> q \<noteq> ''.'' \<and> q \<noteq> ''..'') (split_on sep p)"
proof -
  have refine: "split_on is_separator p = concat (map (split_on is_separator) (split_on sep p))"
    by (rule split_on_refine) (use assms(2) in \<open>simp add: is_separator_def\<close>)
  have "q \<notin> set (split_on sep p)" if "q = [] \<or> q = ''.'' \<or> q = ''..''" for q
  proof
    assume "q \<in> set (split_on sep p)"
    moreover have "split_on is_separator q = [q]"
      by (rule split_on_no_sep) (use that in \<open>auto simp: is_separator_def\<close>)
    ultimately have "q \<in> set (split_on is_separator p)"
      unfolding refine by force
    with safe_relative_path_parts [OF assms(1)] that show False
      by (auto simp: list_all_iff)
  qed
  then show ?thesis
    by (auto simp: list_all_iff)
qed

lemma safe_relative_path_start:
  assumes "safe_relative_path p"
  shows "take 1 p \<noteq> ''/''" and "take 1 p \<noteq> [CHR 0x5C]" and "\<not> (2 \<le> length p \<and> p ! 1 = CHR '':'')"
  using assms by (auto simp: safe_relative_path_def starts_with_def)

lemma is_identifier_nonempty: "is_identifier s \<Longrightarrow> s \<noteq> []"
  by (simp add: is_identifier_def)

lemma is_identifier_length: "is_identifier s \<Longrightarrow> length s \<le> 128"
  by (simp add: is_identifier_def)

lemma is_identifier_chars:
  "is_identifier s \<Longrightarrow> c \<in> set s \<Longrightarrow>
     is_ascii_alphanumeric c \<or> c = CHR ''.'' \<or> c = CHR ''_'' \<or> c = CHR ''-''"
  by (auto simp: is_identifier_def list_all_iff)

section \<open>The registration's path set\<close>

lemma register_paths_eq:
  "register_paths seen files =
     (if bad_or_duplicate
           (\<lambda>f. \<not> safe_relative_path (rgf_relative_path f) \<or> length (rgf_sha256 f) \<noteq> 32)
           (\<lambda>f. registration_path_key (rgf_relative_path f)) seen files
      then Inl (InvalidField ''registered_files'')
      else Inr (seen \<union> (\<lambda>f. registration_path_key (rgf_relative_path f)) ` set files))"
  by (induction files arbitrary: seen) auto

lemma register_paths_ok [ok_iff]:
  "register_paths {} files = Inr paths \<longleftrightarrow>
     (\<forall>f \<in> set files. safe_relative_path (rgf_relative_path f) \<and> length (rgf_sha256 f) = 32) \<and>
     distinct (map (\<lambda>f. registration_path_key (rgf_relative_path f)) files) \<and>
     paths = (\<lambda>f. registration_path_key (rgf_relative_path f)) ` set files"
  using bad_or_duplicate_iff [of
      "\<lambda>f. \<not> safe_relative_path (rgf_relative_path f) \<or> length (rgf_sha256 f) \<noteq> 32"
      "\<lambda>f. registration_path_key (rgf_relative_path f)" "{}" files]
  by (auto simp: register_paths_eq)

section \<open>What the validators accept\<close>

lemma validate_build_manifest_files:
  assumes "validate_build_manifest c now = Inr ()"
  shows "man_files c \<noteq> []" "length (man_files c) \<le> 16384"
    "\<forall>f \<in> set (man_files c). safe_relative_path (bf_path f) \<and> length (bf_sha256 f) = 32"
    "distinct (map (\<lambda>f. to_ascii_lowercase (bf_path f)) (man_files c))"
  using assms bad_or_duplicate_iff [of
      "\<lambda>f. \<not> safe_relative_path (bf_path f) \<or> length (bf_sha256 f) \<noteq> 32"
      "\<lambda>f. to_ascii_lowercase (bf_path f)" "{}" "man_files c"]
  by (auto simp: validate_build_manifest_def split: if_splits)

lemma distinct_map_of_key: "distinct (map (\<lambda>x. g (f x)) xs) \<Longrightarrow> distinct (map f xs)"
  by (auto simp: distinct_map inj_on_def)

lemma now_plus_30: "sint now < 2 ^ 63 - 30 \<Longrightarrow> sint (now + 30 :: i64) = sint now + 30"
  using sint_bounds64 [of now] by (subst sint_add_exact) simp_all

lemma validate_policy_ok:
  assumes "validate_policy c now = Inr ()"
  shows "uint (pol_heartbeat_seconds c) \<in> {5..300}" "uint (pol_report_seconds c) \<in> {15..3600}"
    "uint (pol_disconnect_grace_seconds c) \<le> 300" "sint now < sint (pol_expires_at_unix c)"
    "pol_heartbeat_seconds c \<le> pol_report_seconds c"
  using assms by (auto simp: validate_policy_def word_le_def word_less_def split: if_splits)

lemma validate_launch_grant_ok:
  assumes "validate_launch_grant c now = Inr ()"
  shows "is_identifier (grant_grant_id c)" "is_identifier (grant_build_id c)"
    "sint (grant_issued_at_unix c) \<le> sint (now + 30)"
    "sint (grant_issued_at_unix c) < sint (grant_expires_at_unix c)"
    "sint (grant_expires_at_unix c - grant_issued_at_unix c) \<le> 120"
    "sint now < sint (grant_expires_at_unix c)"
  using assms by (auto simp: validate_launch_grant_def split: if_splits)

end
