(* ===== verification/ProtocolVerify.thy ===== *)
theory ProtocolVerify
  imports ProtocolValidate
begin

text \<open>
  Key ring, canonical decoding and the seven \<open>verify_...\<close> functions of
  \<^verbatim>\<open>crates/certael-agent-protocol/src/lib.rs\<close>.

  The seven verifiers run the same steps with different parameters, which is the law of the locale
  \<open>signed_verifier\<close>; it is interpreted for each of the seven. Inside it is proved what these steps
  decide: an object is accepted exactly when it is \<open>authentic\<close> and its claims are valid.
  \<open>canonical\<close>, \<open>ring_key\<close> and \<open>authentic\<close> are the specification. They do not use the functions of the
  code: the bytes that must have been signed are written out, and so is the choice of the key.
\<close>

section \<open>Key ring\<close>

type_synonym VerificationKeyRing = "VerificationKey list"

fun duplicate_key_id :: "VerificationKey list \<Rightarrow> VerificationKey list \<Rightarrow> bool" where
  "duplicate_key_id earlier [] = False"
| "duplicate_key_id earlier (k # ks) =
     (list_ex (\<lambda>candidate. vk_key_id candidate = vk_key_id k) earlier
      \<or> duplicate_key_id (earlier @ [k]) ks)"

definition key_ring_new :: "VerificationKey list \<Rightarrow> ProtocolError + VerificationKeyRing" where
  "key_ring_new keys =
     (if keys = []
        \<or> list_ex (\<lambda>k. vk_key_id k = [] \<or> 128 < length (vk_key_id k)
             \<or> sint (vk_not_after_unix k) \<le> sint (vk_not_before_unix k)) keys
      then Inl (InvalidField ''verification_keys'')
      else if duplicate_key_id [] keys then Inl (InvalidField ''duplicate_key_id'')
      else Inr keys)"

definition resolve :: "VerificationKeyRing \<Rightarrow> string \<Rightarrow> i64 \<Rightarrow> ProtocolError + bytes" where
  "resolve keys key_id now =
     bindE (ok_or UnknownKey (find (\<lambda>candidate. vk_key_id candidate = key_id) keys)) (\<lambda>k.
       if vk_revoked k \<or> sint now < sint (vk_not_before_unix k)
          \<or> sint (vk_not_after_unix k) \<le> sint now
       then Inl UnknownKey
       else Inr (vk_key k))"

definition key_live :: "VerificationKey \<Rightarrow> i64 \<Rightarrow> bool" where
  "key_live k now \<longleftrightarrow>
     \<not> vk_revoked k \<and> sint (vk_not_before_unix k) \<le> sint now \<and> sint now < sint (vk_not_after_unix k)"

section \<open>Canonical decoding and signatures\<close>

definition decode_canonical :: "'m codec \<Rightarrow> bytes \<Rightarrow> ProtocolError + 'm" where
  "decode_canonical codec input =
     (if input = [] then Inl Empty
      else if MAX_MESSAGE_BYTES < length input then Inl TooLarge
      else bindE (ok_or Decode (decode codec input)) (\<lambda>value.
        if encode_to_vec codec value \<noteq> input then Inl NonCanonical else Inr value))"

definition signed_message :: "bytes \<Rightarrow> bytes \<Rightarrow> bytes" where
  "signed_message domain claims = domain @ claims"

definition verify_signed_bytes ::
    "'v lib \<Rightarrow> bytes \<Rightarrow> bytes \<Rightarrow> bytes \<Rightarrow> bytes \<Rightarrow> ProtocolError + unit" where
  "verify_signed_bytes L domain claims signature key =
     bindE (ok_or InvalidSignature (sig_from_slice L signature)) (\<lambda>s.
       if vk_verify L key (signed_message domain claims) s then Inr () else Inl InvalidSignature)"

section \<open>The seven verifiers\<close>

definition verify_policy ::
    "'v lib \<Rightarrow> SignedAgentPolicyV1 \<Rightarrow> VerificationKeyRing \<Rightarrow> i64 \<Rightarrow> ProtocolError + AgentPolicyClaimsV1"
where
  "verify_policy L so keys now =
     bindE (decode_canonical (policy_codec L) (so_claims so)) (\<lambda>claims.
     bindE (validate_policy claims now) (\<lambda>_.
     bindE (resolve keys (so_key_id so) now) (\<lambda>key.
     bindE (verify_signed_bytes L POLICY_DOMAIN (so_claims so) (so_signature so) key) (\<lambda>_.
     Inr claims))))"

definition verify_launch_grant ::
    "'v lib \<Rightarrow> SignedAgentLaunchGrantV1 \<Rightarrow> VerificationKeyRing \<Rightarrow> i64
      \<Rightarrow> ProtocolError + AgentLaunchGrantClaimsV1"
where
  "verify_launch_grant L so keys now =
     bindE (decode_canonical (grant_codec L) (so_claims so)) (\<lambda>claims.
     bindE (validate_launch_grant claims now) (\<lambda>_.
     bindE (resolve keys (so_key_id so) now) (\<lambda>key.
     bindE (verify_signed_bytes L LAUNCH_DOMAIN (so_claims so) (so_signature so) key) (\<lambda>_.
     Inr claims))))"

definition verify_build_manifest ::
    "'v lib \<Rightarrow> SignedBuildManifestV1 \<Rightarrow> VerificationKeyRing \<Rightarrow> i64 \<Rightarrow> ProtocolError + BuildManifestClaimsV1"
where
  "verify_build_manifest L so keys now =
     bindE (decode_canonical (manifest_codec L) (so_claims so)) (\<lambda>claims.
     bindE (validate_build_manifest claims now) (\<lambda>_.
     bindE (resolve keys (so_key_id so) now) (\<lambda>key.
     bindE (verify_signed_bytes L BUILD_MANIFEST_DOMAIN (so_claims so) (so_signature so) key)
       (\<lambda>_. Inr claims))))"

definition verify_game_registration ::
    "'v lib \<Rightarrow> SignedGameRegistrationV1 \<Rightarrow> VerificationKeyRing \<Rightarrow> i64
      \<Rightarrow> ProtocolError + GameRegistrationClaimsV1"
where
  "verify_game_registration L so keys now =
     bindE (decode_canonical (registration_codec L) (so_claims so)) (\<lambda>claims.
     bindE (validate_game_registration claims now) (\<lambda>_.
     bindE (resolve keys (so_key_id so) now) (\<lambda>key.
     bindE (verify_signed_bytes L REGISTRATION_DOMAIN (so_claims so) (so_signature so) key)
       (\<lambda>_. Inr claims))))"

definition verify_branding_manifest ::
    "'v lib \<Rightarrow> SignedBrandingManifestV1 \<Rightarrow> VerificationKeyRing \<Rightarrow> i64
      \<Rightarrow> ProtocolError + BrandingManifestClaimsV1"
where
  "verify_branding_manifest L so keys now =
     bindE (decode_canonical (branding_codec L) (so_claims so)) (\<lambda>claims.
     bindE (validate_branding claims now) (\<lambda>_.
     bindE (resolve keys (so_key_id so) now) (\<lambda>key.
     bindE (verify_signed_bytes L BRANDING_DOMAIN (so_claims so) (so_signature so) key)
       (\<lambda>_. Inr claims))))"

definition verify_revocation ::
    "'v lib \<Rightarrow> SignedAgentRevocationV1 \<Rightarrow> VerificationKeyRing \<Rightarrow> i64
      \<Rightarrow> ProtocolError + AgentRevocationClaimsV1"
where
  "verify_revocation L so keys now =
     bindE (decode_canonical (revocation_codec L) (so_claims so)) (\<lambda>claims.
     bindE (validate_revocation claims now) (\<lambda>_.
     bindE (resolve keys (so_key_id so) now) (\<lambda>key.
     bindE (verify_signed_bytes L REVOCATION_DOMAIN (so_claims so) (so_signature so) key)
       (\<lambda>_. Inr claims))))"

fun compatibility_products_ok ::
    "'v lib \<Rightarrow> i32 set \<Rightarrow> CompatibilityProductRuleV1 list \<Rightarrow> ProtocolError + unit"
where
  "compatibility_products_ok L products [] = Inr ()"
| "compatibility_products_ok L products (r # rs) =
     (case product_try_from (rule_product r) of
        None \<Rightarrow> Inl (InvalidField ''compatibility_product'')
      | Some product \<Rightarrow>
          if product = Unspecified then Inl (InvalidField ''compatibility_product'')
          else
            bindE (ok_or (InvalidField ''compatibility_version'')
              (version_parse L (rule_minimum_supported_version r))) (\<lambda>minimum.
            bindE (ok_or (InvalidField ''compatibility_version'')
              (version_parse L (rule_recommended_version r))) (\<lambda>recommended.
            if product_i32 product \<in> products
               \<or> version_less L recommended minimum
               \<or> rule_minimum_protocol_version r = 0
               \<or> rule_maximum_protocol_version r < rule_minimum_protocol_version r
            then Inl (InvalidField ''compatibility_product'')
            else compatibility_products_ok L (insert (product_i32 product) products) rs)))"

fun compatibility_revocations_ok ::
    "'v lib \<Rightarrow> CompatibilityManifestClaimsV1 \<Rightarrow> CompatibilityRevocationV1 list \<Rightarrow> ProtocolError + unit"
where
  "compatibility_revocations_ok L claims [] = Inr ()"
| "compatibility_revocations_ok L claims (r # rs) =
     (if \<not> (case product_try_from (crev_product r) of
               Some product \<Rightarrow> product \<noteq> Unspecified | None \<Rightarrow> False)
        \<or> version_parse L (crev_version r) = None
        \<or> \<not> is_identifier (crev_reason r)
        \<or> sint (crev_effective_at_unix r) < sint (cm_issued_at_unix claims - 86400)
        \<or> sint (cm_expires_at_unix claims) < sint (crev_effective_at_unix r)
      then Inl (InvalidField ''compatibility_revocation'')
      else compatibility_revocations_ok L claims rs)"

definition validate_compatibility_manifest ::
    "'v lib \<Rightarrow> CompatibilityManifestClaimsV1 \<Rightarrow> i64 \<Rightarrow> ProtocolError + unit"
where
  "validate_compatibility_manifest L c now =
     (if cm_schema_version c \<noteq> 1
        \<or> cm_revision c = 0
        \<or> cm_products c = []
        \<or> 64 < length (cm_products c)
        \<or> 4096 < length (cm_revocations c)
        \<or> sint (now + 300) < sint (cm_issued_at_unix c)
        \<or> sint (cm_expires_at_unix c) \<le> sint now
        \<or> sint (cm_expires_at_unix c) \<le> sint (cm_issued_at_unix c)
        \<or> 32 * 24 * 60 * 60 < sint (cm_expires_at_unix c - cm_issued_at_unix c)
      then Inl (InvalidField ''compatibility_manifest'')
      else
        bindE (compatibility_products_ok L {} (cm_products c)) (\<lambda>_.
          compatibility_revocations_ok L c (cm_revocations c)))"

definition verify_compatibility_manifest ::
    "'v lib \<Rightarrow> SignedCompatibilityManifestV1 \<Rightarrow> VerificationKeyRing \<Rightarrow> i64
      \<Rightarrow> ProtocolError + CompatibilityManifestClaimsV1"
where
  "verify_compatibility_manifest L so keys now =
     bindE (decode_canonical (compatibility_codec L) (so_claims so)) (\<lambda>claims.
     bindE (validate_compatibility_manifest L claims now) (\<lambda>_.
     bindE (resolve keys (so_key_id so) now) (\<lambda>key.
     bindE (verify_signed_bytes L COMPATIBILITY_DOMAIN (so_claims so) (so_signature so) key)
       (\<lambda>_. Inr claims))))"

section \<open>Lemmas on the key ring\<close>

lemma duplicate_key_id_iff:
  "duplicate_key_id earlier ks \<longleftrightarrow>
     \<not> (distinct (map vk_key_id ks) \<and> vk_key_id ` set earlier \<inter> vk_key_id ` set ks = {})"
proof (induction ks arbitrary: earlier)
  case (Cons k ks)
  then show ?case
    by (auto simp: list_ex_iff) (metis imageI)
qed simp

lemma key_ring_new_ok [ok_iff]:
  "key_ring_new keys = Inr K \<longleftrightarrow>
     K = keys \<and> keys \<noteq> [] \<and> distinct (map vk_key_id keys) \<and>
     (\<forall>k \<in> set keys. vk_key_id k \<noteq> [] \<and> length (vk_key_id k) \<le> 128
        \<and> sint (vk_not_before_unix k) < sint (vk_not_after_unix k))"
  by (auto simp: key_ring_new_def duplicate_key_id_iff list_ex_iff not_le dest: leD)

lemma resolve_ok [ok_iff]:
  "resolve keys key_id now = Inr key \<longleftrightarrow>
     (\<exists>k. find (\<lambda>c. vk_key_id c = key_id) keys = Some k \<and> key_live k now \<and> key = vk_key k)"
  by (auto simp: resolve_def key_live_def bindE_ok ok_or_ok not_le not_less)

lemma find_distinct_key:
  assumes "distinct (map f xs)" and "x \<in> set xs"
  shows "find (\<lambda>y. f y = f x) xs = Some x"
  using assms by (induction xs) auto

lemma find_SomeD: "find P xs = Some x \<Longrightarrow> x \<in> set xs \<and> P x"
  by (induction xs) (auto split: if_splits)

section \<open>Lemmas on decoding and signatures\<close>

lemma decode_canonical_ok [ok_iff]:
  "decode_canonical codec input = Inr m \<longleftrightarrow>
     input \<noteq> [] \<and> length input \<le> MAX_MESSAGE_BYTES \<and> decode codec input = Some m
     \<and> encode_to_vec codec m = input"
  by (auto simp: decode_canonical_def bindE_ok ok_or_ok)

lemma decode_canonical_inj:
  "decode_canonical codec a = Inr m \<Longrightarrow> decode_canonical codec b = Inr m \<Longrightarrow> a = b"
  by (auto simp: decode_canonical_ok)

lemma verify_signed_bytes_ok [ok_iff]:
  "verify_signed_bytes L domain claims signature key = Inr u \<longleftrightarrow>
     (\<exists>s. sig_from_slice L signature = Some s \<and> vk_verify L key (signed_message domain claims) s)"
  by (auto simp: verify_signed_bytes_def bindE_ok ok_or_ok)

section \<open>Domains\<close>

definition all_domains :: "bytes list" where
  "all_domains =
     [REPORT_DOMAIN, LAUNCH_DOMAIN, POLICY_DOMAIN, BUILD_MANIFEST_DOMAIN, REGISTRATION_DOMAIN,
      BRANDING_DOMAIN, REVOCATION_DOMAIN, COMPATIBILITY_DOMAIN]"

lemma append_terminator_inj:
  assumes "x \<notin> set as" and "x \<notin> set bs" and "as @ x # us = bs @ x # vs"
  shows "as = bs \<and> us = vs"
  using assms
proof (induction as arbitrary: bs)
  case Nil
  then show ?case by (cases bs) auto
next
  case (Cons a as)
  then show ?case by (cases bs) auto
qed

lemma domain_terminated: "d \<in> set all_domains \<Longrightarrow> \<exists>n. d = n @ [0] \<and> 0 \<notin> set n"
  unfolding all_domains_def domain_defs by (auto simp: bytes_of_def)

section \<open>Acceptance\<close>

text \<open>What a canonical message is, which key an id selects, and which bytes must have been signed.\<close>

definition canonical :: "'m codec \<Rightarrow> bytes \<Rightarrow> 'm \<Rightarrow> bool" where
  "canonical codec input m \<longleftrightarrow>
     1 \<le> length input \<and> length input \<le> 65536 \<and> decode codec input = Some m \<and>
     encode_to_vec codec m = input"

definition ring_key :: "VerificationKeyRing \<Rightarrow> string \<Rightarrow> i64 \<Rightarrow> VerificationKey \<Rightarrow> bool" where
  "ring_key keys key_id now k \<longleftrightarrow>
     (\<exists>earlier later. keys = earlier @ k # later \<and> vk_key_id k = key_id \<and>
        key_id \<notin> vk_key_id ` set earlier) \<and>
     \<not> vk_revoked k \<and> sint (vk_not_before_unix k) \<le> sint now \<and> sint now < sint (vk_not_after_unix k)"

definition authentic ::
    "'v lib \<Rightarrow> bytes \<Rightarrow> 'm codec \<Rightarrow> signed_object \<Rightarrow> VerificationKeyRing \<Rightarrow> i64 \<Rightarrow> 'm \<Rightarrow> bool"
where
  "authentic L domain codec so keys now claims \<longleftrightarrow>
     canonical codec (so_claims so) claims \<and>
     (\<exists>k s. ring_key keys (so_key_id so) now k \<and> sig_from_slice L (so_signature so) = Some s \<and>
        vk_verify L (vk_key k) (domain @ so_claims so) s)"

text \<open>Bytes that carry a signed object of the given kind.\<close>

definition signed_claims ::
    "'v lib \<Rightarrow> bytes \<Rightarrow> 'm codec \<Rightarrow> bytes \<Rightarrow> VerificationKeyRing \<Rightarrow> i64 \<Rightarrow> 'm \<Rightarrow> bool"
where
  "signed_claims L domain codec raw keys now claims \<longleftrightarrow>
     (\<exists>so. canonical (signed_codec L) raw so \<and> authentic L domain codec so keys now claims)"

lemma decode_canonical_iff: "decode_canonical codec input = Inr m \<longleftrightarrow> canonical codec input m"
  by (auto simp: decode_canonical_ok canonical_def MAX_MESSAGE_BYTES_def Suc_le_eq)

lemma find_first_iff:
  "find (\<lambda>c. f c = x) cs = Some k \<longleftrightarrow>
     (\<exists>earlier later. cs = earlier @ k # later \<and> f k = x \<and> x \<notin> f ` set earlier)"
proof
  show "find (\<lambda>c. f c = x) cs = Some k \<Longrightarrow>
     \<exists>earlier later. cs = earlier @ k # later \<and> f k = x \<and> x \<notin> f ` set earlier"
  proof (induction cs)
    case (Cons c cs)
    show ?case
    proof (cases "f c = x")
      case True
      with Cons.prems show ?thesis by (intro exI [of _ "[]"] exI [of _ cs]) simp
    next
      case False
      with Cons obtain earlier later where "cs = earlier @ k # later" "f k = x" "x \<notin> f ` set earlier"
        by auto
      with False show ?thesis by (intro exI [of _ "c # earlier"] exI [of _ later]) auto
    qed
  qed simp
next
  have "x \<notin> f ` set earlier \<Longrightarrow> find (\<lambda>c. f c = x) (earlier @ k # later) = Some k" if "f k = x" for earlier later
    using that by (induction earlier) auto
  then show "\<exists>earlier later. cs = earlier @ k # later \<and> f k = x \<and> x \<notin> f ` set earlier \<Longrightarrow>
     find (\<lambda>c. f c = x) cs = Some k"
    by blast
qed

lemma ring_key_iff:
  "ring_key keys key_id now k \<longleftrightarrow>
     find (\<lambda>c. vk_key_id c = key_id) keys = Some k \<and> key_live k now"
  by (simp add: ring_key_def key_live_def find_first_iff)

lemma resolve_iff: "resolve keys key_id now = Inr key \<longleftrightarrow> (\<exists>k. ring_key keys key_id now k \<and> key = vk_key k)"
  by (auto simp: resolve_ok ring_key_iff)

lemma canonical_unique: "canonical codec input m \<Longrightarrow> canonical codec input m' \<Longrightarrow> m = m'"
  by (simp add: canonical_def)

lemma signed_claims_unique:
  "signed_claims L domain codec raw K now c \<Longrightarrow> signed_claims L domain' codec raw K' now' c' \<Longrightarrow> c = c'"
  by (auto simp: signed_claims_def authentic_def canonical_def)

locale signed_verifier =
  fixes L :: "'v lib"
    and domain :: bytes
    and codec :: "'m codec"
    and validate :: "'m \<Rightarrow> i64 \<Rightarrow> ProtocolError + unit"
    and verify :: "signed_object \<Rightarrow> VerificationKeyRing \<Rightarrow> i64 \<Rightarrow> ProtocolError + 'm"
  assumes verify_steps: "verify s K now =
      bindE (decode_canonical codec (so_claims s)) (\<lambda>claims.
      bindE (validate claims now) (\<lambda>_.
      bindE (resolve K (so_key_id s) now) (\<lambda>key.
      bindE (verify_signed_bytes L domain (so_claims s) (so_signature s) key) (\<lambda>_. Inr claims))))"
begin

lemma accepts_iff:
  "verify s K now = Inr c \<longleftrightarrow> authentic L domain codec s K now c \<and> validate c now = Inr ()"
  by (auto simp: verify_steps bindE_ok resolve_iff verify_signed_bytes_ok decode_canonical_iff
      authentic_def signed_message_def)

lemma envelope_accepts_iff:
  "(\<exists>so. decode_canonical (signed_codec L) raw = Inr so \<and> verify so K now = Inr c) \<longleftrightarrow>
     signed_claims L domain codec raw K now c \<and> validate c now = Inr ()"
  by (auto simp: accepts_iff signed_claims_def decode_canonical_iff)

lemma needs_live_key:
  "(\<And>k. k \<in> set K \<Longrightarrow> vk_key_id k = so_key_id s \<Longrightarrow> \<not> key_live k now) \<Longrightarrow> verify s K now \<noteq> Inr c"
  by (fastforce simp: accepts_iff authentic_def ring_key_iff dest: find_SomeD)

end

lemmas verifier_defs =
  verify_policy_def verify_launch_grant_def verify_build_manifest_def verify_game_registration_def
  verify_branding_manifest_def verify_revocation_def verify_compatibility_manifest_def

interpretation policy_verifier: signed_verifier L POLICY_DOMAIN "policy_codec L" validate_policy
    "verify_policy L" for L
  by unfold_locales (simp add: verifier_defs)

interpretation grant_verifier: signed_verifier L LAUNCH_DOMAIN "grant_codec L" validate_launch_grant
    "verify_launch_grant L" for L
  by unfold_locales (simp add: verifier_defs)

interpretation manifest_verifier: signed_verifier L BUILD_MANIFEST_DOMAIN "manifest_codec L"
    validate_build_manifest "verify_build_manifest L" for L
  by unfold_locales (simp add: verifier_defs)

interpretation registration_verifier: signed_verifier L REGISTRATION_DOMAIN "registration_codec L"
    validate_game_registration "verify_game_registration L" for L
  by unfold_locales (simp add: verifier_defs)

interpretation branding_verifier: signed_verifier L BRANDING_DOMAIN "branding_codec L"
    validate_branding "verify_branding_manifest L" for L
  by unfold_locales (simp add: verifier_defs)

interpretation revocation_verifier: signed_verifier L REVOCATION_DOMAIN "revocation_codec L"
    validate_revocation "verify_revocation L" for L
  by unfold_locales (simp add: verifier_defs)

interpretation compatibility_verifier: signed_verifier L COMPATIBILITY_DOMAIN
    "compatibility_codec L" "validate_compatibility_manifest L" "verify_compatibility_manifest L"
    for L
  by unfold_locales (simp add: verifier_defs)

end
