(* ===== verification/ProtocolReport.thy ===== *)
theory ProtocolReport
  imports ProtocolVerify
begin

text \<open>
  Signed reports and the report chain: \<open>signing_bytes\<close>, \<open>sign_report\<close>, \<open>verify_report\<close> and
  \<open>report_digest\<close> of \<^verbatim>\<open>crates/certael-agent-protocol/src/lib.rs\<close>.

  The locale \<open>report_producer\<close> is the contract of a component that answers challenges with a chain of
  reports: each report carries the next sequence number and the digest of the report before it.
  \<open>AgentSession::create_report\<close> and the challenge handler of the runtime both provide it, and its
  lemma that a whole run is one chain is proved once here.
\<close>

definition signing_bytes :: "'m codec \<Rightarrow> bytes \<Rightarrow> 'm \<Rightarrow> ProtocolError + bytes" where
  "signing_bytes codec domain message =
     (let encoded = encode_to_vec codec message in
      if MAX_MESSAGE_BYTES < length encoded then Inl TooLarge
      else Inr (signed_message domain encoded))"

definition sign_report ::
    "'v lib \<Rightarrow> AgentIntegrityReportV1 \<Rightarrow> bytes \<Rightarrow> ProtocolError + AgentIntegrityReportV1" where
  "sign_report L report key =
     (let report = report\<lparr>rep_signature := []\<rparr> in
      bindE (validate_report report) (\<lambda>_.
      bindE (signing_bytes (report_codec L) REPORT_DOMAIN report) (\<lambda>message.
      Inr (report\<lparr>rep_signature := sk_sign L key message\<rparr>))))"

definition verify_report ::
    "'v lib \<Rightarrow> AgentIntegrityReportV1 \<Rightarrow> bytes \<Rightarrow> ProtocolError + unit" where
  "verify_report L report key =
     bindE (validate_report report) (\<lambda>_.
     bindE (ok_or InvalidSignature (sig_from_slice L (rep_signature report))) (\<lambda>signature.
     bindE (signing_bytes (report_codec L) REPORT_DOMAIN (report\<lparr>rep_signature := []\<rparr>)) (\<lambda>message.
     if vk_verify L key message signature then Inr () else Inl InvalidSignature)))"

definition report_digest :: "'v lib \<Rightarrow> AgentIntegrityReportV1 \<Rightarrow> bytes" where
  "report_digest L report = sha256 L (encode_to_vec (report_codec L) report)"

section \<open>Signing and verifying\<close>

lemma validate_report_signature [simp]:
  "validate_report (r\<lparr>rep_signature := s\<rparr>) = validate_report r"
  by (simp add: validate_report_def)

lemma signing_bytes_ok [ok_iff]:
  "signing_bytes codec d m = Inr b \<longleftrightarrow>
     length (encode_to_vec codec m) \<le> MAX_MESSAGE_BYTES \<and> b = signed_message d (encode_to_vec codec m)"
  by (auto simp: signing_bytes_def Let_def)

lemma sign_report_ok [ok_iff]:
  "sign_report L r key = Inr s \<longleftrightarrow>
     validate_report r = Inr () \<and>
     length (encode_to_vec (report_codec L) (r\<lparr>rep_signature := []\<rparr>)) \<le> MAX_MESSAGE_BYTES \<and>
     s = r\<lparr>rep_signature := sk_sign L key
           (signed_message REPORT_DOMAIN (encode_to_vec (report_codec L) (r\<lparr>rep_signature := []\<rparr>)))\<rparr>"
  by (auto simp: sign_report_def Let_def bindE_ok signing_bytes_ok)

lemma verify_report_ok [ok_iff]:
  "verify_report L r key = Inr u \<longleftrightarrow>
     validate_report r = Inr () \<and>
     length (encode_to_vec (report_codec L) (r\<lparr>rep_signature := []\<rparr>)) \<le> MAX_MESSAGE_BYTES \<and>
     (\<exists>s. sig_from_slice L (rep_signature r) = Some s \<and>
        vk_verify L key
          (signed_message REPORT_DOMAIN (encode_to_vec (report_codec L) (r\<lparr>rep_signature := []\<rparr>))) s)"
  by (auto simp: verify_report_def bindE_ok ok_or_ok signing_bytes_ok)

text \<open>
  What the code relies on from \<^verbatim>\<open>ed25519-dalek\<close>: a signature it makes parses, and verifies under the
  key's verifying key.
\<close>

definition signs_correctly :: "'v lib \<Rightarrow> bytes \<Rightarrow> bool" where
  "signs_correctly L key \<longleftrightarrow>
     (\<forall>m. \<exists>s. sig_from_slice L (sk_sign L key m) = Some s \<and> vk_verify L (sk_verifying L key) m s)"

lemma sign_then_verify:
  "signs_correctly L key \<Longrightarrow> sign_report L r key = Inr s \<Longrightarrow>
     verify_report L s (sk_verifying L key) = Inr ()"
  by (auto simp: sign_report_ok verify_report_ok signs_correctly_def)

section \<open>Report chains\<close>

text \<open>
  \<open>report_chain digest n prev rs\<close>: the reports \<open>rs\<close> carry the sequence numbers \<open>n, n + 1, \<dots>\<close> and each
  the digest of its predecessor, the first one \<open>prev\<close>.
\<close>

fun report_chain ::
    "(AgentIntegrityReportV1 \<Rightarrow> bytes) \<Rightarrow> nat \<Rightarrow> bytes \<Rightarrow> AgentIntegrityReportV1 list \<Rightarrow> bool" where
  "report_chain digest n prev [] = True"
| "report_chain digest n prev (r # rs) =
     (unat (rep_sequence r) = n \<and> rep_previous_report_digest r = prev \<and>
      report_chain digest (Suc n) (digest r) rs)"

lemma report_chain_append:
  "report_chain d n prev (rs @ qs) \<longleftrightarrow>
     report_chain d n prev rs \<and>
     report_chain d (n + length rs) (if rs = [] then prev else d (last rs)) qs"
  by (induction rs arbitrary: n prev) auto

lemma report_chain_nth:
  assumes "report_chain d n prev rs" and "i < length rs"
  shows "unat (rep_sequence (rs ! i)) = n + i \<and>
    rep_previous_report_digest (rs ! i) = (if i = 0 then prev else d (rs ! (i - 1)))"
  using assms
proof (induction rs arbitrary: n prev i)
  case (Cons r rs)
  then show ?case
    by (cases i) (auto split: if_splits simp: nth_Cons')
qed simp

text \<open>
  A component that may answer an input with a report, run over a list of inputs: the reports in
  order and the state after them.
\<close>

fun run_producer ::
    "('s \<Rightarrow> 'i \<Rightarrow> AgentIntegrityReportV1 option \<times> 's) \<Rightarrow> 's \<Rightarrow> 'i list
      \<Rightarrow> AgentIntegrityReportV1 list \<times> 's"
where
  "run_producer produce s [] = ([], s)"
| "run_producer produce s (i # is) =
     (case produce s i of (out, t) \<Rightarrow>
        (case run_producer produce t is of
           (rs, u) \<Rightarrow> ((case out of None \<Rightarrow> rs | Some r \<Rightarrow> r # rs), u)))"

locale report_producer =
  fixes digest :: "AgentIntegrityReportV1 \<Rightarrow> bytes"
    and next_sequence :: "'s \<Rightarrow> nat"
    and previous :: "'s \<Rightarrow> bytes"
    and produce :: "'s \<Rightarrow> 'i \<Rightarrow> AgentIntegrityReportV1 option \<times> 's"
  assumes produced: "produce s i = (Some r, t) \<Longrightarrow>
      unat (rep_sequence r) = next_sequence s \<and> rep_previous_report_digest r = previous s \<and>
      next_sequence t = Suc (next_sequence s) \<and> previous t = digest r"
    and refused: "produce s i = (None, t) \<Longrightarrow>
      next_sequence t = next_sequence s \<and> previous t = previous s"
begin

lemma run_chain:
  "report_chain digest (next_sequence s) (previous s) (fst (run_producer produce s is))"
proof (induction "is" arbitrary: s)
  case (Cons i "is")
  obtain out t where step: "produce s i = (out, t)"
    by fastforce
  from Cons.IH [of t] show ?case
    by (cases out) (use step in \<open>auto simp: split_beta dest: produced refused\<close>)
qed simp

lemma run_advances:
  "next_sequence (snd (run_producer produce s is))
     = next_sequence s + length (fst (run_producer produce s is))"
proof (induction "is" arbitrary: s)
  case (Cons i "is")
  obtain out t where step: "produce s i = (out, t)"
    by fastforce
  from Cons.IH [of t] show ?case
    by (cases out) (use step in \<open>auto simp: split_beta dest: produced refused\<close>)
qed simp

end

end
