(* ===== verification/Session.thy ===== *)
theory Session
  imports ProtocolReport
begin

text \<open>
  \<^verbatim>\<open>crates/certael-agent-session/src/lib.rs\<close>: \<open>AgentSession::activate\<close> and
  \<open>AgentSession::create_report\<close>, which takes \<open>&mut self\<close> and here returns the session after the call
  beside its result. Activated sessions produce one report chain (\<open>session_producer\<close>).
\<close>

datatype SessionError =
  KeyBinding | PolicyBinding | BadChallenge | SequenceExhausted | Protocol ProtocolError

record AgentSession =
  ses_signing_key :: bytes
  ses_grant :: AgentLaunchGrantClaimsV1
  ses_policy :: AgentPolicyClaimsV1
  ses_agent_session_id :: string
  ses_sequence :: u64
  ses_previous_digest :: bytes
  ses_last_challenge_digest :: "bytes option"

definition activate ::
    "'v lib \<Rightarrow> bytes \<Rightarrow> AgentLaunchGrantClaimsV1 \<Rightarrow> AgentPolicyClaimsV1 \<Rightarrow> SignedAgentPolicyV1 \<Rightarrow> string
      \<Rightarrow> SessionError + AgentSession"
where
  "activate L signing_key grant policy signed_policy agent_session_id =
     (if grant_agent_public_key grant \<noteq> sk_verifying L signing_key then Inl KeyBinding
      else if grant_game_id grant \<noteq> pol_game_id policy
        \<or> grant_environment_id grant \<noteq> pol_environment_id policy then Inl PolicyBinding
      else let policy_digest = sha256 L (encode_to_vec (signed_codec L) signed_policy) in
      if grant_policy_digest grant \<noteq> policy_digest then Inl PolicyBinding
      else if agent_session_id = [] \<or> 128 < length agent_session_id then Inl BadChallenge
      else Inr
        \<lparr>ses_signing_key = signing_key,
         ses_grant = grant,
         ses_policy = policy,
         ses_agent_session_id = agent_session_id,
         ses_sequence = 0,
         ses_previous_digest = replicate 32 0,
         ses_last_challenge_digest = None\<rparr>)"

text \<open>The unsigned report \<open>create_report\<close> hands to \<open>sign_report\<close>.\<close>

definition session_report ::
    "AgentSession \<Rightarrow> u64 \<Rightarrow> AgentReportChallengeV1 \<Rightarrow> i64 \<Rightarrow> bytes \<Rightarrow> IntegrityObservationV1 list
      \<Rightarrow> AgentIntegrityReportV1"
where
  "session_report s sequence challenge now executable_sha256 observations =
     \<lparr>rep_protocol_version = PROTOCOL_VERSION,
      rep_agent_session_id = ses_agent_session_id s,
      rep_sequence = sequence,
      rep_challenge_nonce = chal_nonce challenge,
      rep_observed_at_unix = now,
      rep_build_id = grant_build_id (ses_grant s),
      rep_executable_sha256 = executable_sha256,
      rep_observations = observations,
      rep_previous_report_digest = ses_previous_digest s,
      rep_signature = []\<rparr>"

definition create_report ::
    "'v lib \<Rightarrow> AgentSession \<Rightarrow> AgentReportChallengeV1 \<Rightarrow> i64 \<Rightarrow> bytes \<Rightarrow> IntegrityObservationV1 list
      \<Rightarrow> (SessionError + AgentIntegrityReportV1) \<times> AgentSession"
where
  "create_report L s challenge now executable_sha256 observations =
     (if chal_agent_session_id challenge \<noteq> ses_agent_session_id s
        \<or> length (chal_nonce challenge) < 16
        \<or> 256 < length (chal_nonce challenge)
        \<or> sint (chal_expires_at_unix challenge) \<le> sint now
        \<or> 120 < sint (chal_expires_at_unix challenge - now)
      then (Inl BadChallenge, s)
      else let challenge_digest = sha256 L (encode_to_vec (challenge_codec L) challenge) in
      if ses_last_challenge_digest s = Some challenge_digest then (Inl BadChallenge, s)
      else case checked_succ (ses_sequence s) of
        None \<Rightarrow> (Inl SequenceExhausted, s)
      | Some sequence \<Rightarrow>
          (case sign_report L
                 (session_report s sequence challenge now executable_sha256 observations)
                 (ses_signing_key s) of
             Inl e \<Rightarrow> (Inl (Protocol e), s)
           | Inr report \<Rightarrow>
               (Inr report,
                s\<lparr>ses_sequence := sequence,
                  ses_previous_digest := report_digest L report,
                  ses_last_challenge_digest := Some challenge_digest\<rparr>)))"

section \<open>One call\<close>

lemma create_report_error_keeps:
  "fst (create_report L s c now exe obs) = Inl e \<Longrightarrow> snd (create_report L s c now exe obs) = s"
  by (auto simp: create_report_def Let_def split: option.splits sum.splits)

lemma create_report_ok:
  assumes "create_report L s c now exe obs = (Inr r, t)"
  obtains sequence where
    "checked_succ (ses_sequence s) = Some sequence"
    "sign_report L (session_report s sequence c now exe obs) (ses_signing_key s) = Inr r"
    "t = s\<lparr>ses_sequence := sequence, ses_previous_digest := report_digest L r,
           ses_last_challenge_digest := Some (sha256 L (encode_to_vec (challenge_codec L) c))\<rparr>"
    "chal_agent_session_id c = ses_agent_session_id s"
    "16 \<le> length (chal_nonce c)" "length (chal_nonce c) \<le> 256"
    "sint now < sint (chal_expires_at_unix c)"
    "ses_last_challenge_digest s \<noteq> Some (sha256 L (encode_to_vec (challenge_codec L) c))"
  using assms by (auto simp: create_report_def Let_def split: option.splits sum.splits if_splits)

text \<open>The fields of the signed report.\<close>

lemma sign_session_report_fields:
  assumes "sign_report L (session_report s sequence c now exe obs) key = Inr r"
  shows "rep_sequence r = sequence" "rep_previous_report_digest r = ses_previous_digest s"
    "rep_agent_session_id r = ses_agent_session_id s" "rep_challenge_nonce r = chal_nonce c"
    "rep_observed_at_unix r = now" "rep_build_id r = grant_build_id (ses_grant s)"
    "rep_executable_sha256 r = exe" "rep_observations r = obs"
  using assms by (auto simp: sign_report_ok session_report_def)

section \<open>Many calls\<close>

type_synonym report_request =
  "AgentReportChallengeV1 \<times> i64 \<times> bytes \<times> IntegrityObservationV1 list"

definition session_produce ::
    "'v lib \<Rightarrow> AgentSession \<Rightarrow> report_request \<Rightarrow> AgentIntegrityReportV1 option \<times> AgentSession" where
  "session_produce L s i =
     (case i of (c, now, exe, obs) \<Rightarrow>
        (case create_report L s c now exe obs of
           (Inl _, t) \<Rightarrow> (None, t)
         | (Inr r, t) \<Rightarrow> (Some r, t)))"

lemma session_produce_Some:
  "session_produce L s (c, now, exe, obs) = (Some r, t) \<longleftrightarrow> create_report L s c now exe obs = (Inr r, t)"
  by (auto simp: session_produce_def split: prod.splits sum.splits)

lemma session_produce_None:
  assumes "session_produce L s i = (None, t)"
  shows "t = s"
proof -
  obtain c now exe obs where i: "i = (c, now, exe, obs)"
    by (cases i) auto
  from assms obtain e where "create_report L s c now exe obs = (Inl e, t)"
    by (auto simp: i session_produce_def split: prod.splits sum.splits)
  with create_report_error_keeps [of L s c now exe obs e] show ?thesis
    by simp
qed

interpretation session_producer: report_producer "report_digest L" "\<lambda>s. Suc (unat (ses_sequence s))"
    ses_previous_digest "session_produce L" for L
proof unfold_locales
  fix s i r t
  assume step: "session_produce L s i = (Some r, t)"
  obtain c now exe obs where i: "i = (c, now, exe, obs)"
    by (cases i) auto
  from step have "create_report L s c now exe obs = (Inr r, t)"
    by (simp add: i session_produce_Some)
  then obtain sequence where seq: "checked_succ (ses_sequence s) = Some sequence"
    and sign: "sign_report L (session_report s sequence c now exe obs) (ses_signing_key s) = Inr r"
    and t: "t = s\<lparr>ses_sequence := sequence, ses_previous_digest := report_digest L r,
      ses_last_challenge_digest := Some (sha256 L (encode_to_vec (challenge_codec L) c))\<rparr>"
    by (rule create_report_ok)
  show "unat (rep_sequence r) = Suc (unat (ses_sequence s)) \<and>
      rep_previous_report_digest r = ses_previous_digest s \<and>
      Suc (unat (ses_sequence t)) = Suc (Suc (unat (ses_sequence s))) \<and>
      ses_previous_digest t = report_digest L r"
    using checked_succ_Some [OF seq] sign_session_report_fields [OF sign] by (simp add: t)
qed (auto dest: session_produce_None)

lemma activate_ok:
  assumes "activate L key grant policy sp sid = Inr s"
  shows "ses_sequence s = 0" "ses_previous_digest s = replicate 32 0" "ses_signing_key s = key"
    "ses_agent_session_id s = sid" "ses_grant s = grant" "ses_last_challenge_digest s = None"
    "grant_agent_public_key grant = sk_verifying L key"
    "grant_policy_digest grant = sha256 L (encode_to_vec (signed_codec L) sp)"
    "grant_game_id grant = pol_game_id policy"
    "grant_environment_id grant = pol_environment_id policy"
  using assms by (auto simp: activate_def Let_def split: if_splits)

text \<open>What a run keeps of the session.\<close>

lemma session_produce_frame:
  assumes "session_produce L s i = (out, t)"
  shows "ses_signing_key t = ses_signing_key s" "ses_grant t = ses_grant s"
    "ses_agent_session_id t = ses_agent_session_id s" "ses_policy t = ses_policy s"
proof -
  obtain c now exe obs where i: "i = (c, now, exe, obs)"
    by (cases i) auto
  have "ses_signing_key t = ses_signing_key s \<and> ses_grant t = ses_grant s \<and>
      ses_agent_session_id t = ses_agent_session_id s \<and> ses_policy t = ses_policy s"
  proof (cases out)
    case None
    with assms show ?thesis by (auto dest: session_produce_None)
  next
    case (Some r)
    with assms have "create_report L s c now exe obs = (Inr r, t)"
      by (simp add: i session_produce_Some)
    then show ?thesis by (rule create_report_ok) simp
  qed
  then show "ses_signing_key t = ses_signing_key s" "ses_grant t = ses_grant s"
    "ses_agent_session_id t = ses_agent_session_id s" "ses_policy t = ses_policy s"
    by simp_all
qed

end
