(* ===== verification/Ipc.thy ===== *)
theory Ipc
  imports RustText
begin

text \<open>
  \<^verbatim>\<open>crates/certael-agent-ipc/src/lib.rs\<close>: the typed frame between the Agent and the game.

  An \<open>impl Read\<close> is the list of bytes it still delivers before its end; \<open>read_exact\<close> on too few
  bytes fails and leaves nothing. An \<open>impl Write\<close> is the bytes it has accepted and, when it fails, how
  many more it accepts.

  The locale \<open>frame_transport\<close> is what both ends of the channel rely on: a frame written without an
  error is what the next read returns, whatever follows it. \<open>ipc\<close> interprets it on \<open>write_frame\<close> and
  \<open>read_frame\<close>.
\<close>

definition IPC_MAGIC :: bytes where
  "IPC_MAGIC = bytes_of ''CTAL''"

definition IPC_VERSION :: byte where
  "IPC_VERSION = 1"

definition MAX_FRAME_PAYLOAD :: nat where
  "MAX_FRAME_PAYLOAD = 64 * 1024"

definition HEADER_LENGTH :: nat where
  "HEADER_LENGTH = 10"

datatype MessageType =
  AgentHello | LaunchGrant | Challenge | IntegrityReport | Health | Shutdown | Revocation

primrec message_type_u8 :: "MessageType \<Rightarrow> byte" where
  "message_type_u8 AgentHello = 1"
| "message_type_u8 LaunchGrant = 2"
| "message_type_u8 Challenge = 3"
| "message_type_u8 IntegrityReport = 4"
| "message_type_u8 Health = 5"
| "message_type_u8 Shutdown = 6"
| "message_type_u8 Revocation = 7"

datatype IpcError = Io | InvalidHeader | UnknownMessage | FrameTooLarge

definition message_type_try_from :: "byte \<Rightarrow> IpcError + MessageType" where
  "message_type_try_from value =
     (if value = 1 then Inr AgentHello
      else if value = 2 then Inr LaunchGrant
      else if value = 3 then Inr Challenge
      else if value = 4 then Inr IntegrityReport
      else if value = 5 then Inr Health
      else if value = 6 then Inr Shutdown
      else if value = 7 then Inr Revocation
      else Inl UnknownMessage)"

record Frame =
  fr_message_type :: MessageType
  fr_payload :: bytes

section \<open>Readers and writers\<close>

record writer =
  w_out :: bytes
  w_room :: "nat option"
  w_flush_ok :: bool

definition write_all :: "writer \<Rightarrow> bytes \<Rightarrow> (IpcError + unit) \<times> writer" where
  "write_all w bs =
     (case w_room w of
        None \<Rightarrow> (Inr (), w\<lparr>w_out := w_out w @ bs\<rparr>)
      | Some n \<Rightarrow>
          if length bs \<le> n then (Inr (), w\<lparr>w_out := w_out w @ bs, w_room := Some (n - length bs)\<rparr>)
          else (Inl Io, w\<lparr>w_out := w_out w @ take n bs, w_room := Some 0\<rparr>))"

definition flush :: "writer \<Rightarrow> (IpcError + unit) \<times> writer" where
  "flush w = (if w_flush_ok w then Inr () else Inl Io, w)"

definition read_exact :: "nat \<Rightarrow> bytes \<Rightarrow> (IpcError + bytes) \<times> bytes" where
  "read_exact n r = (if n \<le> length r then (Inr (take n r), drop n r) else (Inl Io, []))"

text \<open>\<open>u32::to_be_bytes\<close> and \<open>u32::from_be_bytes(..) as usize\<close>.\<close>

definition to_be_bytes :: "u32 \<Rightarrow> bytes" where
  "to_be_bytes v =
     (let n = unat v in
      [of_nat (n div 16777216), of_nat (n div 65536 mod 256), of_nat (n div 256 mod 256),
       of_nat (n mod 256)])"

definition from_be_bytes :: "bytes \<Rightarrow> nat" where
  "from_be_bytes bs = fold (\<lambda>b n. 256 * n + unat b) bs 0"

section \<open>Frames\<close>

definition frame_header :: "Frame \<Rightarrow> bytes" where
  "frame_header frame =
     IPC_MAGIC @ [IPC_VERSION, message_type_u8 (fr_message_type frame)]
       @ to_be_bytes (of_nat (length (fr_payload frame)))"

definition write_frame :: "writer \<Rightarrow> Frame \<Rightarrow> (IpcError + unit) \<times> writer" where
  "write_frame w frame =
     (if MAX_FRAME_PAYLOAD < length (fr_payload frame) then (Inl FrameTooLarge, w)
      else case write_all w (frame_header frame) of
        (Inl e, w1) \<Rightarrow> (Inl e, w1)
      | (Inr _, w1) \<Rightarrow>
          (case write_all w1 (fr_payload frame) of
             (Inl e, w2) \<Rightarrow> (Inl e, w2)
           | (Inr _, w2) \<Rightarrow> flush w2))"

definition read_frame :: "bytes \<Rightarrow> (IpcError + Frame) \<times> bytes" where
  "read_frame r =
     (case read_exact HEADER_LENGTH r of
        (Inl e, r1) \<Rightarrow> (Inl e, r1)
      | (Inr header, r1) \<Rightarrow>
          if take 4 header \<noteq> IPC_MAGIC \<or> header ! 4 \<noteq> IPC_VERSION then (Inl InvalidHeader, r1)
          else case message_type_try_from (header ! 5) of
            Inl e \<Rightarrow> (Inl e, r1)
          | Inr message_type \<Rightarrow>
              let len = from_be_bytes (drop 6 header) in
              if MAX_FRAME_PAYLOAD < len then (Inl FrameTooLarge, r1)
              else case read_exact len r1 of
                (Inl e, r2) \<Rightarrow> (Inl e, r2)
              | (Inr payload, r2) \<Rightarrow>
                  (Inr \<lparr>fr_message_type = message_type, fr_payload = payload\<rparr>, r2))"

section \<open>The two conversions\<close>

lemma message_type_roundtrip [simp]: "message_type_try_from (message_type_u8 m) = Inr m"
  by (cases m) (simp_all add: message_type_try_from_def)

lemma message_type_try_from_ok [ok_iff]:
  "message_type_try_from b = Inr m \<longleftrightarrow> b = message_type_u8 m"
  by (cases m) (auto simp: message_type_try_from_def split: if_splits)

lemma length_to_be_bytes [simp]: "length (to_be_bytes v) = 4"
  by (simp add: to_be_bytes_def Let_def)

lemma unat_of_nat_byte: "unat (of_nat n :: byte) = n mod 256"
  by (simp add: unat_of_nat)

lemma base256_horner:
  assumes "q2 * 256 + r2 = (q1::nat)" and "q3 * 256 + r3 = q2" and "q1 * 256 + r1 = n"
  shows "q3 * 16777216 + r3 * 65536 + r2 * 256 + r1 = n"
  unfolding assms [symmetric] by (simp add: algebra_simps)

lemma base256_digits:
  "(n::nat) div 16777216 * 16777216 + n div 65536 mod 256 * 65536 + n div 256 mod 256 * 256 + n mod 256 = n"
proof -
  have "n div 65536 = n div 256 div 256" and "n div 16777216 = n div 256 div 256 div 256"
    by (simp_all add: div_mult2_eq [symmetric])
  then show ?thesis
    by (simp only:) (rule base256_horner [OF div_mult_mod_eq div_mult_mod_eq div_mult_mod_eq])
qed

lemma from_to_be_bytes: "from_be_bytes (to_be_bytes v) = unat v"
proof -
  have "unat v div 16777216 < 256"
    using unsigned_less [of v, where ?'a = nat] by (simp add: less_mult_imp_div_less)
  then show ?thesis
    using base256_digits [of "unat v"]
    by (simp add: from_be_bytes_def to_be_bytes_def Let_def unat_of_nat_byte)
qed

lemma base256_unique:
  assumes "(x::nat) * 256 + y = x' * 256 + y'" and "y < 256" and "y' < 256"
  shows "x = x' \<and> y = y'"
proof -
  have "(x * 256 + y) div 256 = x" and "(x' * 256 + y') div 256 = x'"
    using assms(2,3) by simp_all
  then show ?thesis using assms(1) by simp
qed

lemma from_be_bytes_inj:
  assumes "length as = 4" and "length bs = 4" and "from_be_bytes as = from_be_bytes bs"
  shows "as = bs"
proof -
  obtain a b c d where as: "as = [a, b, c, d]"
    using assms(1) by (auto simp: length_Suc_conv numeral_eq_Suc)
  obtain a' b' c' d' where bs: "bs = [a', b', c', d']"
    using assms(2) by (auto simp: length_Suc_conv numeral_eq_Suc)
  have eq: "((unat a * 256 + unat b) * 256 + unat c) * 256 + unat d
      = ((unat a' * 256 + unat b') * 256 + unat c') * 256 + unat d'"
    using assms(3) unfolding as bs from_be_bytes_def by (simp add: algebra_simps)
  from base256_unique [OF eq unat_byte_lt unat_byte_lt]
  have d: "unat d = unat d'" and eq: "(unat a * 256 + unat b) * 256 + unat c
      = (unat a' * 256 + unat b') * 256 + unat c'" by simp_all
  from base256_unique [OF eq unat_byte_lt unat_byte_lt]
  have c: "unat c = unat c'" and eq: "unat a * 256 + unat b = unat a' * 256 + unat b'" by simp_all
  from base256_unique [OF eq unat_byte_lt unat_byte_lt] c d
  show ?thesis by (simp add: as bs word_unat_eq_iff)
qed

definition frame_bytes :: "Frame \<Rightarrow> bytes" where
  "frame_bytes frame = frame_header frame @ fr_payload frame"

lemma unat_of_nat_payload:
  "n \<le> MAX_FRAME_PAYLOAD \<Longrightarrow> unat (of_nat n :: u32) = n"
  by (simp add: unat_of_nat MAX_FRAME_PAYLOAD_def)

lemma length_frame_header [simp]: "length (frame_header f) = HEADER_LENGTH"
  by (simp add: frame_header_def IPC_MAGIC_def HEADER_LENGTH_def)

lemma read_exact_ok [ok_iff]:
  "read_exact n r = (Inr bs, rest) \<longleftrightarrow> r = bs @ rest \<and> length bs = n"
  by (auto simp: read_exact_def)

section \<open>Reading what was written\<close>

lemma frame_header_parts:
  "take 4 (frame_header f) = IPC_MAGIC" "frame_header f ! 4 = IPC_VERSION"
  "frame_header f ! 5 = message_type_u8 (fr_message_type f)"
  "drop 6 (frame_header f) = to_be_bytes (of_nat (length (fr_payload f)))"
  by (simp_all add: frame_header_def IPC_MAGIC_def nth_append)

lemma read_frame_bytes:
  assumes "length (fr_payload f) \<le> MAX_FRAME_PAYLOAD"
  shows "read_frame (frame_bytes f @ rest) = (Inr f, rest)"
proof -
  have "read_exact HEADER_LENGTH (frame_bytes f @ rest) = (Inr (frame_header f), fr_payload f @ rest)"
    by (simp add: read_exact_ok frame_bytes_def)
  moreover have "read_exact (length (fr_payload f)) (fr_payload f @ rest) = (Inr (fr_payload f), rest)"
    by (simp add: read_exact_ok)
  ultimately show ?thesis
    using assms by (simp add: read_frame_def frame_header_parts from_to_be_bytes unat_of_nat_payload)
qed

lemma header_unique:
  assumes "length h = HEADER_LENGTH" and "take 4 h = IPC_MAGIC" and "h ! 4 = IPC_VERSION"
    and "h ! 5 = message_type_u8 (fr_message_type f)"
    and "from_be_bytes (drop 6 h) = length (fr_payload f)"
    and "length (fr_payload f) \<le> MAX_FRAME_PAYLOAD"
  shows "h = frame_header f"
proof -
  have "drop 6 h = to_be_bytes (of_nat (length (fr_payload f)))"
    using assms by (intro from_be_bytes_inj)
      (simp_all add: HEADER_LENGTH_def from_to_be_bytes unat_of_nat_payload)
  moreover have "h = take 4 h @ [h ! 4, h ! 5] @ drop 6 h"
    using assms(1) id_take_nth_drop [of 4 h] Cons_nth_drop_Suc [of 5 h]
    by (simp add: HEADER_LENGTH_def)
  ultimately show ?thesis
    using assms by (simp add: frame_header_def)
qed

lemma read_frame_ok [ok_iff]:
  "read_frame r = (Inr f, rest) \<longleftrightarrow>
     r = frame_bytes f @ rest \<and> length (fr_payload f) \<le> MAX_FRAME_PAYLOAD"
proof
  assume "read_frame r = (Inr f, rest)"
  then obtain header payload where r: "r = header @ payload @ rest"
    and h: "length header = HEADER_LENGTH" "take 4 header = IPC_MAGIC" "header ! 4 = IPC_VERSION"
      "header ! 5 = message_type_u8 (fr_message_type f)"
      "from_be_bytes (drop 6 header) = length payload" "length payload \<le> MAX_FRAME_PAYLOAD"
    and p: "fr_payload f = payload"
    by (auto simp: read_frame_def read_exact_ok message_type_try_from_ok Let_def
        split: prod.splits sum.splits if_splits)
  then have "header = frame_header f"
    by (intro header_unique) simp_all
  with r p h show "r = frame_bytes f @ rest \<and> length (fr_payload f) \<le> MAX_FRAME_PAYLOAD"
    by (simp add: frame_bytes_def)
qed (simp add: read_frame_bytes)

lemma write_all_ok:
  "write_all w bs = (Inr u, w') \<Longrightarrow> w_out w' = w_out w @ bs"
  by (auto simp: write_all_def split: option.splits if_splits)

lemma write_frame_ok:
  "write_frame w f = (Inr u, w') \<Longrightarrow>
     length (fr_payload f) \<le> MAX_FRAME_PAYLOAD \<and> w_out w' = w_out w @ frame_bytes f"
  by (auto simp: write_frame_def flush_def frame_bytes_def dest!: write_all_ok
      split: prod.splits sum.splits if_splits)

section \<open>The transport contract\<close>

locale frame_transport =
  fixes put :: "'w \<Rightarrow> Frame \<Rightarrow> (IpcError + unit) \<times> 'w"
    and sent :: "'w \<Rightarrow> bytes"
    and get :: "bytes \<Rightarrow> (IpcError + Frame) \<times> bytes"
  assumes put_get: "put w f = (Inr u, w') \<Longrightarrow>
      \<exists>bs. sent w' = sent w @ bs \<and> (\<forall>rest. get (bs @ rest) = (Inr f, rest))"
begin

text \<open>Frames sent one after the other, stopping at the first error.\<close>

fun put_list :: "'w \<Rightarrow> Frame list \<Rightarrow> (IpcError + unit) \<times> 'w" where
  "put_list w [] = (Inr (), w)"
| "put_list w (f # fs) =
     (case put w f of (Inl e, w') \<Rightarrow> (Inl e, w') | (Inr _, w') \<Rightarrow> put_list w' fs)"

fun get_list :: "nat \<Rightarrow> bytes \<Rightarrow> (IpcError + Frame list) \<times> bytes" where
  "get_list 0 r = (Inr [], r)"
| "get_list (Suc n) r =
     (case get r of
        (Inl e, r') \<Rightarrow> (Inl e, r')
      | (Inr f, r') \<Rightarrow>
          (case get_list n r' of (Inl e, r'') \<Rightarrow> (Inl e, r'') | (Inr fs, r'') \<Rightarrow> (Inr (f # fs), r'')))"

lemma put_list_get_list:
  "put_list w fs = (Inr u, w') \<Longrightarrow>
     \<exists>bs. sent w' = sent w @ bs \<and> (\<forall>rest. get_list (length fs) (bs @ rest) = (Inr fs, rest))"
proof (induction fs arbitrary: w)
  case Nil
  then show ?case by simp
next
  case (Cons f fs)
  then obtain v w1 where put: "put w f = (Inr v, w1)" and more: "put_list w1 fs = (Inr u, w')"
    by (auto split: prod.splits sum.splits)
  from put_get [OF put] obtain b where b: "sent w1 = sent w @ b"
    "\<forall>rest. get (b @ rest) = (Inr f, rest)" by blast
  from Cons.IH [OF more] obtain bs where bs: "sent w' = sent w1 @ bs"
    "\<forall>rest. get_list (length fs) (bs @ rest) = (Inr fs, rest)" by blast
  have "sent w' = sent w @ (b @ bs) \<and>
      (\<forall>rest. get_list (length (f # fs)) ((b @ bs) @ rest) = (Inr (f # fs), rest))"
    using b bs by simp
  then show ?case by blast
qed

end

interpretation ipc: frame_transport write_frame w_out read_frame
proof unfold_locales
  fix w f u w'
  assume "write_frame w f = (Inr u, w')"
  then have "length (fr_payload f) \<le> MAX_FRAME_PAYLOAD" "w_out w' = w_out w @ frame_bytes f"
    by (auto dest: write_frame_ok)
  then show "\<exists>bs. w_out w' = w_out w @ bs \<and> (\<forall>rest. read_frame (bs @ rest) = (Inr f, rest))"
    by (blast intro: read_frame_bytes)
qed

end
