(* ===== verification/Probe.thy ===== *)
theory Probe
  imports Ipc ProtocolTypes
begin

text \<open>
  \<^verbatim>\<open>crates/certael-agent-probe/src/lib.rs\<close>: the C interface a game uses to bind a nonce and to talk to
  the Agent over the inherited channel.

  A pointer argument is \<^const>\<open>None\<close> when null and otherwise what it points to; an output parameter that
  a call does not write is \<^const>\<open>None\<close> in the result. The three \<open>cfg\<close> branches of a function are the
  three values of \<open>target\<close>. A channel is its mutex (poisoned or not), its two handles, the bytes its
  read side still delivers, its write side, and the pending frame. On Unix both sides are one
  \<open>File\<close>, whose two directions are independent streams.

  The section on delivery shows that a frame is never lost, duplicated or reordered by calls with a
  buffer that is too small. The contract of the frame transport comes from \<open>ipc\<close> in \<open>Ipc\<close>.
\<close>

datatype CertaelProbeResult =
  Ok | InvalidArgument | BufferTooSmall | NotConnected | InvalidFrame | UnsupportedPlatform
| InternalError

datatype target = Unix | Windows | OtherTarget

record CertaelAgentChannel =
  ch_poisoned :: bool
  ch_read_handle :: int
  ch_write_handle :: int
  ch_reader :: bytes
  ch_writer :: writer
  ch_pending :: "Frame option"

section \<open>Binding a nonce\<close>

definition certael_probe_abi_version :: u32 where
  "certael_probe_abi_version = 1"

definition PROBE_DOMAIN :: bytes where
  "PROBE_DOMAIN = bytes_of ''certael.agent.probe.v1'' @ [0]"

definition certael_probe_bind_nonce ::
    "'v lib \<Rightarrow> bytes option \<Rightarrow> nat \<Rightarrow> bytes option \<Rightarrow> nat \<Rightarrow> CertaelProbeResult \<times> bytes option"
where
  "certael_probe_bind_nonce L nonce nonce_len output_buf output_len =
     (case (nonce, output_buf) of
        (Some n, Some out) \<Rightarrow>
          if \<not> (16 \<le> nonce_len \<and> nonce_len \<le> 256) then (InvalidArgument, output_buf)
          else if output_len < 32 then (BufferTooSmall, output_buf)
          else (Ok, Some (take 32 (sha256 L (PROBE_DOMAIN @ take nonce_len n)) @ drop 32 out))
      | _ \<Rightarrow> (InvalidArgument, output_buf))"

section \<open>Opening the channel\<close>

text \<open>\<open>str::parse::<i32>\<close>: an optional sign, then digits.\<close>

definition parse_i32 :: "string \<Rightarrow> int option" where
  "parse_i32 s =
     (if starts_with s ''-'' then
        (case digits_value (drop 1 s) of
           None \<Rightarrow> None
         | Some n \<Rightarrow> if n \<le> 2 ^ 31 then Some (- int n) else None)
      else
        (case digits_value (if starts_with s ''+'' then drop 1 s else s) of
           None \<Rightarrow> None
         | Some n \<Rightarrow> if n < 2 ^ 31 then Some (int n) else None))"

text \<open>
  \<open>fd_reader\<close> and \<open>fd_writer\<close> are what the operating system has behind a descriptor; \<open>env\<close> is the
  environment of the process, from which a successful call removes the variables.
\<close>

definition channel_over :: "(int \<Rightarrow> bytes) \<Rightarrow> (int \<Rightarrow> writer) \<Rightarrow> int \<Rightarrow> int \<Rightarrow> CertaelAgentChannel" where
  "channel_over fd_reader fd_writer r w =
     \<lparr>ch_poisoned = False, ch_read_handle = r, ch_write_handle = w,
      ch_reader = fd_reader r, ch_writer = fd_writer w, ch_pending = None\<rparr>"

definition certael_agent_channel_open ::
    "target \<Rightarrow> (int \<Rightarrow> bytes) \<Rightarrow> (int \<Rightarrow> writer) \<Rightarrow> bool \<Rightarrow> (string \<rightharpoonup> string)
      \<Rightarrow> CertaelProbeResult \<times> CertaelAgentChannel option \<times> (string \<rightharpoonup> string)"
where
  "certael_agent_channel_open os fd_reader fd_writer output_is_null env =
     (if output_is_null then (InvalidArgument, None, env)
      else case os of
        Unix \<Rightarrow>
          (case env ''CERTAEL_AGENT_FD'' of
             None \<Rightarrow> (NotConnected, None, env)
           | Some raw \<Rightarrow>
               (case parse_i32 raw of
                  None \<Rightarrow> (NotConnected, None, env)
                | Some fd \<Rightarrow>
                    if fd < 0 then (NotConnected, None, env)
                    else (Ok, Some (channel_over fd_reader fd_writer fd fd),
                          env(''CERTAEL_AGENT_FD'' := None))))
      | Windows \<Rightarrow>
          (case (env ''CERTAEL_AGENT_READ_HANDLE'', env ''CERTAEL_AGENT_WRITE_HANDLE'') of
             (Some raw_read, Some raw_write) \<Rightarrow>
               (case (parse_unsigned 64 raw_read, parse_unsigned 64 raw_write) of
                  (Some read_handle, Some write_handle) \<Rightarrow>
                    if read_handle = 0 \<or> write_handle = 0 \<or> read_handle = write_handle
                    then (NotConnected, None, env)
                    else (Ok, Some (channel_over fd_reader fd_writer (int read_handle) (int write_handle)),
                          env(''CERTAEL_AGENT_READ_HANDLE'' := None,
                              ''CERTAEL_AGENT_WRITE_HANDLE'' := None))
                | _ \<Rightarrow> (NotConnected, None, env))
           | _ \<Rightarrow> (NotConnected, None, env))
      | OtherTarget \<Rightarrow> (UnsupportedPlatform, None, env))"

section \<open>Reading and writing frames\<close>

record read_outcome =
  ro_result :: CertaelProbeResult
  ro_message_type :: "byte option"
  ro_output :: "bytes option"
  ro_written :: "nat option"

definition read_failed :: "CertaelProbeResult \<Rightarrow> bytes option \<Rightarrow> read_outcome" where
  "read_failed result out =
     \<lparr>ro_result = result, ro_message_type = None, ro_output = out, ro_written = None\<rparr>"

text \<open>From the pending frame on: \<open>written\<close> and \<open>message_type\<close> are set, then the payload is copied.\<close>

definition deliver_pending ::
    "bytes option \<Rightarrow> nat \<Rightarrow> CertaelAgentChannel \<Rightarrow> Frame \<Rightarrow> read_outcome \<times> CertaelAgentChannel"
where
  "deliver_pending output_buf capacity channel frame =
     (let outcome =
        \<lparr>ro_result = BufferTooSmall,
         ro_message_type = Some (message_type_u8 (fr_message_type frame)),
         ro_output = output_buf,
         ro_written = Some (length (fr_payload frame))\<rparr> in
      if capacity < length (fr_payload frame) then (outcome, channel)
      else
        (outcome\<lparr>ro_result := Ok,
           ro_output :=
             (if fr_payload frame \<noteq> []
              then map_option (\<lambda>b. fr_payload frame @ drop (length (fr_payload frame)) b) output_buf
              else output_buf)\<rparr>,
         channel\<lparr>ch_pending := None\<rparr>))"

definition certael_agent_channel_read ::
    "target \<Rightarrow> CertaelAgentChannel option \<Rightarrow> bool \<Rightarrow> bytes option \<Rightarrow> nat \<Rightarrow> bool
      \<Rightarrow> read_outcome \<times> CertaelAgentChannel option"
where
  "certael_agent_channel_read os channel_ptr message_type_is_null output_buf capacity written_is_null =
     (case channel_ptr of
        None \<Rightarrow> (read_failed InvalidArgument output_buf, None)
      | Some channel \<Rightarrow>
          if message_type_is_null \<or> written_is_null \<or> 0 < capacity \<and> output_buf = None
          then (read_failed InvalidArgument output_buf, Some channel)
          else if os = OtherTarget then (read_failed UnsupportedPlatform output_buf, Some channel)
          else if ch_poisoned channel then (read_failed InternalError output_buf, Some channel)
          else
            (case ch_pending channel of
               Some frame \<Rightarrow> map_prod id Some (deliver_pending output_buf capacity channel frame)
             | None \<Rightarrow>
                 (case read_frame (ch_reader channel) of
                    (Inl _, rest) \<Rightarrow>
                      (read_failed InvalidFrame output_buf, Some (channel\<lparr>ch_reader := rest\<rparr>))
                  | (Inr frame, rest) \<Rightarrow>
                      map_prod id Some
                        (deliver_pending output_buf capacity
                          (channel\<lparr>ch_reader := rest, ch_pending := Some frame\<rparr>) frame))))"

definition certael_agent_channel_write ::
    "target \<Rightarrow> CertaelAgentChannel option \<Rightarrow> byte \<Rightarrow> bytes option \<Rightarrow> nat
      \<Rightarrow> CertaelProbeResult \<times> CertaelAgentChannel option"
where
  "certael_agent_channel_write os channel_ptr message_type payload_ptr payload_len =
     (case channel_ptr of
        None \<Rightarrow> (InvalidArgument, None)
      | Some channel \<Rightarrow>
          if 0 < payload_len \<and> payload_ptr = None then (InvalidArgument, Some channel)
          else case message_type_try_from message_type of
            Inl _ \<Rightarrow> (InvalidArgument, Some channel)
          | Inr kind \<Rightarrow>
              if MAX_FRAME_PAYLOAD < payload_len then (InvalidArgument, Some channel)
              else if os = OtherTarget then (UnsupportedPlatform, Some channel)
              else if ch_poisoned channel then (InternalError, Some channel)
              else
                let payload = (case payload_ptr of Some p \<Rightarrow> take payload_len p | None \<Rightarrow> []) in
                (case write_frame (ch_writer channel)
                        \<lparr>fr_message_type = kind, fr_payload = payload\<rparr> of
                   (Inr _, w) \<Rightarrow> (Ok, Some (channel\<lparr>ch_writer := w\<rparr>))
                 | (Inl _, w) \<Rightarrow> (InvalidFrame, Some (channel\<lparr>ch_writer := w\<rparr>))))"

text \<open>Dropping the box closes the handles; \<open>handles\<close> are the ones the process holds open.\<close>

definition certael_agent_channel_destroy :: "CertaelAgentChannel option \<Rightarrow> int set \<Rightarrow> int set" where
  "certael_agent_channel_destroy channel_ptr handles =
     (case channel_ptr of
        None \<Rightarrow> handles
      | Some channel \<Rightarrow> handles - {ch_read_handle channel, ch_write_handle channel})"

section \<open>Delivery\<close>

text \<open>
  A run of well-formed reads, each with its buffer: the frames handed to the game (the type byte and
  the payload copied into the buffer, for the calls that return \<open>Ok\<close>), and the channel afterwards.
\<close>

definition read_call :: "target \<Rightarrow> CertaelAgentChannel \<Rightarrow> bytes \<Rightarrow> read_outcome \<times> CertaelAgentChannel" where
  "read_call os channel buf =
     (case certael_agent_channel_read os (Some channel) False (Some buf) (length buf) False of
        (outcome, Some channel') \<Rightarrow> (outcome, channel')
      | (outcome, None) \<Rightarrow> (outcome, channel))"

definition delivered :: "read_outcome \<Rightarrow> (byte \<times> bytes) list" where
  "delivered oc =
     (case (ro_result oc, ro_message_type oc, ro_output oc, ro_written oc) of
        (Ok, Some ty, Some buf, Some n) \<Rightarrow> [(ty, take n buf)]
      | _ \<Rightarrow> [])"

fun read_run :: "target \<Rightarrow> CertaelAgentChannel \<Rightarrow> bytes list \<Rightarrow> (byte \<times> bytes) list \<times> CertaelAgentChannel" where
  "read_run os channel [] = ([], channel)"
| "read_run os channel (buf # bufs) =
     (let (outcome, channel') = read_call os channel buf;
          (ds, channel'') = read_run os channel' bufs
      in (delivered outcome @ ds, channel''))"

definition frame_pair :: "Frame \<Rightarrow> byte \<times> bytes" where
  "frame_pair f = (message_type_u8 (fr_message_type f), fr_payload f)"

text \<open>The frames \<open>fs\<close> are what the channel still has to hand over.\<close>

definition channel_holds :: "CertaelAgentChannel \<Rightarrow> Frame list \<Rightarrow> bool" where
  "channel_holds channel fs \<longleftrightarrow>
     \<not> ch_poisoned channel \<and>
     (case ch_pending channel of
        None \<Rightarrow> ch_reader channel = concat (map frame_bytes fs)
      | Some f \<Rightarrow> fs \<noteq> [] \<and> f = hd fs \<and> ch_reader channel = concat (map frame_bytes (tl fs)))"

lemma deliver_pending_cases:
  "deliver_pending (Some buf) (length buf) c f =
     (if length buf < length (fr_payload f)
      then (\<lparr>ro_result = BufferTooSmall, ro_message_type = Some (message_type_u8 (fr_message_type f)),
             ro_output = Some buf, ro_written = Some (length (fr_payload f))\<rparr>, c)
      else (\<lparr>ro_result = Ok, ro_message_type = Some (message_type_u8 (fr_message_type f)),
             ro_output = Some (fr_payload f @ drop (length (fr_payload f)) buf),
             ro_written = Some (length (fr_payload f))\<rparr>, c\<lparr>ch_pending := None\<rparr>))"
  by (simp add: deliver_pending_def Let_def)

lemma read_frame_empty: "read_frame [] = (Inl Io, [])"
  by (simp add: read_frame_def read_exact_def HEADER_LENGTH_def)

lemma read_call_holds:
  assumes "channel_holds c fs" and "os \<noteq> OtherTarget"
    and "\<forall>f \<in> set fs. length (fr_payload f) \<le> MAX_FRAME_PAYLOAD"
    and "read_call os c buf = (oc, c')"
  shows "delivered oc = [] \<and> channel_holds c' fs \<or>
    fs \<noteq> [] \<and> delivered oc = [frame_pair (hd fs)] \<and> channel_holds c' (tl fs)"
proof (cases "ch_pending c")
  case (Some f)
  with assms(1) have f: "fs \<noteq> []" "f = hd fs" "ch_reader c = concat (map frame_bytes (tl fs))"
    "\<not> ch_poisoned c" by (auto simp: channel_holds_def)
  show ?thesis
  proof (cases "length buf < length (fr_payload f)")
    case True
    then show ?thesis
      using assms(1,2,4) Some f(4)
      by (auto simp: read_call_def certael_agent_channel_read_def deliver_pending_cases delivered_def)
  next
    case False
    then show ?thesis
      using assms(2,4) Some f
      by (auto simp: read_call_def certael_agent_channel_read_def deliver_pending_cases delivered_def
          frame_pair_def channel_holds_def)
  qed
next
  case None
  with assms(1) have c: "ch_reader c = concat (map frame_bytes fs)" "\<not> ch_poisoned c"
    by (auto simp: channel_holds_def)
  show ?thesis
  proof (cases fs)
    case Nil
    then show ?thesis
      using assms(2,4) None c
      by (auto simp: read_call_def certael_agent_channel_read_def read_failed_def delivered_def
          channel_holds_def read_frame_empty)
  next
    case (Cons f gs)
    then have "read_frame (ch_reader c) = (Inr f, concat (map frame_bytes gs))"
      using assms(3) c(1) by (simp add: read_frame_bytes)
    then show ?thesis
      using assms(2,4) None c(2) Cons
      by (cases "length buf < length (fr_payload f)")
        (auto simp: read_call_def certael_agent_channel_read_def deliver_pending_cases delivered_def
          frame_pair_def channel_holds_def)
  qed
qed

lemma read_run_prefix:
  assumes "channel_holds c fs" and "os \<noteq> OtherTarget"
    and "\<forall>f \<in> set fs. length (fr_payload f) \<le> MAX_FRAME_PAYLOAD"
    and "read_run os c bufs = (ds, c')"
  shows "ds = map frame_pair (take (length ds) fs) \<and> length ds \<le> length fs \<and>
    channel_holds c' (drop (length ds) fs)"
  using assms
proof (induction bufs arbitrary: c fs ds)
  case (Cons buf bufs)
  obtain oc c1 where call: "read_call os c buf = (oc, c1)" by fastforce
  obtain ds1 where run: "read_run os c1 bufs = (ds1, c')" and ds: "ds = delivered oc @ ds1"
    using Cons.prems(4) call by (auto split: prod.splits)
  from read_call_holds [OF Cons.prems(1-3) call]
  consider (kept) "delivered oc = []" "channel_holds c1 fs"
    | (given) f gs where "fs = f # gs" "delivered oc = [frame_pair f]" "channel_holds c1 gs"
    by (cases fs) auto
  then show ?case
  proof cases
    case kept
    with Cons.IH [OF kept(2) Cons.prems(2,3) run] ds show ?thesis by simp
  next
    case given
    with Cons.prems(3) have "\<forall>f \<in> set gs. length (fr_payload f) \<le> MAX_FRAME_PAYLOAD" by simp
    from Cons.IH [OF given(3) Cons.prems(2) this run] given ds show ?thesis by simp
  qed
qed simp

text \<open>A buffer that is large enough always gets the next frame.\<close>

lemma read_call_progress:
  assumes "channel_holds c (f # fs)" and "os \<noteq> OtherTarget"
    and "length (fr_payload f) \<le> MAX_FRAME_PAYLOAD" and "length (fr_payload f) \<le> length buf"
  shows "ro_result (fst (read_call os c buf)) = Ok"
  using assms
  by (auto simp: read_call_def certael_agent_channel_read_def channel_holds_def read_frame_bytes
      deliver_pending_cases split: option.splits)

text \<open>What a successful write puts on the wire is one frame for whoever reads next.\<close>

lemma channel_write_ok:
  assumes "certael_agent_channel_write os (Some c) ty p n = (Ok, c')"
  obtains kind d where "c' = Some d" "ty = message_type_u8 kind" "n \<le> MAX_FRAME_PAYLOAD"
    "write_frame (ch_writer c)
       \<lparr>fr_message_type = kind, fr_payload = (case p of Some b \<Rightarrow> take n b | None \<Rightarrow> [])\<rparr>
     = (Inr (), ch_writer d)" "\<not> ch_poisoned c"
  using assms
  by (auto simp: certael_agent_channel_write_def Let_def message_type_try_from_ok
      split: if_splits sum.splits prod.splits)

lemma channel_write_delivers:
  assumes "certael_agent_channel_write os (Some c) ty p n = (Ok, Some d)"
  shows "\<exists>bs kind. w_out (ch_writer d) = w_out (ch_writer c) @ bs \<and> ty = message_type_u8 kind \<and>
    (\<forall>rest. read_frame (bs @ rest) =
       (Inr \<lparr>fr_message_type = kind, fr_payload = (case p of Some b \<Rightarrow> take n b | None \<Rightarrow> [])\<rparr>, rest))"
  using assms by (rule channel_write_ok) (use ipc.put_get in blast)

end
