(* ===== verification/Compatibility.thy ===== *)
theory Compatibility
  imports ProtocolVerify
begin

text \<open>
  \<open>evaluate_compatibility\<close> of \<^verbatim>\<open>crates/certael-agent-protocol/src/lib.rs\<close>. The two \<open>expect\<close> calls on
  parsed versions make it partial: the model returns an option, \<^const>\<open>None\<close> for the panic, and
  \<open>evaluate_total\<close> shows that a manifest that passed \<open>validate_compatibility_manifest\<close> never
  reaches it.
\<close>

definition compatibility_decision ::
    "CompatibilityStateV1 \<Rightarrow> string \<Rightarrow> string option \<Rightarrow> u64 \<Rightarrow> CompatibilityDecisionV1" where
  "compatibility_decision state public_reason recommended_version manifest_revision =
     \<lparr>dec_state = state, dec_public_reason = public_reason,
      dec_recommended_version = recommended_version, dec_manifest_revision = manifest_revision\<rparr>"

definition manifest_live :: "CompatibilityManifestClaimsV1 \<Rightarrow> i64 \<Rightarrow> bool" where
  "manifest_live m now \<longleftrightarrow>
     sint (cm_issued_at_unix m) \<le> sint now \<and> sint now < sint (cm_expires_at_unix m)"

definition version_revoked ::
    "CompatibilityManifestClaimsV1 \<Rightarrow> CertaelProductV1 \<Rightarrow> string \<Rightarrow> i64 \<Rightarrow> bool" where
  "version_revoked m product version now \<longleftrightarrow>
     list_ex (\<lambda>r. crev_product r = product_i32 product \<and> crev_version r = version
        \<and> sint (crev_effective_at_unix r) \<le> sint now) (cm_revocations m)"

definition product_rule ::
    "CompatibilityManifestClaimsV1 \<Rightarrow> CertaelProductV1 \<Rightarrow> CompatibilityProductRuleV1 option" where
  "product_rule m product = find (\<lambda>r. rule_product r = product_i32 product) (cm_products m)"

text \<open>The part of \<open>evaluate_compatibility\<close> after a rule was found.\<close>

definition evaluate_rule ::
    "'v lib \<Rightarrow> CompatibilityManifestClaimsV1 \<Rightarrow> CompatibilityProductRuleV1 \<Rightarrow> 'v \<Rightarrow> u32
      \<Rightarrow> CompatibilityDecisionV1 option"
where
  "evaluate_rule L manifest rule current protocol_version =
     (if protocol_version < rule_minimum_protocol_version rule then
        Some (compatibility_decision UpdateRequired ''PROTOCOL_UPDATE_REQUIRED''
          (Some (rule_recommended_version rule)) (cm_revision manifest))
      else if rule_maximum_protocol_version rule < protocol_version then
        Some (compatibility_decision Unknown ''PROTOCOL_TOO_NEW''
          (Some (rule_recommended_version rule)) (cm_revision manifest))
      else
        (case version_parse L (rule_minimum_supported_version rule) of
           None \<Rightarrow> None
         | Some minimum \<Rightarrow>
             (case version_parse L (rule_recommended_version rule) of
                None \<Rightarrow> None
              | Some recommended \<Rightarrow>
                  Some (if version_less L current minimum then
                      compatibility_decision UpdateRequired ''VERSION_UPDATE_REQUIRED''
                        (Some (rule_recommended_version rule)) (cm_revision manifest)
                    else if version_less L current recommended then
                      compatibility_decision Deprecated ''VERSION_DEPRECATED''
                        (Some (rule_recommended_version rule)) (cm_revision manifest)
                    else
                      compatibility_decision Supported ''SUPPORTED''
                        (Some (rule_recommended_version rule)) (cm_revision manifest)))))"

definition evaluate_compatibility ::
    "'v lib \<Rightarrow> CompatibilityManifestClaimsV1 option \<Rightarrow> CertaelProductV1 \<Rightarrow> string \<Rightarrow> u32 \<Rightarrow> i64
      \<Rightarrow> CompatibilityDecisionV1 option"
where
  "evaluate_compatibility L manifest_opt product current_version protocol_version now =
     (case manifest_opt of
        None \<Rightarrow> Some (compatibility_decision Indeterminate ''COMPATIBILITY_INDETERMINATE'' None 0)
      | Some manifest \<Rightarrow>
          if \<not> manifest_live manifest now then
            Some (compatibility_decision Indeterminate ''COMPATIBILITY_INDETERMINATE'' None
              (cm_revision manifest))
          else
            (case version_parse L current_version of
               None \<Rightarrow>
                 Some (compatibility_decision Unknown ''VERSION_UNKNOWN'' None (cm_revision manifest))
             | Some current \<Rightarrow>
                 if version_revoked manifest product current_version now then
                   Some (compatibility_decision Revoked ''VERSION_REVOKED''
                     (map_option rule_recommended_version (product_rule manifest product))
                     (cm_revision manifest))
                 else
                   (case product_rule manifest product of
                      None \<Rightarrow>
                        Some (compatibility_decision Unknown ''PRODUCT_UNKNOWN'' None
                          (cm_revision manifest))
                    | Some rule \<Rightarrow> evaluate_rule L manifest rule current protocol_version)))"

section \<open>Validated manifests\<close>

lemma compatibility_products_ok_rules:
  "compatibility_products_ok L seen rs = Inr u \<Longrightarrow>
     (\<forall>r \<in> set rs. \<exists>minimum recommended.
        version_parse L (rule_minimum_supported_version r) = Some minimum \<and>
        version_parse L (rule_recommended_version r) = Some recommended \<and>
        \<not> version_less L recommended minimum \<and>
        rule_minimum_protocol_version r \<le> rule_maximum_protocol_version r) \<and>
     distinct (map rule_product rs) \<and> rule_product ` set rs \<inter> seen = {}"
proof (induction rs arbitrary: seen)
  case (Cons r rs)
  then obtain product where p: "product_try_from (rule_product r) = Some product"
    by (cases "product_try_from (rule_product r)") auto
  then have eq: "product_i32 product = rule_product r"
    by (simp add: product_try_from_iff)
  from Cons.prems p have rest:
    "compatibility_products_ok L (insert (rule_product r) seen) rs = Inr u"
    and head: "\<exists>minimum recommended.
        version_parse L (rule_minimum_supported_version r) = Some minimum \<and>
        version_parse L (rule_recommended_version r) = Some recommended \<and>
        \<not> version_less L recommended minimum \<and>
        rule_minimum_protocol_version r \<le> rule_maximum_protocol_version r"
    and fresh: "rule_product r \<notin> seen"
    by (auto simp: eq bindE_ok ok_or_ok split: if_splits)
  from Cons.IH [OF rest] head fresh show ?case
    by auto
qed simp

lemma validated_rules:
  assumes "validate_compatibility_manifest L m now = Inr ()"
  shows "\<forall>r \<in> set (cm_products m). \<exists>minimum recommended.
        version_parse L (rule_minimum_supported_version r) = Some minimum \<and>
        version_parse L (rule_recommended_version r) = Some recommended \<and>
        \<not> version_less L recommended minimum \<and>
        rule_minimum_protocol_version r \<le> rule_maximum_protocol_version r"
    and "distinct (map rule_product (cm_products m))"
  using assms
  by (auto simp: validate_compatibility_manifest_def bindE_ok split: if_splits
      dest!: compatibility_products_ok_rules)

lemma product_rule_member: "product_rule m p = Some r \<Longrightarrow>
    r \<in> set (cm_products m) \<and> rule_product r = product_i32 p"
  by (auto simp: product_rule_def dest: find_SomeD)

lemma evaluate_total:
  assumes "validate_compatibility_manifest L m vtime = Inr ()"
  shows "\<exists>d. evaluate_compatibility L (Some m) product version protocol now = Some d"
proof (cases "product_rule m product")
  case None
  then show ?thesis
    by (auto simp: evaluate_compatibility_def split: option.splits)
next
  case (Some rule)
  then have "rule \<in> set (cm_products m)"
    by (simp add: product_rule_member)
  with validated_rules(1) [OF assms] obtain minimum recommended where
    "version_parse L (rule_minimum_supported_version rule) = Some minimum"
    "version_parse L (rule_recommended_version rule) = Some recommended"
    by blast
  with Some show ?thesis
    by (auto simp: evaluate_compatibility_def evaluate_rule_def split: option.splits)
qed

lemma allows_iff: "allows_new_protected_session d \<longleftrightarrow> dec_state d \<in> {Supported, Deprecated}"
  by (cases "dec_state d") (simp_all add: allows_new_protected_session_def)

lemma compatibility_decision_state [simp]:
  "dec_state (compatibility_decision s r v n) = s"
  "dec_manifest_revision (compatibility_decision s r v n) = n"
  by (simp_all add: compatibility_decision_def)

lemma evaluate_allows_iff:
  "(\<exists>d. evaluate_compatibility L mo product version protocol now = Some d
      \<and> allows_new_protected_session d) \<longleftrightarrow>
   (\<exists>m rule current minimum recommended.
      mo = Some m \<and> manifest_live m now \<and> version_parse L version = Some current \<and>
      \<not> version_revoked m product version now \<and> product_rule m product = Some rule \<and>
      rule_minimum_protocol_version rule \<le> protocol \<and>
      protocol \<le> rule_maximum_protocol_version rule \<and>
      version_parse L (rule_minimum_supported_version rule) = Some minimum \<and>
      version_parse L (rule_recommended_version rule) = Some recommended \<and>
      \<not> version_less L current minimum)"
proof (cases mo)
  case None
  then show ?thesis by (simp add: evaluate_compatibility_def allows_iff)
next
  case (Some m)
  then show ?thesis
    by (cases "product_rule m product")
      (auto simp: evaluate_compatibility_def evaluate_rule_def allows_iff not_less
        split: option.splits if_splits)
qed

end
