(* ===== verification/FileSystem.thy ===== *)
theory FileSystem
  imports RustText
begin

text \<open>
  The part of \<open>std::fs\<close> and \<open>std::path\<close> that the updater and the platform crate use, on Unix.

  An absolute path is the list of the pieces between its separators. A file system maps paths to
  nodes; the root directory always exists. \<open>resolve\<close> walks a path as the kernel does: empty pieces
  and \<open>.\<close> stay, \<open>..\<close> goes up, a symbolic link is replaced by its target, and the number of links
  followed is bounded (40 on Linux, where the walk fails with \<open>ELOOP\<close>).

  A system call fails when its operation is undefined, or because the environment makes it fail.
  The world carries a schedule of such outcomes, one consumed per call: \<open>Go\<close>, \<open>Fail x\<close> (an error;
  the extent \<open>x\<close> says how much of a write or of a recursive removal was done) or \<open>Stop x\<close> (the process
  is killed there). After a \<open>Stop\<close>
  the world no longer changes, so a theorem over all schedules covers a crash at every point. Other
  processes do not change the file system during a call, and what a power failure keeps of data not
  yet synchronised is not modelled.
\<close>

type_synonym path = "string list"

datatype PathBuf = AbsolutePath path | RelativePath path

datatype node = Dir | File bytes | Symlink PathBuf

type_synonym fs = "path \<rightharpoonup> node"

definition slash_pieces :: "string \<Rightarrow> string list" where
  "slash_pieces s = split_on (\<lambda>c. c = CHR ''/'') s"

definition is_absolute :: "string \<Rightarrow> bool" where
  "is_absolute s \<longleftrightarrow> starts_with s ''/''"

text \<open>\<open>Path::join\<close>: an absolute argument replaces the path.\<close>

definition join_path :: "path \<Rightarrow> string \<Rightarrow> path" where
  "join_path root s = (if is_absolute s then slash_pieces s else root @ slash_pieces s)"

text \<open>\<open>Path::components\<close>: empty pieces and inner \<open>.\<close> pieces are dropped.\<close>

datatype Component = RootDir | CurDir | ParentDir | Normal string

fun inner_components :: "string list \<Rightarrow> Component list" where
  "inner_components [] = []"
| "inner_components (p # ps) =
     (if p = [] \<or> p = ''.'' then inner_components ps
      else (if p = ''..'' then ParentDir else Normal p) # inner_components ps)"

definition components :: "string \<Rightarrow> Component list" where
  "components s =
     (if is_absolute s then RootDir # inner_components (slash_pieces s)
      else if hd (slash_pieces s) = ''.'' then CurDir # inner_components (slash_pieces s)
      else inner_components (slash_pieces s))"

definition is_normal :: "Component \<Rightarrow> bool" where
  "is_normal c = (case c of Normal _ \<Rightarrow> True | _ \<Rightarrow> False)"

section \<open>Path resolution\<close>

definition node_at :: "fs \<Rightarrow> path \<Rightarrow> node option" where
  "node_at fs p = (if p = [] then Some Dir else fs p)"

fun resolve_from :: "nat \<Rightarrow> fs \<Rightarrow> path \<Rightarrow> path \<Rightarrow> path option" where
  "resolve_from fuel fs cur [] = Some cur"
| "resolve_from fuel fs cur (c # cs) =
     (if c = [] \<or> c = ''.'' then
        (if node_at fs cur = Some Dir then resolve_from fuel fs cur cs else None)
      else if c = ''..'' then
        (if node_at fs cur = Some Dir then resolve_from fuel fs (butlast cur) cs else None)
      else if node_at fs cur \<noteq> Some Dir then None
      else
        (case fs (cur @ [c]) of
           None \<Rightarrow> None
         | Some Dir \<Rightarrow> resolve_from fuel fs (cur @ [c]) cs
         | Some (File _) \<Rightarrow> resolve_from fuel fs (cur @ [c]) cs
         | Some (Symlink target) \<Rightarrow>
             (case fuel of
                0 \<Rightarrow> None
              | Suc n \<Rightarrow>
                  (case target of
                     AbsolutePath t \<Rightarrow> resolve_from n fs [] (t @ cs)
                   | RelativePath t \<Rightarrow> resolve_from n fs cur (t @ cs)))))"

definition MAX_SYMLINKS :: nat where
  "MAX_SYMLINKS = 40"

definition realpath :: "fs \<Rightarrow> path \<Rightarrow> path option" where
  "realpath fs p = resolve_from MAX_SYMLINKS fs [] p"

text \<open>The entry a path names, without following a link in its last piece.\<close>

definition locate :: "fs \<Rightarrow> path \<Rightarrow> path option" where
  "locate fs p =
     (if p = [] \<or> last p \<in> {[], ''.'', ''..''} then realpath fs p
      else (case realpath fs (butlast p) of
              None \<Rightarrow> None
            | Some d \<Rightarrow> if node_at fs d = Some Dir then Some (d @ [last p]) else None))"

section \<open>Operations\<close>

definition lstat :: "fs \<Rightarrow> path \<Rightarrow> node option" where
  "lstat fs p = Option.bind (locate fs p) (node_at fs)"

definition stat :: "fs \<Rightarrow> path \<Rightarrow> node option" where
  "stat fs p = Option.bind (realpath fs p) (node_at fs)"

definition read_file :: "fs \<Rightarrow> path \<Rightarrow> bytes option" where
  "read_file fs p = (case stat fs p of Some (File bs) \<Rightarrow> Some bs | _ \<Rightarrow> None)"

definition mkdir :: "path \<Rightarrow> fs \<Rightarrow> (unit \<times> fs) option" where
  "mkdir p fs =
     (case locate fs p of
        None \<Rightarrow> None
      | Some q \<Rightarrow> if node_at fs q = None then Some ((), fs(q \<mapsto> Dir)) else None)"

text \<open>\<open>OpenOptions::create_new\<close>; the result is the handle, here the file's own path.\<close>

definition create_new :: "path \<Rightarrow> fs \<Rightarrow> (path \<times> fs) option" where
  "create_new p fs =
     (case locate fs p of
        None \<Rightarrow> None
      | Some q \<Rightarrow> if node_at fs q = None then Some (q, fs(q \<mapsto> File [])) else None)"

definition append_file :: "path \<Rightarrow> bytes \<Rightarrow> fs \<Rightarrow> fs" where
  "append_file q bs fs = (case fs q of Some (File old) \<Rightarrow> fs(q \<mapsto> File (old @ bs)) | _ \<Rightarrow> fs)"

text \<open>Moving the subtree at \<open>a\<close> to \<open>b\<close>.\<close>

definition move_tree :: "path \<Rightarrow> path \<Rightarrow> fs \<Rightarrow> fs" where
  "move_tree a b fs =
     (\<lambda>q. if take (length b) q = b then fs (a @ drop (length b) q)
          else if take (length a) q = a then None
          else fs q)"

definition has_children :: "fs \<Rightarrow> path \<Rightarrow> bool" where
  "has_children fs d \<longleftrightarrow> (\<exists>q \<in> dom fs. q \<noteq> d \<and> take (length d) q = d)"

text \<open>
  \<open>rename\<close>: a file or link replaces anything but a directory; a directory moves to a free name or
  onto an empty directory, and not below itself.
\<close>

definition rename :: "path \<Rightarrow> path \<Rightarrow> fs \<Rightarrow> (unit \<times> fs) option" where
  "rename a b fs =
     (case (locate fs a, locate fs b) of
        (Some p, Some q) \<Rightarrow>
          (case node_at fs p of
             None \<Rightarrow> None
           | Some Dir \<Rightarrow>
               if p = [] then None
               else if p = q then Some ((), fs)
               else if take (length p) q = p then None
               else if (node_at fs q = None \<or> node_at fs q = Some Dir) \<and> \<not> has_children fs q
               then Some ((), move_tree p q fs)
               else None
           | Some n \<Rightarrow>
               if node_at fs q = Some Dir then None
               else if p = q then Some ((), fs)
               else Some ((), fs(q \<mapsto> n, p := None)))
      | _ \<Rightarrow> None)"

definition remove_file :: "path \<Rightarrow> fs \<Rightarrow> (unit \<times> fs) option" where
  "remove_file p fs =
     (case locate fs p of
        None \<Rightarrow> None
      | Some q \<Rightarrow>
          (case node_at fs q of None \<Rightarrow> None | Some Dir \<Rightarrow> None | Some _ \<Rightarrow> Some ((), fs(q := None))))"

definition remove_dir_all :: "path \<Rightarrow> fs \<Rightarrow> (unit \<times> fs) option" where
  "remove_dir_all p fs =
     (case locate fs p of
        None \<Rightarrow> None
      | Some q \<Rightarrow>
          (case node_at fs q of
             Some Dir \<Rightarrow> Some ((), \<lambda>r. if take (length q) r = q then None else fs r)
           | Some (Symlink _) \<Rightarrow> Some ((), fs(q := None))
           | _ \<Rightarrow> None))"

section \<open>Calls and schedules\<close>

text \<open>The bytes already written, and the entries already removed.\<close>

datatype extent = Extent (extent_bytes: nat) (extent_removed: "path list")

datatype fault = Go | Fail extent | Stop extent

record world =
  wd_fs :: fs
  wd_faults :: "fault list"
  wd_stopped :: bool
  wd_clock :: "nat option list"
  wd_pid :: nat

text \<open>A fallible step on a state \<open>'s\<close>; a call is one on the world.\<close>

type_synonym ('s, 'e, 'a) fallible = "'s \<Rightarrow> ('e + 'a) \<times> 's"

type_synonym ('e, 'a) call = "(world, 'e, 'a) fallible"

definition ret :: "'a \<Rightarrow> ('s, 'e, 'a) fallible" where
  "ret x w = (Inr x, w)"

definition throw :: "'e \<Rightarrow> ('s, 'e, 'a) fallible" where
  "throw e w = (Inl e, w)"

definition andThen :: "('s, 'e, 'a) fallible \<Rightarrow> ('a \<Rightarrow> ('s, 'e, 'b) fallible) \<Rightarrow> ('s, 'e, 'b) fallible" where
  "andThen m f w = (case m w of (Inl e, w') \<Rightarrow> (Inl e, w') | (Inr x, w') \<Rightarrow> f x w')"

text \<open>A result kept as a value, to be inspected instead of returned early.\<close>

definition attempt :: "('s, 'e, 'a) fallible \<Rightarrow> ('s, 'f, 'e + 'a) fallible" where
  "attempt m w = (case m w of (r, w') \<Rightarrow> (Inr r, w'))"

definition lift :: "'e + 'a \<Rightarrow> ('s, 'e, 'a) fallible" where
  "lift r w = (r, w)"

definition syscall ::
    "'e \<Rightarrow> (fs \<Rightarrow> ('a \<times> fs) option) \<Rightarrow> (extent \<Rightarrow> fs \<Rightarrow> fs) \<Rightarrow> ('e, 'a) call"
where
  "syscall e op partial w =
     (if wd_stopped w then (Inl e, w)
      else
        (case wd_faults w of
           Fail x # fl \<Rightarrow> (Inl e, w\<lparr>wd_faults := fl, wd_fs := partial x (wd_fs w)\<rparr>)
         | Stop x # fl \<Rightarrow>
             (Inl e, w\<lparr>wd_faults := fl, wd_fs := partial x (wd_fs w), wd_stopped := True\<rparr>)
         | fl \<Rightarrow>
             (case op (wd_fs w) of
                None \<Rightarrow> (Inl e, w\<lparr>wd_faults := tl fl\<rparr>)
              | Some (x, fs') \<Rightarrow> (Inr x, w\<lparr>wd_faults := tl fl, wd_fs := fs'\<rparr>))))"

definition query :: "'e \<Rightarrow> (fs \<Rightarrow> 'a option) \<Rightarrow> ('e, 'a) call" where
  "query e f = syscall e (\<lambda>fs. map_option (\<lambda>x. (x, fs)) (f fs)) (\<lambda>_ fs. fs)"

definition change :: "'e \<Rightarrow> (fs \<Rightarrow> ('a \<times> fs) option) \<Rightarrow> ('e, 'a) call" where
  "change e op = syscall e op (\<lambda>_ fs. fs)"

text \<open>\<open>write_all\<close> to a handle; a failing write may have stored a part.\<close>

definition write_handle :: "'e \<Rightarrow> path \<Rightarrow> bytes \<Rightarrow> ('e, unit) call" where
  "write_handle e q bs =
     syscall e (\<lambda>fs. Some ((), append_file q bs fs)) (\<lambda>x fs. append_file q (take (extent_bytes x) bs) fs)"

text \<open>
  \<open>remove_dir_all\<close>: when it fails some entries below the directory may be gone, each with what it held.
\<close>

definition remove_part :: "path \<Rightarrow> path list \<Rightarrow> fs \<Rightarrow> fs" where
  "remove_part p gone fs =
     (case locate fs p of
        None \<Rightarrow> fs
      | Some q \<Rightarrow>
          if node_at fs q \<noteq> Some Dir then fs
          else (\<lambda>r. if take (length q) r = q \<and> list_ex (\<lambda>g. g \<noteq> q \<and> take (length q) g = q \<and> take (length g) r = g) gone
                    then None else fs r))"

definition remove_tree :: "'e \<Rightarrow> path \<Rightarrow> ('e, unit) call" where
  "remove_tree e p =
     syscall e (remove_dir_all p) (\<lambda>x fs. remove_part p (extent_removed x) fs)"

text \<open>\<open>set_permissions\<close> and \<open>sync_all\<close>: they can fail and do not change the modelled state.\<close>

definition touch :: "'e \<Rightarrow> ('e, unit) call" where
  "touch e = query e (\<lambda>_. Some ())"

text \<open>\<open>Path::exists\<close>: an error counts as absent.\<close>

definition path_exists :: "path \<Rightarrow> ('e, bool) call" where
  "path_exists p =
     andThen (attempt (query () (\<lambda>fs. stat fs p))) (\<lambda>r. ret (is_ok r))"

text \<open>\<open>SystemTime::now().duration_since(UNIX_EPOCH)\<close>, which fails before 1970.\<close>

definition read_clock :: "'e \<Rightarrow> ('e, nat) call" where
  "read_clock e w =
     (case wd_clock w of
        Some t # ts \<Rightarrow> (Inr t, w\<lparr>wd_clock := ts\<rparr>)
      | None # ts \<Rightarrow> (Inl e, w\<lparr>wd_clock := ts\<rparr>)
      | [] \<Rightarrow> (Inl e, w))"

definition process_id :: "('e, nat) call" where
  "process_id w = (Inr (wd_pid w), w)"

text \<open>\<open>create_dir_all\<close>: every missing ancestor is made, the outermost first.\<close>

fun make_prefixes :: "'e \<Rightarrow> path \<Rightarrow> path \<Rightarrow> ('e, unit) call" where
  "make_prefixes e made [] = ret ()"
| "make_prefixes e made (c # cs) =
     andThen (attempt (query () (\<lambda>fs. if stat fs (made @ [c]) = Some Dir then Some () else None)))
       (\<lambda>r. if is_ok r then make_prefixes e (made @ [c]) cs
            else andThen (change e (mkdir (made @ [c]))) (\<lambda>_. make_prefixes e (made @ [c]) cs))"

definition create_dir_all :: "'e \<Rightarrow> path \<Rightarrow> ('e, unit) call" where
  "create_dir_all e p = make_prefixes e [] p"

end
