(* ===== verification/FsLogic.thy ===== *)
theory FsLogic
  imports FileSystem
begin

text \<open>
  Reasoning about calls on the file system.

  \<open>valid P m Q E\<close>: from a file system satisfying \<open>P\<close>, under every schedule of outcomes, the call \<open>m\<close>
  either returns \<open>x\<close> with \<open>Q x\<close> or returns an error with \<open>E\<close>. \<open>reads m R\<close>: the call \<open>m\<close> leaves the file
  system as it is, and a value \<open>x\<close> it returns satisfies \<open>R x\<close>. Both compose along \<open>andThen\<close>.

  \<open>plain_path\<close> are the paths \<^const>\<open>realpath\<close> returns: no links, no \<open>.\<close> and no \<open>..\<close>.
\<close>

section \<open>Plain paths\<close>

definition plain_name :: "string \<Rightarrow> bool" where
  "plain_name c \<longleftrightarrow> c \<noteq> [] \<and> c \<noteq> ''.'' \<and> c \<noteq> ''..''"

definition plain_node :: "node option \<Rightarrow> bool" where
  "plain_node n = (case n of Some Dir \<Rightarrow> True | Some (File _) \<Rightarrow> True | _ \<Rightarrow> False)"

definition plain_dir :: "fs \<Rightarrow> path \<Rightarrow> bool" where
  "plain_dir fs p \<longleftrightarrow> list_all plain_name p \<and> (\<forall>i \<le> length p. node_at fs (take i p) = Some Dir)"

definition plain_path :: "fs \<Rightarrow> path \<Rightarrow> bool" where
  "plain_path fs p \<longleftrightarrow>
     p = [] \<or> plain_dir fs (butlast p) \<and> plain_name (last p) \<and> plain_node (fs p)"

lemma plain_dir_Nil [simp]: "plain_dir fs []"
  by (simp add: plain_dir_def node_at_def)

lemma plain_dir_node: "plain_dir fs p \<Longrightarrow> node_at fs p = Some Dir"
  by (auto simp: plain_dir_def)

lemma plain_dir_snoc:
  "plain_dir fs (p @ [c]) \<longleftrightarrow> plain_dir fs p \<and> plain_name c \<and> fs (p @ [c]) = Some Dir"
proof -
  have split: "(\<forall>i \<le> Suc n. A i) \<longleftrightarrow> (\<forall>i \<le> n. A i) \<and> A (Suc n)" for n and A :: "nat \<Rightarrow> bool"
    by (metis le_Suc_eq)
  have "(\<forall>i \<le> length p. node_at fs (take i (p @ [c])) = Some Dir)
      \<longleftrightarrow> (\<forall>i \<le> length p. node_at fs (take i p) = Some Dir)"
    by simp
  then show ?thesis
    by (auto simp: plain_dir_def split) (auto simp: node_at_def)
qed

lemma plain_dir_butlast: "plain_dir fs p \<Longrightarrow> plain_dir fs (butlast p)"
  by (cases p rule: rev_cases) (auto simp: plain_dir_snoc)

lemma plain_path_dir: "plain_path fs p \<Longrightarrow> node_at fs p = Some Dir \<longleftrightarrow> plain_dir fs p"
  by (cases p rule: rev_cases)
    (auto simp: plain_path_def plain_dir_snoc node_at_def dest: plain_dir_node)

lemma plain_dir_path: "plain_dir fs p \<Longrightarrow> plain_path fs p"
  by (cases p rule: rev_cases) (auto simp: plain_path_def plain_dir_snoc plain_node_def)

lemma resolve_from_plain:
  "resolve_from n fs cur cs = Some q \<Longrightarrow> plain_path fs cur \<Longrightarrow> plain_path fs q"
proof (induction n fs cur cs rule: resolve_from.induct)
  case (2 fuel fs cur c cs)
  show ?case
  proof (cases "c = [] \<or> c = ''.'' \<or> c = ''..''")
    case True
    then show ?thesis
      using 2 by (auto simp: plain_path_dir plain_dir_path plain_dir_butlast split: if_splits)
  next
    case False
    then have dir: "plain_dir fs cur"
      using 2 by (auto simp: plain_path_dir split: if_splits)
    then have new: "plain_node (fs (cur @ [c])) \<Longrightarrow> plain_path fs (cur @ [c])"
      using False by (simp add: plain_path_def plain_name_def)
    have root: "plain_path fs []"
      by (simp add: plain_path_def)
    from 2 False dir new root show ?thesis
      by (auto simp: plain_node_def plain_dir_node plain_dir_path
          split: option.splits node.splits nat.splits PathBuf.splits)
  qed
qed simp

lemma realpath_plain: "realpath fs p = Some q \<Longrightarrow> plain_path fs q"
  unfolding realpath_def by (erule resolve_from_plain) (simp add: plain_path_def)

lemma resolve_from_dirs:
  "plain_dir fs (cur @ cs) \<Longrightarrow> resolve_from n fs cur cs = Some (cur @ cs)"
proof (induction cs arbitrary: cur)
  case (Cons c cs)
  then have "plain_dir fs ((cur @ [c]) @ cs)"
    by simp
  moreover have "plain_name c" "node_at fs cur = Some Dir" "node_at fs (cur @ [c]) = Some Dir"
    using Cons.prems
    by (auto simp: plain_dir_def dest: spec [of _ "length cur"] spec [of _ "Suc (length cur)"])
  ultimately show ?case
    using Cons.IH [of "cur @ [c]"] by (simp add: plain_name_def node_at_def)
qed simp

lemma realpath_dir: "plain_dir fs p \<Longrightarrow> realpath fs p = Some p"
  unfolding realpath_def using resolve_from_dirs [of fs "[]" p] by simp

lemma locate_child:
  "plain_dir fs d \<Longrightarrow> plain_name c \<Longrightarrow> locate fs (d @ [c]) = Some (d @ [c])"
  by (auto simp: locate_def realpath_dir plain_dir_node plain_name_def)

lemma plain_dir_cong:
  "plain_dir fs p \<Longrightarrow> (\<And>i. i \<le> length p \<Longrightarrow> fs' (take i p) = fs (take i p)) \<Longrightarrow> plain_dir fs' p"
  by (auto simp: plain_dir_def node_at_def)

lemma resolve_from_append:
  "resolve_from n fs cur cs = Some d \<Longrightarrow>
     \<exists>m. resolve_from n fs cur (cs @ es) = resolve_from m fs d es"
proof (induction n fs cur cs rule: resolve_from.induct)
  case (2 fuel fs cur c cs)
  then show ?case
    by (auto split: if_splits option.splits node.splits nat.splits PathBuf.splits)
qed auto

lemma realpath_locate:
  assumes "locate fs p = Some q" and "plain_node (node_at fs q)"
  shows "realpath fs p = Some q"
proof (cases "p = [] \<or> last p \<in> {[], ''.'', ''..''}")
  case True
  with assms show ?thesis by (simp add: locate_def)
next
  case False
  with assms(1) obtain d where d: "realpath fs (butlast p) = Some d" "node_at fs d = Some Dir"
    "q = d @ [last p]"
    by (auto simp: locate_def split: option.splits if_splits)
  from False have p: "p = butlast p @ [last p]" and name: "plain_name (last p)"
    by (auto simp: plain_name_def)
  from resolve_from_append [OF d(1) [unfolded realpath_def], of "[last p]"]
  obtain m where "realpath fs p = resolve_from m fs d [last p]"
    unfolding realpath_def using p by metis
  moreover have "node_at fs q = fs q"
    by (simp add: d(3) node_at_def)
  ultimately show ?thesis
    using name d assms(2)
    by (auto simp: plain_name_def plain_node_def split: option.splits node.splits)
qed

lemma plain_path_realpath:
  assumes "plain_path fs p"
  shows "realpath fs p = Some p"
proof (cases p rule: rev_cases)
  case Nil
  then show ?thesis by (simp add: realpath_def)
next
  case (snoc d c)
  with assms have "plain_dir fs d" "plain_name c" "plain_node (fs p)"
    by (auto simp: plain_path_def)
  then show ?thesis
    using realpath_locate [of fs p p] locate_child [of fs d c] snoc by (simp add: node_at_def)
qed

lemma read_file_plain: "plain_path fs q \<Longrightarrow> read_file fs q = Some bs \<Longrightarrow> fs q = Some (File bs)"
  by (auto simp: read_file_def stat_def plain_path_realpath node_at_def
      split: option.splits node.splits if_splits)

section \<open>Calls that only read\<close>

definition reads :: "('e, 'a) call \<Rightarrow> ('a \<Rightarrow> fs \<Rightarrow> bool) \<Rightarrow> bool" where
  "reads m R \<longleftrightarrow>
     (\<forall>w r w'. m w = (r, w') \<longrightarrow> wd_fs w' = wd_fs w \<and> (\<forall>x. r = Inr x \<longrightarrow> R x (wd_fs w)))"

lemma readsI:
  "(\<And>w r w'. m w = (r, w') \<Longrightarrow> wd_fs w' = wd_fs w \<and> (\<forall>x. r = Inr x \<longrightarrow> R x (wd_fs w))) \<Longrightarrow> reads m R"
  by (simp add: reads_def)

lemma reads_conseq: "reads m R \<Longrightarrow> (\<And>x fs. R x fs \<Longrightarrow> S x fs) \<Longrightarrow> reads m S"
  by (auto simp: reads_def)

lemma reads_ret: "reads (ret x) (\<lambda>y _. y = x)"
  by (auto simp: reads_def ret_def)

lemma reads_throw: "reads (throw e) R"
  by (auto simp: reads_def throw_def)

lemma reads_lift: "reads (lift r) (\<lambda>x _. r = Inr x)"
  by (auto simp: reads_def lift_def)

lemma reads_query: "reads (query e f) (\<lambda>x fs. f fs = Some x)"
  by (rule readsI)
    (auto simp: query_def syscall_def split: if_splits list.splits fault.splits option.splits)

lemma reads_touch: "reads (touch e) (\<lambda>_ _. True)"
  unfolding touch_def by (rule reads_conseq [OF reads_query]) simp

lemma reads_clock: "reads (read_clock e) (\<lambda>_ _. True)"
  by (rule readsI) (auto simp: read_clock_def split: list.splits option.splits)

lemma reads_process_id: "reads process_id (\<lambda>_ _. True)"
  by (rule readsI) (auto simp: process_id_def)

lemma reads_andThen:
  assumes "reads m Q" and "\<And>x. reads (f x) (R x)"
  shows "reads (andThen m f) (\<lambda>y fs. \<exists>x. Q x fs \<and> R x y fs)"
proof (rule readsI)
  fix w r w'
  assume run: "andThen m f w = (r, w')"
  obtain r1 w1 where m: "m w = (r1, w1)"
    by fastforce
  show "wd_fs w' = wd_fs w \<and> (\<forall>y. r = Inr y \<longrightarrow> (\<exists>x. Q x (wd_fs w) \<and> R x y (wd_fs w)))"
  proof (cases r1)
    case (Inl e)
    with run m assms(1) show ?thesis
      by (auto simp: andThen_def reads_def)
  next
    case (Inr x)
    with run m have "f x w1 = (r, w')"
      by (simp add: andThen_def)
    with assms(2) [of x] have "wd_fs w' = wd_fs w1 \<and> (\<forall>y. r = Inr y \<longrightarrow> R x y (wd_fs w1))"
      unfolding reads_def by blast
    moreover from assms(1) m Inr have "wd_fs w1 = wd_fs w \<and> Q x (wd_fs w)"
      unfolding reads_def by blast
    ultimately show ?thesis by auto
  qed
qed

lemma reads_attempt:
  "reads m R \<Longrightarrow> reads (attempt m) (\<lambda>r fs. \<forall>x. r = Inr x \<longrightarrow> R x fs)"
  by (auto simp: reads_def attempt_def split: prod.splits)

lemma reads_path_exists: "reads (path_exists p) (\<lambda>b fs. b \<longrightarrow> stat fs p \<noteq> None)"
  unfolding path_exists_def
  by (rule reads_conseq [OF reads_andThen [OF reads_attempt [OF reads_query] reads_ret]])
    (auto simp: is_ok_iff)

text \<open>That a call changes nothing, whatever its value, follows from its shape alone.\<close>

definition keeps :: "('e, 'a) call \<Rightarrow> bool" where
  "keeps m \<longleftrightarrow> reads m (\<lambda>_ _. True)"

lemma keeps_reads: "reads m R \<Longrightarrow> keeps m"
  unfolding keeps_def by (rule reads_conseq) simp_all

lemma keeps_andThen: "keeps m \<Longrightarrow> (\<And>x. keeps (f x)) \<Longrightarrow> keeps (andThen m f)"
  unfolding keeps_def by (rule reads_conseq [OF reads_andThen]) simp_all

lemma keeps_attempt: "keeps m \<Longrightarrow> keeps (attempt m)"
  unfolding keeps_def by (rule reads_conseq [OF reads_attempt]) simp_all

lemma keeps_if: "keeps m \<Longrightarrow> keeps n \<Longrightarrow> keeps (if b then m else n)"
  by simp

lemma keeps_option: "keeps m \<Longrightarrow> (\<And>x. keeps (f x)) \<Longrightarrow> keeps (case v of None \<Rightarrow> m | Some x \<Rightarrow> f x)"
  by (cases v) simp_all

lemma keeps_node:
  "keeps a \<Longrightarrow> (\<And>x. keeps (b x)) \<Longrightarrow> (\<And>x. keeps (c x)) \<Longrightarrow>
     keeps (case v of Dir \<Rightarrow> a | File x \<Rightarrow> b x | Symlink x \<Rightarrow> c x)"
  by (cases v) simp_all

lemma keeps_pair: "(\<And>x y. keeps (f x y)) \<Longrightarrow> keeps (case v of (x, y) \<Rightarrow> f x y)"
  by (cases v) simp

lemmas keeps_rules = keeps_andThen keeps_attempt keeps_if keeps_option keeps_node keeps_pair
  keeps_reads [OF reads_ret] keeps_reads [OF reads_throw] keeps_reads [OF reads_lift]
  keeps_reads [OF reads_query] keeps_reads [OF reads_clock] keeps_reads [OF reads_process_id]
  keeps_reads [OF reads_path_exists]

lemma keeps_run: "keeps m \<Longrightarrow> m w = (r, w') \<Longrightarrow> wd_fs w' = wd_fs w"
  by (auto simp: keeps_def reads_def)

lemma reads_keeps: "keeps m \<Longrightarrow> (\<And>w x w'. m w = (Inr x, w') \<Longrightarrow> R x (wd_fs w)) \<Longrightarrow> reads m R"
  by (auto simp: keeps_def reads_def)

section \<open>Triples\<close>

definition valid ::
    "(fs \<Rightarrow> bool) \<Rightarrow> ('e, 'a) call \<Rightarrow> ('a \<Rightarrow> fs \<Rightarrow> bool) \<Rightarrow> (fs \<Rightarrow> bool) \<Rightarrow> bool"
where
  "valid P m Q E \<longleftrightarrow>
     (\<forall>w r w'. P (wd_fs w) \<longrightarrow> m w = (r, w') \<longrightarrow>
        (\<forall>x. r = Inr x \<longrightarrow> Q x (wd_fs w')) \<and> (\<forall>e. r = Inl e \<longrightarrow> E (wd_fs w')))"

lemma validI:
  assumes "\<And>w x w'. P (wd_fs w) \<Longrightarrow> m w = (Inr x, w') \<Longrightarrow> Q x (wd_fs w')"
    and "\<And>w e w'. P (wd_fs w) \<Longrightarrow> m w = (Inl e, w') \<Longrightarrow> E (wd_fs w')"
  shows "valid P m Q E"
  using assms unfolding valid_def by blast

lemma validD_ok: "valid P m Q E \<Longrightarrow> m w = (Inr x, w') \<Longrightarrow> P (wd_fs w) \<Longrightarrow> Q x (wd_fs w')"
  unfolding valid_def by blast

lemma validD_err: "valid P m Q E \<Longrightarrow> m w = (Inl e, w') \<Longrightarrow> P (wd_fs w) \<Longrightarrow> E (wd_fs w')"
  unfolding valid_def by blast

lemma valid_conseq:
  assumes "valid P' m Q' E'" and "\<And>fs. P fs \<Longrightarrow> P' fs" and "\<And>x fs. Q' x fs \<Longrightarrow> Q x fs"
    and "\<And>fs. E' fs \<Longrightarrow> E fs"
  shows "valid P m Q E"
  by (rule validI) (metis assms validD_ok, metis assms validD_err)

lemma valid_ret: "(\<And>fs. P fs \<Longrightarrow> Q x fs) \<Longrightarrow> valid P (ret x) Q E"
  by (auto simp: valid_def ret_def)

lemma valid_throw: "(\<And>fs. P fs \<Longrightarrow> E fs) \<Longrightarrow> valid P (throw e) Q E"
  by (auto simp: valid_def throw_def)

lemma valid_lift:
  "(\<And>x fs. r = Inr x \<Longrightarrow> P fs \<Longrightarrow> Q x fs) \<Longrightarrow> (\<And>fs. P fs \<Longrightarrow> E fs) \<Longrightarrow> valid P (lift r) Q E"
  by (auto simp: valid_def lift_def split: sum.splits)

lemma valid_andThen:
  assumes "valid P m Q E" and "\<And>x. valid (Q x) (f x) R E"
  shows "valid P (andThen m f) R E"
proof (rule validI)
  fix w y w'
  assume "P (wd_fs w)" and "andThen m f w = (Inr y, w')"
  then show "R y (wd_fs w')"
    by (auto simp: andThen_def split: prod.splits sum.splits
        dest!: validD_ok [OF assms(1)] validD_ok [OF assms(2)])
next
  fix w e w'
  assume "P (wd_fs w)" and "andThen m f w = (Inl e, w')"
  then show "E (wd_fs w')"
    by (auto simp: andThen_def split: prod.splits sum.splits
        dest: validD_err [OF assms(1)] validD_ok [OF assms(1)] validD_err [OF assms(2)])
qed

lemma valid_attempt:
  assumes "valid P m Q E"
  shows "valid P (attempt m) (\<lambda>r fs. case r of Inl _ \<Rightarrow> E fs | Inr x \<Rightarrow> Q x fs) E'"
  by (rule validI)
    (auto simp: attempt_def split: prod.splits sum.splits
      dest: validD_ok [OF assms] validD_err [OF assms])

lemma valid_reads:
  assumes "reads m R" and "\<And>x fs. P fs \<Longrightarrow> R x fs \<Longrightarrow> Q x fs" and "\<And>fs. P fs \<Longrightarrow> E fs"
  shows "valid P m Q E"
  using assms unfolding valid_def reads_def by metis

lemma valid_syscall:
  assumes "\<And>x fs fs'. P fs \<Longrightarrow> op fs = Some (x, fs') \<Longrightarrow> Q x fs'"
    and "\<And>fs. P fs \<Longrightarrow> E fs" and "\<And>n fs. P fs \<Longrightarrow> E (partial n fs)"
  shows "valid P (syscall e op partial) Q E"
  by (rule validI)
    (auto simp: syscall_def intro: assms split: list.splits fault.splits option.splits if_splits)

lemma valid_change:
  assumes "\<And>x fs fs'. P fs \<Longrightarrow> op fs = Some (x, fs') \<Longrightarrow> Q x fs'" and "\<And>fs. P fs \<Longrightarrow> E fs"
  shows "valid P (change e op) Q E"
  unfolding change_def by (rule valid_syscall) (rule assms; assumption)+

text \<open>A recursive removal, interrupted or not, touches nothing outside the tree it removes.\<close>

lemma remove_part_outside:
  assumes "locate fs p = Some q" and "take (length q) r \<noteq> q \<or> r = q"
  shows "remove_part p gone fs r = fs r"
proof -
  have "g = q" if "take (length q) g = q" "take (length g) q = g" for g
  proof -
    from arg_cong [OF that(1), of length] have "take (length g) q = q" by simp
    with that(2) show ?thesis by simp
  qed
  with assms show ?thesis
    by (auto simp: remove_part_def list_ex_iff)
qed

lemma remove_all_outside:
  "remove_dir_all p fs = Some (x, fs') \<Longrightarrow> locate fs p = Some q \<Longrightarrow> take (length q) r \<noteq> q \<Longrightarrow> fs' r = fs r"
  by (auto simp: remove_dir_all_def split: option.splits node.splits)

lemma valid_remove_tree:
  assumes "\<And>fs. P fs \<Longrightarrow> locate fs p = Some q"
    and "\<And>x fs fs'. P fs \<Longrightarrow> remove_dir_all p fs = Some (x, fs') \<Longrightarrow> Q x fs'"
    and "\<And>fs. P fs \<Longrightarrow> E fs"
    and "\<And>fs fs'. P fs \<Longrightarrow> fs' q = fs q \<Longrightarrow> (\<And>r. take (length q) r \<noteq> q \<Longrightarrow> fs' r = fs r) \<Longrightarrow> E fs'"
  shows "valid P (remove_tree e p) Q E"
  unfolding remove_tree_def
proof (rule valid_syscall)
  show "E (remove_part p (extent_removed n) fs)" if "P fs" for n fs
    by (rule assms(4) [OF that]) (simp_all add: remove_part_outside [OF assms(1) [OF that]])
next
  show "Q x fs'" if "P fs" "remove_dir_all p fs = Some (x, fs')" for x fs fs'
    using that by (rule assms(2))
qed (rule assms(3))

lemma valid_if:
  "(b \<Longrightarrow> valid P m Q E) \<Longrightarrow> (\<not> b \<Longrightarrow> valid P n Q E) \<Longrightarrow> valid P (if b then m else n) Q E"
  by simp

text \<open>A reading call followed by the rest, with and without what the value tells.\<close>

lemma valid_read_then:
  assumes "reads m R" and "\<And>fs. P fs \<Longrightarrow> E fs" and "\<And>x. valid (\<lambda>fs. P fs \<and> R x fs) (f x) Q E"
  shows "valid P (andThen m f) Q E"
  by (rule valid_andThen [OF valid_reads [OF assms(1)] assms(3)]) (use assms(2) in auto)

lemma valid_pass:
  assumes "reads m R" and "\<And>fs. P fs \<Longrightarrow> E fs" and "\<And>x. valid P (f x) Q E"
  shows "valid P (andThen m f) Q E"
  by (rule valid_andThen [OF valid_reads [OF assms(1)] assms(3)]) (use assms(2) in auto)

lemma valid_each: "(\<And>F. P F \<Longrightarrow> valid (\<lambda>fs. fs = F) m Q E) \<Longrightarrow> valid P m Q E"
  unfolding valid_def by blast

text \<open>What the value of a read tells about the file system it was read from.\<close>

lemma reads_ok: "reads m R \<Longrightarrow> m w = (Inr x, w') \<Longrightarrow> wd_fs w' = wd_fs w \<and> R x (wd_fs w)"
  by (auto simp: reads_def)

lemma reads_err: "reads m R \<Longrightarrow> m w = (Inl e, w') \<Longrightarrow> wd_fs w' = wd_fs w"
  by (auto simp: reads_def)

lemma andThen_ok: "andThen m f w = (Inr y, w') \<longleftrightarrow> (\<exists>x w1. m w = (Inr x, w1) \<and> f x w1 = (Inr y, w'))"
  by (auto simp: andThen_def split: prod.splits sum.splits)

section \<open>Calls without failures\<close>

definition calm :: "world \<Rightarrow> bool" where
  "calm w \<longleftrightarrow> wd_faults w = [] \<and> \<not> wd_stopped w"

lemma calm_query:
  assumes "calm w"
  shows "query e f w = (case f (wd_fs w) of None \<Rightarrow> (Inl e, w) | Some x \<Rightarrow> (Inr x, w))"
proof -
  have "w\<lparr>wd_faults := []\<rparr> = w" and "w\<lparr>wd_faults := [], wd_fs := wd_fs w\<rparr> = w"
    using assms by (simp_all add: calm_def)
  with assms show ?thesis
    by (simp add: query_def syscall_def calm_def split: option.split)
qed

lemma calm_touch: "calm w \<Longrightarrow> touch e w = (Inr (), w)"
  by (simp add: touch_def calm_query)

lemma run_simps:
  "ret x w = (Inr x, w)" "throw e w = (Inl e, w)" "lift r w = (r, w)"
  by (simp_all add: ret_def throw_def lift_def)

lemma andThen_run:
  "m w = (Inr x, w') \<Longrightarrow> andThen m f w = f x w'" "m w = (Inl e, w') \<Longrightarrow> andThen m f w = (Inl e, w')"
  by (simp_all add: andThen_def)

lemma attempt_run: "m w = (r, w') \<Longrightarrow> attempt m w = (Inr r, w')"
  by (simp add: attempt_def)

end
