(* ===== verification/Updater.thy ===== *)
theory Updater
  imports FsLogic ProtocolTypes
begin

text \<open>
  \<^verbatim>\<open>crates/certael-agent-updater/src/lib.rs\<close> on Unix: staging, installing, activating, rolling back and
  recovering versions of the Agent.

  Calls run on the file system of \<open>FileSystem\<close>, with its schedule of failures and crashes. Parameters:
  SHA-256 (in \<open>lib\<close>), the JSON encoder and decoder \<^verbatim>\<open>serde_json\<close> derives for the activation state
  (\<open>json\<close>), and the TUF client \<^verbatim>\<open>tough\<close> (\<open>tough\<close>). A \<open>Url\<close> is its scheme and its host.

  Every operation on the activation state has the shape \<open>commit\<close>: compute the next state from what is
  on disk, then swap the state file. The locale \<open>activation_update\<close> states that shape, and its lemmas
  (the swap is atomic, what the result says is on disk) are interpreted for the four operations.
\<close>

section \<open>Data\<close>

definition MAX_TRUSTED_ROOT_BYTES :: nat where
  "MAX_TRUSTED_ROOT_BYTES = 1024 * 1024"

definition MAX_ACTIVATION_STATE_BYTES :: nat where
  "MAX_ACTIVATION_STATE_BYTES = 64 * 1024"

record Url =
  url_scheme :: string
  url_host :: "string option"

record UpdateConfig =
  upd_trusted_root :: PathBuf
  upd_metadata_base_url :: Url
  upd_targets_base_url :: Url
  upd_datastore :: PathBuf
  upd_staging_directory :: PathBuf
  upd_target_name :: string

datatype UpdateError =
  InvalidConfiguration | TrustedRoot | Verification | TargetMissing | Installation
| InvalidActivationState | NoPendingUpdate | NoRollback

record InstallConfig =
  inst_install_root :: PathBuf
  inst_version :: string
  inst_installed_name :: string

record VerifiedReleaseTarget =
  rel_path :: path
  rel_version :: string
  rel_channel :: string
  rel_platform :: string

record ActivationSlot =
  slot_version :: string
  slot_relative_path :: string
  slot_sha256 :: string

record ActivationState =
  act_format_version :: u32
  act_active :: "ActivationSlot option"
  act_previous :: "ActivationSlot option"
  act_pending :: "ActivationSlot option"

definition default_activation_state :: ActivationState where
  "default_activation_state =
     \<lparr>act_format_version = 1, act_active = None, act_previous = None, act_pending = None\<rparr>"

record json =
  json_to_vec :: "ActivationState \<Rightarrow> bytes option"
  json_from_slice :: "bytes \<Rightarrow> ActivationState option"

section \<open>Validation\<close>

definition windows_reserved_component :: "string \<Rightarrow> bool" where
  "windows_reserved_component value =
     (let stem = to_ascii_uppercase (hd (split_on (\<lambda>c. c = CHR ''.'') value)) in
      stem \<in> {''CON'', ''PRN'', ''AUX'', ''NUL''} \<or>
      length stem = 4 \<and> (starts_with stem ''COM'' \<or> starts_with stem ''LPT'') \<and>
        49 \<le> code (stem ! 3) \<and> code (stem ! 3) \<le> 57)"

definition safe_component :: "string \<Rightarrow> bool" where
  "safe_component value \<longleftrightarrow>
     value \<noteq> [] \<and> length value \<le> 128 \<and> value \<noteq> ''.'' \<and> value \<noteq> ''..'' \<and>
     \<not> windows_reserved_component value \<and>
     list_all (\<lambda>c. is_ascii_alphanumeric c \<or> c \<in> {CHR ''.'', CHR ''_'', CHR ''-''}) value"

definition valid_digest :: "string \<Rightarrow> bool" where
  "valid_digest value \<longleftrightarrow> length value = 64 \<and> list_all is_ascii_hexdigit value"

definition absolute :: "PathBuf \<Rightarrow> bool" where
  "absolute p = (case p of AbsolutePath _ \<Rightarrow> True | RelativePath _ \<Rightarrow> False)"

primrec path_pieces :: "PathBuf \<Rightarrow> path" where
  "path_pieces (AbsolutePath p) = p"
| "path_pieces (RelativePath p) = p"

definition validate_slot :: "ActivationSlot \<Rightarrow> UpdateError + unit" where
  "validate_slot slot =
     (if \<not> safe_component (slot_version slot)
        \<or> \<not> valid_digest (slot_sha256 slot)
        \<or> is_absolute (slot_relative_path slot)
        \<or> \<not> list_all is_normal (components (slot_relative_path slot))
        \<or> \<not> starts_with (slot_relative_path slot) (''versions/'' @ slot_version slot @ ''/'')
      then Inl InvalidActivationState else Inr ())"

text \<open>\<open>into_iter().flatten()\<close> over the three slots; the first bad one is the error.\<close>

definition state_slots :: "ActivationState \<Rightarrow> ActivationSlot list" where
  "state_slots state =
     List.map_filter id [act_active state, act_previous state, act_pending state]"

fun validate_slots :: "ActivationSlot list \<Rightarrow> UpdateError + unit" where
  "validate_slots [] = Inr ()"
| "validate_slots (slot # slots) = bindE (validate_slot slot) (\<lambda>_. validate_slots slots)"

definition validate_state :: "ActivationState \<Rightarrow> UpdateError + unit" where
  "validate_state state =
     (if act_format_version state \<noteq> 1 then Inl InvalidActivationState
      else validate_slots (state_slots state))"

definition validate_install :: "InstallConfig \<Rightarrow> string \<Rightarrow> UpdateError + unit" where
  "validate_install config expected_sha256 =
     (if \<not> absolute (inst_install_root config)
        \<or> \<not> safe_component (inst_version config)
        \<or> \<not> safe_component (inst_installed_name config)
        \<or> \<not> valid_digest expected_sha256
      then Inl InvalidConfiguration else Inr ())"

definition validate :: "UpdateConfig \<Rightarrow> UpdateError + unit" where
  "validate config =
     (if url_scheme (upd_metadata_base_url config) \<noteq> ''https''
        \<or> url_scheme (upd_targets_base_url config) \<noteq> ''https''
        \<or> url_host (upd_metadata_base_url config) = None
        \<or> url_host (upd_targets_base_url config) = None
        \<or> upd_target_name config = []
        \<or> 255 < length (upd_target_name config)
        \<or> \<not> absolute (upd_trusted_root config)
        \<or> \<not> absolute (upd_datastore config)
        \<or> \<not> absolute (upd_staging_directory config)
      then Inl InvalidConfiguration else Inr ())"

section \<open>Files\<close>

definition is_regular :: "node \<Rightarrow> bool" where
  "is_regular n = (case n of File _ \<Rightarrow> True | _ \<Rightarrow> False)"

definition canonical_install_root :: "PathBuf \<Rightarrow> (UpdateError, path) call" where
  "canonical_install_root p =
     (if \<not> absolute p then throw InvalidConfiguration
      else andThen (query InvalidConfiguration (\<lambda>fs. lstat fs (path_pieces p))) (\<lambda>metadata.
        if metadata \<noteq> Dir then throw InvalidConfiguration
        else query InvalidConfiguration (\<lambda>fs. realpath fs (path_pieces p))))"

definition hash_file :: "'v lib \<Rightarrow> path \<Rightarrow> (UpdateError, string) call" where
  "hash_file L p =
     andThen (query Verification (\<lambda>fs. lstat fs p)) (\<lambda>metadata.
     if \<not> is_regular metadata then throw Verification
     else andThen (query Verification (\<lambda>fs. read_file fs p)) (\<lambda>contents.
       ret (hex_encode (sha256 L contents))))"

definition verify_slot :: "'v lib \<Rightarrow> path \<Rightarrow> ActivationSlot \<Rightarrow> (UpdateError, unit) call" where
  "verify_slot L root slot =
     andThen (lift (validate_slot slot)) (\<lambda>_.
     andThen (query Verification (\<lambda>fs. realpath fs (join_path root (slot_relative_path slot))))
       (\<lambda>canonical.
     if take (length root) canonical \<noteq> root then throw Verification
     else andThen (hash_file L canonical) (\<lambda>digest.
       if digest \<noteq> slot_sha256 slot then throw Verification else ret ())))"

text \<open>The 64 KiB buffer of the copy loop.\<close>

function file_chunks :: "nat \<Rightarrow> bytes \<Rightarrow> bytes list" where
  "file_chunks n bs =
     (if n = 0 \<or> bs = [] then [] else take n bs # file_chunks n (drop n bs))"
  by auto
termination by (relation "measure (length \<circ> snd)") auto

declare file_chunks.simps [simp del]

fun copy_chunks :: "path \<Rightarrow> bytes list \<Rightarrow> (UpdateError, unit) call" where
  "copy_chunks destination [] = touch Installation"
| "copy_chunks destination (chunk # chunks) =
     andThen (touch Installation) (\<lambda>_.
     andThen (write_handle Installation destination chunk) (\<lambda>_.
     copy_chunks destination chunks))"

definition copy_and_verify ::
    "'v lib \<Rightarrow> path \<Rightarrow> path \<Rightarrow> string \<Rightarrow> (UpdateError, unit) call"
where
  "copy_and_verify L source destination expected =
     andThen (query Installation (\<lambda>fs. read_file fs source)) (\<lambda>contents.
     andThen (change Installation (create_new destination)) (\<lambda>handle.
     andThen (copy_chunks handle (file_chunks 65536 contents)) (\<lambda>_.
     if hex_encode (sha256 L contents) \<noteq> expected then throw Verification
     else andThen (touch Installation) (\<lambda>_. touch Installation))))"

definition sync_directory :: "path \<Rightarrow> (UpdateError, unit) call" where
  "sync_directory p =
     andThen (query Installation (\<lambda>fs. stat fs p)) (\<lambda>_. touch Installation)"

definition atomic_replace :: "path \<Rightarrow> path \<Rightarrow> (UpdateError, unit) call" where
  "atomic_replace source destination = change Installation (rename source destination)"

section \<open>The activation state file\<close>

definition activation_path :: "path \<Rightarrow> path" where
  "activation_path root = join_path root ''activation.json''"

definition read_activation_state_canonical :: "json \<Rightarrow> path \<Rightarrow> (UpdateError, ActivationState) call" where
  "read_activation_state_canonical J install_root =
     andThen (path_exists (activation_path install_root)) (\<lambda>present.
     if \<not> present then ret default_activation_state
     else
       andThen (query InvalidActivationState (\<lambda>fs. lstat fs (activation_path install_root))) (\<lambda>metadata.
       case metadata of
         File contents \<Rightarrow>
           if contents = [] \<or> MAX_ACTIVATION_STATE_BYTES < length contents
           then throw InvalidActivationState
           else
             andThen (query InvalidActivationState (\<lambda>fs. read_file fs (activation_path install_root)))
               (\<lambda>bytes.
             andThen (lift (ok_or InvalidActivationState (json_from_slice J bytes))) (\<lambda>state.
             andThen (lift (validate_state state)) (\<lambda>_. ret state)))
       | _ \<Rightarrow> throw InvalidActivationState))"

definition read_activation_state :: "json \<Rightarrow> PathBuf \<Rightarrow> (UpdateError, ActivationState) call" where
  "read_activation_state J install_root =
     andThen (canonical_install_root install_root) (\<lambda>root. read_activation_state_canonical J root)"

definition activation_temporary :: "nat \<Rightarrow> nat \<Rightarrow> string" where
  "activation_temporary pid nonce = ''.activation-'' @ show_nat pid @ ''-'' @ show_nat nonce @ ''.tmp''"

text \<open>From the created temporary on: write, synchronise, replace, synchronise the directory.\<close>

definition swap_state_file :: "path \<Rightarrow> path \<Rightarrow> path \<Rightarrow> bytes \<Rightarrow> (UpdateError, unit) call" where
  "swap_state_file root temporary handle bytes =
     andThen (attempt
       (andThen (write_handle Installation handle bytes) (\<lambda>_.
        andThen (touch Installation) (\<lambda>_.
        andThen (atomic_replace temporary (activation_path root)) (\<lambda>_.
        sync_directory root))))) (\<lambda>result.
     if is_ok result then ret ()
     else andThen (attempt (change () (remove_file temporary))) (\<lambda>_. lift result))"

definition write_activation_state :: "json \<Rightarrow> path \<Rightarrow> ActivationState \<Rightarrow> (UpdateError, unit) call" where
  "write_activation_state J root state =
     andThen (lift (validate_state state)) (\<lambda>_.
     andThen (lift (ok_or Installation (json_to_vec J state))) (\<lambda>bytes.
     if bytes = [] \<or> MAX_ACTIVATION_STATE_BYTES < length bytes then throw Installation
     else
       andThen (read_clock Installation) (\<lambda>nonce.
       andThen process_id (\<lambda>pid.
       let temporary = join_path root (activation_temporary pid nonce) in
       andThen (change Installation (create_new temporary)) (\<lambda>handle.
       andThen (touch Installation) (\<lambda>_.
       swap_state_file root temporary handle bytes))))))"

text \<open>The last two statements of every operation: write the state, return it.\<close>

definition commit ::
    "json \<Rightarrow> path \<Rightarrow> (UpdateError, ActivationState) call \<Rightarrow> (UpdateError, ActivationState) call"
where
  "commit J root next =
     andThen next (\<lambda>state. andThen (write_activation_state J root state) (\<lambda>_. ret state))"

section \<open>The operations\<close>

definition activate_pending :: "'v lib \<Rightarrow> json \<Rightarrow> PathBuf \<Rightarrow> (UpdateError, ActivationState) call" where
  "activate_pending L J install_root =
     andThen (canonical_install_root install_root) (\<lambda>root.
     commit J root
       (andThen (read_activation_state J (AbsolutePath root)) (\<lambda>state.
        andThen (lift (ok_or NoPendingUpdate (act_pending state))) (\<lambda>pending.
        andThen (verify_slot L root pending) (\<lambda>_.
        ret (state\<lparr>act_previous := act_active state, act_active := Some pending,
                   act_pending := None\<rparr>))))))"

definition rollback :: "'v lib \<Rightarrow> json \<Rightarrow> PathBuf \<Rightarrow> (UpdateError, ActivationState) call" where
  "rollback L J install_root =
     andThen (canonical_install_root install_root) (\<lambda>root.
     commit J root
       (andThen (read_activation_state J (AbsolutePath root)) (\<lambda>state.
        andThen (lift (ok_or NoRollback (act_previous state))) (\<lambda>previous.
        andThen (verify_slot L root previous) (\<lambda>_.
        ret (state\<lparr>act_active := Some previous, act_previous := act_active state,
                   act_pending := None\<rparr>))))))"

text \<open>\<open>slot.is_some_and(|slot| verify_slot(&root, slot).is_err())\<close>\<close>

definition slot_fails :: "'v lib \<Rightarrow> path \<Rightarrow> ActivationSlot option \<Rightarrow> (UpdateError, bool) call" where
  "slot_fails L root slot_opt =
     (case slot_opt of
        None \<Rightarrow> ret False
      | Some slot \<Rightarrow> andThen (attempt (verify_slot L root slot)) (\<lambda>r. ret (\<not> is_ok r)))"

text \<open>The repair of the state between reading and writing it.\<close>

definition recover_state ::
    "'v lib \<Rightarrow> path \<Rightarrow> ActivationState \<Rightarrow> (UpdateError, ActivationState) call"
where
  "recover_state L root state =
     andThen (slot_fails L root (act_pending state)) (\<lambda>pending_fails.
     let state = (if pending_fails then state\<lparr>act_pending := None\<rparr> else state) in
     andThen (slot_fails L root (act_active state)) (\<lambda>active_fails.
     if active_fails then
       andThen (lift (ok_or InvalidActivationState (act_previous state))) (\<lambda>previous.
       andThen (verify_slot L root previous) (\<lambda>_.
       ret (state\<lparr>act_active := Some previous, act_previous := None\<rparr>)))
     else
       andThen (slot_fails L root (act_previous state)) (\<lambda>previous_fails.
       ret (if previous_fails then state\<lparr>act_previous := None\<rparr> else state))))"

definition recover :: "'v lib \<Rightarrow> json \<Rightarrow> PathBuf \<Rightarrow> (UpdateError, ActivationState) call" where
  "recover L J install_root =
     andThen (canonical_install_root install_root) (\<lambda>root.
     commit J root
       (andThen (read_activation_state J (AbsolutePath root)) (\<lambda>state.
        recover_state L root state)))"

definition version_relative_path :: "string \<Rightarrow> string \<Rightarrow> string" where
  "version_relative_path version installed_name = ''versions/'' @ version @ ''/'' @ installed_name"

definition registered_state :: "bool \<Rightarrow> ActivationSlot \<Rightarrow> ActivationState \<Rightarrow> ActivationState" where
  "registered_state activate slot state =
     (if act_active state = None then state\<lparr>act_active := Some slot\<rparr>
      else if act_active state \<noteq> Some slot then
        (if activate
         then state\<lparr>act_pending := None, act_previous := act_active state, act_active := Some slot\<rparr>
         else state\<lparr>act_pending := Some slot\<rparr>)
      else state)"

definition register_state ::
    "'v lib \<Rightarrow> json \<Rightarrow> string \<Rightarrow> string \<Rightarrow> bool \<Rightarrow> path \<Rightarrow> (UpdateError, ActivationState) call"
where
  "register_state L J version installed_name activate root =
     (if \<not> safe_component version \<or> \<not> safe_component installed_name
      then throw InvalidConfiguration
      else
        let relative_path = version_relative_path version installed_name in
        andThen (hash_file L (join_path root relative_path)) (\<lambda>digest.
        let slot = \<lparr>slot_version = version, slot_relative_path = relative_path,
                    slot_sha256 = digest\<rparr> in
        andThen (verify_slot L root slot) (\<lambda>_.
        andThen (read_activation_state_canonical J root) (\<lambda>state.
        ret (registered_state activate slot state)))))"

definition register_existing_version ::
    "'v lib \<Rightarrow> json \<Rightarrow> string \<Rightarrow> string \<Rightarrow> bool \<Rightarrow> PathBuf \<Rightarrow> (UpdateError, ActivationState) call"
where
  "register_existing_version L J version installed_name activate install_root =
     andThen (canonical_install_root install_root) (\<lambda>root.
     commit J root (register_state L J version installed_name activate root))"

definition active_target :: "'v lib \<Rightarrow> json \<Rightarrow> PathBuf \<Rightarrow> (UpdateError, path) call" where
  "active_target L J install_root =
     andThen (canonical_install_root install_root) (\<lambda>root.
     andThen (recover L J (AbsolutePath root)) (\<lambda>state.
     andThen (lift (ok_or InvalidActivationState (act_active state))) (\<lambda>active.
     andThen (verify_slot L root active) (\<lambda>_.
     query InvalidActivationState
       (\<lambda>fs. realpath fs (join_path root (slot_relative_path active)))))))"

section \<open>Installing a staged target\<close>

text \<open>Up to the \<open>versions\<close> directory: the canonical root.\<close>

definition prepare_install_root ::
    "path \<Rightarrow> InstallConfig \<Rightarrow> string \<Rightarrow> (UpdateError, path) call"
where
  "prepare_install_root staged_target config expected_sha256 =
     andThen (lift (validate_install config expected_sha256)) (\<lambda>_.
     andThen (query Installation (\<lambda>fs. lstat fs staged_target)) (\<lambda>staged_metadata.
     if \<not> is_regular staged_metadata then throw Installation
     else
       let install_root = path_pieces (inst_install_root config) in
       andThen (create_dir_all Installation install_root) (\<lambda>_.
       andThen (query Installation (\<lambda>fs. lstat fs install_root)) (\<lambda>root_metadata.
       if root_metadata \<noteq> Dir then throw Installation
       else
         andThen (query Installation (\<lambda>fs. realpath fs install_root)) (\<lambda>root.
         andThen (create_dir_all Installation (join_path root ''versions'')) (\<lambda>_.
         andThen (query Installation (\<lambda>fs. lstat fs (join_path root ''versions'')))
           (\<lambda>versions_metadata.
         if versions_metadata \<noteq> Dir then throw Installation else ret root)))))))"

definition install_temporary :: "nat \<Rightarrow> nat \<Rightarrow> string" where
  "install_temporary pid nonce = ''.install-'' @ show_nat pid @ ''-'' @ show_nat nonce"

text \<open>The branch for a version that is not there yet: copy, verify, then move the directory.\<close>

definition place_version ::
    "'v lib \<Rightarrow> path \<Rightarrow> InstallConfig \<Rightarrow> path \<Rightarrow> string \<Rightarrow> (UpdateError, unit) call"
where
  "place_version L staged_target config versions digest =
     andThen (read_clock Installation) (\<lambda>nonce.
     andThen process_id (\<lambda>pid.
     let temporary = join_path versions (install_temporary pid nonce) in
     andThen (change Installation (mkdir temporary)) (\<lambda>_.
     andThen (attempt
       (andThen (copy_and_verify L staged_target
                  (join_path temporary (inst_installed_name config)) digest) (\<lambda>_.
        andThen (sync_directory temporary) (\<lambda>_.
        andThen (change Installation (rename temporary (join_path versions (inst_version config))))
          (\<lambda>_. sync_directory versions))))) (\<lambda>result.
     if is_ok result then ret ()
     else andThen (attempt (remove_tree () temporary)) (\<lambda>_. lift result)))))"

definition install_verified_target ::
    "'v lib \<Rightarrow> json \<Rightarrow> path \<Rightarrow> InstallConfig \<Rightarrow> string \<Rightarrow> (UpdateError, path) call"
where
  "install_verified_target L J staged_target config expected_sha256 =
     andThen (prepare_install_root staged_target config expected_sha256) (\<lambda>root.
     let versions = join_path root ''versions'';
         final_target = join_path (join_path versions (inst_version config)) (inst_installed_name config);
         slot = \<lparr>slot_version = inst_version config,
                 slot_relative_path =
                   version_relative_path (inst_version config) (inst_installed_name config),
                 slot_sha256 = to_ascii_lowercase expected_sha256\<rparr> in
     andThen (path_exists final_target) (\<lambda>present.
     andThen
       (if present then
          andThen (hash_file L final_target) (\<lambda>digest.
          if digest \<noteq> slot_sha256 slot then throw Installation else ret ())
        else place_version L staged_target config versions (slot_sha256 slot)) (\<lambda>_.
     andThen (verify_slot L root slot) (\<lambda>_.
     andThen (read_activation_state J (AbsolutePath root)) (\<lambda>state.
     andThen (write_activation_state J root (state\<lparr>act_pending := Some slot\<rparr>)) (\<lambda>_.
     ret final_target))))))"

section \<open>Staging through the TUF client\<close>

text \<open>
  \<open>tuf_load\<close> is \<open>RepositoryLoader::load\<close> with the given root, configuration and the fixed limits,
  \<open>tuf_target_name\<close> is \<open>TargetName::new\<close>, \<open>tuf_targets\<close> is \<open>all_targets\<close> with the string values of the
  custom metadata, and \<open>tuf_save_target\<close> writes a verified target below a directory. A \<open>TargetName\<close> is
  given by the raw name it was made from; \<open>tuf_same_target\<close> is the client's equality of two of them and
  \<open>tuf_resolved\<close> is \<open>TargetName::resolved\<close>, the path the client gives to a target.
\<close>

record 'r tough =
  tuf_load :: "bytes \<Rightarrow> UpdateConfig \<Rightarrow> (UpdateError, 'r) call"
  tuf_target_name :: "string \<Rightarrow> string option"
  tuf_same_target :: "string \<Rightarrow> string \<Rightarrow> bool"
  tuf_resolved :: "string \<Rightarrow> string"
  tuf_targets :: "'r \<Rightarrow> (string \<times> (string \<rightharpoonup> string)) list"
  tuf_save_target :: "'r \<Rightarrow> string \<Rightarrow> path \<Rightarrow> (UpdateError, unit) call"

definition custom_string :: "(string \<rightharpoonup> string) \<Rightarrow> string \<Rightarrow> UpdateError + string" where
  "custom_string custom name =
     (case custom name of
        Some value \<Rightarrow> if safe_component value then Inr value else Inl Verification
      | None \<Rightarrow> Inl Verification)"

definition verify_and_stage_release ::
    "'r tough \<Rightarrow> UpdateConfig \<Rightarrow> (UpdateError, VerifiedReleaseTarget) call"
where
  "verify_and_stage_release T config =
     andThen (lift (validate config)) (\<lambda>_.
     andThen (query TrustedRoot (\<lambda>fs. stat fs (path_pieces (upd_trusted_root config)))) (\<lambda>metadata.
     case metadata of
       File contents \<Rightarrow>
         if contents = [] \<or> MAX_TRUSTED_ROOT_BYTES < length contents then throw TrustedRoot
         else
           andThen (query TrustedRoot (\<lambda>fs. read_file fs (path_pieces (upd_trusted_root config))))
             (\<lambda>trusted_root.
           andThen (create_dir_all InvalidConfiguration (path_pieces (upd_datastore config))) (\<lambda>_.
           andThen (create_dir_all InvalidConfiguration (path_pieces (upd_staging_directory config)))
             (\<lambda>_.
           andThen (tuf_load T trusted_root config) (\<lambda>repository.
           andThen (lift (ok_or InvalidConfiguration (tuf_target_name T (upd_target_name config))))
             (\<lambda>target.
           andThen (lift (ok_or TargetMissing (map_option snd
               (find (\<lambda>(candidate, _). tuf_same_target T candidate target) (tuf_targets T repository)))))
             (\<lambda>custom.
           andThen (lift (custom_string custom ''version'')) (\<lambda>version.
           andThen (lift (custom_string custom ''channel'')) (\<lambda>channel.
           andThen (lift (custom_string custom ''platform'')) (\<lambda>platform.
           andThen (tuf_save_target T repository target (path_pieces (upd_staging_directory config)))
             (\<lambda>_.
           ret \<lparr>rel_path = join_path (path_pieces (upd_staging_directory config)) (tuf_resolved T target),
                rel_version = version, rel_channel = channel, rel_platform = platform\<rparr>))))))))))
     | _ \<Rightarrow> throw TrustedRoot))"

definition verify_and_stage :: "'r tough \<Rightarrow> UpdateConfig \<Rightarrow> (UpdateError, path) call" where
  "verify_and_stage T config =
     andThen (verify_and_stage_release T config) (\<lambda>release. ret (rel_path release))"

definition verify_stage_and_install_automatic ::
    "'v lib \<Rightarrow> json \<Rightarrow> 'r tough \<Rightarrow> UpdateConfig \<Rightarrow> PathBuf \<Rightarrow> string \<Rightarrow> string \<Rightarrow> string
      \<Rightarrow> (UpdateError, path) call"
where
  "verify_stage_and_install_automatic L J T update install_root installed_name expected_channel
     expected_platform =
     andThen (verify_and_stage_release T update) (\<lambda>release.
     if rel_channel release \<noteq> expected_channel \<or> rel_platform release \<noteq> expected_platform
     then throw Verification
     else andThen (hash_file L (rel_path release)) (\<lambda>expected_sha256.
       install_verified_target L J (rel_path release)
         \<lparr>inst_install_root = install_root, inst_version = rel_version release,
          inst_installed_name = installed_name\<rparr> expected_sha256))"

definition verify_stage_and_install ::
    "'v lib \<Rightarrow> json \<Rightarrow> 'r tough \<Rightarrow> UpdateConfig \<Rightarrow> InstallConfig \<Rightarrow> (UpdateError, path) call"
where
  "verify_stage_and_install L J T update install =
     andThen (verify_and_stage T update) (\<lambda>staged.
     andThen (hash_file L staged) (\<lambda>expected_sha256.
     install_verified_target L J staged install expected_sha256))"

end
