(* ===== verification/UpdaterFacts.thy ===== *)
theory UpdaterFacts
  imports Updater
begin

text \<open>
  Facts on the operations of \<open>Updater\<close>, for every schedule of failures and crashes.

  The first sections characterise what the reading calls return. \<open>state_swap\<close> is the effect of
  \<open>write_activation_state\<close>: nothing but the state file and its temporary changes, and the state file
  holds either what it held or the whole new state. The locale \<open>activation_update\<close> carries this over
  to the operations.
\<close>

section \<open>Names\<close>

lemma slash_pieces_single: "CHR ''/'' \<notin> set c \<Longrightarrow> slash_pieces c = [c]"
  unfolding slash_pieces_def by (rule split_on_no_sep) auto

lemma join_path_child: "CHR ''/'' \<notin> set c \<Longrightarrow> c \<noteq> [] \<Longrightarrow> join_path d c = d @ [c]"
  by (cases c) (auto simp: join_path_def is_absolute_def starts_with_def slash_pieces_single)

lemma safe_component_plain: "safe_component c \<Longrightarrow> plain_name c"
  by (simp add: safe_component_def plain_name_def)

lemma safe_component_no_slash:
  assumes "safe_component c"
  shows "CHR ''/'' \<notin> set c"
proof -
  have "\<not> (is_ascii_alphanumeric (CHR ''/'') \<or> CHR ''/'' \<in> {CHR ''.'', CHR ''_'', CHR ''-''})"
    by (simp add: ascii_class_defs)
  with assms show ?thesis
    unfolding safe_component_def list_all_iff by blast
qed

lemma show_nat_digits: "\<forall>c \<in> set (show_nat n). is_ascii_digit c"
proof (induction n rule: show_nat.induct)
  case (1 n)
  then show ?case
    by (subst show_nat.simps) (auto simp: is_ascii_digit_def take_bit_nat_eq_self)
qed

lemma show_nat_no_slash: "CHR ''/'' \<notin> set (show_nat n)"
  using show_nat_digits [of n] by (auto simp: is_ascii_digit_def)

lemma activation_temporary_plain:
  "plain_name (activation_temporary pid t)" "CHR ''/'' \<notin> set (activation_temporary pid t)"
  "activation_temporary pid t \<noteq> []" "activation_temporary pid t \<noteq> ''activation.json''"
  by (auto simp: activation_temporary_def plain_name_def show_nat_no_slash)

lemma install_temporary_plain:
  "plain_name (install_temporary pid t)" "CHR ''/'' \<notin> set (install_temporary pid t)"
  "install_temporary pid t \<noteq> []"
  by (auto simp: install_temporary_def plain_name_def show_nat_no_slash)

lemma activation_path_eq: "activation_path root = root @ [''activation.json'']"
  unfolding activation_path_def by (rule join_path_child) auto

lemma temporary_path_eq:
  "join_path root (activation_temporary pid t) = root @ [activation_temporary pid t]"
  by (rule join_path_child) (simp_all add: activation_temporary_plain)

section \<open>What the reading calls return\<close>

lemma read_file_node: "plain_path fs q \<Longrightarrow> read_file fs q = Some bs \<Longrightarrow> node_at fs q = Some (File bs)"
  by (auto simp: read_file_def stat_def plain_path_realpath split: option.splits node.splits)

lemma node_at_file: "node_at fs q = Some (File bs) \<longleftrightarrow> q \<noteq> [] \<and> fs q = Some (File bs)"
  by (simp add: node_at_def)

lemma reads_canonical_install_root:
  "reads (canonical_install_root p)
     (\<lambda>root fs. plain_dir fs root \<and> realpath fs (path_pieces p) = Some root)"
proof -
  have dir: "plain_dir fs q" if "lstat fs (path_pieces p) = Some Dir"
    and "realpath fs (path_pieces p) = Some q" for fs q
  proof -
    from that(1) obtain r where "locate fs (path_pieces p) = Some r" "node_at fs r = Some Dir"
      by (auto simp: lstat_def bind_eq_Some_conv)
    with that(2) realpath_locate [of fs "path_pieces p" r] have "node_at fs q = Some Dir"
      by (simp add: plain_node_def)
    with realpath_plain [OF that(2)] show ?thesis
      by (simp add: plain_path_dir)
  qed
  have "reads (if metadata \<noteq> Dir then throw InvalidConfiguration
       else query InvalidConfiguration (\<lambda>fs. realpath fs (path_pieces p)))
     (\<lambda>root fs. metadata = Dir \<and> realpath fs (path_pieces p) = Some root)" for metadata
    by (cases "metadata = Dir") (auto intro: reads_conseq [OF reads_query] reads_throw)
  then have "reads (andThen (query InvalidConfiguration (\<lambda>fs. lstat fs (path_pieces p))) (\<lambda>metadata.
       if metadata \<noteq> Dir then throw InvalidConfiguration
       else query InvalidConfiguration (\<lambda>fs. realpath fs (path_pieces p))))
     (\<lambda>root fs. plain_dir fs root \<and> realpath fs (path_pieces p) = Some root)"
    by (rule reads_conseq [OF reads_andThen [OF reads_query]]) (auto intro: dir)
  then show ?thesis
    unfolding canonical_install_root_def by (cases "absolute p") (auto intro: reads_throw)
qed

lemma reads_hash_file:
  "reads (hash_file L p) (\<lambda>h fs. \<exists>bs. read_file fs p = Some bs \<and> h = hex_encode (sha256 L bs))"
proof -
  have "reads (if \<not> is_regular metadata then throw Verification
       else andThen (query Verification (\<lambda>fs. read_file fs p)) (\<lambda>contents.
         ret (hex_encode (sha256 L contents))))
     (\<lambda>h fs. \<exists>bs. read_file fs p = Some bs \<and> h = hex_encode (sha256 L bs))" for metadata
    by (auto intro: reads_throw reads_conseq [OF reads_andThen [OF reads_query reads_ret]])
  then show ?thesis
    unfolding hash_file_def by (rule reads_conseq [OF reads_andThen [OF reads_query]]) auto
qed

definition slot_verified :: "'v lib \<Rightarrow> fs \<Rightarrow> path \<Rightarrow> ActivationSlot \<Rightarrow> bool" where
  "slot_verified L fs root slot \<longleftrightarrow>
     validate_slot slot = Inr () \<and>
     (\<exists>q bs. realpath fs (join_path root (slot_relative_path slot)) = Some q \<and>
        take (length root) q = root \<and> node_at fs q = Some (File bs) \<and>
        hex_encode (sha256 L bs) = slot_sha256 slot)"

lemma reads_verify_slot:
  "reads (verify_slot L root slot) (\<lambda>_ fs. slot_verified L fs root slot)"
proof -
  have "reads (andThen (hash_file L q) (\<lambda>digest.
        if digest \<noteq> slot_sha256 slot then throw Verification else ret ()))
      (\<lambda>_ fs. \<exists>bs. read_file fs q = Some bs \<and> hex_encode (sha256 L bs) = slot_sha256 slot)" for q
  proof (rule reads_conseq [OF reads_andThen [OF reads_hash_file]])
    show "reads (if digest \<noteq> slot_sha256 slot then throw Verification else ret ())
        (\<lambda>_ _. digest = slot_sha256 slot)" for digest
      by (auto intro: reads_throw reads_conseq [OF reads_ret])
  qed auto
  then have "reads (if take (length root) q \<noteq> root then throw Verification
       else andThen (hash_file L q) (\<lambda>digest.
         if digest \<noteq> slot_sha256 slot then throw Verification else ret ()))
      (\<lambda>_ fs. take (length root) q = root \<and>
        (\<exists>bs. read_file fs q = Some bs \<and> hex_encode (sha256 L bs) = slot_sha256 slot))" for q
    by (auto intro: reads_throw elim!: reads_conseq)
  from reads_andThen [OF reads_lift [of "validate_slot slot"] reads_andThen [OF reads_query this]]
  show ?thesis
    unfolding verify_slot_def
    by (rule reads_conseq) (use realpath_plain read_file_node in \<open>fastforce simp: slot_verified_def\<close>)
qed

definition stored_state :: "json \<Rightarrow> fs \<Rightarrow> path \<Rightarrow> ActivationState \<Rightarrow> bool" where
  "stored_state J fs root state \<longleftrightarrow>
     validate_state state = Inr () \<and>
     (\<exists>bs. read_file fs (activation_path root) = Some bs \<and> json_from_slice J bs = Some state)"

lemma reads_decode_state:
  "reads (andThen (query InvalidActivationState (\<lambda>fs. read_file fs (activation_path root))) (\<lambda>bytes.
      andThen (lift (ok_or InvalidActivationState (json_from_slice J bytes))) (\<lambda>state.
      andThen (lift (validate_state state)) (\<lambda>_. ret state))))
    (\<lambda>state fs. stored_state J fs root state)"
proof (rule reads_conseq [OF reads_andThen [OF reads_query]])
  show "reads (andThen (lift (ok_or InvalidActivationState (json_from_slice J bytes)))
        (\<lambda>state. andThen (lift (validate_state state)) (\<lambda>_. ret state)))
      (\<lambda>state _. json_from_slice J bytes = Some state \<and> validate_state state = Inr ())" for bytes
    by (rule reads_conseq [OF reads_andThen [OF reads_lift reads_andThen [OF reads_lift reads_ret]]])
      (auto simp: ok_or_ok)
qed (auto simp: stored_state_def)

lemma reads_state_canonical:
  "reads (read_activation_state_canonical J root)
     (\<lambda>state fs. state = default_activation_state \<or> stored_state J fs root state)"
  unfolding read_activation_state_canonical_def
proof (rule reads_conseq [OF reads_andThen [OF reads_path_exists]])
  fix present
  show "reads (if \<not> present then ret default_activation_state
      else andThen (query InvalidActivationState (\<lambda>fs. lstat fs (activation_path root))) (\<lambda>metadata.
       case metadata of
         File contents \<Rightarrow>
           if contents = [] \<or> MAX_ACTIVATION_STATE_BYTES < length contents
           then throw InvalidActivationState
           else
             andThen (query InvalidActivationState (\<lambda>fs. read_file fs (activation_path root)))
               (\<lambda>bytes.
             andThen (lift (ok_or InvalidActivationState (json_from_slice J bytes))) (\<lambda>state.
             andThen (lift (validate_state state)) (\<lambda>_. ret state)))
       | _ \<Rightarrow> throw InvalidActivationState))
     (\<lambda>state fs. state = default_activation_state \<or> stored_state J fs root state)"
  proof (cases present)
    case True
    then show ?thesis
      by simp (rule reads_conseq [OF reads_andThen [OF reads_query, where R = "\<lambda>_ state fs. stored_state J fs root state"]],
        auto split: node.splits intro: reads_throw reads_decode_state)
  next
    case False
    then show ?thesis by (auto intro: reads_conseq [OF reads_ret])
  qed
qed auto

lemma reads_activation_state:
  "reads (read_activation_state J (AbsolutePath root))
     (\<lambda>state fs. plain_dir fs root \<longrightarrow>
        state = default_activation_state \<or> stored_state J fs root state)"
  unfolding read_activation_state_def
  by (rule reads_conseq [OF reads_andThen [OF reads_canonical_install_root reads_state_canonical]])
    (auto simp: realpath_dir)

section \<open>The atomic swap\<close>

definition is_temporary :: "path \<Rightarrow> path \<Rightarrow> bool" where
  "is_temporary root p \<longleftrightarrow> (\<exists>pid t. p = root @ [activation_temporary pid t])"

definition state_swap :: "json \<Rightarrow> path \<Rightarrow> fs \<Rightarrow> ActivationState \<Rightarrow> fs \<Rightarrow> bool" where
  "state_swap J root F state fs \<longleftrightarrow>
     (\<forall>p. p \<noteq> activation_path root \<longrightarrow> \<not> is_temporary root p \<longrightarrow> fs p = F p) \<and>
     (fs (activation_path root) = F (activation_path root) \<or>
      (\<exists>bs. json_to_vec J state = Some bs \<and> fs (activation_path root) = Some (File bs)))"

definition state_swapped :: "json \<Rightarrow> path \<Rightarrow> fs \<Rightarrow> ActivationState \<Rightarrow> fs \<Rightarrow> bool" where
  "state_swapped J root F state fs \<longleftrightarrow>
     validate_state state = Inr () \<and>
     (\<forall>p. p \<noteq> activation_path root \<longrightarrow> \<not> is_temporary root p \<longrightarrow> fs p = F p) \<and>
     (\<exists>bs. json_to_vec J state = Some bs \<and> bs \<noteq> [] \<and> length bs \<le> MAX_ACTIVATION_STATE_BYTES \<and>
        fs (activation_path root) = Some (File bs))"

lemma activation_not_temporary: "activation_path root \<noteq> root @ [activation_temporary pid t]"
  using activation_temporary_plain(4) [of pid t] by (auto simp: activation_path_eq)

lemma is_temporaryI [simp]: "is_temporary root (root @ [activation_temporary pid t])"
  by (auto simp: is_temporary_def)

lemma plain_dir_update:
  "plain_dir fs d \<Longrightarrow> length d < length p \<Longrightarrow> plain_dir (fs(p := n)) d"
  by (erule plain_dir_cong) auto

lemma valid_swap_state_file:
  fixes t :: path
  assumes root: "plain_dir F root" and t: "t = root @ [activation_temporary pid nonce]"
    and bs: "json_to_vec J state = Some bytes" "bytes \<noteq> []"
      "length bytes \<le> MAX_ACTIVATION_STATE_BYTES" "validate_state state = Inr ()"
  shows "valid (\<lambda>fs. fs = F(t \<mapsto> File [])) (swap_state_file root t t bytes)
    (\<lambda>_ fs. state_swapped J root F state fs) (\<lambda>fs. state_swap J root F state fs)"
proof -
  define torn where "torn = (\<lambda>fs. \<exists>x. fs = F(t := x))"
  define finished where "finished = (\<lambda>fs. fs = F(t := None, activation_path root \<mapsto> File bytes))"
  have neq: "t \<noteq> activation_path root"
    using activation_not_temporary [of root pid nonce] by (simp add: t)
  have node: "node_at fs t = fs t" "node_at fs (activation_path root) = fs (activation_path root)" for fs
    by (simp_all add: node_at_def t activation_path_eq)
  have loc: "locate (F(t := x)) t = Some t"
    "locate (F(t := x)) (activation_path root) = Some (activation_path root)" for x
    using locate_child [OF plain_dir_update [OF root, of t x]] activation_temporary_plain(1) [of pid nonce]
    by (simp_all add: t activation_path_eq plain_name_def)
  have loc': "locate (F(t := None, activation_path root \<mapsto> File bytes)) t = Some t"
    using locate_child [OF plain_dir_update [OF plain_dir_update [OF root, of t None],
        of "activation_path root"]] activation_temporary_plain(1) [of pid nonce]
    by (simp add: t activation_path_eq)
  have wrote: "valid (\<lambda>fs. fs = F(t \<mapsto> File [])) (write_handle Installation t bytes)
      (\<lambda>_ fs. fs = F(t \<mapsto> File bytes)) (\<lambda>fs. torn fs \<or> finished fs)"
    unfolding write_handle_def by (rule valid_syscall) (auto simp: append_file_def torn_def)
  have sync: "valid (\<lambda>fs. fs = F(t \<mapsto> File bytes)) (touch Installation)
      (\<lambda>_ fs. fs = F(t \<mapsto> File bytes)) (\<lambda>fs. torn fs \<or> finished fs)"
    by (rule valid_reads [OF reads_touch]) (auto simp: torn_def)
  have replace: "valid (\<lambda>fs. fs = F(t \<mapsto> File bytes))
      (atomic_replace t (activation_path root)) (\<lambda>_. finished) (\<lambda>fs. torn fs \<or> finished fs)"
    unfolding atomic_replace_def
    by (rule valid_change)
      (auto simp: rename_def loc node neq finished_def torn_def fun_upd_twist [OF neq] split: if_splits)
  have sync_dir: "valid finished (sync_directory root) (\<lambda>_. finished) (\<lambda>fs. torn fs \<or> finished fs)"
    unfolding sync_directory_def
    by (rule valid_reads [OF reads_andThen [OF reads_query reads_touch]]) auto
  have remove: "valid (\<lambda>fs. torn fs \<or> finished fs) (change () (remove_file t))
      (\<lambda>_ fs. torn fs \<or> finished fs) (\<lambda>fs. torn fs \<or> finished fs)"
    by (rule valid_change)
      (auto simp: remove_file_def loc loc' node torn_def finished_def neq split: option.splits node.splits)
  have torn_swap: "state_swap J root F state fs" if "torn fs \<or> finished fs" for fs
    using that neq bs(1) by (auto simp: torn_def finished_def state_swap_def t)
  have finished_swapped: "state_swapped J root F state fs" if "finished fs" for fs
    using that neq bs by (auto simp: finished_def state_swapped_def t)
  note attempted = valid_attempt [OF valid_andThen [OF wrote valid_andThen [OF sync
        valid_andThen [OF replace sync_dir]]]]
  show ?thesis
    unfolding swap_state_file_def
  proof (rule valid_andThen [OF attempted])
    fix result
    show "valid (\<lambda>fs. case result of Inl _ \<Rightarrow> torn fs \<or> finished fs | Inr _ \<Rightarrow> finished fs)
       (if is_ok result then ret ()
        else andThen (attempt (change () (remove_file t))) (\<lambda>_. lift result))
       (\<lambda>_. state_swapped J root F state) (state_swap J root F state)"
    proof (cases result)
      case (Inl e)
      have "valid (\<lambda>fs. torn fs \<or> finished fs) (attempt (change () (remove_file t)))
          (\<lambda>_ fs. torn fs \<or> finished fs) (state_swap J root F state)"
        by (rule valid_conseq [OF valid_attempt [OF remove]]) (auto split: sum.splits)
      then have "valid (\<lambda>fs. torn fs \<or> finished fs)
          (andThen (attempt (change () (remove_file t))) (\<lambda>_. lift result))
          (\<lambda>_. state_swapped J root F state) (state_swap J root F state)"
        by (rule valid_andThen, intro valid_lift) (use Inl torn_swap in auto)
      with Inl show ?thesis by simp
    next
      case (Inr u)
      then show ?thesis by (auto intro!: valid_ret finished_swapped)
    qed
  qed
qed

lemma valid_write_activation_state:
  assumes root: "plain_dir F root"
  shows "valid (\<lambda>fs. fs = F) (write_activation_state J root state)
    (\<lambda>_ fs. state_swapped J root F state fs) (\<lambda>fs. state_swap J root F state fs)"
proof -
  have same: "state_swap J root F state F"
    by (simp add: state_swap_def)
  have create: "valid (\<lambda>fs. fs = F) (change Installation (create_new (root @ [activation_temporary pid nonce])))
      (\<lambda>handle fs. handle = root @ [activation_temporary pid nonce] \<and>
         fs = F(root @ [activation_temporary pid nonce] \<mapsto> File [])) (state_swap J root F state)"
    for pid nonce
    by (rule valid_change)
      (auto simp: create_new_def locate_child [OF root activation_temporary_plain(1)] same
        split: if_splits)
  have touched: "valid (\<lambda>fs. handle = t \<and> fs = F(t \<mapsto> File [])) (touch Installation)
      (\<lambda>_ fs. handle = t \<and> fs = F(t \<mapsto> File [])) (state_swap J root F state)"
    if "t = root @ [activation_temporary pid nonce]" for handle pid nonce t
    by (rule valid_reads [OF reads_touch]) (auto simp: that state_swap_def activation_not_temporary)
  have swap: "valid (\<lambda>fs. handle = t \<and> fs = F(t \<mapsto> File [])) (swap_state_file root t handle bytes)
      (\<lambda>_ fs. state_swapped J root F state fs) (state_swap J root F state)"
    if "json_to_vec J state = Some bytes" "bytes \<noteq> []" "length bytes \<le> MAX_ACTIVATION_STATE_BYTES"
      "validate_state state = Inr ()" "t = root @ [activation_temporary pid nonce]"
    for bytes handle pid nonce t
    using valid_swap_state_file [OF root that(5) that(1-4)]
    unfolding valid_def by blast
  have body: "valid (\<lambda>fs. fs = F)
      (if bytes = [] \<or> MAX_ACTIVATION_STATE_BYTES < length bytes then throw Installation
       else
         andThen (read_clock Installation) (\<lambda>nonce.
         andThen process_id (\<lambda>pid.
         let temporary = join_path root (activation_temporary pid nonce) in
         andThen (change Installation (create_new temporary)) (\<lambda>handle.
         andThen (touch Installation) (\<lambda>_.
         swap_state_file root temporary handle bytes)))))
      (\<lambda>_ fs. state_swapped J root F state fs) (state_swap J root F state)"
    if "json_to_vec J state = Some bytes" "validate_state state = Inr ()" for bytes
    unfolding Let_def temporary_path_eq
    by (rule valid_if)
      (auto intro!: valid_throw same valid_andThen [OF valid_reads [OF reads_clock, where Q = "\<lambda>_ fs. fs = F"]]
        valid_andThen [OF valid_reads [OF reads_process_id, where Q = "\<lambda>_ fs. fs = F"]]
        valid_andThen [OF create] valid_andThen [OF touched [OF refl]] swap [OF that(1) _ _ that(2) refl])
  show ?thesis
  proof (cases "validate_state state")
    case (Inl e)
    then show ?thesis
      using same unfolding write_activation_state_def valid_def
      by (auto simp: andThen_def lift_def)
  next
    case (Inr u)
    show ?thesis
    proof (cases "json_to_vec J state")
      case None
      with Inr show ?thesis
        using same unfolding write_activation_state_def valid_def
        by (auto simp: andThen_def lift_def)
    next
      case (Some bytes)
      with Inr body [of bytes] show ?thesis
        unfolding write_activation_state_def valid_def
        by (simp add: andThen_def lift_def)
    qed
  qed
qed

end
