(* ===== verification/Activation.thy ===== *)
theory Activation
  imports UpdaterFacts
begin

text \<open>
  The contract of the four operations on the activation state, \<open>activate_pending\<close>, \<open>rollback\<close>,
  \<open>recover\<close> and \<open>register_existing_version\<close> of \<^verbatim>\<open>crates/certael-agent-updater/src/lib.rs\<close>.

  The locale \<open>activation_update\<close> is the shape they share: find the canonical root, compute the next
  state by reading, commit it. Each operation has a predicate relating the state it commits to the
  file system it read (\<open>activated\<close>, \<open>rolled_back\<close>, \<open>recovered\<close>, \<open>registered\<close>) and interprets the
  locale with it.
\<close>

section \<open>The shared contract\<close>

locale activation_update =
  fixes J :: json
    and update :: "PathBuf \<Rightarrow> (UpdateError, ActivationState) call"
    and compute :: "path \<Rightarrow> (UpdateError, ActivationState) call"
    and post :: "fs \<Rightarrow> path \<Rightarrow> ActivationState \<Rightarrow> bool"
  assumes update_eq:
      "update p = andThen (canonical_install_root p) (\<lambda>root. commit J root (compute root))"
    and compute_reads: "reads (compute root) (\<lambda>s fs. plain_dir fs root \<longrightarrow> post fs root s)"
begin

lemma commit_valid:
  assumes "plain_dir F root"
  shows "valid (\<lambda>fs. fs = F) (commit J root (compute root))
    (\<lambda>s fs. post F root s \<and> state_swapped J root F s fs)
    (\<lambda>fs. fs = F \<or> (\<exists>s. post F root s \<and> state_swap J root F s fs))"
  unfolding commit_def
proof (rule valid_andThen)
  show "valid (\<lambda>fs. fs = F) (compute root) (\<lambda>s fs. post F root s \<and> fs = F)
      (\<lambda>fs. fs = F \<or> (\<exists>s. post F root s \<and> state_swap J root F s fs))"
    by (rule valid_reads [OF compute_reads]) (use assms in auto)
next
  fix s
  show "valid (\<lambda>fs. post F root s \<and> fs = F)
      (andThen (write_activation_state J root s) (\<lambda>_. ret s))
      (\<lambda>s fs. post F root s \<and> state_swapped J root F s fs)
      (\<lambda>fs. fs = F \<or> (\<exists>s. post F root s \<and> state_swap J root F s fs))"
  proof (cases "post F root s")
    case True
    have "valid (\<lambda>fs. post F root s \<and> fs = F) (write_activation_state J root s)
        (\<lambda>_ fs. post F root s \<and> state_swapped J root F s fs)
        (\<lambda>fs. fs = F \<or> (\<exists>s. post F root s \<and> state_swap J root F s fs))"
      by (rule valid_conseq [OF valid_write_activation_state [OF assms]]) (use True in auto)
    then show ?thesis
      by (rule valid_andThen) (auto intro: valid_ret)
  qed (simp add: valid_def)
qed

lemma update_returns:
  assumes "update p w = (Inr s, w')"
  shows "\<exists>root. plain_dir (wd_fs w) root \<and> realpath (wd_fs w) (path_pieces p) = Some root \<and>
    post (wd_fs w) root s \<and> state_swapped J root (wd_fs w) s (wd_fs w')"
proof -
  from assms obtain root w1 where "canonical_install_root p w = (Inr root, w1)"
    and c: "commit J root (compute root) w1 = (Inr s, w')"
    by (auto simp: update_eq andThen_ok)
  from reads_ok [OF reads_canonical_install_root this(1)] have w1: "wd_fs w1 = wd_fs w"
    and root: "plain_dir (wd_fs w) root" "realpath (wd_fs w) (path_pieces p) = Some root" by auto
  from validD_ok [OF commit_valid [OF root(1)] c] w1 root show ?thesis by auto
qed

lemma update_atomic:
  assumes "update p w = (r, w')"
  shows "wd_fs w' = wd_fs w \<or>
    (\<exists>root s. plain_dir (wd_fs w) root \<and> realpath (wd_fs w) (path_pieces p) = Some root \<and>
       post (wd_fs w) root s \<and> state_swap J root (wd_fs w) s (wd_fs w'))"
proof (cases r)
  case (Inr s)
  with update_returns assms obtain root where "plain_dir (wd_fs w) root"
    "realpath (wd_fs w) (path_pieces p) = Some root" "post (wd_fs w) root s"
    "state_swapped J root (wd_fs w) s (wd_fs w')" by blast
  then show ?thesis
    unfolding state_swap_def state_swapped_def by blast
next
  case (Inl e)
  obtain q w1 where q: "canonical_install_root p w = (q, w1)"
    by fastforce
  show ?thesis
  proof (cases q)
    case (Inl e')
    with q assms reads_err [OF reads_canonical_install_root q [unfolded Inl]] show ?thesis
      by (auto simp: update_eq andThen_def)
  next
    case (Inr root)
    from reads_ok [OF reads_canonical_install_root q [unfolded Inr]] have w1: "wd_fs w1 = wd_fs w"
      and root: "plain_dir (wd_fs w) root" "realpath (wd_fs w) (path_pieces p) = Some root" by auto
    from q assms Inr Inl have "commit J root (compute root) w1 = (Inl e, w')"
      by (simp add: update_eq andThen_def)
    from validD_err [OF commit_valid [OF root(1)] this] w1 root show ?thesis by auto
  qed
qed

end

section \<open>What each operation commits\<close>

definition activated :: "'v lib \<Rightarrow> json \<Rightarrow> fs \<Rightarrow> path \<Rightarrow> ActivationState \<Rightarrow> bool" where
  "activated L J fs root s \<longleftrightarrow>
     (\<exists>old slot. stored_state J fs root old \<and> act_pending old = Some slot \<and>
        slot_verified L fs root slot \<and>
        s = old\<lparr>act_previous := act_active old, act_active := Some slot, act_pending := None\<rparr>)"

definition rolled_back :: "'v lib \<Rightarrow> json \<Rightarrow> fs \<Rightarrow> path \<Rightarrow> ActivationState \<Rightarrow> bool" where
  "rolled_back L J fs root s \<longleftrightarrow>
     (\<exists>old slot. stored_state J fs root old \<and> act_previous old = Some slot \<and>
        slot_verified L fs root slot \<and>
        s = old\<lparr>act_active := Some slot, act_previous := act_active old, act_pending := None\<rparr>)"

definition recovered :: "'v lib \<Rightarrow> json \<Rightarrow> fs \<Rightarrow> path \<Rightarrow> ActivationState \<Rightarrow> bool" where
  "recovered L J fs root s \<longleftrightarrow>
     (\<forall>slot \<in> set (state_slots s). slot_verified L fs root slot) \<and>
     (\<exists>old. (old = default_activation_state \<or> stored_state J fs root old) \<and>
        act_pending s \<in> {None, act_pending old} \<and>
        (act_active s = act_active old \<and> act_previous s \<in> {None, act_previous old} \<or>
         act_active old \<noteq> None \<and> act_previous old \<noteq> None \<and>
           act_active s = act_previous old \<and> act_previous s = None))"

definition registered ::
    "'v lib \<Rightarrow> json \<Rightarrow> string \<Rightarrow> string \<Rightarrow> bool \<Rightarrow> fs \<Rightarrow> path \<Rightarrow> ActivationState \<Rightarrow> bool"
where
  "registered L J version installed_name activate fs root s \<longleftrightarrow>
     (\<exists>old slot. (old = default_activation_state \<or> stored_state J fs root old) \<and>
        slot_version slot = version \<and>
        slot_relative_path slot = version_relative_path version installed_name \<and>
        slot_verified L fs root slot \<and> s = registered_state activate slot old)"

lemma state_slots_set:
  "set (state_slots s) =
     {slot. act_active s = Some slot \<or> act_previous s = Some slot \<or> act_pending s = Some slot}"
  by (auto simp: state_slots_def List.map_filter_def)

lemma reads_slot_fails:
  "reads (slot_fails L root so)
     (\<lambda>b fs. (\<not> b \<longrightarrow> (\<forall>slot. so = Some slot \<longrightarrow> slot_verified L fs root slot)) \<and>
        (b \<longrightarrow> so \<noteq> None))"
proof (cases so)
  case None
  then show ?thesis
    by (auto simp: slot_fails_def intro: reads_conseq [OF reads_ret])
next
  case (Some slot)
  have "reads (andThen (attempt (verify_slot L root slot)) (\<lambda>r. ret (\<not> is_ok r)))
      (\<lambda>b fs. \<not> b \<longrightarrow> slot_verified L fs root slot)"
    by (rule reads_conseq [OF reads_andThen [OF reads_attempt [OF reads_verify_slot] reads_ret]])
      (auto simp: is_ok_iff)
  with Some show ?thesis by (simp add: slot_fails_def)
qed

lemma default_slots [simp]:
  "act_pending default_activation_state = None" "act_previous default_activation_state = None"
  "act_active default_activation_state = None"
  by (simp_all add: default_activation_state_def)

lemma reads_slot_swap:
  fixes pick :: "ActivationState \<Rightarrow> ActivationSlot option"
  assumes "pick default_activation_state = None"
  shows "reads
    (andThen (read_activation_state J (AbsolutePath root)) (\<lambda>state.
     andThen (lift (ok_or e (pick state))) (\<lambda>slot.
     andThen (verify_slot L root slot) (\<lambda>_. ret (change_state slot state)))))
    (\<lambda>s fs. plain_dir fs root \<longrightarrow>
       (\<exists>old slot. stored_state J fs root old \<and> pick old = Some slot \<and>
          slot_verified L fs root slot \<and> s = change_state slot old))"
proof (rule reads_conseq [OF reads_andThen [OF reads_activation_state]])
  show "reads (andThen (lift (ok_or e (pick state))) (\<lambda>slot.
      andThen (verify_slot L root slot) (\<lambda>_. ret (change_state slot state))))
    (\<lambda>s fs. \<exists>slot. pick state = Some slot \<and> slot_verified L fs root slot \<and>
       s = change_state slot state)" for state
    by (rule reads_conseq [OF reads_andThen [OF reads_lift reads_andThen [OF reads_verify_slot reads_ret]]])
      (auto simp: ok_or_ok)
qed (use assms in auto)

interpretation activate_pending_update:
  activation_update J "activate_pending L J"
    "\<lambda>root. andThen (read_activation_state J (AbsolutePath root)) (\<lambda>state.
        andThen (lift (ok_or NoPendingUpdate (act_pending state))) (\<lambda>pending.
        andThen (verify_slot L root pending) (\<lambda>_.
        ret (state\<lparr>act_previous := act_active state, act_active := Some pending,
                   act_pending := None\<rparr>))))"
    "activated L J" for L :: "'v lib" and J
proof unfold_locales
  fix p root
  show "activate_pending L J p = andThen (canonical_install_root p) (\<lambda>root. commit J root
      (andThen (read_activation_state J (AbsolutePath root)) (\<lambda>state.
        andThen (lift (ok_or NoPendingUpdate (act_pending state))) (\<lambda>pending.
        andThen (verify_slot L root pending) (\<lambda>_.
        ret (state\<lparr>act_previous := act_active state, act_active := Some pending,
                   act_pending := None\<rparr>))))))"
    by (simp add: activate_pending_def)
qed (auto simp: activated_def intro!: reads_conseq [OF reads_slot_swap])

interpretation rollback_update:
  activation_update J "rollback L J"
    "\<lambda>root. andThen (read_activation_state J (AbsolutePath root)) (\<lambda>state.
        andThen (lift (ok_or NoRollback (act_previous state))) (\<lambda>previous.
        andThen (verify_slot L root previous) (\<lambda>_.
        ret (state\<lparr>act_active := Some previous, act_previous := act_active state,
                   act_pending := None\<rparr>))))"
    "rolled_back L J" for L :: "'v lib" and J
proof unfold_locales
  fix p root
  show "rollback L J p = andThen (canonical_install_root p) (\<lambda>root. commit J root
      (andThen (read_activation_state J (AbsolutePath root)) (\<lambda>state.
        andThen (lift (ok_or NoRollback (act_previous state))) (\<lambda>previous.
        andThen (verify_slot L root previous) (\<lambda>_.
        ret (state\<lparr>act_active := Some previous, act_previous := act_active state,
                   act_pending := None\<rparr>))))))"
    by (simp add: rollback_def)
qed (auto simp: rolled_back_def intro!: reads_conseq [OF reads_slot_swap])

text \<open>The three ways the repair ends, from the state with a failing pending slot already dropped.\<close>

definition repaired :: "'v lib \<Rightarrow> fs \<Rightarrow> path \<Rightarrow> ActivationState \<Rightarrow> ActivationState \<Rightarrow> bool" where
  "repaired L fs root st s \<longleftrightarrow>
     (\<exists>a slot. act_active st = Some a \<and> act_previous st = Some slot \<and> slot_verified L fs root slot \<and>
        s = st\<lparr>act_active := Some slot, act_previous := None\<rparr>) \<or>
     (\<forall>a. act_active st = Some a \<longrightarrow> slot_verified L fs root a) \<and>
       (s = st \<and> (\<forall>slot. act_previous st = Some slot \<longrightarrow> slot_verified L fs root slot) \<or>
        s = st\<lparr>act_previous := None\<rparr>)"

lemma repaired_slots:
  assumes "repaired L fs root st s"
    and "\<forall>slot. act_pending st = Some slot \<longrightarrow> slot_verified L fs root slot"
  shows "\<forall>slot \<in> set (state_slots s). slot_verified L fs root slot"
  using assms unfolding repaired_def by (auto simp: state_slots_set)

lemma repaired_change:
  assumes "repaired L fs root st s"
  shows "act_pending s = act_pending st \<and>
    (act_active s = act_active st \<and> act_previous s \<in> {None, act_previous st} \<or>
     act_active st \<noteq> None \<and> act_previous st \<noteq> None \<and>
       act_active s = act_previous st \<and> act_previous s = None)"
  using assms unfolding repaired_def by auto

lemma reads_repair:
  "reads (andThen (slot_fails L root (act_active st)) (\<lambda>active_fails.
     if active_fails then
       andThen (lift (ok_or InvalidActivationState (act_previous st))) (\<lambda>previous.
       andThen (verify_slot L root previous) (\<lambda>_.
       ret (st\<lparr>act_active := Some previous, act_previous := None\<rparr>)))
     else
       andThen (slot_fails L root (act_previous st)) (\<lambda>previous_fails.
       ret (if previous_fails then st\<lparr>act_previous := None\<rparr> else st))))
   (\<lambda>s fs. repaired L fs root st s)"
proof (rule reads_conseq [OF reads_andThen [OF reads_slot_fails]])
  have fallback: "reads (andThen (lift (ok_or InvalidActivationState (act_previous st))) (\<lambda>previous.
       andThen (verify_slot L root previous) (\<lambda>_.
       ret (st\<lparr>act_active := Some previous, act_previous := None\<rparr>))))
     (\<lambda>s fs. act_active st \<noteq> None \<longrightarrow> repaired L fs root st s)"
    by (rule reads_conseq [OF reads_andThen [OF reads_lift reads_andThen [OF reads_verify_slot reads_ret]]])
      (auto simp: ok_or_ok repaired_def)
  have kept: "reads (andThen (slot_fails L root (act_previous st)) (\<lambda>previous_fails.
       ret (if previous_fails then st\<lparr>act_previous := None\<rparr> else st)))
     (\<lambda>s fs. (\<forall>a. act_active st = Some a \<longrightarrow> slot_verified L fs root a) \<longrightarrow> repaired L fs root st s)"
    by (rule reads_conseq [OF reads_andThen [OF reads_slot_fails reads_ret]])
      (auto simp: repaired_def split: if_splits)
  show "reads (if active_fails then
       andThen (lift (ok_or InvalidActivationState (act_previous st))) (\<lambda>previous.
       andThen (verify_slot L root previous) (\<lambda>_.
       ret (st\<lparr>act_active := Some previous, act_previous := None\<rparr>)))
     else
       andThen (slot_fails L root (act_previous st)) (\<lambda>previous_fails.
       ret (if previous_fails then st\<lparr>act_previous := None\<rparr> else st)))
     (\<lambda>s fs. (if active_fails then act_active st \<noteq> None
         else (\<forall>a. act_active st = Some a \<longrightarrow> slot_verified L fs root a)) \<longrightarrow> repaired L fs root st s)"
    for active_fails
    using fallback kept by (cases active_fails) auto
qed (auto split: if_splits)

lemma reads_recover_state:
  "reads (recover_state L root old)
     (\<lambda>s fs. (\<forall>slot \<in> set (state_slots s). slot_verified L fs root slot) \<and>
        act_pending s \<in> {None, act_pending old} \<and>
        (act_active s = act_active old \<and> act_previous s \<in> {None, act_previous old} \<or>
         act_active old \<noteq> None \<and> act_previous old \<noteq> None \<and>
           act_active s = act_previous old \<and> act_previous s = None))"
  unfolding recover_state_def Let_def
proof (rule reads_conseq [OF reads_andThen [OF reads_slot_fails reads_repair]])
  fix s fs
  assume "\<exists>b. ((\<not> b \<longrightarrow> (\<forall>slot. act_pending old = Some slot \<longrightarrow> slot_verified L fs root slot)) \<and>
      (b \<longrightarrow> act_pending old \<noteq> None)) \<and>
      repaired L fs root (if b then old\<lparr>act_pending := None\<rparr> else old) s"
  then obtain st where st: "repaired L fs root st s"
    "\<forall>slot. act_pending st = Some slot \<longrightarrow> slot_verified L fs root slot"
    "st = old \<or> st = old\<lparr>act_pending := None\<rparr>"
    by (auto split: if_splits)
  from repaired_slots [OF st(1,2)] repaired_change [OF st(1)] st(3)
  show "(\<forall>slot \<in> set (state_slots s). slot_verified L fs root slot) \<and>
        act_pending s \<in> {None, act_pending old} \<and>
        (act_active s = act_active old \<and> act_previous s \<in> {None, act_previous old} \<or>
         act_active old \<noteq> None \<and> act_previous old \<noteq> None \<and>
           act_active s = act_previous old \<and> act_previous s = None)"
    by auto
qed

interpretation recover_update:
  activation_update J "recover L J"
    "\<lambda>root. andThen (read_activation_state J (AbsolutePath root)) (recover_state L root)"
    "recovered L J" for L :: "'v lib" and J
proof unfold_locales
  fix p root
  show "recover L J p = andThen (canonical_install_root p) (\<lambda>root. commit J root
      (andThen (read_activation_state J (AbsolutePath root)) (recover_state L root)))"
    by (simp add: recover_def)
  show "reads (andThen (read_activation_state J (AbsolutePath root)) (recover_state L root))
      (\<lambda>s fs. plain_dir fs root \<longrightarrow> recovered L J fs root s)"
    by (rule reads_conseq [OF reads_andThen [OF reads_activation_state reads_recover_state]])
      (fastforce simp: recovered_def)
qed

lemma registeredI:
  "slot_verified L fs root slot \<Longrightarrow> slot_version slot = version \<Longrightarrow>
     slot_relative_path slot = version_relative_path version installed_name \<Longrightarrow>
     old = default_activation_state \<or> stored_state J fs root old \<Longrightarrow>
     registered L J version installed_name activate fs root (registered_state activate slot old)"
  unfolding registered_def by blast

lemma reads_register_state:
  "reads (register_state L J version installed_name activate root)
     (\<lambda>s fs. registered L J version installed_name activate fs root s)"
proof -
  have "reads (let slot = \<lparr>slot_version = version, slot_relative_path = rel, slot_sha256 = digest\<rparr> in
        andThen (verify_slot L root slot) (\<lambda>_.
        andThen (read_activation_state_canonical J root) (\<lambda>state.
        ret (registered_state activate slot state))))
     (\<lambda>s fs. rel = version_relative_path version installed_name \<longrightarrow>
        registered L J version installed_name activate fs root s)" for rel digest
    unfolding Let_def
    by (rule reads_conseq [OF reads_andThen [OF reads_verify_slot
          reads_andThen [OF reads_state_canonical reads_ret]]])
      (auto intro: registeredI)
  note slot_read = this
  have "reads (let relative_path = version_relative_path version installed_name in
        andThen (hash_file L (join_path root relative_path)) (\<lambda>digest.
        let slot = \<lparr>slot_version = version, slot_relative_path = relative_path,
                    slot_sha256 = digest\<rparr> in
        andThen (verify_slot L root slot) (\<lambda>_.
        andThen (read_activation_state_canonical J root) (\<lambda>state.
        ret (registered_state activate slot state)))))
     (\<lambda>s fs. registered L J version installed_name activate fs root s)"
    unfolding Let_def [of "version_relative_path version installed_name"]
    by (rule reads_conseq [OF reads_andThen [OF reads_hash_file slot_read]]) auto
  then show ?thesis
    unfolding register_state_def by (auto intro: reads_throw)
qed

interpretation register_update:
  activation_update J "register_existing_version L J version installed_name activate"
    "register_state L J version installed_name activate"
    "registered L J version installed_name activate"
    for L :: "'v lib" and J version installed_name activate
proof unfold_locales
  show "register_existing_version L J version installed_name activate p =
      andThen (canonical_install_root p) (\<lambda>root.
        commit J root (register_state L J version installed_name activate root))" for p
    by (simp add: register_existing_version_def)
  show "reads (register_state L J version installed_name activate root)
      (\<lambda>s fs. plain_dir fs root \<longrightarrow> registered L J version installed_name activate fs root s)" for root
    by (rule reads_conseq [OF reads_register_state]) simp
qed

end
