(* ===== verification/Install.thy ===== *)
theory Install
  imports Activation
begin

text \<open>
  What starting and installing a version guarantee: \<open>active_target\<close> and \<open>install_verified_target\<close> of
  \<^verbatim>\<open>crates/certael-agent-updater/src/lib.rs\<close>.

  \<open>keeps_at P F fs\<close>: the files of \<open>F\<close> at the paths \<open>P\<close> are in \<open>fs\<close> with the same contents. With the paths
  that are neither the state file nor below one of the updater's temporaries it is \<open>keeps_files F fs\<close>, the
  frame of every updater operation. It holds under
  every schedule of failures and crashes, so an installed version is never overwritten.
\<close>

section \<open>Starting the active version\<close>

lemma active_target_ok:
  assumes "active_target L J p w = (Inr q, w')"
  shows "\<exists>root s slot bs.
    plain_dir (wd_fs w) root \<and> realpath (wd_fs w) (path_pieces p) = Some root \<and>
    recovered L J (wd_fs w) root s \<and> act_active s = Some slot \<and>
    state_swapped J root (wd_fs w) s (wd_fs w') \<and>
    take (length root) q = root \<and> wd_fs w' q = Some (File bs) \<and>
    hex_encode (sha256 L bs) = slot_sha256 slot"
proof -
  from assms obtain root w1 s w2 slot w3 w4 where
    c: "canonical_install_root p w = (Inr root, w1)" and
    r: "recover L J (AbsolutePath root) w1 = (Inr s, w2)" and
    a: "act_active s = Some slot" and
    v: "verify_slot L root slot w2 = (Inr (), w4)" and
    t: "query InvalidActivationState (\<lambda>fs. realpath fs (join_path root (slot_relative_path slot))) w4
      = (Inr q, w')"
    by (auto simp: active_target_def andThen_ok lift_def ok_or_ok)
  from reads_ok [OF reads_canonical_install_root c] have w1: "wd_fs w1 = wd_fs w"
    and root: "plain_dir (wd_fs w) root" "realpath (wd_fs w) (path_pieces p) = Some root" by auto
  from recover_update.update_returns [OF r] w1 realpath_dir [OF root(1)]
  have s: "recovered L J (wd_fs w) root s" "state_swapped J root (wd_fs w) s (wd_fs w2)" by auto
  from reads_ok [OF reads_verify_slot v] reads_ok [OF reads_query t]
  have "wd_fs w' = wd_fs w2" "slot_verified L (wd_fs w2) root slot"
    "realpath (wd_fs w2) (join_path root (slot_relative_path slot)) = Some q" by auto
  then show ?thesis
    using root s a by (auto simp: slot_verified_def node_at_file)
qed

section \<open>The frame\<close>

definition own_name :: "string \<Rightarrow> bool" where
  "own_name c \<longleftrightarrow>
     starts_with c ''.install-'' \<or> starts_with c ''.activation-'' \<or> c = ''activation.json''"

definition foreign_path :: "path \<Rightarrow> bool" where
  "foreign_path p \<longleftrightarrow> \<not> list_ex own_name p"

text \<open>The files of \<open>F\<close> at the paths \<open>P\<close> are in \<open>fs\<close> as they were; below an \<open>unprotected\<close> path there are
  none of those.\<close>

definition keeps_at :: "(path \<Rightarrow> bool) \<Rightarrow> fs \<Rightarrow> fs \<Rightarrow> bool" where
  "keeps_at P F fs \<longleftrightarrow> (\<forall>p bs. P p \<longrightarrow> F p = Some (File bs) \<longrightarrow> fs p = Some (File bs))"

abbreviation keeps_files :: "fs \<Rightarrow> fs \<Rightarrow> bool" where
  "keeps_files \<equiv> keeps_at foreign_path"

definition unprotected :: "(path \<Rightarrow> bool) \<Rightarrow> path \<Rightarrow> bool" where
  "unprotected P t \<longleftrightarrow> (\<forall>r. take (length t) r = t \<longrightarrow> \<not> P r)"

lemma unprotected_self: "unprotected P t \<Longrightarrow> \<not> P t"
  by (simp add: unprotected_def)

lemma unprotected_append:
  assumes "unprotected P t"
  shows "unprotected P (t @ s)"
  unfolding unprotected_def
proof (intro allI impI)
  fix r
  assume "take (length (t @ s)) r = t @ s"
  then have "take (length t) (take (length (t @ s)) r) = t"
    by simp
  then have "take (length t) r = t"
    by (simp add: min_def)
  with assms show "\<not> P r"
    by (simp add: unprotected_def)
qed


lemma keeps_files_refl [simp]: "keeps_at P F F"
  by (simp add: keeps_at_def)

lemma keeps_filesD: "keeps_at P F fs \<Longrightarrow> P p \<Longrightarrow> F p = Some (File bs) \<Longrightarrow> fs p = Some (File bs)"
  by (simp add: keeps_at_def)

lemma own_names [simp]:
  "own_name (install_temporary pid t)" "own_name (activation_temporary pid t)"
  "own_name ''activation.json''"
  by (simp_all add: own_name_def install_temporary_def activation_temporary_def starts_with_def)

lemma keeps_files_new: "keeps_at P F fs \<Longrightarrow> fs q = None \<Longrightarrow> keeps_at P F (fs(q := n))"
  by (auto simp: keeps_at_def)

lemma keeps_files_own: "keeps_at P F fs \<Longrightarrow> unprotected P q \<Longrightarrow> keeps_at P F (fs(q := n))"
  by (auto simp: keeps_at_def dest: unprotected_self)

lemma node_at_None: "node_at fs q = None \<longleftrightarrow> q \<noteq> [] \<and> fs q = None"
  by (simp add: node_at_def)

lemma keeps_files_append: "keeps_at P F fs \<Longrightarrow> unprotected P q \<Longrightarrow> keeps_at P F (append_file q bs fs)"
  by (auto simp: append_file_def keeps_files_own split: option.splits node.splits)

lemma plain_dir_append_file:
  "plain_dir fs d \<Longrightarrow> length d < length q \<Longrightarrow> plain_dir (append_file q bs fs) d"
  by (auto simp: append_file_def plain_dir_update split: option.splits node.splits)

lemma foreign_unprotected: "\<not> foreign_path t \<Longrightarrow> unprotected foreign_path t"
  unfolding unprotected_def foreign_path_def by (metis append_take_drop_id list_ex_append)

lemma keeps_files_move:
  assumes "keeps_at P F fs" and "unprotected P p" and "fs q = None \<or> fs q = Some Dir"
    and "\<not> has_children fs q"
  shows "keeps_at P F (move_tree p q fs)"
  unfolding keeps_at_def
proof (intro allI impI)
  fix r bs
  assume r: "P r" "F r = Some (File bs)"
  then have fs: "fs r = Some (File bs)"
    using assms(1) by (simp add: keeps_at_def)
  have "take (length q) r \<noteq> q"
  proof
    assume q: "take (length q) r = q"
    with assms(4) fs have "r = q"
      unfolding has_children_def by (metis domI)
    with fs assms(3) show False by auto
  qed
  moreover have "take (length p) r \<noteq> p"
    using r(1) assms(2) unfolding unprotected_def by blast
  ultimately show "move_tree p q fs r = Some (File bs)"
    by (simp add: move_tree_def fs)
qed

lemma plain_dir_new: "plain_dir fs d \<Longrightarrow> fs q = None \<Longrightarrow> plain_dir (fs(q := n)) d"
  by (auto simp: plain_dir_def node_at_def split: if_splits)

text \<open>Making directories keeps whatever a new directory keeps.\<close>

definition dir_stable :: "(fs \<Rightarrow> bool) \<Rightarrow> bool" where
  "dir_stable P \<longleftrightarrow> (\<forall>fs q. P fs \<longrightarrow> fs q = None \<longrightarrow> P (fs(q \<mapsto> Dir)))"

lemma valid_mkdir_stable: "dir_stable P \<Longrightarrow> valid P (change e (mkdir p)) (\<lambda>_. P) P"
  by (rule valid_change)
    (auto simp: mkdir_def node_at_None dir_stable_def split: option.splits if_splits)

lemma valid_make_prefixes:
  "dir_stable P \<Longrightarrow> valid P (make_prefixes e made cs) (\<lambda>_. P) P"
proof (induction cs arbitrary: made)
  case Nil
  then show ?case by (simp add: valid_ret)
next
  case (Cons c cs)
  have "valid P
      (if is_ok r then make_prefixes e (made @ [c]) cs
       else andThen (change e (mkdir (made @ [c]))) (\<lambda>_. make_prefixes e (made @ [c]) cs))
      (\<lambda>_. P) P" for r :: "unit + unit"
    using Cons valid_andThen [OF valid_mkdir_stable Cons.IH [of "made @ [c]"]]
    by (cases "is_ok r") simp_all
  then show ?case
    unfolding make_prefixes.simps
    by (intro valid_pass [OF reads_attempt [OF reads_query]])
qed

lemma valid_create_dir_all: "dir_stable P \<Longrightarrow> valid P (create_dir_all e p) (\<lambda>_. P) P"
  unfolding create_dir_all_def by (rule valid_make_prefixes)

lemma stable_keeps: "dir_stable (keeps_at P F)"
  by (auto simp: dir_stable_def intro: keeps_files_new)

lemma stable_keeps_root: "dir_stable (\<lambda>fs. keeps_at P F fs \<and> plain_dir fs root)"
  by (auto simp: dir_stable_def intro: keeps_files_new plain_dir_new)

section \<open>Preparing the root\<close>

lemma versions_path [simp]: "join_path root ''versions'' = root @ [''versions'']"
  by (rule join_path_child) auto

lemma canonical_dir:
  assumes "lstat fs p = Some Dir" and "realpath fs p = Some q"
  shows "plain_dir fs q"
proof -
  from assms(1) obtain r where "locate fs p = Some r" "node_at fs r = Some Dir"
    by (auto simp: lstat_def bind_eq_Some_conv)
  with assms(2) realpath_locate [of fs p r] have "node_at fs q = Some Dir"
    by (simp add: plain_node_def)
  with realpath_plain [OF assms(2)] show ?thesis
    by (simp add: plain_path_dir)
qed

lemma valid_prepare_versions:
  "valid (\<lambda>fs. keeps_at P F fs \<and> plain_dir fs root)
    (andThen (create_dir_all Installation (join_path root ''versions'')) (\<lambda>_.
     andThen (query Installation (\<lambda>fs. lstat fs (join_path root ''versions''))) (\<lambda>m.
       if m \<noteq> Dir then throw Installation else ret root)))
    (\<lambda>r fs. keeps_at P F fs \<and> plain_dir fs (r @ [''versions''])) (keeps_at P F)"
proof -
  have found: "plain_dir fs (root @ [''versions''])"
    if "plain_dir fs root" and "lstat fs (root @ [''versions'']) = Some Dir" for fs
    using that locate_child [OF that(1), of "''versions''"]
    by (simp add: lstat_def plain_dir_snoc plain_name_def node_at_def)
  have "valid (\<lambda>fs. keeps_at P F fs \<and> plain_dir fs root)
    (andThen (query Installation (\<lambda>fs. lstat fs (root @ [''versions'']))) (\<lambda>m.
       if m \<noteq> Dir then throw Installation else ret root))
    (\<lambda>r fs. keeps_at P F fs \<and> plain_dir fs (r @ [''versions''])) (keeps_at P F)"
    by (rule valid_read_then [OF reads_query]) (auto intro!: valid_if valid_throw valid_ret found)
  note found_dir = this
  have made_dir: "valid (\<lambda>fs. keeps_at P F fs \<and> plain_dir fs root)
      (create_dir_all Installation (root @ [''versions'']))
      (\<lambda>_ fs. keeps_at P F fs \<and> plain_dir fs root) (keeps_at P F)"
    by (rule valid_conseq [OF valid_create_dir_all [OF stable_keeps_root]]) auto
  show ?thesis
    unfolding versions_path by (rule valid_andThen [OF made_dir found_dir])
qed

lemma valid_prepare_root:
  "valid (keeps_at P F)
    (andThen (query Installation (\<lambda>fs. lstat fs p)) (\<lambda>m.
       if m \<noteq> Dir then throw Installation
       else
         andThen (query Installation (\<lambda>fs. realpath fs p)) (\<lambda>root.
         andThen (create_dir_all Installation (join_path root ''versions'')) (\<lambda>_.
         andThen (query Installation (\<lambda>fs. lstat fs (join_path root ''versions''))) (\<lambda>m.
         if m \<noteq> Dir then throw Installation else ret root)))))
    (\<lambda>r fs. keeps_at P F fs \<and> plain_dir fs (r @ [''versions''])) (keeps_at P F)"
proof (rule valid_read_then [OF reads_query])
  fix m
  have body: "valid (\<lambda>fs. keeps_at P F fs \<and> lstat fs p = Some Dir)
       (andThen (query Installation (\<lambda>fs. realpath fs p)) (\<lambda>root.
         andThen (create_dir_all Installation (join_path root ''versions'')) (\<lambda>_.
         andThen (query Installation (\<lambda>fs. lstat fs (join_path root ''versions''))) (\<lambda>m.
         if m \<noteq> Dir then throw Installation else ret root))))
      (\<lambda>r fs. keeps_at P F fs \<and> plain_dir fs (r @ [''versions''])) (keeps_at P F)"
  proof (rule valid_read_then [OF reads_query])
    fix root
    show "valid (\<lambda>fs. (keeps_at P F fs \<and> lstat fs p = Some Dir) \<and> realpath fs p = Some root)
      (andThen (create_dir_all Installation (join_path root ''versions'')) (\<lambda>_.
         andThen (query Installation (\<lambda>fs. lstat fs (join_path root ''versions''))) (\<lambda>m.
         if m \<noteq> Dir then throw Installation else ret root)))
      (\<lambda>r fs. keeps_at P F fs \<and> plain_dir fs (r @ [''versions''])) (keeps_at P F)"
      by (rule valid_conseq [OF valid_prepare_versions]) (auto intro: canonical_dir)
  qed auto
  show "valid (\<lambda>fs. keeps_at P F fs \<and> lstat fs p = Some m)
       (if m \<noteq> Dir then throw Installation
        else
         andThen (query Installation (\<lambda>fs. realpath fs p)) (\<lambda>root.
         andThen (create_dir_all Installation (join_path root ''versions'')) (\<lambda>_.
         andThen (query Installation (\<lambda>fs. lstat fs (join_path root ''versions''))) (\<lambda>m.
         if m \<noteq> Dir then throw Installation else ret root))))
      (\<lambda>r fs. keeps_at P F fs \<and> plain_dir fs (r @ [''versions''])) (keeps_at P F)"
    using body by (cases "m = Dir") (auto intro: valid_throw)
qed auto

lemma andThen_lift:
  "andThen (lift (Inl e)) f = throw e" "andThen (lift (Inr x)) f = f x"
  by (simp_all add: fun_eq_iff andThen_def lift_def throw_def)

lemma valid_prepare:
  "valid (keeps_at P F) (prepare_install_root staged config digest)
    (\<lambda>root fs. keeps_at P F fs \<and> plain_dir fs (root @ [''versions'']) \<and>
       validate_install config digest = Inr ()) (keeps_at P F)"
proof -
  have "valid (keeps_at P F)
     (andThen (query Installation (\<lambda>fs. lstat fs staged)) (\<lambda>n.
       if \<not> is_regular n then throw Installation
       else
       let install_root = path_pieces (inst_install_root config) in
       andThen (create_dir_all Installation install_root) (\<lambda>_.
       andThen (query Installation (\<lambda>fs. lstat fs install_root)) (\<lambda>root_metadata.
       if root_metadata \<noteq> Dir then throw Installation
       else
         andThen (query Installation (\<lambda>fs. realpath fs install_root)) (\<lambda>root.
         andThen (create_dir_all Installation (join_path root ''versions'')) (\<lambda>_.
         andThen (query Installation (\<lambda>fs. lstat fs (join_path root ''versions'')))
           (\<lambda>versions_metadata.
         if versions_metadata \<noteq> Dir then throw Installation else ret root)))))))
     (\<lambda>root fs. keeps_at P F fs \<and> plain_dir fs (root @ [''versions''])) (keeps_at P F)"
    unfolding Let_def
    by (intro valid_pass [OF reads_query] valid_if valid_throw
        valid_andThen [OF valid_create_dir_all [OF stable_keeps] valid_prepare_root])
  note body = this
  show ?thesis
  proof (cases "validate_install config digest")
    case (Inl e)
    then show ?thesis
      unfolding prepare_install_root_def by (simp only: andThen_lift) (rule valid_throw)
  next
    case (Inr u)
    show ?thesis
      unfolding prepare_install_root_def Inr andThen_lift
      by (rule valid_conseq [OF body]) simp_all
  qed
qed

section \<open>Placing a version\<close>

text \<open>The files are kept and the directory \<open>d\<close> stays a plain directory.\<close>

definition keeps_dir :: "(path \<Rightarrow> bool) \<Rightarrow> fs \<Rightarrow> path \<Rightarrow> fs \<Rightarrow> bool" where
  "keeps_dir P F d fs \<longleftrightarrow> keeps_at P F fs \<and> plain_dir fs d"

lemma valid_write_own:
  assumes "unprotected P h" and "length d < length h"
  shows "valid (keeps_dir P F d) (write_handle e h bs) (\<lambda>_. keeps_dir P F d) (keeps_dir P F d)"
  unfolding write_handle_def
  by (rule valid_syscall)
    (use assms in \<open>auto simp: keeps_dir_def keeps_files_append plain_dir_append_file\<close>)

lemma valid_copy_chunks:
  assumes "unprotected P h" and "length d < length h"
  shows "valid (keeps_dir P F d) (copy_chunks h cs) (\<lambda>_. keeps_dir P F d) (keeps_dir P F d)"
proof (induction cs)
  case Nil
  then show ?case by (auto intro: valid_reads [OF reads_touch])
next
  case (Cons c cs)
  then show ?case
    unfolding copy_chunks.simps
    by (intro valid_pass [OF reads_touch] valid_andThen [OF valid_write_own [OF assms]])
qed

lemma valid_copy_and_verify:
  assumes "unprotected P t" and "plain_name name" and "CHR ''/'' \<notin> set name"
  shows "valid (keeps_dir P F t) (copy_and_verify L staged (join_path t name) digest)
    (\<lambda>_. keeps_dir P F t) (keeps_dir P F t)"
proof -
  have eq: "join_path t name = t @ [name]"
    using assms by (intro join_path_child) (auto simp: plain_name_def)
  have h: "unprotected P (t @ [name])"
    using assms(1) by (rule unprotected_append)
  have create: "valid (keeps_dir P F t) (change Installation (create_new (t @ [name])))
      (\<lambda>handle fs. handle = t @ [name] \<and> keeps_dir P F t fs) (keeps_dir P F t)"
    by (rule valid_change)
      (auto simp: create_new_def keeps_dir_def locate_child assms node_at_None keeps_files_new
        plain_dir_new split: if_splits)
  have rest: "valid (\<lambda>fs. handle = t @ [name] \<and> keeps_dir P F t fs)
      (andThen (copy_chunks handle cs) (\<lambda>_.
       if bad then throw Verification else andThen (touch Installation) (\<lambda>_. touch Installation)))
      (\<lambda>_. keeps_dir P F t) (keeps_dir P F t)" for handle cs bad
  proof (cases "handle = t @ [name]")
    case True
    have "valid (keeps_dir P F t)
        (andThen (copy_chunks (t @ [name]) cs) (\<lambda>_.
         if bad then throw Verification else andThen (touch Installation) (\<lambda>_. touch Installation)))
        (\<lambda>_. keeps_dir P F t) (keeps_dir P F t)"
      by (intro valid_andThen [OF valid_copy_chunks [OF h]] valid_if valid_throw
          valid_pass [OF reads_touch] valid_reads [OF reads_touch]) simp_all
    with True show ?thesis by simp
  qed (simp add: valid_def)
  show ?thesis
    unfolding copy_and_verify_def eq
    by (intro valid_pass [OF reads_query] valid_andThen [OF create] rest)
qed

lemma reads_sync_directory: "reads (sync_directory p) (\<lambda>_ _. True)"
  unfolding sync_directory_def
  by (rule reads_conseq [OF reads_andThen [OF reads_query reads_touch]]) simp

lemma plain_dir_move:
  assumes "plain_dir fs d" and "length d < length p" and "length d < length q"
  shows "plain_dir (move_tree p q fs) d"
  using assms(1)
  by (rule plain_dir_cong) (use assms(2,3) in \<open>auto simp: move_tree_def dest: arg_cong [where f = length]\<close>)

lemma valid_rename_version:
  assumes t: "t = d @ [tn]" "unprotected P t" and v: "plain_name v"
  shows "valid (keeps_dir P F t) (change Installation (rename t (d @ [v])))
    (\<lambda>_. keeps_dir P F d) (keeps_dir P F d)"
proof (rule valid_change)
  fix x fs fs'
  assume fs: "keeps_dir P F t fs" and ren: "rename t (d @ [v]) fs = Some (x, fs')"
  then have dir: "plain_dir fs d" "plain_name tn" "fs t = Some Dir" and keep: "keeps_at P F fs"
    by (auto simp: keeps_dir_def t plain_dir_snoc)
  have loc: "locate fs t = Some t" "locate fs (d @ [v]) = Some (d @ [v])"
    unfolding t using locate_child dir(1,2) v by blast+
  have node: "node_at fs t = Some Dir" "node_at fs (d @ [v]) = fs (d @ [v])"
    using dir(3) by (simp_all add: node_at_def t)
  from ren loc node consider "fs' = fs" |
    "fs' = move_tree t (d @ [v]) fs" "fs (d @ [v]) = None \<or> fs (d @ [v]) = Some Dir"
    "\<not> has_children fs (d @ [v])"
    by (auto simp: rename_def split: if_splits)
  then show "keeps_dir P F d fs'"
  proof cases
    case 1
    with dir(1) keep show ?thesis by (simp add: keeps_dir_def)
  next
    case 2
    with keeps_files_move [OF keep t(2) 2(2,3)] plain_dir_move [OF dir(1), of t "d @ [v]"] show ?thesis
      by (simp add: keeps_dir_def t)
  qed
next
  show "keeps_dir P F d fs" if "keeps_dir P F t fs" for fs
    using that by (simp add: keeps_dir_def t plain_dir_snoc)
qed

lemma valid_remove_own_dir:
  assumes t: "t = d @ [tn]" "unprotected P t" and name: "plain_name tn"
  shows "valid (keeps_dir P F d) (remove_tree e t) (\<lambda>_. keeps_at P F) (keeps_at P F)"
proof (rule valid_remove_tree)
  show loc: "locate fs t = Some t" if "keeps_dir P F d fs" for fs
    unfolding t(1) using locate_child that name by (auto simp: keeps_dir_def)
  have keep: "keeps_at P F fs'"
    if fs: "keeps_dir P F d fs" and outside: "\<And>r. take (length t) r \<noteq> t \<Longrightarrow> fs' r = fs r" for fs fs'
  proof -
    have "fs' r = fs r" if "P r" for r
      using that t(2) outside unfolding unprotected_def by blast
    with fs show ?thesis
      by (auto simp: keeps_dir_def keeps_at_def)
  qed
  then show "keeps_at P F fs'" if "keeps_dir P F d fs" "\<And>r. take (length t) r \<noteq> t \<Longrightarrow> fs' r = fs r" for fs fs'
    using that by blast
  show "keeps_at P F fs'" if "keeps_dir P F d fs" "remove_dir_all t fs = Some (x, fs')" for x fs fs'
    by (rule keep [OF that(1)]) (rule remove_all_outside [OF that(2) loc [OF that(1)]])
qed (simp add: keeps_dir_def)

lemma valid_place_version:
  assumes v: "safe_component (inst_version config)" and n: "safe_component (inst_installed_name config)"
    and own: "\<And>pid nonce. unprotected P (d @ [install_temporary pid nonce])"
  shows "valid (keeps_dir P F d) (place_version L staged config d digest) (\<lambda>_. keeps_dir P F d)
    (keeps_at P F)"
proof -
  have t: "join_path d (install_temporary pid nonce) = d @ [install_temporary pid nonce]" for pid nonce
    by (rule join_path_child) (simp_all add: install_temporary_plain)
  have vp: "join_path d (inst_version config) = d @ [inst_version config]"
    using safe_component_no_slash [OF v] safe_component_plain [OF v]
    by (intro join_path_child) (auto simp: plain_name_def)
  have mk: "valid (keeps_dir P F d) (change Installation (mkdir (d @ [install_temporary pid nonce])))
      (\<lambda>_. keeps_dir P F (d @ [install_temporary pid nonce])) (keeps_at P F)" for pid nonce
    by (rule valid_change)
      (auto simp: mkdir_def keeps_dir_def locate_child install_temporary_plain node_at_None
        keeps_files_new plain_dir_new plain_dir_snoc split: if_splits)
  have weaken: "keeps_dir P F (d @ [x]) fs \<Longrightarrow> keeps_dir P F d fs" for x fs
    by (simp add: keeps_dir_def plain_dir_snoc)
  have copy: "valid (keeps_dir P F (d @ [install_temporary pid nonce]))
      (copy_and_verify L staged
        (join_path (d @ [install_temporary pid nonce]) (inst_installed_name config)) digest)
      (\<lambda>_. keeps_dir P F (d @ [install_temporary pid nonce])) (keeps_dir P F d)" for pid nonce
    by (rule valid_conseq [OF valid_copy_and_verify [OF own safe_component_plain [OF n]
            safe_component_no_slash [OF n]]]) (auto intro: weaken)
  have moved: "valid (keeps_dir P F (d @ [install_temporary pid nonce]))
      (andThen (change Installation (rename (d @ [install_temporary pid nonce]) (d @ [inst_version config])))
        (\<lambda>_. sync_directory d)) (\<lambda>_. keeps_dir P F d) (keeps_dir P F d)" for pid nonce
    by (rule valid_andThen [OF valid_rename_version [OF refl own safe_component_plain [OF v]]])
      (auto intro: valid_reads [OF reads_sync_directory])
  have body: "valid (keeps_dir P F (d @ [install_temporary pid nonce]))
      (andThen (copy_and_verify L staged
          (join_path (d @ [install_temporary pid nonce]) (inst_installed_name config)) digest) (\<lambda>_.
        andThen (sync_directory (d @ [install_temporary pid nonce])) (\<lambda>_.
        andThen (change Installation (rename (d @ [install_temporary pid nonce]) (d @ [inst_version config])))
          (\<lambda>_. sync_directory d))))
      (\<lambda>_. keeps_dir P F d) (keeps_dir P F d)" for pid nonce
    by (rule valid_andThen [OF copy valid_pass [OF reads_sync_directory weaken moved]])
  have cleanup: "valid (\<lambda>fs. case result of Inl _ \<Rightarrow> keeps_dir P F d fs | Inr _ \<Rightarrow> keeps_dir P F d fs)
      (if is_ok result then ret ()
       else andThen (attempt (remove_tree () (d @ [install_temporary pid nonce])))
         (\<lambda>_. lift result)) (\<lambda>_. keeps_dir P F d) (keeps_at P F)" for pid nonce result
  proof (cases result)
    case (Inl e)
    have "valid (keeps_dir P F d)
        (attempt (remove_tree () (d @ [install_temporary pid nonce])))
        (\<lambda>_. keeps_at P F) (keeps_at P F)"
      by (rule valid_conseq [OF valid_attempt [OF valid_remove_own_dir
              [OF refl own install_temporary_plain(1)]]]) (auto split: sum.splits)
    then have "valid (keeps_dir P F d)
        (andThen (attempt (remove_tree () (d @ [install_temporary pid nonce])))
          (\<lambda>_. lift result)) (\<lambda>_. keeps_dir P F d) (keeps_at P F)"
      by (rule valid_andThen) (use Inl in \<open>auto intro: valid_lift\<close>)
    with Inl show ?thesis by simp
  qed (auto intro: valid_ret)
  show ?thesis
    unfolding place_version_def t vp Let_def
    by (intro valid_pass [OF reads_clock] valid_pass [OF reads_process_id] valid_andThen [OF mk]
        valid_andThen [OF valid_attempt [OF body] cleanup]) (simp_all add: keeps_dir_def)
qed

section \<open>Installing\<close>

lemma state_swap_keeps: "state_swap J root F s fs \<Longrightarrow> keeps_files F fs"
proof -
  assume swap: "state_swap J root F s fs"
  have "p \<noteq> activation_path root \<and> \<not> is_temporary root p" if "foreign_path p" for p
    using that by (auto simp: foreign_path_def activation_path_eq is_temporary_def)
  with swap show ?thesis
    by (simp add: state_swap_def keeps_at_def)
qed

lemma state_swapped_swap: "state_swapped J root F s fs \<Longrightarrow> state_swap J root F s fs"
  by (auto simp: state_swapped_def state_swap_def)

lemma keeps_files_trans: "keeps_files F G \<Longrightarrow> keeps_files G H \<Longrightarrow> keeps_files F H"
  by (simp add: keeps_at_def)

definition install_slot :: "InstallConfig \<Rightarrow> string \<Rightarrow> ActivationSlot" where
  "install_slot config digest =
     \<lparr>slot_version = inst_version config,
      slot_relative_path = version_relative_path (inst_version config) (inst_installed_name config),
      slot_sha256 = to_ascii_lowercase digest\<rparr>"

definition installed ::
    "'v lib \<Rightarrow> json \<Rightarrow> InstallConfig \<Rightarrow> string \<Rightarrow> path \<Rightarrow> fs \<Rightarrow> bool"
where
  "installed L J config digest q fs \<longleftrightarrow>
     (\<exists>root before old.
        q = root @ [''versions'', inst_version config, inst_installed_name config] \<and>
        slot_verified L before root (install_slot config digest) \<and>
        (old = default_activation_state \<or> stored_state J before root old) \<and>
        state_swapped J root before (old\<lparr>act_pending := Some (install_slot config digest)\<rparr>) fs)"

lemma valid_install_tail:
  assumes final: "final = root @ [''versions'', inst_version config, inst_installed_name config]"
    and slot: "slot = install_slot config digest"
  shows "valid (keeps_dir foreign_path F (root @ [''versions'']))
    (andThen (verify_slot L root slot) (\<lambda>_.
     andThen (read_activation_state J (AbsolutePath root)) (\<lambda>state.
     andThen (write_activation_state J root (state\<lparr>act_pending := Some slot\<rparr>)) (\<lambda>_. ret final))))
    (\<lambda>q fs. keeps_files F fs \<and> installed L J config digest q fs) (keeps_files F)"
proof (rule valid_each)
  fix G
  assume G: "keeps_dir foreign_path F (root @ [''versions'']) G"
  then have root: "plain_dir G root" and keep: "keeps_files F G"
    by (auto simp: keeps_dir_def plain_dir_snoc)
  have tail: "valid (\<lambda>fs. fs = G)
      (andThen (write_activation_state J root (state\<lparr>act_pending := Some slot\<rparr>)) (\<lambda>_. ret final))
      (\<lambda>q fs. keeps_files F fs \<and> installed L J config digest q fs) (keeps_files F)"
    if "slot_verified L G root slot" "state = default_activation_state \<or> stored_state J G root state"
    for state
  proof (rule valid_andThen)
    show "valid (\<lambda>fs. fs = G) (write_activation_state J root (state\<lparr>act_pending := Some slot\<rparr>))
        (\<lambda>_ fs. state_swapped J root G (state\<lparr>act_pending := Some slot\<rparr>) fs) (keeps_files F)"
      by (rule valid_conseq [OF valid_write_activation_state [OF root]])
        (auto intro: keeps_files_trans [OF keep] state_swap_keeps)
    show "valid (\<lambda>fs. state_swapped J root G (state\<lparr>act_pending := Some slot\<rparr>) fs) (ret final)
        (\<lambda>q fs. keeps_files F fs \<and> installed L J config digest q fs) (keeps_files F)"
    proof (rule valid_ret)
      fix fs
      assume swapped: "state_swapped J root G (state\<lparr>act_pending := Some slot\<rparr>) fs"
      then have "keeps_files F fs"
        by (rule keeps_files_trans [OF keep state_swap_keeps [OF state_swapped_swap]])
      moreover have "installed L J config digest final fs"
        unfolding installed_def using swapped that final slot by blast
      ultimately show "keeps_files F fs \<and> installed L J config digest final fs" ..
    qed
  qed
  have verified: "valid (\<lambda>fs. fs = G \<and> slot_verified L fs root slot)
     (andThen (read_activation_state J (AbsolutePath root)) (\<lambda>state.
     andThen (write_activation_state J root (state\<lparr>act_pending := Some slot\<rparr>)) (\<lambda>_. ret final)))
     (\<lambda>q fs. keeps_files F fs \<and> installed L J config digest q fs) (keeps_files F)"
  proof (rule valid_read_then [OF reads_activation_state])
    fix state
    show "valid (\<lambda>fs. (fs = G \<and> slot_verified L fs root slot) \<and> (plain_dir fs root \<longrightarrow>
          state = default_activation_state \<or> stored_state J fs root state))
       (andThen (write_activation_state J root (state\<lparr>act_pending := Some slot\<rparr>)) (\<lambda>_. ret final))
       (\<lambda>q fs. keeps_files F fs \<and> installed L J config digest q fs) (keeps_files F)"
      using tail [of state] root unfolding valid_def by blast
  qed (simp add: keep)
  show "valid (\<lambda>fs. fs = G)
    (andThen (verify_slot L root slot) (\<lambda>_.
     andThen (read_activation_state J (AbsolutePath root)) (\<lambda>state.
     andThen (write_activation_state J root (state\<lparr>act_pending := Some slot\<rparr>)) (\<lambda>_. ret final))))
    (\<lambda>q fs. keeps_files F fs \<and> installed L J config digest q fs) (keeps_files F)"
    by (rule valid_read_then [OF reads_verify_slot _ verified]) (simp add: keep)
qed

lemma valid_install_verified_target:
  "valid (keeps_files F) (install_verified_target L J staged config digest)
    (\<lambda>q fs. keeps_files F fs \<and> installed L J config digest q fs) (keeps_files F)"
  unfolding install_verified_target_def
proof (rule valid_andThen [OF valid_prepare])
  fix root
  let ?v = "root @ [''versions'']"
  show "valid (\<lambda>fs. keeps_files F fs \<and> plain_dir fs ?v \<and> validate_install config digest = Inr ())
    (let versions = join_path root ''versions'';
         final_target = join_path (join_path versions (inst_version config)) (inst_installed_name config);
         slot = \<lparr>slot_version = inst_version config,
                 slot_relative_path =
                   version_relative_path (inst_version config) (inst_installed_name config),
                 slot_sha256 = to_ascii_lowercase digest\<rparr> in
     andThen (path_exists final_target) (\<lambda>present.
     andThen
       (if present then
          andThen (hash_file L final_target) (\<lambda>digest.
          if digest \<noteq> slot_sha256 slot then throw Installation else ret ())
        else place_version L staged config versions (slot_sha256 slot)) (\<lambda>_.
     andThen (verify_slot L root slot) (\<lambda>_.
     andThen (read_activation_state J (AbsolutePath root)) (\<lambda>state.
     andThen (write_activation_state J root (state\<lparr>act_pending := Some slot\<rparr>)) (\<lambda>_.
     ret final_target))))))
    (\<lambda>q fs. keeps_files F fs \<and> installed L J config digest q fs) (keeps_files F)"
  proof (cases "validate_install config digest = Inr ()")
    case True
    then have v: "safe_component (inst_version config)"
      and n: "safe_component (inst_installed_name config)"
      by (auto simp: validate_install_def split: if_splits)
    have final: "join_path (join_path ?v (inst_version config)) (inst_installed_name config)
        = root @ [''versions'', inst_version config, inst_installed_name config]"
      using safe_component_plain [OF v] safe_component_plain [OF n] safe_component_no_slash [OF v]
        safe_component_no_slash [OF n] by (simp add: join_path_child plain_name_def)
    have own: "unprotected foreign_path (?v @ [install_temporary pid nonce])" for pid nonce
      by (rule foreign_unprotected) (simp add: foreign_path_def)
    have placed: "valid (keeps_dir foreign_path F ?v)
       (if present then
          andThen (hash_file L p) (\<lambda>d. if d \<noteq> h then throw Installation else ret ())
        else place_version L staged config ?v h) (\<lambda>_. keeps_dir foreign_path F ?v) (keeps_files F)"
      for present p h
      by (intro valid_if valid_place_version [OF v n own] valid_pass [OF reads_hash_file] valid_throw valid_ret)
        (simp_all add: keeps_dir_def)
    note tail = valid_install_tail [OF refl refl, unfolded install_slot_def]
    have body: "valid (keeps_dir foreign_path F ?v)
       (let versions = join_path root ''versions'';
         final_target = join_path (join_path versions (inst_version config)) (inst_installed_name config);
         slot = \<lparr>slot_version = inst_version config,
                 slot_relative_path =
                   version_relative_path (inst_version config) (inst_installed_name config),
                 slot_sha256 = to_ascii_lowercase digest\<rparr> in
     andThen (path_exists final_target) (\<lambda>present.
     andThen
       (if present then
          andThen (hash_file L final_target) (\<lambda>digest.
          if digest \<noteq> slot_sha256 slot then throw Installation else ret ())
        else place_version L staged config versions (slot_sha256 slot)) (\<lambda>_.
     andThen (verify_slot L root slot) (\<lambda>_.
     andThen (read_activation_state J (AbsolutePath root)) (\<lambda>state.
     andThen (write_activation_state J root (state\<lparr>act_pending := Some slot\<rparr>)) (\<lambda>_.
     ret final_target))))))
       (\<lambda>q fs. keeps_files F fs \<and> installed L J config digest q fs) (keeps_files F)"
      unfolding Let_def versions_path final
      by (intro valid_pass [OF reads_path_exists] valid_andThen [OF placed tail])
        (simp add: keeps_dir_def)
    then show ?thesis
      by (rule valid_conseq) (simp_all add: keeps_dir_def)
  qed (simp add: valid_def)
qed

end
