(* ===== verification/Progress.thy ===== *)
theory Progress
  imports Install
begin

text \<open>
  The updater's operations return when nothing fails: on a disk without I/O errors and with a working
  clock, \<open>activate_pending\<close> and \<open>rollback\<close> succeed exactly as the stored state says, and the state file
  holds the new state. Together with \<open>Activation\<close>, which holds under every schedule, this shows that
  its theorems are not satisfied by an operation that always fails.

  \<open>found_state\<close> is the state in force on a disk: what the state file holds, or the default one when there is
  none. Without failures it is the state every operation starts from (\<open>read_state_found\<close>); for recovery and
  installation this says that no stored version is forgotten (\<open>recover_returns\<close>, \<open>install_returns\<close>).
\<close>

section \<open>Calls\<close>

lemma calm_syscall:
  assumes "calm w"
  shows "syscall e op partial w =
    (case op (wd_fs w) of None \<Rightarrow> (Inl e, w) | Some (x, fs) \<Rightarrow> (Inr x, w\<lparr>wd_fs := fs\<rparr>))"
proof -
  have "w\<lparr>wd_faults := []\<rparr> = w" and "w\<lparr>wd_faults := [], wd_fs := fs\<rparr> = w\<lparr>wd_fs := fs\<rparr>" for fs
    using assms by (simp_all add: calm_def)
  with assms show ?thesis
    by (simp add: syscall_def calm_def split: option.split)
qed

lemmas calm_change = calm_syscall [where partial = "\<lambda>_ fs. fs", folded change_def]

lemma calm_update [simp]: "calm (w\<lparr>wd_fs := fs\<rparr>) = calm w" "calm (w\<lparr>wd_clock := ts\<rparr>) = calm w"
  by (simp_all add: calm_def)

lemma lstat_plain_dir:
  assumes "plain_dir fs p"
  shows "lstat fs p = Some Dir"
proof (cases p rule: rev_cases)
  case Nil
  then show ?thesis by (simp add: lstat_def locate_def realpath_def node_at_def)
next
  case (snoc d c)
  with assms have "locate fs p = Some p"
    by (simp add: plain_dir_snoc locate_child)
  with plain_dir_node [OF assms] show ?thesis
    by (simp add: lstat_def)
qed

lemma lstat_plain_file:
  assumes "plain_path fs q" and "fs q = Some (File bs)" and "q \<noteq> []"
  shows "lstat fs q = Some (File bs)"
proof -
  have "plain_dir fs (butlast q)" "plain_name (last q)" "q = butlast q @ [last q]"
    using assms by (auto simp: plain_path_def)
  then have "locate fs q = Some q"
    by (metis locate_child)
  with assms(2,3) show ?thesis
    by (simp add: lstat_def node_at_def)
qed

section \<open>Reading\<close>

lemma canonical_root_calm:
  "calm w \<Longrightarrow> plain_dir (wd_fs w) root \<Longrightarrow> canonical_install_root (AbsolutePath root) w = (Inr root, w)"
  by (simp add: canonical_install_root_def absolute_def andThen_def calm_query lstat_plain_dir realpath_dir)

lemma verify_slot_calm:
  assumes "calm w" and "slot_verified L (wd_fs w) root slot"
  shows "verify_slot L root slot w = (Inr (), w)"
proof -
  from assms(2) obtain q bs where
    q: "realpath (wd_fs w) (join_path root (slot_relative_path slot)) = Some q"
    "take (length root) q = root" "node_at (wd_fs w) q = Some (File bs)"
    "hex_encode (sha256 L bs) = slot_sha256 slot" "validate_slot slot = Inr ()"
    by (auto simp: slot_verified_def)
  have plain: "plain_path (wd_fs w) q"
    by (rule realpath_plain [OF q(1)])
  from q(3) have "q \<noteq> []" and "wd_fs w q = Some (File bs)"
    by (simp_all add: node_at_file)
  with plain have "lstat (wd_fs w) q = Some (File bs)" "read_file (wd_fs w) q = Some bs"
    by (simp_all add: lstat_plain_file read_file_def stat_def plain_path_realpath node_at_def)
  with q assms(1) show ?thesis
    by (simp add: verify_slot_def hash_file_def andThen_def run_simps calm_query is_regular_def)
qed

definition state_on_disk :: "json \<Rightarrow> fs \<Rightarrow> path \<Rightarrow> ActivationState \<Rightarrow> bool" where
  "state_on_disk J fs root s \<longleftrightarrow>
     validate_state s = Inr () \<and>
     (\<exists>bs. fs (activation_path root) = Some (File bs) \<and> bs \<noteq> [] \<and>
        length bs \<le> MAX_ACTIVATION_STATE_BYTES \<and> json_from_slice J bs = Some s)"

lemma activation_file:
  assumes "plain_dir fs root" and "fs (activation_path root) = Some (File bs)"
  shows "lstat fs (activation_path root) = Some (File bs)" "read_file fs (activation_path root) = Some bs"
    "stat fs (activation_path root) = Some (File bs)"
proof -
  have plain: "plain_path fs (activation_path root)"
    using assms by (simp add: activation_path_eq plain_path_def plain_name_def plain_node_def)
  then show "stat fs (activation_path root) = Some (File bs)"
    using assms(2) by (simp add: stat_def plain_path_realpath node_at_def activation_path_eq)
  then show "read_file fs (activation_path root) = Some bs"
    by (simp add: read_file_def)
  show "lstat fs (activation_path root) = Some (File bs)"
    by (rule lstat_plain_file [OF plain assms(2)]) (simp add: activation_path_eq)
qed

lemma read_state_calm:
  assumes "calm w" and "plain_dir (wd_fs w) root" and "state_on_disk J (wd_fs w) root s"
  shows "read_activation_state J (AbsolutePath root) w = (Inr s, w)"
proof -
  from assms(3) obtain bs where bs: "wd_fs w (activation_path root) = Some (File bs)" "bs \<noteq> []"
    "length bs \<le> MAX_ACTIVATION_STATE_BYTES" "json_from_slice J bs = Some s" "validate_state s = Inr ()"
    by (auto simp: state_on_disk_def)
  from activation_file [OF assms(2) bs(1)] bs(2-) assms(1) show ?thesis
    by (simp add: read_activation_state_def canonical_root_calm [OF assms(1,2)] andThen_def
        read_activation_state_canonical_def path_exists_def attempt_def run_simps calm_query)
qed

section \<open>Writing\<close>

text \<open>What \<open>write_activation_state\<close> needs besides an operating system that does not fail.\<close>

definition can_write :: "json \<Rightarrow> world \<Rightarrow> path \<Rightarrow> ActivationState \<Rightarrow> bool" where
  "can_write J w root s \<longleftrightarrow>
     calm w \<and> plain_dir (wd_fs w) root \<and> validate_state s = Inr () \<and>
     (\<exists>bs. json_to_vec J s = Some bs \<and> bs \<noteq> [] \<and> length bs \<le> MAX_ACTIVATION_STATE_BYTES) \<and>
     (\<exists>t ts. wd_clock w = Some t # ts \<and>
        wd_fs w (root @ [activation_temporary (wd_pid w) t]) = None) \<and>
     wd_fs w (activation_path root) \<noteq> Some Dir"

definition written :: "json \<Rightarrow> world \<Rightarrow> path \<Rightarrow> ActivationState \<Rightarrow> world" where
  "written J w root s =
     w\<lparr>wd_fs := (wd_fs w)(activation_path root \<mapsto> File (the (json_to_vec J s))),
       wd_clock := tl (wd_clock w)\<rparr>"

lemma write_state_calm:
  assumes "can_write J w root s"
  shows "write_activation_state J root s w = (Inr (), written J w root s)"
proof -
  from assms obtain bs t ts where w: "calm w" "plain_dir (wd_fs w) root" "validate_state s = Inr ()"
    "json_to_vec J s = Some bs" "bs \<noteq> []" "length bs \<le> MAX_ACTIVATION_STATE_BYTES"
    "wd_clock w = Some t # ts" "wd_fs w (root @ [activation_temporary (wd_pid w) t]) = None"
    "wd_fs w (activation_path root) \<noteq> Some Dir"
    by (auto simp: can_write_def)
  define p where "p = root @ [activation_temporary (wd_pid w) t]"
  have neq: "p \<noteq> activation_path root" "activation_path root \<noteq> p"
    using activation_not_temporary [of root "wd_pid w" t] by (auto simp: p_def)
  have dir: "plain_dir ((wd_fs w)(p := x)) root" for x
    by (rule plain_dir_update [OF w(2)]) (simp add: p_def)
  have loc: "locate (wd_fs w) p = Some p" "locate ((wd_fs w)(p := x)) p = Some p"
    "locate ((wd_fs w)(p := x)) (activation_path root) = Some (activation_path root)" for x
    using locate_child [OF w(2) activation_temporary_plain(1)]
      locate_child [OF dir activation_temporary_plain(1)] locate_child [OF dir, of "''activation.json''"]
    by (simp_all add: p_def activation_path_eq plain_name_def)
  have node: "node_at fs p = fs p" "node_at fs (activation_path root) = fs (activation_path root)" for fs
    by (simp_all add: node_at_def p_def activation_path_eq)
  have final: "plain_dir ((wd_fs w)(p := None, activation_path root \<mapsto> File bs)) root"
    by (rule plain_dir_update [OF dir]) (simp add: activation_path_eq)
  have stat: "stat ((wd_fs w)(p := None, activation_path root \<mapsto> File bs)) root = Some Dir"
    using final by (simp add: stat_def realpath_dir plain_dir_node)
  then have stat': "stat ((wd_fs w)(activation_path root \<mapsto> File bs, p := None)) root = Some Dir"
    by (simp add: fun_upd_twist [OF neq(1)])
  have same: "(wd_fs w)(p := None) = wd_fs w"
    using w(8) by (simp add: fun_upd_idem p_def)
  note calls = andThen_def attempt_def run_simps calm_query calm_change calm_syscall
  have swap: "swap_state_file root p p bs (w\<lparr>wd_clock := ts, wd_fs := (wd_fs w)(p \<mapsto> File [])\<rparr>)
      = (Inr (), w\<lparr>wd_fs := (wd_fs w)(p := None, activation_path root \<mapsto> File bs), wd_clock := ts\<rparr>)"
    using w(1,9)
    by (simp add: swap_state_file_def calls write_handle_def append_file_def touch_def atomic_replace_def
        sync_directory_def rename_def loc node neq stat' fun_upd_twist [OF neq(1)])
  show ?thesis
    using w(1,3-8) swap
    by (simp add: write_activation_state_def calls read_clock_def process_id_def Let_def
        temporary_path_eq p_def [symmetric] create_new_def loc node touch_def same written_def)
qed

section \<open>Activating and rolling back\<close>

lemma activate_pending_calm:
  assumes "state_on_disk J (wd_fs w) root old" and "act_pending old = Some slot"
    and "slot_verified L (wd_fs w) root slot"
    and "s = old\<lparr>act_previous := act_active old, act_active := Some slot, act_pending := None\<rparr>"
    and "can_write J w root s"
  shows "activate_pending L J (AbsolutePath root) w = (Inr s, written J w root s)"
proof -
  from assms(5) have "calm w" "plain_dir (wd_fs w) root"
    by (simp_all add: can_write_def)
  with assms write_state_calm [OF assms(5)] show ?thesis
    by (simp add: activate_pending_def commit_def andThen_def run_simps canonical_root_calm
        read_state_calm verify_slot_calm)
qed

lemma rollback_calm:
  assumes "state_on_disk J (wd_fs w) root old" and "act_previous old = Some slot"
    and "slot_verified L (wd_fs w) root slot"
    and "s = old\<lparr>act_active := Some slot, act_previous := act_active old, act_pending := None\<rparr>"
    and "can_write J w root s"
  shows "rollback L J (AbsolutePath root) w = (Inr s, written J w root s)"
proof -
  from assms(5) have "calm w" "plain_dir (wd_fs w) root"
    by (simp_all add: can_write_def)
  with assms write_state_calm [OF assms(5)] show ?thesis
    by (simp add: rollback_def commit_def andThen_def run_simps canonical_root_calm
        read_state_calm verify_slot_calm)
qed

lemma recover_calm:
  assumes "state_on_disk J (wd_fs w) root s"
    and "\<forall>slot \<in> set (state_slots s). slot_verified L (wd_fs w) root slot" and "can_write J w root s"
  shows "recover L J (AbsolutePath root) w = (Inr s, written J w root s)"
proof -
  from assms(3) have w: "calm w" "plain_dir (wd_fs w) root"
    by (simp_all add: can_write_def)
  have "slot_fails L root x w = (Inr False, w)"
    if "\<forall>slot. x = Some slot \<longrightarrow> slot_verified L (wd_fs w) root slot" for x
    using that
    by (auto simp: verify_slot_calm [OF w(1)] slot_fails_def andThen_def attempt_def run_simps split: option.split)
  then have "slot_fails L root x w = (Inr False, w)" if "x \<in> {act_active s, act_previous s, act_pending s}" for x
    using that assms(2) by (auto simp: state_slots_set)
  then show ?thesis
    using w assms write_state_calm [OF assms(3)]
    by (simp add: recover_def commit_def recover_state_def andThen_def run_simps canonical_root_calm
        read_state_calm Let_def)
qed

section \<open>Reading without failures\<close>

text \<open>A call that only reads leaves a world without failures as it is.\<close>

definition calm_reader :: "('e, 'a) call \<Rightarrow> bool" where
  "calm_reader m \<longleftrightarrow> (\<forall>w. calm w \<longrightarrow> snd (m w) = w)"

lemma calm_reader_run: "calm_reader m \<Longrightarrow> calm w \<Longrightarrow> m w = (r, w') \<Longrightarrow> w' = w"
  unfolding calm_reader_def by (metis snd_conv)

lemma calm_reader_rules:
  "calm_reader (ret x)" "calm_reader (throw e)" "calm_reader (lift r)" "calm_reader (query e f)"
  "calm_reader m \<Longrightarrow> (\<And>x. calm_reader (k x)) \<Longrightarrow> calm_reader (andThen m k)"
  "calm_reader m \<Longrightarrow> calm_reader (attempt m)"
  by (auto simp: calm_reader_def run_simps calm_query andThen_def attempt_def split: option.split prod.split sum.split)

lemma calm_reader_verify_slot: "calm_reader (verify_slot L root slot)"
  unfolding verify_slot_def hash_file_def by (auto intro!: calm_reader_rules)

lemma calm_reader_state:
  "calm_reader (canonical_install_root p)" "calm_reader (read_activation_state J p)"
proof -
  show root: "calm_reader (canonical_install_root p)" for p
    by (auto simp: canonical_install_root_def intro!: calm_reader_rules)
  have "calm_reader (read_activation_state_canonical J q)" for q
    by (auto simp: read_activation_state_canonical_def path_exists_def intro!: calm_reader_rules split: node.split)
  then show "calm_reader (read_activation_state J p)"
    by (auto simp: read_activation_state_def intro!: calm_reader_rules root)
qed

text \<open>The state that is in force on a disk: the default one while there is no state file, else the stored one.\<close>

definition found_state :: "json \<Rightarrow> fs \<Rightarrow> path \<Rightarrow> ActivationState \<Rightarrow> bool" where
  "found_state J fs root s \<longleftrightarrow>
     (if stat fs (activation_path root) = None then s = default_activation_state
      else stored_state J fs root s)"

lemma found_state_file:
  assumes "found_state J fs root s" and "plain_dir fs root" and "fs (activation_path root) = Some (File bs)"
  shows "json_from_slice J bs = Some s"
  using assms(1) activation_file [OF assms(2,3)] by (auto simp: found_state_def stored_state_def)

text \<open>Without failures nothing but that state is read.\<close>

lemma read_state_found:
  assumes "calm w" and "plain_dir (wd_fs w) root" and "read_activation_state J (AbsolutePath root) w = (Inr s, w')"
  shows "found_state J (wd_fs w) root s"
proof (cases "stat (wd_fs w) (activation_path root)")
  case None
  with assms(3) show ?thesis
    by (simp add: read_activation_state_def canonical_root_calm [OF assms(1,2)] andThen_def
        read_activation_state_canonical_def path_exists_def attempt_def run_simps calm_query [OF assms(1)]
        found_state_def)
next
  case (Some n)
  with assms(3) have "read_activation_state_canonical J root w = (Inr s, w')"
    by (simp add: read_activation_state_def canonical_root_calm [OF assms(1,2)] andThen_def)
  with Some have "\<exists>bs. read_file (wd_fs w) (activation_path root) = Some bs \<and> json_from_slice J bs = Some s \<and>
      validate_state s = Inr ()"
    by (auto simp: read_activation_state_canonical_def path_exists_def attempt_def run_simps calm_query [OF assms(1)]
        andThen_def ok_or_def split: option.splits node.splits if_splits sum.splits)
  with Some show ?thesis
    by (auto simp: found_state_def stored_state_def)
qed

lemma slot_fails_calm:
  assumes "calm w"
  shows "slot_fails L root so w = (Inr (\<exists>slot. so = Some slot \<and> \<not> slot_verified L (wd_fs w) root slot), w)"
proof (cases so)
  case (Some slot)
  obtain r w' where run: "verify_slot L root slot w = (r, w')"
    by fastforce
  then have "w' = w"
    by (rule calm_reader_run [OF calm_reader_verify_slot assms])
  moreover have "is_ok r \<longleftrightarrow> slot_verified L (wd_fs w) root slot"
    using reads_ok [OF reads_verify_slot, of L root slot w] verify_slot_calm [OF assms, of L root slot] run
    by (auto simp: is_ok_iff)
  ultimately show ?thesis
    using run Some by (simp add: slot_fails_def andThen_def attempt_def run_simps)
qed (simp add: slot_fails_def run_simps)

text \<open>What remains of a slot whose file is checked.\<close>

definition surviving :: "'v lib \<Rightarrow> fs \<Rightarrow> path \<Rightarrow> ActivationSlot option \<Rightarrow> ActivationSlot option" where
  "surviving L fs root so =
     (case so of None \<Rightarrow> None | Some slot \<Rightarrow> if slot_verified L fs root slot then Some slot else None)"

lemma recover_state_calm:
  assumes "calm w" and "recover_state L root old w = (Inr s, w')"
  shows "act_pending s = surviving L (wd_fs w) root (act_pending old) \<and>
    (if surviving L (wd_fs w) root (act_active old) = act_active old
     then act_active s = act_active old \<and> act_previous s = surviving L (wd_fs w) root (act_previous old)
     else act_active s = act_previous old \<and> act_previous s = None)"
proof -
  define bad where "bad so \<longleftrightarrow> (\<exists>slot. so = Some slot \<and> \<not> slot_verified L (wd_fs w) root slot)" for so
  define st where "st = (if bad (act_pending old) then old\<lparr>act_pending := None\<rparr> else old)"
  have gone: "surviving L (wd_fs w) root so = (if bad so then None else so)" for so
    by (auto simp: bad_def surviving_def split: option.split)
  have st: "act_pending st = surviving L (wd_fs w) root (act_pending old)" "act_active st = act_active old"
    "act_previous st = act_previous old"
    by (simp_all add: st_def gone)
  have run: "andThen (slot_fails L root so) f w = f (bad so) w"
    for so and f :: "bool \<Rightarrow> (UpdateError, ActivationState) call"
    by (simp add: andThen_def slot_fails_calm [OF assms(1)] bad_def)
  show ?thesis
  proof (cases "bad (act_active old)")
    case True
    with assms(2) obtain previous where "s = st\<lparr>act_active := Some previous, act_previous := None\<rparr>"
      "act_previous old = Some previous"
      by (auto simp: recover_state_def run Let_def andThen_ok run_simps ok_or_ok simp flip: st_def simp: st)
    moreover from True have "act_active old \<noteq> None"
      by (auto simp: bad_def)
    ultimately show ?thesis using True st(1) by (auto simp: gone)
  next
    case False
    then have "s = (if bad (act_previous old) then st\<lparr>act_previous := None\<rparr> else st)"
      using assms(2) by (auto simp: recover_state_def run Let_def run_simps st st_def)
    with st False show ?thesis by (simp add: gone)
  qed
qed

text \<open>What \<open>recover\<close> does, and, when no call fails, that it drops only what fails verification.\<close>

lemma recover_returns:
  assumes "recover L J p w = (Inr s, w')"
  shows "\<exists>root old. plain_dir (wd_fs w) root \<and> realpath (wd_fs w) (path_pieces p) = Some root \<and>
    (old = default_activation_state \<or> stored_state J (wd_fs w) root old) \<and>
    (\<forall>slot \<in> set (state_slots s). slot_verified L (wd_fs w) root slot) \<and>
    act_pending s \<in> {None, act_pending old} \<and>
    (act_active s = act_active old \<and> act_previous s \<in> {None, act_previous old} \<or>
     act_active old \<noteq> None \<and> act_previous old \<noteq> None \<and>
       act_active s = act_previous old \<and> act_previous s = None) \<and>
    (calm w \<longrightarrow> found_state J (wd_fs w) root old \<and>
       act_pending s = surviving L (wd_fs w) root (act_pending old) \<and>
       (if surviving L (wd_fs w) root (act_active old) = act_active old
        then act_active s = act_active old \<and> act_previous s = surviving L (wd_fs w) root (act_previous old)
        else act_active s = act_previous old \<and> act_previous s = None)) \<and>
    state_swapped J root (wd_fs w) s (wd_fs w')"
proof -
  from assms obtain root w1 old w2 w3 where
    c: "canonical_install_root p w = (Inr root, w1)" and
    o: "read_activation_state J (AbsolutePath root) w1 = (Inr old, w2)" and
    s: "recover_state L root old w2 = (Inr s, w3)" and
    v: "write_activation_state J root s w3 = (Inr (), w')"
    by (auto simp: recover_def commit_def andThen_ok run_simps)
  from reads_ok [OF reads_canonical_install_root c] have w1: "wd_fs w1 = wd_fs w"
    and root: "plain_dir (wd_fs w) root" "realpath (wd_fs w) (path_pieces p) = Some root" by auto
  from reads_ok [OF reads_activation_state o] root(1) w1 have w2: "wd_fs w2 = wd_fs w"
    and old: "old = default_activation_state \<or> stored_state J (wd_fs w) root old" by auto
  from reads_ok [OF reads_recover_state s] w2 have w3: "wd_fs w3 = wd_fs w" by simp
  have w: "calm w \<Longrightarrow> w2 = w"
    using calm_reader_run [OF calm_reader_state(1) _ c] calm_reader_run [OF calm_reader_state(2) _ o] by simp
  have drops: "act_pending s = surviving L (wd_fs w) root (act_pending old) \<and>
       (if surviving L (wd_fs w) root (act_active old) = act_active old
        then act_active s = act_active old \<and> act_previous s = surviving L (wd_fs w) root (act_previous old)
        else act_active s = act_previous old \<and> act_previous s = None)" if "calm w"
    using recover_state_calm [OF _ s] w [OF that] that by blast
  have found: "found_state J (wd_fs w) root old" if "calm w"
    using calm_reader_run [OF calm_reader_state(1) that c] read_state_found [OF _ _ o] that root(1) by simp
  from validD_ok [OF valid_write_activation_state [OF root(1)] v w3]
  have "state_swapped J root (wd_fs w) s (wd_fs w')" .
  with reads_ok [OF reads_recover_state s] w2 root old drops found show ?thesis
    by (intro exI [of _ root] exI [of _ old]) simp
qed

section \<open>Installing without failures\<close>

text \<open>A call that meets no failure leaves a world in which the next call meets none.\<close>

definition stays_calm :: "('e, 'a) call \<Rightarrow> bool" where
  "stays_calm m \<longleftrightarrow> (\<forall>w. calm w \<longrightarrow> calm (snd (m w)))"

lemma stays_calm_run: "stays_calm m \<Longrightarrow> calm w \<Longrightarrow> m w = (r, w') \<Longrightarrow> calm w'"
  unfolding stays_calm_def by (metis snd_conv)

lemma stays_calm_calls:
  "stays_calm (ret x)" "stays_calm (throw e)" "stays_calm (lift r)" "stays_calm (query e f)"
  "stays_calm (change e op)" "stays_calm (syscall e op partial)" "stays_calm (read_clock e)"
  "stays_calm process_id"
  by (auto simp: stays_calm_def run_simps calm_query calm_change calm_syscall read_clock_def process_id_def
      split: option.split list.split)

lemma stays_calm_andThen: "stays_calm m \<Longrightarrow> (\<And>x. stays_calm (k x)) \<Longrightarrow> stays_calm (andThen m k)"
  unfolding stays_calm_def andThen_def by (auto split: prod.split sum.split)

lemma stays_calm_attempt: "stays_calm m \<Longrightarrow> stays_calm (attempt m)"
  unfolding stays_calm_def attempt_def by (auto split: prod.split)

lemma stays_calm_if: "stays_calm m \<Longrightarrow> stays_calm n \<Longrightarrow> stays_calm (if b then m else n)"
  by simp

lemmas stays_calm_rules =
  stays_calm_calls stays_calm_andThen stays_calm_attempt stays_calm_if

lemma stays_calm_files:
  "stays_calm (touch e)" "stays_calm (write_handle e q bs)" "stays_calm (remove_tree e p)"
  "stays_calm (path_exists p)" "stays_calm (sync_directory p)" "stays_calm (hash_file L p)"
  by (simp_all add: touch_def write_handle_def remove_tree_def path_exists_def sync_directory_def hash_file_def
      stays_calm_rules)

lemma stays_calm_loops: "stays_calm (make_prefixes e made cs)" "stays_calm (copy_chunks q bss)"
proof -
  show "stays_calm (make_prefixes e made cs)"
    by (induction cs arbitrary: made) (auto intro!: stays_calm_rules)
  show "stays_calm (copy_chunks q bss)"
    by (induction bss) (auto intro!: stays_calm_rules stays_calm_files)
qed

lemma stays_calm_install:
  "stays_calm (prepare_install_root staged config digest)" "stays_calm (place_version L staged config d digest')"
  unfolding prepare_install_root_def place_version_def create_dir_all_def copy_and_verify_def Let_def
  by (intro stays_calm_rules stays_calm_files stays_calm_loops)+

text \<open>
  What \<open>install_verified_target\<close> does up to the activation state: it only makes directories and works below
  its temporary, so that of the files that were there, the state file among them, every one is kept.
\<close>

lemma valid_staged_version:
  assumes "safe_component (inst_version config)" and "safe_component (inst_installed_name config)"
    and "\<And>pid nonce. unprotected P (d @ [install_temporary pid nonce])"
  shows "valid (keeps_dir P F d)
    (if present then andThen (hash_file L p) (\<lambda>h. if h \<noteq> digest then throw Installation else ret ())
     else place_version L staged config d digest) (\<lambda>_. keeps_dir P F d) (\<lambda>_. True)"
proof (rule valid_conseq)
  show "valid (keeps_dir P F d)
    (if present then andThen (hash_file L p) (\<lambda>h. if h \<noteq> digest then throw Installation else ret ())
     else place_version L staged config d digest) (\<lambda>_. keeps_dir P F d) (keeps_at P F)"
    by (intro valid_if valid_place_version [OF assms] valid_pass [OF reads_hash_file] valid_throw valid_ret)
      (simp_all add: keeps_dir_def)
qed simp_all

lemma install_returns:
  assumes run: "install_verified_target L J staged config digest w = (Inr q, w')"
  shows "\<exists>root before old. q = root @ [''versions'', inst_version config, inst_installed_name config] \<and>
    plain_dir before root \<and> keeps_files (wd_fs w) before \<and>
    (\<forall>bs. wd_fs w (activation_path root) = Some (File bs) \<longrightarrow> before (activation_path root) = Some (File bs)) \<and>
    slot_verified L before root (install_slot config digest) \<and>
    (old = default_activation_state \<or> stored_state J before root old) \<and>
    (calm w \<longrightarrow> found_state J before root old) \<and>
    state_swapped J root before (old\<lparr>act_pending := Some (install_slot config digest)\<rparr>) (wd_fs w')"
proof -
  let ?final = "\<lambda>root. join_path (join_path (root @ [''versions'']) (inst_version config)) (inst_installed_name config)"
  from run obtain root w1 present w2 u w3 u' w4 old w5 u'' w6 where
    p: "prepare_install_root staged config digest w = (Inr root, w1)" and
    e: "(path_exists (?final root) :: (UpdateError, bool) call) w1 = (Inr present, w2)" and
    i: "(if present then andThen (hash_file L (?final root))
           (\<lambda>h. if h \<noteq> to_ascii_lowercase digest then throw Installation else ret ())
         else place_version L staged config (root @ [''versions'']) (to_ascii_lowercase digest)) w2 = (Inr u, w3)" and
    v: "verify_slot L root (install_slot config digest) w3 = (Inr u', w4)" and
    o: "read_activation_state J (AbsolutePath root) w4 = (Inr old, w5)" and
    c: "write_activation_state J root (old\<lparr>act_pending := Some (install_slot config digest)\<rparr>) w5 = (Inr u'', w6)" and
    q: "(ret (?final root) :: (UpdateError, path) call) w6 = (Inr q, w')"
    unfolding install_verified_target_def Let_def versions_path andThen_ok ActivationSlot.select_convs
    unfolding install_slot_def [symmetric]
    apply (elim exE conjE)
    by (rule that)
  from validD_ok [OF valid_prepare p keeps_files_refl] have
    w1: "keeps_at (\<lambda>_. True) (wd_fs w) (wd_fs w1)" "plain_dir (wd_fs w1) (root @ [''versions''])" and
    "validate_install config digest = Inr ()" by auto
  then have names: "safe_component (inst_version config)" "safe_component (inst_installed_name config)"
    by (auto simp: validate_install_def split: if_splits)
  define P where "P r \<longleftrightarrow> foreign_path r \<or> r = activation_path root" for r
  have own: "unprotected P ((root @ [''versions'']) @ [install_temporary pid nonce])" for pid nonce
    using foreign_unprotected [of "(root @ [''versions'']) @ [install_temporary pid nonce]"]
    by (auto simp: unprotected_def P_def foreign_path_def activation_path_eq)
  from reads_ok [OF reads_path_exists e] w1 have "keeps_dir P (wd_fs w) (root @ [''versions'']) (wd_fs w2)"
    by (simp add: keeps_dir_def keeps_at_def)
  from validD_ok [OF valid_staged_version [OF names own] i this] have
    w3: "keeps_at P (wd_fs w) (wd_fs w3)" "plain_dir (wd_fs w3) root"
    by (auto simp: keeps_dir_def plain_dir_snoc)
  from reads_ok [OF reads_verify_slot v] have w4: "wd_fs w4 = wd_fs w3"
    "slot_verified L (wd_fs w3) root (install_slot config digest)" by auto
  from reads_ok [OF reads_activation_state o] w3(2) w4(1) have w5: "wd_fs w5 = wd_fs w3"
    "old = default_activation_state \<or> stored_state J (wd_fs w3) root old" by auto
  have calm: "found_state J (wd_fs w3) root old" if "calm w"
  proof -
    have "stays_calm (if present then andThen (hash_file L (?final root))
           (\<lambda>h. if h \<noteq> to_ascii_lowercase digest then throw Installation else ret ())
         else place_version L staged config (root @ [''versions'']) (to_ascii_lowercase digest))"
      by (intro stays_calm_rules stays_calm_files stays_calm_install)
    with that p e i have "calm w3"
      using stays_calm_run stays_calm_install(1) stays_calm_files(4) by metis
    with calm_reader_run [OF calm_reader_verify_slot _ v] read_state_found [OF _ _ o] w3(2) show ?thesis
      by simp
  qed
  from validD_ok [OF valid_write_activation_state [OF w3(2)] c w5(1)]
  have "state_swapped J root (wd_fs w3) (old\<lparr>act_pending := Some (install_slot config digest)\<rparr>) (wd_fs w')"
    using q by (simp add: run_simps)
  moreover have "q = root @ [''versions'', inst_version config, inst_installed_name config]"
    using safe_component_plain safe_component_no_slash names q by (simp add: run_simps join_path_child plain_name_def)
  ultimately show ?thesis
    using w3 w4(2) w5(2) calm by (intro exI [of _ root] exI [of _ "wd_fs w3"] exI [of _ old])
      (auto simp: P_def keeps_at_def)
qed

end
