(* ===== verification/ProtocolBundle.thy ===== *)
theory ProtocolBundle
  imports ProtocolVerify
begin

text \<open>
  Admission: \<open>verify_launch_bundle\<close> and \<open>decode_challenge\<close> of
  \<^verbatim>\<open>crates/certael-agent-protocol/src/lib.rs\<close>.

  \<open>launch_admissible\<close> is what admission means: the bundle and its three envelopes are canonical, each
  signed object is accepted by its verifier, and the grant names the Agent's key, the build, the
  policy bytes and the manifest bytes. \<open>bundle_accept_iff\<close> shows that \<open>verify_launch_bundle\<close> decides it.
\<close>

definition launch_component_error :: "string \<Rightarrow> ProtocolError \<Rightarrow> ProtocolError" where
  "launch_component_error component source = LaunchBundleComponent component source"

text \<open>The \<open>BoundAgentLaunch\<close> built at the end of \<open>verify_launch_bundle\<close>.\<close>

definition bind_launch ::
    "AgentPolicyClaimsV1 \<Rightarrow> AgentLaunchGrantClaimsV1 \<Rightarrow> BuildManifestClaimsV1 \<Rightarrow> bytes \<Rightarrow> BoundAgentLaunch"
where
  "bind_launch policy grant manifest manifest_digest =
     \<lparr>launch_session_id = grant_grant_id grant,
      launch_tenant_id = grant_tenant_id grant,
      launch_game_id = grant_game_id grant,
      launch_environment_id = grant_environment_id grant,
      launch_player_subject = grant_player_subject grant,
      launch_match_id = grant_match_id grant,
      launch_build_id = grant_build_id grant,
      launch_authoritative_server_id = grant_authoritative_server_id grant,
      launch_build_manifest = manifest,
      launch_build_manifest_digest = manifest_digest,
      launch_heartbeat_seconds = pol_heartbeat_seconds policy,
      launch_report_seconds = pol_report_seconds policy,
      launch_disconnect_grace_seconds = pol_disconnect_grace_seconds policy,
      launch_policy_expires_at_unix = pol_expires_at_unix policy,
      launch_grant_expires_at_unix = grant_expires_at_unix grant\<rparr>"

definition launch_binding_fails ::
    "'v lib \<Rightarrow> AgentLaunchBundleV1 \<Rightarrow> bytes \<Rightarrow> string \<Rightarrow> AgentPolicyClaimsV1 \<Rightarrow> AgentLaunchGrantClaimsV1
      \<Rightarrow> BuildManifestClaimsV1 \<Rightarrow> bool"
where
  "launch_binding_fails L bundle expected_agent_public_key expected_build_id policy grant manifest \<longleftrightarrow>
     grant_agent_public_key grant \<noteq> expected_agent_public_key
     \<or> grant_build_id grant \<noteq> expected_build_id
     \<or> pol_tenant_id policy \<noteq> grant_tenant_id grant
     \<or> pol_game_id policy \<noteq> grant_game_id grant
     \<or> pol_environment_id policy \<noteq> grant_environment_id grant
     \<or> grant_policy_digest grant \<noteq> sha256 L (bundle_signed_policy bundle)
     \<or> grant_build_manifest_digest grant \<noteq> sha256 L (bundle_signed_build_manifest bundle)
     \<or> man_tenant_id manifest \<noteq> grant_tenant_id grant
     \<or> man_game_id manifest \<noteq> grant_game_id grant
     \<or> man_environment_id manifest \<noteq> grant_environment_id grant
     \<or> man_build_id manifest \<noteq> grant_build_id grant"

definition verify_launch_bundle ::
    "'v lib \<Rightarrow> bytes \<Rightarrow> VerificationKeyRing \<Rightarrow> i64 \<Rightarrow> bytes \<Rightarrow> string \<Rightarrow> string
      \<Rightarrow> ProtocolError + BoundAgentLaunch"
where
  "verify_launch_bundle L input keys now expected_agent_public_key expected_build_id
       current_agent_version =
     bindE (decode_canonical (bundle_codec L) input) (\<lambda>bundle.
     bindE (mapErr (launch_component_error ''signed_policy'')
       (decode_canonical (signed_codec L) (bundle_signed_policy bundle))) (\<lambda>policy_envelope.
     bindE (mapErr (launch_component_error ''signed_launch_grant'')
       (decode_canonical (signed_codec L) (bundle_signed_launch_grant bundle))) (\<lambda>grant_envelope.
     bindE (mapErr (launch_component_error ''signed_build_manifest'')
       (decode_canonical (signed_codec L) (bundle_signed_build_manifest bundle))) (\<lambda>manifest_envelope.
     bindE (mapErr (launch_component_error ''policy_claims'')
       (verify_policy L policy_envelope keys now)) (\<lambda>policy.
     bindE (mapErr (launch_component_error ''launch_grant_claims'')
       (verify_launch_grant L grant_envelope keys now)) (\<lambda>grant.
     bindE (mapErr (launch_component_error ''build_manifest_claims'')
       (verify_build_manifest L manifest_envelope keys now)) (\<lambda>manifest.
     let manifest_digest = sha256 L (bundle_signed_build_manifest bundle) in
     bindE (ok_or (InvalidField ''minimum_agent_version'')
       (version_parse L (pol_minimum_agent_version policy))) (\<lambda>minimum.
     bindE (ok_or (InvalidField ''current_agent_version'')
       (version_parse L current_agent_version)) (\<lambda>current.
     if launch_binding_fails L bundle expected_agent_public_key expected_build_id policy grant manifest
     then Inl (InvalidField ''launch_binding'')
     else if version_less L current minimum then Inl (InvalidField ''agent_update_required'')
     else Inr (bind_launch policy grant manifest manifest_digest))))))))))"

definition decode_challenge :: "'v lib \<Rightarrow> bytes \<Rightarrow> i64 \<Rightarrow> ProtocolError + AgentReportChallengeV1" where
  "decode_challenge L input now =
     bindE (decode_canonical (challenge_codec L) input) (\<lambda>challenge.
       if \<not> is_identifier (chal_agent_session_id challenge)
          \<or> length (chal_nonce challenge) < 16
          \<or> 256 < length (chal_nonce challenge)
          \<or> sint (chal_expires_at_unix challenge) \<le> sint now
          \<or> sint (now + 120) < sint (chal_expires_at_unix challenge)
       then Inl (InvalidField ''challenge'')
       else Inr challenge)"

section \<open>What admission means\<close>

definition envelope_accepted ::
    "'v lib \<Rightarrow> bytes \<Rightarrow> (signed_object \<Rightarrow> ProtocolError + 'm) \<Rightarrow> 'm \<Rightarrow> bool" where
  "envelope_accepted L raw verify claims \<longleftrightarrow>
     (\<exists>so. decode_canonical (signed_codec L) raw = Inr so \<and> verify so = Inr claims)"

definition launch_admissible ::
    "'v lib \<Rightarrow> bytes \<Rightarrow> VerificationKeyRing \<Rightarrow> i64 \<Rightarrow> bytes \<Rightarrow> string \<Rightarrow> AgentLaunchBundleV1
      \<Rightarrow> AgentPolicyClaimsV1 \<Rightarrow> AgentLaunchGrantClaimsV1 \<Rightarrow> BuildManifestClaimsV1 \<Rightarrow> bool"
where
  "launch_admissible L input keys now key build bundle p g m \<longleftrightarrow>
     decode_canonical (bundle_codec L) input = Inr bundle \<and>
     envelope_accepted L (bundle_signed_policy bundle) (\<lambda>so. verify_policy L so keys now) p \<and>
     envelope_accepted L (bundle_signed_launch_grant bundle) (\<lambda>so. verify_launch_grant L so keys now) g \<and>
     envelope_accepted L (bundle_signed_build_manifest bundle)
       (\<lambda>so. verify_build_manifest L so keys now) m \<and>
     grant_agent_public_key g = key \<and> grant_build_id g = build \<and> man_build_id m = build \<and>
     (pol_tenant_id p, pol_game_id p, pol_environment_id p)
       = (grant_tenant_id g, grant_game_id g, grant_environment_id g) \<and>
     (man_tenant_id m, man_game_id m, man_environment_id m)
       = (grant_tenant_id g, grant_game_id g, grant_environment_id g) \<and>
     grant_policy_digest g = sha256 L (bundle_signed_policy bundle) \<and>
     grant_build_manifest_digest g = sha256 L (bundle_signed_build_manifest bundle)"

lemma launch_binding_iff:
  "\<not> launch_binding_fails L bundle key build p g m \<longleftrightarrow>
     grant_agent_public_key g = key \<and> grant_build_id g = build \<and> man_build_id m = build \<and>
     (pol_tenant_id p, pol_game_id p, pol_environment_id p)
       = (grant_tenant_id g, grant_game_id g, grant_environment_id g) \<and>
     (man_tenant_id m, man_game_id m, man_environment_id m)
       = (grant_tenant_id g, grant_game_id g, grant_environment_id g) \<and>
     grant_policy_digest g = sha256 L (bundle_signed_policy bundle) \<and>
     grant_build_manifest_digest g = sha256 L (bundle_signed_build_manifest bundle)"
  by (auto simp: launch_binding_fails_def)

lemma bundle_accept_iff:
  "verify_launch_bundle L input keys now key build version = Inr launch \<longleftrightarrow>
     (\<exists>bundle p g m minimum current.
        launch_admissible L input keys now key build bundle p g m \<and>
        version_parse L (pol_minimum_agent_version p) = Some minimum \<and>
        version_parse L version = Some current \<and> \<not> version_less L current minimum \<and>
        launch = bind_launch p g m (sha256 L (bundle_signed_build_manifest bundle)))"
  unfolding launch_admissible_def launch_binding_iff [of L, symmetric] verify_launch_bundle_def
    envelope_accepted_def Let_def
  by (auto simp: bindE_ok mapErr_ok ok_or_ok if_err_ok)

lemma accepted_bundle:
  assumes "verify_launch_bundle L input keys now key build version = Inr launch"
    and "decode (bundle_codec L) input = Some bundle"
  obtains p g m where "launch_admissible L input keys now key build bundle p g m"
    "launch = bind_launch p g m (sha256 L (bundle_signed_build_manifest bundle))"
  using assms by (auto simp: bundle_accept_iff launch_admissible_def decode_canonical_ok)

lemma decode_canonical_no_field: "decode_canonical c input \<noteq> Inl (InvalidField f)"
  by (auto simp: decode_canonical_def bindE_err ok_or_err)

lemma component_error_no_field [simp]: "launch_component_error c e \<noteq> InvalidField f"
  "InvalidField f \<noteq> launch_component_error c e"
  by (simp_all add: launch_component_error_def)

lemma bundle_update_required_iff:
  "verify_launch_bundle L input keys now key build version
       = Inl (InvalidField ''agent_update_required'') \<longleftrightarrow>
     (\<exists>bundle p g m minimum current.
        launch_admissible L input keys now key build bundle p g m \<and>
        version_parse L (pol_minimum_agent_version p) = Some minimum \<and>
        version_parse L version = Some current \<and> version_less L current minimum)"
  unfolding launch_admissible_def launch_binding_iff [of L, symmetric] verify_launch_bundle_def
    envelope_accepted_def Let_def
  by (auto simp: bindE_err mapErr_err mapErr_ok ok_or_err ok_or_ok decode_canonical_no_field
      split: if_splits)

lemma decode_challenge_ok [ok_iff]:
  "decode_challenge L input now = Inr c \<longleftrightarrow>
     decode_canonical (challenge_codec L) input = Inr c \<and> is_identifier (chal_agent_session_id c) \<and>
     16 \<le> length (chal_nonce c) \<and> length (chal_nonce c) \<le> 256 \<and>
     sint now < sint (chal_expires_at_unix c) \<and> sint (chal_expires_at_unix c) \<le> sint (now + 120)"
  by (auto simp: decode_challenge_def bindE_ok)

text \<open>Admission in the terms of the specification: which bytes are signed, by which key.\<close>

lemmas envelope_iffs =
  policy_verifier.envelope_accepts_iff grant_verifier.envelope_accepts_iff
  manifest_verifier.envelope_accepts_iff

lemma launch_admissible_iff:
  "launch_admissible L input keys now key build bundle p g m \<longleftrightarrow>
     canonical (bundle_codec L) input bundle \<and>
     (signed_claims L POLICY_DOMAIN (policy_codec L) (bundle_signed_policy bundle) keys now p \<and>
      validate_policy p now = Inr ()) \<and>
     (signed_claims L LAUNCH_DOMAIN (grant_codec L) (bundle_signed_launch_grant bundle) keys now g \<and>
      validate_launch_grant g now = Inr ()) \<and>
     (signed_claims L BUILD_MANIFEST_DOMAIN (manifest_codec L) (bundle_signed_build_manifest bundle)
        keys now m \<and> validate_build_manifest m now = Inr ()) \<and>
     \<not> launch_binding_fails L bundle key build p g m"
  unfolding launch_admissible_def envelope_accepted_def envelope_iffs
  by (simp only: decode_canonical_iff launch_binding_iff conj_assoc)

lemma envelope_accepted_bytes:
  "envelope_accepted L raw v c \<Longrightarrow> raw \<noteq> []"
  by (auto simp: envelope_accepted_def decode_canonical_ok)

end
