(* ===== verification/Platform.thy ===== *)
theory Platform
  imports FsLogic ProtocolTypes "HOL-Library.List_Lexorder" "HOL-Library.Char_ord"
begin

text \<open>
  \<^verbatim>\<open>crates/certael-agent-platform/src/lib.rs\<close>: checking a build against its manifest, and inspecting the
  game's executable and process, on Linux.

  File access is a call on the world of \<open>FileSystem\<close>; the error of an \<open>anyhow::Result\<close> is its message.
  What the Linux kernel reports about processes is the parameter \<open>proc_view\<close>: the link and the text
  files under \<^verbatim>\<open>/proc\<close>, \<open>pidfd_open\<close> and \<open>poll\<close>; \<open>pv_build_id\<close> is the \<^verbatim>\<open>object\<close> crate's reading of an
  executable's build id. The Windows and macOS branches are in \<open>PlatformOther\<close>.
\<close>

section \<open>Data\<close>

record IntegritySnapshot =
  snap_executable_name :: string
  snap_executable_sha256 :: string
  snap_executable_size :: nat
  snap_debugger_observed :: bool
  snap_platform :: string
  snap_process_id :: nat
  snap_loaded_module_basenames :: "string list"
  snap_executable_build_id :: "string option"

record GameProcessSnapshot =
  game_running :: bool
  game_executable_matches :: bool
  game_parent_is_agent :: "bool option"
  game_loaded_module_basenames :: "string list"
  game_process_identity_stable :: "bool option"

record ProtectedBuildFile =
  pbf_path :: string
  pbf_size :: u64
  pbf_sha256 :: string

record ProtectedBuildManifest =
  pbm_build_id :: string
  pbm_files :: "ProtectedBuildFile list"

record ManifestMismatch =
  mm_path :: string
  mm_reason :: string

record proc_view =
  pv_self :: nat
  pv_exe_link :: "nat \<Rightarrow> path option"
  pv_stat :: "nat \<Rightarrow> string option"
  pv_maps :: "nat \<Rightarrow> string option"
  pv_status :: "nat \<Rightarrow> string option"
  pv_pidfd_open :: "nat \<Rightarrow> int"
  pv_poll :: "nat \<Rightarrow> int"
  pv_build_id :: "bytes \<Rightarrow> bytes option"

section \<open>The build manifest\<close>

definition platform_safe_relative_path :: "string \<Rightarrow> bool" where
  "platform_safe_relative_path value \<longleftrightarrow>
     value \<noteq> [] \<and> length value \<le> 512 \<and> \<not> is_absolute value \<and>
     list_all (\<lambda>c. case c of Normal _ \<Rightarrow> True | CurDir \<Rightarrow> True | _ \<Rightarrow> False) (components value)"

definition platform_hash_file :: "'v lib \<Rightarrow> path \<Rightarrow> (string, string) call" where
  "platform_hash_file L p =
     andThen (query ''cannot open protected file'' (\<lambda>fs. read_file fs p)) (\<lambda>contents.
     andThen (touch ''cannot hash protected file'') (\<lambda>_.
     ret (hex_encode (sha256 L contents))))"

text \<open>The file checks of one entry: \<^const>\<open>None\<close> when it matches, otherwise the reason.\<close>

definition verify_entry ::
    "'v lib \<Rightarrow> path \<Rightarrow> ProtectedBuildFile \<Rightarrow> (string, string option) call"
where
  "verify_entry L canonical_root expected =
     (let candidate = join_path canonical_root (pbf_path expected) in
      andThen (attempt (query () (\<lambda>fs. lstat fs candidate))) (\<lambda>link_metadata.
      case link_metadata of
        Inl _ \<Rightarrow> ret (Some ''MISSING'')
      | Inr (File contents) \<Rightarrow>
          andThen (query ''cannot resolve protected file'' (\<lambda>fs. realpath fs candidate)) (\<lambda>canonical.
          if take (length canonical_root) canonical \<noteq> canonical_root
          then ret (Some ''PATH_ESCAPE'')
          else if length contents \<noteq> unat (pbf_size expected) then ret (Some ''SIZE_MISMATCH'')
          else andThen (platform_hash_file L canonical) (\<lambda>actual.
            ret (if \<not> eq_ignore_ascii_case actual (pbf_sha256 expected)
                 then Some ''HASH_MISMATCH'' else None)))
      | Inr _ \<Rightarrow> ret (Some ''UNSAFE_TYPE'')))"

fun verify_entries ::
    "'v lib \<Rightarrow> path \<Rightarrow> string set \<Rightarrow> ManifestMismatch list \<Rightarrow> ProtectedBuildFile list
      \<Rightarrow> (string, ManifestMismatch list) call"
where
  "verify_entries L root seen mismatches [] = ret mismatches"
| "verify_entries L root seen mismatches (expected # files) =
     (if \<not> platform_safe_relative_path (pbf_path expected)
        \<or> length (pbf_sha256 expected) \<noteq> 64
        \<or> \<not> list_all is_ascii_hexdigit (pbf_sha256 expected)
        \<or> pbf_path expected \<in> seen
      then throw ''build manifest contains an invalid file entry''
      else
        andThen (verify_entry L root expected) (\<lambda>result.
        verify_entries L root (insert (pbf_path expected) seen)
          (case result of
             None \<Rightarrow> mismatches
           | Some reason \<Rightarrow> mismatches @ [\<lparr>mm_path = pbf_path expected, mm_reason = reason\<rparr>])
          files))"

definition verify_build_files ::
    "'v lib \<Rightarrow> path \<Rightarrow> ProtectedBuildManifest \<Rightarrow> (string, ManifestMismatch list) call"
where
  "verify_build_files L root manifest =
     andThen (query ''game root does not exist'' (\<lambda>fs. realpath fs root)) (\<lambda>canonical_root.
     andThen (attempt (query () (\<lambda>fs. if stat fs canonical_root = Some Dir then Some () else None)))
       (\<lambda>is_dir.
     if \<not> is_ok is_dir
        \<or> pbm_build_id manifest = []
        \<or> 128 < length (pbm_build_id manifest)
        \<or> pbm_files manifest = []
        \<or> 16384 < length (pbm_files manifest)
     then throw ''build manifest is invalid''
     else verify_entries L canonical_root {} [] (pbm_files manifest)))"

section \<open>The executable\<close>

text \<open>\<open>Path::file_name\<close> of a canonical path.\<close>

definition file_name :: "path \<Rightarrow> string option" where
  "file_name p = (if p = [] then None else Some (last p))"

definition text_file_name :: "string \<Rightarrow> string option" where
  "text_file_name s =
     (case components s of
        [] \<Rightarrow> None
      | cs \<Rightarrow> (case last cs of Normal n \<Rightarrow> Some n | _ \<Rightarrow> None))"

definition module_basenames_from_maps :: "string \<Rightarrow> string list" where
  "module_basenames_from_maps maps =
     (let words = List.map_filter
            (\<lambda>line. case split_whitespace line of [] \<Rightarrow> None | ws \<Rightarrow> Some (last ws)) (lines maps);
          names = List.map_filter text_file_name (filter (\<lambda>v. starts_with v ''/'') words);
          kept = filter (\<lambda>v. v \<noteq> [] \<and> length v \<le> 255) names
      in take 1024 (sort (remdups kept)))"

definition loaded_module_basenames :: "proc_view \<Rightarrow> string list" where
  "loaded_module_basenames V =
     (case pv_maps V (pv_self V) of None \<Rightarrow> [] | Some maps \<Rightarrow> module_basenames_from_maps maps)"

definition strip_prefix :: "string \<Rightarrow> string \<Rightarrow> string option" where
  "strip_prefix s pre = (if starts_with s pre then Some (drop (length pre) s) else None)"

definition debugger_observed :: "proc_view \<Rightarrow> bool" where
  "debugger_observed V =
     (case pv_status V (pv_self V) of
        None \<Rightarrow> False
      | Some s \<Rightarrow>
          (case List.map_filter (\<lambda>line. map_option trim (strip_prefix line ''TracerPid:'')) (lines s) of
             [] \<Rightarrow> False
           | value # _ \<Rightarrow> value \<noteq> ''0''))"

definition executable_build_id :: "proc_view \<Rightarrow> path \<Rightarrow> ('e, string option) call" where
  "executable_build_id V p =
     andThen (attempt (query () (\<lambda>fs. read_file fs p))) (\<lambda>r.
     ret (case r of
        Inl _ \<Rightarrow> None
      | Inr contents \<Rightarrow>
          (case pv_build_id V contents of
             None \<Rightarrow> None
           | Some value \<Rightarrow> if value = [] then None else Some (hex_encode value))))"

definition inspect_executable :: "'v lib \<Rightarrow> proc_view \<Rightarrow> path \<Rightarrow> (string, IntegritySnapshot) call" where
  "inspect_executable L V p =
     andThen (query ''game executable does not exist'' (\<lambda>fs. realpath fs p)) (\<lambda>canonical.
     andThen (query ''cannot inspect game executable'' (\<lambda>fs. stat fs canonical)) (\<lambda>metadata.
     case metadata of
       File contents \<Rightarrow>
         andThen (lift (ok_or ''game filename is not UTF-8'' (file_name canonical))) (\<lambda>name.
         andThen (query ''cannot open game executable'' (\<lambda>fs. read_file fs canonical)) (\<lambda>contents'.
         andThen (touch ''cannot hash game executable'') (\<lambda>_.
         andThen (executable_build_id V canonical) (\<lambda>build_id.
         ret \<lparr>snap_executable_name = name,
              snap_executable_sha256 = hex_encode (sha256 L contents'),
              snap_executable_size = length contents,
              snap_debugger_observed = debugger_observed V,
              snap_platform = ''linux'',
              snap_process_id = pv_self V,
              snap_loaded_module_basenames = loaded_module_basenames V,
              snap_executable_build_id = build_id\<rparr>))))
     | _ \<Rightarrow> throw ''game path is not a regular file''))"

definition validate_game_path :: "path \<Rightarrow> (string, path) call" where
  "validate_game_path p =
     andThen (query ''game executable does not exist'' (\<lambda>fs. realpath fs p)) (\<lambda>canonical.
     andThen (attempt (query () (\<lambda>fs. read_file fs canonical))) (\<lambda>is_file.
     if \<not> is_ok is_file then throw ''game path is not a regular file'' else ret canonical))"

section \<open>The game process\<close>

text \<open>Field \<open>n\<close> of a \<^verbatim>\<open>/proc/<pid>/stat\<close> line, counted after the process name in parentheses.\<close>

definition stat_field :: "nat \<Rightarrow> string \<Rightarrow> string option" where
  "stat_field n stat_line =
     (case after_last (CHR '')'') stat_line of
        None \<Rightarrow> None
      | Some rest \<Rightarrow>
          let fields = split_whitespace (trim_start rest) in
          if n < length fields then Some (fields ! n) else None)"

definition process_identity_platform :: "proc_view \<Rightarrow> nat \<Rightarrow> nat option" where
  "process_identity_platform V pid =
     Option.bind (pv_stat V pid) (\<lambda>s. Option.bind (stat_field 19 s) (parse_unsigned 64))"

definition process_identity :: "proc_view \<Rightarrow> nat \<Rightarrow> nat option" where
  "process_identity V pid = (if pid \<noteq> 0 then process_identity_platform V pid else None)"

definition linux_pidfd_alive :: "proc_view \<Rightarrow> nat \<Rightarrow> bool option" where
  "linux_pidfd_alive V pid =
     (if pv_pidfd_open V pid < 0 then None
      else if 0 \<le> pv_poll V pid then Some (pv_poll V pid = 0) else None)"

definition inspect_game_process_platform ::
    "fs \<Rightarrow> proc_view \<Rightarrow> nat \<Rightarrow> path \<Rightarrow> GameProcessSnapshot"
where
  "inspect_game_process_platform fs V pid expected_path =
     (let actual = pv_exe_link V pid in
      \<lparr>game_running = actual \<noteq> None,
       game_executable_matches =
         (case (Option.bind actual (realpath fs), realpath fs expected_path) of
            (Some a, Some e) \<Rightarrow> a = e | _ \<Rightarrow> False),
       game_parent_is_agent =
         map_option (\<lambda>parent. parent = pv_self V)
           (Option.bind (pv_stat V pid) (\<lambda>s. Option.bind (stat_field 1 s) (parse_unsigned 32))),
       game_loaded_module_basenames =
         (case pv_maps V pid of None \<Rightarrow> [] | Some maps \<Rightarrow> module_basenames_from_maps maps),
       game_process_identity_stable = linux_pidfd_alive V pid\<rparr>)"

definition inspect_game_process_bound ::
    "fs \<Rightarrow> proc_view \<Rightarrow> nat \<Rightarrow> path \<Rightarrow> nat option \<Rightarrow> GameProcessSnapshot"
where
  "inspect_game_process_bound fs V pid expected_path expected_identity =
     (if pid = 0 then
        \<lparr>game_running = False, game_executable_matches = False, game_parent_is_agent = None,
         game_loaded_module_basenames = [], game_process_identity_stable = None\<rparr>
      else
        let snapshot = inspect_game_process_platform fs V pid expected_path in
        snapshot\<lparr>game_process_identity_stable :=
          (case expected_identity of
             Some expected \<Rightarrow> Some (process_identity V pid = Some expected)
           | None \<Rightarrow> game_process_identity_stable snapshot)\<rparr>)"

definition inspect_game_process :: "fs \<Rightarrow> proc_view \<Rightarrow> nat \<Rightarrow> path \<Rightarrow> GameProcessSnapshot" where
  "inspect_game_process fs V pid expected_path =
     inspect_game_process_bound fs V pid expected_path None"

section \<open>A build that verifies\<close>

definition entry_ok :: "'v lib \<Rightarrow> fs \<Rightarrow> path \<Rightarrow> ProtectedBuildFile \<Rightarrow> bool" where
  "entry_ok L fs root f \<longleftrightarrow>
     (\<exists>q bs. locate fs (join_path root (pbf_path f)) = Some q \<and> take (length root) q = root \<and>
        node_at fs q = Some (File bs) \<and> length bs = unat (pbf_size f) \<and>
        eq_ignore_ascii_case (hex_encode (sha256 L bs)) (pbf_sha256 f))"

lemma lstat_file:
  assumes "lstat fs p = Some (File bs)"
  shows "\<exists>q. locate fs p = Some q \<and> realpath fs p = Some q \<and> realpath fs q = Some q \<and> node_at fs q = Some (File bs)
    \<and> read_file fs q = Some bs"
proof -
  from assms obtain q where q: "locate fs p = Some q" "node_at fs q = Some (File bs)"
    by (auto simp: lstat_def bind_eq_Some_conv)
  then have r: "realpath fs p = Some q"
    by (intro realpath_locate) (simp_all add: plain_node_def)
  from plain_path_realpath [OF realpath_plain [OF r]] have "realpath fs q = Some q" .
  with q r show ?thesis
    by (auto simp: read_file_def stat_def)
qed

text \<open>The verdict on an entry, as a function of the file system.\<close>

definition entry_verdict :: "'v lib \<Rightarrow> fs \<Rightarrow> path \<Rightarrow> ProtectedBuildFile \<Rightarrow> string option" where
  "entry_verdict L fs root f =
     (case lstat fs (join_path root (pbf_path f)) of
        None \<Rightarrow> Some ''MISSING''
      | Some (File bs) \<Rightarrow>
          if \<not> (\<exists>q. locate fs (join_path root (pbf_path f)) = Some q \<and> take (length root) q = root)
          then Some ''PATH_ESCAPE''
          else if length bs \<noteq> unat (pbf_size f) then Some ''SIZE_MISMATCH''
          else if \<not> eq_ignore_ascii_case (hex_encode (sha256 L bs)) (pbf_sha256 f)
          then Some ''HASH_MISMATCH'' else None
      | Some _ \<Rightarrow> Some ''UNSAFE_TYPE'')"

lemma entry_ok_lstat:
  "entry_ok L fs root f \<longleftrightarrow>
     (\<exists>q bs. locate fs (join_path root (pbf_path f)) = Some q \<and> take (length root) q = root \<and>
        lstat fs (join_path root (pbf_path f)) = Some (File bs) \<and> length bs = unat (pbf_size f) \<and>
        eq_ignore_ascii_case (hex_encode (sha256 L bs)) (pbf_sha256 f))"
  by (auto simp: entry_ok_def lstat_def)

lemma entry_verdict_None: "entry_verdict L fs root f = None \<longleftrightarrow> entry_ok L fs root f"
  unfolding entry_ok_lstat entry_verdict_def
  by (auto split: option.split node.split)

lemma reads_platform_hash_file:
  "reads (platform_hash_file L p) (\<lambda>h fs. \<exists>bs. read_file fs p = Some bs \<and> h = hex_encode (sha256 L bs))"
  unfolding platform_hash_file_def
  by (rule reads_conseq [OF reads_andThen [OF reads_query reads_andThen [OF reads_touch reads_ret]]]) auto

lemma reads_verify_entry:
  "reads (verify_entry L root f) (\<lambda>r fs. r = None \<longrightarrow> entry_ok L fs root f)"
  unfolding verify_entry_def Let_def
proof (rule reads_conseq [OF reads_andThen [OF reads_attempt [OF reads_query]]])
  fix link_metadata :: "unit + node"
  let ?c = "join_path root (pbf_path f)"
  have regular: "reads (andThen (query ''cannot resolve protected file'' (\<lambda>fs. realpath fs ?c)) (\<lambda>canonical.
          if take (length root) canonical \<noteq> root then ret (Some ''PATH_ESCAPE'')
          else if length contents \<noteq> unat (pbf_size f) then ret (Some ''SIZE_MISMATCH'')
          else andThen (platform_hash_file L canonical) (\<lambda>actual.
            ret (if \<not> eq_ignore_ascii_case actual (pbf_sha256 f) then Some ''HASH_MISMATCH'' else None))))
     (\<lambda>r fs. r = None \<longrightarrow> (\<exists>q bs. realpath fs ?c = Some q \<and> take (length root) q = root \<and>
        length contents = unat (pbf_size f) \<and> read_file fs q = Some bs \<and>
        eq_ignore_ascii_case (hex_encode (sha256 L bs)) (pbf_sha256 f)))" for contents
  proof (rule reads_conseq [OF reads_andThen [OF reads_query]])
    show "reads (if take (length root) q \<noteq> root then ret (Some ''PATH_ESCAPE'')
          else if length contents \<noteq> unat (pbf_size f) then ret (Some ''SIZE_MISMATCH'')
          else andThen (platform_hash_file L q) (\<lambda>actual.
            ret (if \<not> eq_ignore_ascii_case actual (pbf_sha256 f) then Some ''HASH_MISMATCH'' else None)))
       (\<lambda>r fs. r = None \<longrightarrow> take (length root) q = root \<and> length contents = unat (pbf_size f) \<and>
          (\<exists>bs. read_file fs q = Some bs \<and>
             eq_ignore_ascii_case (hex_encode (sha256 L bs)) (pbf_sha256 f)))" for q
      by (auto intro: reads_conseq [OF reads_ret]
          intro!: reads_conseq [OF reads_andThen [OF reads_platform_hash_file reads_ret]] split: if_splits)
  qed auto
  show "reads (case link_metadata of
        Inl _ \<Rightarrow> ret (Some ''MISSING'')
      | Inr (File contents) \<Rightarrow>
          andThen (query ''cannot resolve protected file'' (\<lambda>fs. realpath fs ?c)) (\<lambda>canonical.
          if take (length root) canonical \<noteq> root then ret (Some ''PATH_ESCAPE'')
          else if length contents \<noteq> unat (pbf_size f) then ret (Some ''SIZE_MISMATCH'')
          else andThen (platform_hash_file L canonical) (\<lambda>actual.
            ret (if \<not> eq_ignore_ascii_case actual (pbf_sha256 f) then Some ''HASH_MISMATCH'' else None)))
      | Inr _ \<Rightarrow> ret (Some ''UNSAFE_TYPE''))
     (\<lambda>r fs. r = None \<longrightarrow> (\<exists>contents q bs. link_metadata = Inr (File contents) \<and>
        realpath fs ?c = Some q \<and> take (length root) q = root \<and>
        length contents = unat (pbf_size f) \<and> read_file fs q = Some bs \<and>
        eq_ignore_ascii_case (hex_encode (sha256 L bs)) (pbf_sha256 f)))"
    by (auto split: sum.split node.split intro: reads_conseq [OF reads_ret]
        intro!: reads_conseq [OF regular])
next
  fix r fs
  assume "\<exists>link_metadata :: unit + node.
      (\<forall>n. link_metadata = Inr n \<longrightarrow> lstat fs (join_path root (pbf_path f)) = Some n) \<and>
      (r = None \<longrightarrow> (\<exists>contents q bs. link_metadata = Inr (File contents) \<and>
        realpath fs (join_path root (pbf_path f)) = Some q \<and> take (length root) q = root \<and>
        length contents = unat (pbf_size f) \<and> read_file fs q = Some bs \<and>
        eq_ignore_ascii_case (hex_encode (sha256 L bs)) (pbf_sha256 f)))"
  then show "r = None \<longrightarrow> entry_ok L fs root f"
    using lstat_file [of fs "join_path root (pbf_path f)"] by (fastforce simp: entry_ok_def)
qed

lemma reads_verify_entries:
  "reads (verify_entries L root seen acc files)
     (\<lambda>ms fs. length acc \<le> length ms \<and> (ms = acc \<longrightarrow> (\<forall>f \<in> set files. entry_ok L fs root f)))"
proof (induction files arbitrary: seen acc)
  case Nil
  then show ?case by (auto intro: reads_conseq [OF reads_ret])
next
  case (Cons f files)
  have "reads (andThen (verify_entry L root f) (\<lambda>result.
        verify_entries L root (insert (pbf_path f) seen)
          (case result of None \<Rightarrow> acc
           | Some reason \<Rightarrow> acc @ [\<lparr>mm_path = pbf_path f, mm_reason = reason\<rparr>]) files))
     (\<lambda>ms fs. length acc \<le> length ms \<and> (ms = acc \<longrightarrow> (\<forall>f \<in> set (f # files). entry_ok L fs root f)))"
    by (rule reads_conseq [OF reads_andThen [OF reads_verify_entry Cons.IH]])
      (auto split: option.splits)
  then show ?case
    by (auto intro: reads_throw)
qed

lemma reads_verify_build_files:
  "reads (verify_build_files L root m)
     (\<lambda>ms fs. ms = [] \<longrightarrow> (\<exists>r. realpath fs root = Some r \<and> (\<forall>f \<in> set (pbm_files m). entry_ok L fs r f)))"
  unfolding verify_build_files_def
proof (rule reads_conseq [OF reads_andThen [OF reads_query reads_andThen [OF reads_attempt [OF reads_query]]]])
  show "reads (if \<not> is_ok (d :: unit + unit) \<or> pbm_build_id m = [] \<or> 128 < length (pbm_build_id m)
        \<or> pbm_files m = [] \<or> 16384 < length (pbm_files m)
       then throw ''build manifest is invalid'' else verify_entries L r {} [] (pbm_files m))
     (\<lambda>ms fs. ms = [] \<longrightarrow> (\<forall>f \<in> set (pbm_files m). entry_ok L fs r f))" for r d
    by (auto intro: reads_throw reads_conseq [OF reads_verify_entries])
qed auto

section \<open>Without failures\<close>

lemma verify_entry_calm:
  assumes "calm w"
  shows "verify_entry L root f w = (Inr (entry_verdict L (wd_fs w) root f), w)"
proof -
  let ?c = "join_path root (pbf_path f)"
  show ?thesis
  proof (cases "lstat (wd_fs w) ?c")
    case None
    then show ?thesis
      by (simp add: verify_entry_def Let_def andThen_def attempt_def run_simps calm_query assms entry_verdict_def)
  next
    case (Some n)
    show ?thesis
    proof (cases n)
      case (File bs)
      with Some lstat_file [of "wd_fs w" ?c bs] obtain q where
        "locate (wd_fs w) ?c = Some q" "realpath (wd_fs w) ?c = Some q" "read_file (wd_fs w) q = Some bs"
        by blast
      with Some File show ?thesis
        by (simp add: verify_entry_def Let_def andThen_def attempt_def run_simps calm_query calm_touch assms
            entry_verdict_def platform_hash_file_def)
    qed (use Some in \<open>simp_all add: verify_entry_def Let_def andThen_def attempt_def run_simps calm_query assms
          entry_verdict_def\<close>)
  qed
qed

definition entry_well_formed :: "ProtectedBuildFile \<Rightarrow> bool" where
  "entry_well_formed f \<longleftrightarrow>
     platform_safe_relative_path (pbf_path f) \<and> length (pbf_sha256 f) = 64 \<and>
     list_all is_ascii_hexdigit (pbf_sha256 f)"

definition entry_mismatch :: "'v lib \<Rightarrow> fs \<Rightarrow> path \<Rightarrow> ProtectedBuildFile \<Rightarrow> ManifestMismatch option" where
  "entry_mismatch L fs root f =
     map_option (\<lambda>reason. \<lparr>mm_path = pbf_path f, mm_reason = reason\<rparr>) (entry_verdict L fs root f)"

lemma verify_entries_calm:
  assumes "calm w" and "list_all entry_well_formed files" and "distinct (map pbf_path files)"
    and "pbf_path ` set files \<inter> seen = {}"
  shows "verify_entries L root seen acc files w
    = (Inr (acc @ List.map_filter (entry_mismatch L (wd_fs w) root) files), w)"
  using assms(2-)
proof (induction files arbitrary: seen acc)
  case (Cons f files)
  then have "verify_entries L root (insert (pbf_path f) seen) acc' files w
      = (Inr (acc' @ List.map_filter (entry_mismatch L (wd_fs w) root) files), w)" for acc'
    by auto
  with Cons.prems show ?case
    by (auto simp: andThen_def verify_entry_calm [OF assms(1)] entry_well_formed_def
        List.map_filter_simps entry_mismatch_def [of L "wd_fs w" root f] split: option.split)
qed (simp add: List.map_filter_simps run_simps)

section \<open>Signed manifests\<close>

lemma inner_components_normal:
  "\<forall>p \<in> set ps. p \<noteq> ''..'' \<Longrightarrow> list_all is_normal (inner_components ps)"
  by (induction ps) (auto simp: is_normal_def)

lemma text_file_name_no_slash: "text_file_name s = Some n \<Longrightarrow> CHR ''/'' \<notin> set n \<and> n \<noteq> []"
proof -
  have inner: "Normal n \<in> set (inner_components ps) \<Longrightarrow> n \<in> set ps \<and> n \<noteq> []" for ps
    by (induction ps) (auto split: if_splits)
  assume name: "text_file_name s = Some n"
  then have "components s \<noteq> []" and "last (components s) = Normal n"
    by (auto simp: text_file_name_def split: list.splits Component.splits)
  then have "Normal n \<in> set (components s)"
    by (metis last_in_set)
  then have "n \<in> set (slash_pieces s)" and "n \<noteq> []"
    using inner by (auto simp: components_def split: if_splits)
  then show ?thesis
    unfolding slash_pieces_def using split_on_parts [of n "\<lambda>c. c = CHR ''/''" s] by auto
qed

end
