(* ===== verification/Runtime.thy ===== *)
theory Runtime
  imports ProtocolBundle ProtocolReport Ipc Platform Updater
begin

text \<open>
  \<^verbatim>\<open>crates/certael-agent/src/runtime.rs\<close>: the Agent's side of a protected session.

  \<open>serve\<close> is split where its control flow is: \<open>send_hello\<close>, \<open>await_bootstrap\<close>, \<open>admit_bundle\<close>,
  \<open>check_registration\<close>, \<open>check_files\<close> and \<open>become_ready\<close> run once and are composed by \<open>admission\<close>; then
  \<open>serve_step\<close> is one iteration of the loop. What an iteration takes from outside is its \<open>tick\<close>: the two
  clock readings, what \<open>recv_timeout\<close> returned, the disk and the process table. \<open>serve\<close> runs a list of
  ticks, and ends with \<open>Running\<close> when the list ends before the session does.

  \<open>io\<close> holds what the outside sees: the bytes written to the game and the states published. Lines
  printed to standard error are not modelled. The error of an \<open>anyhow::Result\<close> is its outermost message;
  the errors of \<open>sign_report\<close>, which the code passes on as they are, share one.
\<close>

section \<open>State\<close>

definition AGENT_VERSION :: string where
  "AGENT_VERSION = ''0.4.0-alpha.1''"

record RegistrationBinding =
  bind_registration_id :: string
  bind_tenant_id :: string
  bind_game_id :: string
  bind_environment_id :: string
  bind_status_path :: path
  bind_launch_attempt_id :: string

record AutomaticUpdateBinding =
  auto_trusted_root :: PathBuf
  auto_metadata_url :: string
  auto_targets_url :: string
  auto_state_root :: path
  auto_install_root :: PathBuf
  auto_channel :: string
  auto_platform :: string
  auto_target_name :: string
  auto_installed_name :: string

record RuntimeState =
  rts_game :: path
  rts_game_root :: path
  rts_game_process_id :: nat
  rts_game_process_identity :: "nat option"
  rts_key :: bytes
  rts_hello :: AgentHelloV1
  rts_trust :: VerificationKeyRing
  rts_registration :: "RegistrationBinding option"
  rts_automatic_update :: "AutomaticUpdateBinding option"

record io =
  io_writer :: writer
  io_published :: "(string \<times> string option) list"

datatype recv = Frame_received Frame | Frame_error IpcError | Timed_out | Disconnected

text \<open>What \<open>serve\<close> takes from its host once, and what the automatic update needs.\<close>

record 'r host =
  host_spawns_reader :: bool
  host_bootstrap :: recv
  host_admission_now :: "i64 option"
  host_disk :: world
  host_heartbeat_now :: "i64 option"
  host_deadline_now :: "i64 option"
  host_starts_updater :: bool
  host_url_parse :: "string \<Rightarrow> Url option"
  host_json :: json
  host_tough :: "'r tough"

record tick =
  tk_now :: "i64 option"
  tk_recv :: recv
  tk_handler_now :: "i64 option"
  tk_disk :: world
  tk_procs :: proc_view

section \<open>Publishing and health\<close>

definition publish_runtime :: "RuntimeState \<Rightarrow> string \<Rightarrow> string option \<Rightarrow> io \<Rightarrow> io" where
  "publish_runtime state runtime_state reason x =
     (case rts_registration state of
        None \<Rightarrow> x
      | Some _ \<Rightarrow> x\<lparr>io_published := io_published x @ [(runtime_state, reason)]\<rparr>)"

definition milestone_index :: "string \<Rightarrow> nat option" where
  "milestone_index runtime_state =
     (if runtime_state = ''verifying_agent_version'' then Some 1
      else if runtime_state = ''loading_signed_registration'' then Some 2
      else if runtime_state \<in> {''checking_required_update'', ''installing_required_update'',
          ''update_required'', ''update_ready'', ''update_failed''} then Some 3
      else if runtime_state = ''hashing_registered_game_files'' then Some 4
      else if runtime_state = ''starting_game'' then Some 5
      else if runtime_state = ''awaiting_server_admission'' then Some 6
      else if runtime_state = ''verifying_signed_launch_bundle'' then Some 7
      else if runtime_state = ''protected'' then Some 8
      else None)"

definition write_health ::
    "'v lib \<Rightarrow> string \<Rightarrow> string \<Rightarrow> i64 \<Rightarrow> string list \<Rightarrow> io \<Rightarrow> (string + unit) \<times> io"
where
  "write_health L session_id health last_report_at_unix reasons x =
     (case write_frame (io_writer x)
         \<lparr>fr_message_type = Health,
          fr_payload = encode_to_vec (health_codec L)
            \<lparr>health_agent_session_id = session_id, health_state = health,
             health_last_report_at_unix = last_report_at_unix, health_public_reasons = reasons\<rparr>\<rparr> of
        (r, w) \<Rightarrow> (mapErr (\<lambda>_. ''failed to send Agent health state'') r, x\<lparr>io_writer := w\<rparr>))"

text \<open>Publish a final state, try to tell the game, and fail.\<close>

definition reject ::
    "'v lib \<Rightarrow> RuntimeState \<Rightarrow> string \<Rightarrow> string \<Rightarrow> string \<Rightarrow> string \<Rightarrow> string \<Rightarrow> io \<Rightarrow> (string + 'a) \<times> io"
where
  "reject L state published session_id health reason message x =
     (Inl message,
      snd (write_health L session_id health 0 [reason] (publish_runtime state published (Some reason) x)))"

definition observation :: "string \<Rightarrow> string \<Rightarrow> IntegrityObservationV1" where
  "observation c v = \<lparr>obs_code = c, obs_value = v\<rparr>"

definition bool_value :: "bool \<Rightarrow> string" where
  "bool_value b = (if b then ''true'' else ''false'')"

definition safe_value :: "string \<Rightarrow> bool" where
  "safe_value v \<longleftrightarrow> v \<noteq> [] \<and> length v \<le> 512 \<and> \<not> has_control v"

section \<open>Admission\<close>

definition send_hello :: "'v lib \<Rightarrow> RuntimeState \<Rightarrow> io \<Rightarrow> (string + unit) \<times> io" where
  "send_hello L state x =
     (case write_frame (io_writer x)
         \<lparr>fr_message_type = AgentHello, fr_payload = encode_to_vec (hello_codec L) (rts_hello state)\<rparr> of
        (Inl _, w) \<Rightarrow> (Inl ''failed to send Agent hello'', x\<lparr>io_writer := w\<rparr>)
      | (Inr _, w) \<Rightarrow>
          (Inr (), publish_runtime state ''awaiting_server_admission'' None (x\<lparr>io_writer := w\<rparr>)))"

text \<open>The reader thread: the results it sends are those of \<open>read_frame\<close>, up to the first error.\<close>

fun reader_thread :: "nat \<Rightarrow> bytes \<Rightarrow> (IpcError + Frame) list" where
  "reader_thread 0 r = []"
| "reader_thread (Suc n) r =
     (case read_frame r of
        (Inl e, _) \<Rightarrow> [Inl e]
      | (Inr f, rest) \<Rightarrow> Inr f # reader_thread n rest)"

definition await_bootstrap ::
    "'v lib \<Rightarrow> RuntimeState \<Rightarrow> bool \<Rightarrow> recv \<Rightarrow> io \<Rightarrow> (string + bytes) \<times> io"
where
  "await_bootstrap L state spawned received x =
     (if \<not> spawned then (Inl ''failed to start bounded Agent channel reader'', x)
      else case received of
        Frame_error _ \<Rightarrow>
          reject L state ''launch_failed'' ''unbound'' ''rejected'' ''AGENT_ADMISSION_CHANNEL_FAILED''
            ''protected game channel failed before Agent admission'' x
      | Timed_out \<Rightarrow>
          reject L state ''launch_failed'' ''unbound'' ''rejected'' ''AGENT_ADMISSION_TIMEOUT''
            ''protected game did not provide Agent admission in time'' x
      | Disconnected \<Rightarrow>
          reject L state ''launch_failed'' ''unbound'' ''rejected'' ''AGENT_ADMISSION_CHANNEL_CLOSED''
            ''protected game channel closed before Agent admission'' x
      | Frame_received bootstrap \<Rightarrow>
          if fr_message_type bootstrap \<noteq> LaunchGrant then
            reject L state ''launch_failed'' ''unbound'' ''rejected'' ''AGENT_ADMISSION_TYPE_INVALID''
              ''protected game did not provide a signed Agent launch bundle'' x
          else (Inr (fr_payload bootstrap), x))"

text \<open>The update an outdated Agent runs before it gives up: whether it was staged.\<close>

definition required_update ::
    "'v lib \<Rightarrow> 'r host \<Rightarrow> AutomaticUpdateBinding \<Rightarrow> string + bool"
where
  "required_update L h update =
     (if \<not> host_starts_updater h then Inl ''cannot start automatic Agent updater''
      else
        bindE (ok_or ''registered update metadata URL is invalid''
          (host_url_parse h (auto_metadata_url update))) (\<lambda>metadata_url.
        bindE (ok_or ''registered update target URL is invalid''
          (host_url_parse h (auto_targets_url update))) (\<lambda>targets_url.
        Inr (is_ok (fst (verify_stage_and_install_automatic L (host_json h) (host_tough h)
          \<lparr>upd_trusted_root = auto_trusted_root update,
           upd_metadata_base_url = metadata_url,
           upd_targets_base_url = targets_url,
           upd_datastore = AbsolutePath (auto_state_root update @ [''metadata'']),
           upd_staging_directory = AbsolutePath (auto_state_root update @ [''staging'']),
           upd_target_name = auto_target_name update\<rparr>
          (auto_install_root update) (auto_installed_name update) (auto_channel update)
          (auto_platform update) (host_disk h)))))))"

definition update_required ::
    "'v lib \<Rightarrow> 'r host \<Rightarrow> RuntimeState \<Rightarrow> io \<Rightarrow> (string + 'a) \<times> io"
where
  "update_required L h state x =
     (let x1 = snd (write_health L ''unbound'' ''update_required'' 0 [''AGENT_UPDATE_REQUIRED'']
           (publish_runtime state ''update_required'' (Some ''AGENT_UPDATE_REQUIRED'') x));
          message = ''Agent update is required before protected launch'' in
      case rts_automatic_update state of
        None \<Rightarrow> (Inl message, x1)
      | Some update \<Rightarrow>
          let x2 = publish_runtime state ''installing_required_update'' (Some ''AGENT_UPDATE_REQUIRED'') x1 in
          (case required_update L h update of
             Inl e \<Rightarrow> (Inl e, x2)
           | Inr True \<Rightarrow>
               (Inl message, publish_runtime state ''update_ready'' (Some ''RELAUNCH_TO_ACTIVATE_UPDATE'') x2)
           | Inr False \<Rightarrow>
               (Inl message, publish_runtime state ''update_failed'' (Some ''AGENT_UPDATE_FAILED'') x2)))"

definition admit_bundle ::
    "'v lib \<Rightarrow> 'r host \<Rightarrow> RuntimeState \<Rightarrow> bytes \<Rightarrow> io \<Rightarrow> (string + BoundAgentLaunch) \<times> io"
where
  "admit_bundle L h state payload x =
     (let x1 = publish_runtime state ''verifying_signed_launch_bundle'' None x in
      case host_admission_now h of
        None \<Rightarrow> (Inl ''system clock is before Unix epoch'', x1)
      | Some now \<Rightarrow>
          (case verify_launch_bundle L payload (rts_trust state) now (sk_verifying L (rts_key state))
                  (hello_build_id (rts_hello state)) AGENT_VERSION of
             Inr launch \<Rightarrow> (Inr launch, x1)
           | Inl e \<Rightarrow>
               if e = InvalidField ''agent_update_required'' then update_required L h state x1
               else
                 reject L state ''launch_failed'' ''unbound'' ''rejected'' ''AGENT_LAUNCH_BUNDLE_REJECTED''
                   ''signed Agent launch bundle was rejected'' x1))"

definition registration_mismatch :: "RuntimeState \<Rightarrow> BoundAgentLaunch \<Rightarrow> bool" where
  "registration_mismatch state launch =
     (case rts_registration state of
        None \<Rightarrow> False
      | Some r \<Rightarrow>
          bind_tenant_id r \<noteq> launch_tenant_id launch
          \<or> bind_game_id r \<noteq> launch_game_id launch
          \<or> bind_environment_id r \<noteq> launch_environment_id launch)"

definition check_registration ::
    "'v lib \<Rightarrow> RuntimeState \<Rightarrow> BoundAgentLaunch \<Rightarrow> io \<Rightarrow> (string + unit) \<times> io"
where
  "check_registration L state launch x =
     (if registration_mismatch state launch then
        reject L state ''launch_failed'' (launch_session_id launch) ''rejected''
          ''AGENT_REGISTRATION_MISMATCH''
          ''signed launch bundle does not match the registered game'' x
      else (Inr (), x))"

definition protected_manifest :: "BuildManifestClaimsV1 \<Rightarrow> ProtectedBuildManifest" where
  "protected_manifest c =
     \<lparr>pbm_build_id = man_build_id c,
      pbm_files = map (\<lambda>file. \<lparr>pbf_path = bf_path file, pbf_size = bf_size file,
                              pbf_sha256 = hex_encode (bf_sha256 file)\<rparr>) (man_files c)\<rparr>"

definition check_files ::
    "'v lib \<Rightarrow> RuntimeState \<Rightarrow> world \<Rightarrow> BoundAgentLaunch \<Rightarrow> io \<Rightarrow> (string + unit) \<times> io"
where
  "check_files L state disk launch x =
     (case fst (verify_build_files L (rts_game_root state)
               (protected_manifest (launch_build_manifest launch)) disk) of
        Inl _ \<Rightarrow>
          reject L state ''launch_failed'' (launch_session_id launch) ''rejected''
            ''AGENT_MANIFEST_VERIFICATION_FAILED''
            ''protected build manifest could not be verified'' x
      | Inr mismatches \<Rightarrow>
          if mismatches \<noteq> [] then
            reject L state ''launch_failed'' (launch_session_id launch) ''rejected''
              ''AGENT_BUILD_MISMATCH''
              ''protected build does not match its signed manifest'' x
          else (Inr (), x))"

record loop_state =
  ls_sequence :: u64
  ls_previous_digest :: bytes
  ls_last_report_at :: i64
  ls_next_heartbeat :: i64
  ls_report_deadline :: i64
  ls_io :: io

definition report_window :: "BoundAgentLaunch \<Rightarrow> i64" where
  "report_window launch =
     i64_of_u32 (launch_report_seconds launch + launch_disconnect_grace_seconds launch)"

definition become_ready ::
    "'v lib \<Rightarrow> 'r host \<Rightarrow> RuntimeState \<Rightarrow> BoundAgentLaunch \<Rightarrow> io \<Rightarrow> (string + loop_state) \<times> io"
where
  "become_ready L h state launch x =
     (case write_health L (launch_session_id launch) ''ready'' 0 [] x of
        (Inl e, x1) \<Rightarrow> (Inl e, x1)
      | (Inr _, x1) \<Rightarrow>
          let x2 = publish_runtime state ''protected'' None x1 in
          (case (host_heartbeat_now h, host_deadline_now h) of
             (Some heartbeat_now, Some deadline_now) \<Rightarrow>
               (Inr \<lparr>ls_sequence = 1,
                     ls_previous_digest = replicate 32 0,
                     ls_last_report_at = 0,
                     ls_next_heartbeat = heartbeat_now + i64_of_u32 (launch_heartbeat_seconds launch),
                     ls_report_deadline = deadline_now + report_window launch,
                     ls_io = x2\<rparr>, x2)
           | _ \<Rightarrow> (Inl ''system clock is before Unix epoch'', x2)))"

text \<open>Everything before the loop: the launch it is bound to and the loop's first state.\<close>

definition then_io :: "(string + 'a) \<times> io \<Rightarrow> ('a \<Rightarrow> io \<Rightarrow> (string + 'b) \<times> io) \<Rightarrow> (string + 'b) \<times> io" where
  "then_io r f = (case r of (Inl e, x) \<Rightarrow> (Inl e, x) | (Inr v, x) \<Rightarrow> f v x)"

definition admission ::
    "'v lib \<Rightarrow> 'r host \<Rightarrow> RuntimeState \<Rightarrow> io \<Rightarrow> (string + BoundAgentLaunch \<times> loop_state) \<times> io"
where
  "admission L h state x =
     then_io (send_hello L state x) (\<lambda>_ x.
     then_io (await_bootstrap L state (host_spawns_reader h) (host_bootstrap h) x) (\<lambda>payload x.
     then_io (admit_bundle L h state payload x) (\<lambda>launch x.
     then_io (check_registration L state launch x) (\<lambda>_ x.
     then_io (check_files L state (host_disk h) launch x) (\<lambda>_ x.
     then_io (become_ready L h state launch x) (\<lambda>s x. (Inr (launch, s), x)))))))"

section \<open>The loop\<close>

datatype run = Running loop_state | Finished "string + unit" io

definition fails :: "string \<Rightarrow> loop_state \<Rightarrow> run" where
  "fails message s = Finished (Inl message) (ls_io s)"

definition min64 :: "i64 \<Rightarrow> i64 \<Rightarrow> i64" where
  "min64 a b = (if sint a \<le> sint b then a else b)"

definition wake_at :: "BoundAgentLaunch \<Rightarrow> loop_state \<Rightarrow> i64" where
  "wake_at launch s =
     min64 (min64 (ls_next_heartbeat s) (ls_report_deadline s)) (launch_policy_expires_at_unix launch)"

text \<open>The seconds \<open>recv_timeout\<close> is given.\<close>

definition wait_seconds :: "BoundAgentLaunch \<Rightarrow> loop_state \<Rightarrow> i64 \<Rightarrow> int" where
  "wait_seconds launch s now = max (sint (wake_at launch s - now)) 1"

text \<open>Send a health frame, publish, and continue with the loop state or end.\<close>

definition health_then ::
    "'v lib \<Rightarrow> RuntimeState \<Rightarrow> BoundAgentLaunch \<Rightarrow> string \<Rightarrow> string list \<Rightarrow> string option \<Rightarrow> loop_state
      \<Rightarrow> (loop_state \<Rightarrow> run) \<Rightarrow> run"
where
  "health_then L state launch health reasons published_reason s continue =
     (case write_health L (launch_session_id launch) health (ls_last_report_at s) reasons (ls_io s) of
        (Inl e, x) \<Rightarrow> Finished (Inl e) x
      | (Inr _, x) \<Rightarrow> continue (s\<lparr>ls_io := publish_runtime state health published_reason x\<rparr>))"

definition on_timeout ::
    "'v lib \<Rightarrow> RuntimeState \<Rightarrow> BoundAgentLaunch \<Rightarrow> i64 option \<Rightarrow> loop_state \<Rightarrow> run"
where
  "on_timeout L state launch clock s =
     (case clock of
        None \<Rightarrow> fails ''system clock is before Unix epoch'' s
      | Some now \<Rightarrow>
          if sint (ls_next_heartbeat s) \<le> sint now \<and> sint now < sint (ls_report_deadline s)
          then
            health_then L state launch ''protected'' [] None s (\<lambda>s.
              Running (s\<lparr>ls_next_heartbeat := now + i64_of_u32 (launch_heartbeat_seconds launch)\<rparr>))
          else Running s)"

definition game_observations ::
    "RuntimeState \<Rightarrow> nat \<Rightarrow> IntegritySnapshot \<Rightarrow> GameProcessSnapshot \<Rightarrow> IntegrityObservationV1 list"
where
  "game_observations state self snapshot game_process =
     [observation ''agent.platform'' (snap_platform snapshot),
      observation ''agent.process_id'' (show_nat self),
      observation ''game.process_id'' (show_nat (rts_game_process_id state)),
      observation ''game.process_running'' (bool_value (game_running game_process)),
      observation ''game.executable_matches'' (bool_value (game_executable_matches game_process)),
      observation ''game.parent_is_agent''
        (case game_parent_is_agent game_process of Some b \<Rightarrow> bool_value b | None \<Rightarrow> ''unknown''),
      observation ''agent.debugger_observed''
        (if snap_debugger_observed snapshot then ''true'' else ''false''),
      observation ''agent.probe_health'' ''connected'']
     @ (case snap_executable_build_id snapshot of
          Some build_id \<Rightarrow>
            if safe_value build_id then [observation ''game.elf_build_id'' build_id] else []
        | None \<Rightarrow> [])
     @ [observation ''game.process_identity_stable''
          (case game_process_identity_stable game_process of Some b \<Rightarrow> bool_value b | None \<Rightarrow> ''unknown'')]
     @ map (observation ''agent.module'')
         (take 96 (filter safe_value (snap_loaded_module_basenames snapshot)))
     @ map (observation ''game.module'')
         (take 96 (filter safe_value (game_loaded_module_basenames game_process)))"

definition runtime_report ::
    "BoundAgentLaunch \<Rightarrow> loop_state \<Rightarrow> AgentReportChallengeV1 \<Rightarrow> i64 \<Rightarrow> bytes
      \<Rightarrow> IntegrityObservationV1 list \<Rightarrow> AgentIntegrityReportV1"
where
  "runtime_report launch s challenge now executable_sha256 observations =
     \<lparr>rep_protocol_version = PROTOCOL_VERSION,
      rep_agent_session_id = launch_session_id launch,
      rep_sequence = ls_sequence s,
      rep_challenge_nonce = chal_nonce challenge,
      rep_observed_at_unix = now,
      rep_build_id = launch_build_id launch,
      rep_executable_sha256 = executable_sha256,
      rep_observations = observations,
      rep_previous_report_digest = ls_previous_digest s,
      rep_signature = []\<rparr>"

text \<open>Up to \<open>sign_report\<close>: the signed report, its time, or the error.\<close>

definition answer_challenge ::
    "'v lib \<Rightarrow> RuntimeState \<Rightarrow> BoundAgentLaunch \<Rightarrow> tick \<Rightarrow> bytes \<Rightarrow> loop_state
      \<Rightarrow> string + AgentIntegrityReportV1 \<times> i64"
where
  "answer_challenge L state launch tk payload s =
     bindE (ok_or ''system clock is before Unix epoch'' (tk_handler_now tk)) (\<lambda>now.
     bindE (mapErr (\<lambda>_. ''Agent report challenge was rejected'') (decode_challenge L payload now))
       (\<lambda>challenge.
     if chal_agent_session_id challenge \<noteq> launch_session_id launch
     then Inl ''Agent report challenge is bound to another session''
     else
       bindE (mapErr (\<lambda>_. ''failed to refresh protected executable evidence'')
         (fst (inspect_executable L (tk_procs tk) (rts_game state) (tk_disk tk)))) (\<lambda>snapshot.
       if snap_executable_sha256 snapshot \<noteq> hello_build_id (rts_hello state)
       then Inl ''protected executable changed after launch''
       else
         let game_process = inspect_game_process_bound (wd_fs (tk_disk tk)) (tk_procs tk)
               (rts_game_process_id state) (rts_game state) (rts_game_process_identity state);
             observations = game_observations state (pv_self (tk_procs tk)) snapshot game_process in
         bindE (ok_or ''executable digest is invalid'' (hex_decode (snap_executable_sha256 snapshot)))
           (\<lambda>executable_sha256.
         bindE (mapErr (\<lambda>_. ''report could not be signed'')
           (sign_report L (runtime_report launch s challenge now executable_sha256 observations)
             (rts_key state))) (\<lambda>report.
         Inr (report, now))))))"

text \<open>From the signed report on: advance the chain, send the report, publish.\<close>

definition deliver_report ::
    "'v lib \<Rightarrow> RuntimeState \<Rightarrow> BoundAgentLaunch \<Rightarrow> loop_state \<Rightarrow> AgentIntegrityReportV1 \<Rightarrow> i64 \<Rightarrow> run"
where
  "deliver_report L state launch s report now =
     (case checked_succ (ls_sequence s) of
        None \<Rightarrow> fails ''Agent report sequence exhausted'' s
      | Some sequence \<Rightarrow>
          (case write_frame (io_writer (ls_io s))
              \<lparr>fr_message_type = IntegrityReport,
               fr_payload = encode_to_vec (report_codec L) report\<rparr> of
             (Inl _, w) \<Rightarrow>
               Finished (Inl ''failed to return signed Agent report'') ((ls_io s)\<lparr>io_writer := w\<rparr>)
           | (Inr _, w) \<Rightarrow>
               Running
                 (s\<lparr>ls_previous_digest := report_digest L report,
                    ls_last_report_at := now,
                    ls_report_deadline := now + report_window launch,
                    ls_sequence := sequence,
                    ls_io := publish_runtime state ''protected'' None ((ls_io s)\<lparr>io_writer := w\<rparr>)\<rparr>)))"

definition on_challenge ::
    "'v lib \<Rightarrow> RuntimeState \<Rightarrow> BoundAgentLaunch \<Rightarrow> tick \<Rightarrow> bytes \<Rightarrow> loop_state \<Rightarrow> run"
where
  "on_challenge L state launch tk payload s =
     (case answer_challenge L state launch tk payload s of
        Inl e \<Rightarrow> fails e s
      | Inr (report, now) \<Rightarrow> deliver_report L state launch s report now)"

definition check_revocation ::
    "'v lib \<Rightarrow> RuntimeState \<Rightarrow> BoundAgentLaunch \<Rightarrow> i64 option \<Rightarrow> bytes \<Rightarrow> string + unit"
where
  "check_revocation L state launch clock payload =
     bindE (ok_or ''Agent revocation is malformed'' (decode (signed_codec L) payload)) (\<lambda>so.
     if encode_to_vec (signed_codec L) so \<noteq> payload then Inl ''Agent revocation is not canonical''
     else
       bindE (ok_or ''system clock is before Unix epoch'' clock) (\<lambda>now.
       bindE (mapErr (\<lambda>_. ''Agent revocation was rejected'')
         (verify_revocation L so (rts_trust state) now)) (\<lambda>revocation.
       if rev_agent_session_id revocation \<noteq> launch_session_id launch
          \<or> rev_tenant_id revocation \<noteq> launch_tenant_id launch
          \<or> rev_game_id revocation \<noteq> launch_game_id launch
          \<or> rev_environment_id revocation \<noteq> launch_environment_id launch
       then Inl ''Agent revocation is bound to another session''
       else Inr ())))"

definition on_revocation ::
    "'v lib \<Rightarrow> RuntimeState \<Rightarrow> BoundAgentLaunch \<Rightarrow> i64 option \<Rightarrow> bytes \<Rightarrow> loop_state \<Rightarrow> run"
where
  "on_revocation L state launch clock payload s =
     (case check_revocation L state launch clock payload of
        Inl e \<Rightarrow> fails e s
      | Inr _ \<Rightarrow>
          health_then L state launch ''revoked'' [''SESSION_REVOKED''] (Some ''SESSION_REVOKED'') s
            (fails ''Agent session was revoked''))"

definition on_shutdown :: "RuntimeState \<Rightarrow> bytes \<Rightarrow> loop_state \<Rightarrow> run" where
  "on_shutdown state payload s =
     (if payload \<noteq> [] then fails ''Agent shutdown frame must be empty'' s
      else Finished (Inr ()) (publish_runtime state ''stopped'' None (ls_io s)))"

definition channel_closed :: "RuntimeState \<Rightarrow> loop_state \<Rightarrow> run" where
  "channel_closed state s =
     Finished (Inr ()) (publish_runtime state ''stopped'' (Some ''GAME_CHANNEL_CLOSED'') (ls_io s))"

definition on_frame ::
    "'v lib \<Rightarrow> RuntimeState \<Rightarrow> BoundAgentLaunch \<Rightarrow> tick \<Rightarrow> Frame \<Rightarrow> loop_state \<Rightarrow> run"
where
  "on_frame L state launch tk frame s =
     (case fr_message_type frame of
        Challenge \<Rightarrow> on_challenge L state launch tk (fr_payload frame) s
      | Revocation \<Rightarrow> on_revocation L state launch (tk_handler_now tk) (fr_payload frame) s
      | Shutdown \<Rightarrow> on_shutdown state (fr_payload frame) s
      | _ \<Rightarrow> fails ''unexpected Agent channel message after admission'' s)"

definition serve_step ::
    "'v lib \<Rightarrow> RuntimeState \<Rightarrow> BoundAgentLaunch \<Rightarrow> loop_state \<Rightarrow> tick \<Rightarrow> run"
where
  "serve_step L state launch s tk =
     (case tk_now tk of
        None \<Rightarrow> fails ''system clock is before Unix epoch'' s
      | Some now \<Rightarrow>
          if sint (launch_policy_expires_at_unix launch) \<le> sint now then
            health_then L state launch ''expired'' [''POLICY_EXPIRED''] (Some ''POLICY_EXPIRED'') s
              (fails ''Agent policy expired'')
          else if sint (ls_report_deadline s) \<le> sint now then
            health_then L state launch ''lost'' [''REPORT_DEADLINE_MISSED'']
              (Some ''REPORT_DEADLINE_MISSED'') s (fails ''Agent report deadline was missed'')
          else
            (case tk_recv tk of
               Frame_received frame \<Rightarrow> on_frame L state launch tk frame s
             | Frame_error e \<Rightarrow>
                 if e = Io then channel_closed state s else fails ''Agent channel frame was rejected'' s
             | Timed_out \<Rightarrow> on_timeout L state launch (tk_handler_now tk) s
             | Disconnected \<Rightarrow> channel_closed state s))"

fun serve_loop ::
    "'v lib \<Rightarrow> RuntimeState \<Rightarrow> BoundAgentLaunch \<Rightarrow> loop_state \<Rightarrow> tick list \<Rightarrow> run"
where
  "serve_loop L state launch s [] = Running s"
| "serve_loop L state launch s (tk # tks) =
     (case serve_step L state launch s tk of
        Running t \<Rightarrow> serve_loop L state launch t tks
      | Finished r x \<Rightarrow> Finished r x)"

definition serve :: "'v lib \<Rightarrow> 'r host \<Rightarrow> RuntimeState \<Rightarrow> io \<Rightarrow> tick list \<Rightarrow> run" where
  "serve L h state x ticks =
     (case admission L h state x of
        (Inl e, x') \<Rightarrow> Finished (Inl e) x'
      | (Inr (launch, s), x') \<Rightarrow> serve_loop L state launch s ticks)"

end
