(* ===== verification/RuntimeFacts.thy ===== *)
theory RuntimeFacts
  imports Runtime
begin

text \<open>
  Facts on \<open>serve\<close>: what has been checked when a session is admitted, when the loop goes on, what it
  writes, and that its reports are one chain (\<open>runtime_producer\<close> interprets \<open>report_producer\<close> on the
  loop).
\<close>

section \<open>Admission\<close>

lemma then_io_ok: "then_io r f = (Inr v, x') \<longleftrightarrow> (\<exists>u x. r = (Inr u, x) \<and> f u x = (Inr v, x'))"
  by (auto simp: then_io_def split: prod.splits sum.splits)

lemma reject_fails [simp]: "reject L state p sid hs reason m x \<noteq> (Inr v, x')"
  by (simp add: reject_def)

lemma update_required_fails [simp]: "update_required L h state x \<noteq> (Inr v, x')"
  by (auto simp: update_required_def Let_def split: option.splits sum.splits bool.splits)

lemma await_bootstrap_ok:
  "await_bootstrap L state spawned received x = (Inr payload, x') \<longleftrightarrow>
     spawned \<and> x' = x \<and> received = Frame_received \<lparr>fr_message_type = LaunchGrant, fr_payload = payload\<rparr>"
  by (cases received) (auto simp: await_bootstrap_def)

lemma admit_bundle_ok:
  assumes "admit_bundle L h state payload x = (Inr launch, x')"
  shows "\<exists>now. host_admission_now h = Some now \<and>
    verify_launch_bundle L payload (rts_trust state) now (sk_verifying L (rts_key state))
      (hello_build_id (rts_hello state)) AGENT_VERSION = Inr launch"
  using assms
  by (auto simp: admit_bundle_def Let_def split: option.splits sum.splits if_splits)

lemma check_files_ok:
  assumes "check_files L state disk launch x = (Inr u, x')"
  shows "x' = x \<and> (\<exists>root. realpath (wd_fs disk) (rts_game_root state) = Some root \<and>
    (\<forall>f \<in> set (man_files (launch_build_manifest launch)).
       entry_ok L (wd_fs disk) root
         \<lparr>pbf_path = bf_path f, pbf_size = bf_size f, pbf_sha256 = hex_encode (bf_sha256 f)\<rparr>))"
proof -
  from assms obtain d' where run: "verify_build_files L (rts_game_root state)
      (protected_manifest (launch_build_manifest launch)) disk = (Inr [], d')" and "x' = x"
    by (cases "verify_build_files L (rts_game_root state)
        (protected_manifest (launch_build_manifest launch)) disk")
      (auto simp: check_files_def split: sum.splits if_splits)
  then show ?thesis
    using reads_ok [OF reads_verify_build_files run] by (auto simp: protected_manifest_def)
qed

lemma become_ready_ok:
  assumes "become_ready L h state launch x = (Inr s, x')"
  shows "\<exists>t d. host_heartbeat_now h = Some t \<and> host_deadline_now h = Some d \<and>
    ls_sequence s = 1 \<and> ls_previous_digest s = replicate 32 0 \<and> ls_last_report_at s = 0 \<and>
    ls_next_heartbeat s = t + i64_of_u32 (launch_heartbeat_seconds launch) \<and>
    ls_report_deadline s = d + report_window launch \<and> x' = ls_io s"
  using assms
  by (auto simp: become_ready_def Let_def split: prod.splits sum.splits option.splits)

text \<open>What holds of an admitted session.\<close>

definition admitted ::
    "'v lib \<Rightarrow> 'r host \<Rightarrow> RuntimeState \<Rightarrow> BoundAgentLaunch \<Rightarrow> bool"
where
  "admitted L h state launch \<longleftrightarrow>
     (\<exists>payload now root.
        host_bootstrap h = Frame_received \<lparr>fr_message_type = LaunchGrant, fr_payload = payload\<rparr> \<and>
        host_admission_now h = Some now \<and>
        verify_launch_bundle L payload (rts_trust state) now (sk_verifying L (rts_key state))
          (hello_build_id (rts_hello state)) AGENT_VERSION = Inr launch \<and>
        \<not> registration_mismatch state launch \<and>
        realpath (wd_fs (host_disk h)) (rts_game_root state) = Some root \<and>
        (\<forall>f \<in> set (man_files (launch_build_manifest launch)).
           entry_ok L (wd_fs (host_disk h)) root
             \<lparr>pbf_path = bf_path f, pbf_size = bf_size f, pbf_sha256 = hex_encode (bf_sha256 f)\<rparr>))"

definition initial_loop_state :: "'r host \<Rightarrow> BoundAgentLaunch \<Rightarrow> loop_state \<Rightarrow> bool" where
  "initial_loop_state h launch s \<longleftrightarrow>
     (\<exists>t d. host_heartbeat_now h = Some t \<and> host_deadline_now h = Some d \<and>
       ls_sequence s = 1 \<and> ls_previous_digest s = replicate 32 0 \<and> ls_last_report_at s = 0 \<and>
       ls_next_heartbeat s = t + i64_of_u32 (launch_heartbeat_seconds launch) \<and>
       ls_report_deadline s = d + report_window launch)"

lemma admission_ok:
  assumes "admission L h state x = (Inr (launch, s), x')"
  shows "admitted L h state launch \<and> initial_loop_state h launch s \<and> x' = ls_io s"
proof -
  from assms obtain payload x1 x2 x3 x4 x5 where
    b: "await_bootstrap L state (host_spawns_reader h) (host_bootstrap h) x1 = (Inr payload, x2)" and
    a: "admit_bundle L h state payload x2 = (Inr launch, x3)" and
    r: "check_registration L state launch x3 = (Inr (), x4)" and
    f: "check_files L state (host_disk h) launch x4 = (Inr (), x5)" and
    s: "become_ready L h state launch x5 = (Inr s, x')"
    unfolding admission_def then_io_ok by (auto simp del: One_nat_def)
  from r have "\<not> registration_mismatch state launch"
    by (auto simp: check_registration_def split: if_splits)
  with await_bootstrap_ok [THEN iffD1, OF b] admit_bundle_ok [OF a] check_files_ok [OF f]
    become_ready_ok [OF s]
  show ?thesis
    unfolding admitted_def initial_loop_state_def by blast
qed

section \<open>One iteration\<close>

lemma health_then_Running:
  assumes "health_then L state launch hs rs pr s k = Running t"
  obtains x where "write_health L (launch_session_id launch) hs (ls_last_report_at s) rs (ls_io s) = (Inr (), x)"
    "k (s\<lparr>ls_io := publish_runtime state hs pr x\<rparr>) = Running t"
  using assms by (auto simp: health_then_def split: prod.splits sum.splits)

lemma health_then_fails [simp]: "health_then L state launch hs rs pr s (fails m) \<noteq> Running t"
  by (auto simp: health_then_def fails_def split: prod.splits sum.splits)

lemma fails_not_Running [simp]: "fails m s \<noteq> Running t"
  by (simp add: fails_def)

definition same_chain :: "loop_state \<Rightarrow> loop_state \<Rightarrow> bool" where
  "same_chain s t \<longleftrightarrow>
     ls_sequence t = ls_sequence s \<and> ls_previous_digest t = ls_previous_digest s \<and>
     ls_last_report_at t = ls_last_report_at s \<and> ls_report_deadline t = ls_report_deadline s"

lemma on_timeout_Running:
  "on_timeout L state launch clock s = Running t \<Longrightarrow> same_chain s t"
  by (auto simp: on_timeout_def same_chain_def split: option.splits if_splits elim!: health_then_Running)

lemma deliver_report_Running:
  assumes "deliver_report L state launch s r now = Running t"
  obtains sequence w where "checked_succ (ls_sequence s) = Some sequence"
    "write_frame (io_writer (ls_io s))
       \<lparr>fr_message_type = IntegrityReport, fr_payload = encode_to_vec (report_codec L) r\<rparr> = (Inr (), w)"
    "t = s\<lparr>ls_previous_digest := report_digest L r, ls_last_report_at := now,
           ls_report_deadline := now + report_window launch, ls_sequence := sequence,
           ls_io := publish_runtime state ''protected'' None ((ls_io s)\<lparr>io_writer := w\<rparr>)\<rparr>"
  using assms by (auto simp: deliver_report_def split: option.splits prod.splits sum.splits)

text \<open>The report an iteration sends, when it goes on.\<close>

definition report_of ::
    "'v lib \<Rightarrow> RuntimeState \<Rightarrow> BoundAgentLaunch \<Rightarrow> loop_state \<Rightarrow> tick \<Rightarrow> AgentIntegrityReportV1 option"
where
  "report_of L state launch s tk =
     (case tk_recv tk of
        Frame_received f \<Rightarrow>
          if fr_message_type f = Challenge then
            (case answer_challenge L state launch tk (fr_payload f) s of
               Inr (r, _) \<Rightarrow> Some r | Inl _ \<Rightarrow> None)
          else None
      | _ \<Rightarrow> None)"

text \<open>The loop goes on only after a time-out or an answered challenge.\<close>

lemma serve_step_Running:
  assumes "serve_step L state launch s tk = Running t"
  obtains (timeout) now where "tk_now tk = Some now" "tk_recv tk = Timed_out"
      "sint now < sint (launch_policy_expires_at_unix launch)" "sint now < sint (ls_report_deadline s)"
      "on_timeout L state launch (tk_handler_now tk) s = Running t" "report_of L state launch s tk = None"
  | (challenge) now payload r at_time where "tk_now tk = Some now"
      "tk_recv tk = Frame_received \<lparr>fr_message_type = Challenge, fr_payload = payload\<rparr>"
      "sint now < sint (launch_policy_expires_at_unix launch)" "sint now < sint (ls_report_deadline s)"
      "answer_challenge L state launch tk payload s = Inr (r, at_time)"
      "deliver_report L state launch s r at_time = Running t" "report_of L state launch s tk = Some r"
proof (cases "tk_now tk")
  case None
  with assms show ?thesis by (simp add: serve_step_def)
next
  case (Some now)
  with assms have live: "sint now < sint (launch_policy_expires_at_unix launch)"
    "sint now < sint (ls_report_deadline s)"
    by (auto simp: serve_step_def not_le split: if_splits)
  show ?thesis
  proof (cases "tk_recv tk")
    case (Frame_received f)
    with assms Some live have "on_frame L state launch tk f s = Running t"
      by (simp add: serve_step_def)
    then have "fr_message_type f = Challenge \<and> on_challenge L state launch tk (fr_payload f) s = Running t"
      by (auto simp: on_frame_def on_revocation_def on_shutdown_def split: MessageType.splits sum.splits
          if_splits)
    then obtain r at_time where c: "fr_message_type f = Challenge"
      "answer_challenge L state launch tk (fr_payload f) s = Inr (r, at_time)"
      "deliver_report L state launch s r at_time = Running t"
      by (auto simp: on_challenge_def split: sum.splits)
    then have "f = \<lparr>fr_message_type = Challenge, fr_payload = fr_payload f\<rparr>"
      by (cases f) simp
    with c Frame_received have "report_of L state launch s tk = Some r"
      by (simp add: report_of_def)
    with challenge [OF Some _ live c(2,3)] Frame_received \<open>f = _\<close> show ?thesis by simp
  next
    case Timed_out
    with assms Some live timeout show ?thesis
      by (simp add: serve_step_def report_of_def)
  qed (use assms Some live in \<open>auto simp: serve_step_def channel_closed_def split: if_splits\<close>)
qed

text \<open>What an answer contains.\<close>

lemma answer_challenge_ok:
  assumes "answer_challenge L state launch tk payload s = Inr (r, now)"
  obtains challenge snapshot w exe obs where
    "tk_handler_now tk = Some now" "decode_challenge L payload now = Inr challenge"
    "chal_agent_session_id challenge = launch_session_id launch"
    "inspect_executable L (tk_procs tk) (rts_game state) (tk_disk tk) = (Inr snapshot, w)"
    "snap_executable_sha256 snapshot = hello_build_id (rts_hello state)"
    "hex_decode (hello_build_id (rts_hello state)) = Some exe"
    "sign_report L (runtime_report launch s challenge now exe obs) (rts_key state) = Inr r"
proof -
  have split: "fst p = Inr v \<Longrightarrow> \<exists>w. p = (Inr v, w)" for p :: "(string + IntegritySnapshot) \<times> world" and v
    by (cases p) simp
  from assms show ?thesis
    by (auto simp: answer_challenge_def Let_def bindE_ok ok_or_ok mapErr_ok if_err_ok dest!: split
        intro: that)
qed

lemma runtime_report_fields:
  assumes "sign_report L (runtime_report launch s c now exe obs) key = Inr r"
  shows "rep_sequence r = ls_sequence s" "rep_previous_report_digest r = ls_previous_digest s"
    "rep_agent_session_id r = launch_session_id launch" "rep_challenge_nonce r = chal_nonce c"
    "rep_observed_at_unix r = now" "rep_build_id r = launch_build_id launch"
    "rep_executable_sha256 r = exe"
  using assms by (auto simp: sign_report_ok runtime_report_def)

section \<open>The report chain\<close>

definition runtime_produce ::
    "'v lib \<Rightarrow> RuntimeState \<Rightarrow> BoundAgentLaunch \<Rightarrow> loop_state \<Rightarrow> tick
      \<Rightarrow> AgentIntegrityReportV1 option \<times> loop_state"
where
  "runtime_produce L state launch s tk =
     (case serve_step L state launch s tk of
        Running t \<Rightarrow> (report_of L state launch s tk, t)
      | Finished _ _ \<Rightarrow> (None, s))"

interpretation runtime_producer: report_producer "report_digest L" "\<lambda>s. unat (ls_sequence s)"
    ls_previous_digest "runtime_produce L state launch" for L state launch
proof unfold_locales
  fix s tk r t
  assume "runtime_produce L state launch s tk = (Some r, t)"
  then have step: "serve_step L state launch s tk = Running t"
    and rep: "report_of L state launch s tk = Some r"
    by (auto simp: runtime_produce_def split: run.splits)
  from step show "unat (rep_sequence r) = unat (ls_sequence s) \<and>
      rep_previous_report_digest r = ls_previous_digest s \<and>
      unat (ls_sequence t) = Suc (unat (ls_sequence s)) \<and> ls_previous_digest t = report_digest L r"
  proof (cases rule: serve_step_Running)
    case (challenge now payload r' at_time)
    with rep have r: "r' = r" by simp
    from challenge(5) obtain c exe obs where
      "sign_report L (runtime_report launch s c at_time exe obs) (rts_key state) = Inr r"
      unfolding r by (rule answer_challenge_ok)
    with runtime_report_fields [OF this] challenge(6) show ?thesis
      unfolding r by (auto elim!: deliver_report_Running dest: checked_succ_Some)
  qed (use rep in simp)
next
  fix s tk t
  assume none: "runtime_produce L state launch s tk = (None, t)"
  show "unat (ls_sequence t) = unat (ls_sequence s) \<and> ls_previous_digest t = ls_previous_digest s"
  proof (cases "serve_step L state launch s tk")
    case (Running u)
    with none have "u = t" "report_of L state launch s tk = None"
      by (auto simp: runtime_produce_def)
    with Running show ?thesis
      by (cases rule: serve_step_Running) (auto dest: on_timeout_Running simp: same_chain_def)
  qed (use none in \<open>simp add: runtime_produce_def\<close>)
qed

text \<open>The reports of a run, and the ticks it uses.\<close>

fun loop_reports ::
    "'v lib \<Rightarrow> RuntimeState \<Rightarrow> BoundAgentLaunch \<Rightarrow> loop_state \<Rightarrow> tick list \<Rightarrow> AgentIntegrityReportV1 list"
where
  "loop_reports L state launch s [] = []"
| "loop_reports L state launch s (tk # tks) =
     (case serve_step L state launch s tk of
        Running t \<Rightarrow>
          (case report_of L state launch s tk of None \<Rightarrow> [] | Some r \<Rightarrow> [r]) @ loop_reports L state launch t tks
      | Finished _ _ \<Rightarrow> [])"

fun running_ticks ::
    "'v lib \<Rightarrow> RuntimeState \<Rightarrow> BoundAgentLaunch \<Rightarrow> loop_state \<Rightarrow> tick list \<Rightarrow> tick list"
where
  "running_ticks L state launch s [] = []"
| "running_ticks L state launch s (tk # tks) =
     (case serve_step L state launch s tk of
        Running t \<Rightarrow> tk # running_ticks L state launch t tks
      | Finished _ _ \<Rightarrow> [])"

lemma loop_reports_producer:
  "loop_reports L state launch s tks =
     fst (run_producer (runtime_produce L state launch) s (running_ticks L state launch s tks))"
proof (induction tks arbitrary: s)
  case (Cons tk tks)
  then show ?case
    by (auto simp: runtime_produce_def split: run.splits option.splits prod.splits)
qed simp

lemma loop_reports_chain:
  "report_chain (report_digest L) (unat (ls_sequence s)) (ls_previous_digest s)
     (loop_reports L state launch s tks)"
  unfolding loop_reports_producer by (rule runtime_producer.run_chain)

section \<open>Every report\<close>

lemma report_of_answer:
  assumes "report_of L state launch s tk = Some r"
  shows "\<exists>payload now. tk_recv tk = Frame_received \<lparr>fr_message_type = Challenge, fr_payload = payload\<rparr> \<and>
    answer_challenge L state launch tk payload s = Inr (r, now)"
proof -
  from assms obtain f now where f: "tk_recv tk = Frame_received f" "fr_message_type f = Challenge"
    "answer_challenge L state launch tk (fr_payload f) s = Inr (r, now)"
    by (auto simp: report_of_def split: recv.splits if_splits sum.splits)
  moreover from f(2) have "f = \<lparr>fr_message_type = Challenge, fr_payload = fr_payload f\<rparr>"
    by (cases f) simp
  ultimately show ?thesis by metis
qed

lemma loop_report_origin:
  "r \<in> set (loop_reports L state launch s tks) \<Longrightarrow>
     \<exists>u tk. tk \<in> set tks \<and> report_of L state launch u tk = Some r"
proof (induction tks arbitrary: s)
  case (Cons tk tks)
  show ?case
  proof (cases "serve_step L state launch s tk")
    case (Running t)
    with Cons.prems consider "report_of L state launch s tk = Some r"
      | "r \<in> set (loop_reports L state launch t tks)"
      by (auto split: option.splits)
    then show ?thesis
      using Cons.IH [of t] by cases auto
  qed (use Cons.prems in simp)
qed simp

text \<open>The facts a report of the runtime rests on, with the tick that produced it.\<close>

definition report_grounds ::
    "'v lib \<Rightarrow> RuntimeState \<Rightarrow> BoundAgentLaunch \<Rightarrow> tick \<Rightarrow> AgentIntegrityReportV1 \<Rightarrow> bool"
where
  "report_grounds L state launch tk r \<longleftrightarrow>
     (\<exists>payload challenge now q bs.
        tk_recv tk = Frame_received \<lparr>fr_message_type = Challenge, fr_payload = payload\<rparr> \<and>
        tk_handler_now tk = Some now \<and> decode_challenge L payload now = Inr challenge \<and>
        chal_agent_session_id challenge = launch_session_id launch \<and>
        rep_agent_session_id r = launch_session_id launch \<and>
        rep_build_id r = launch_build_id launch \<and>
        rep_challenge_nonce r = chal_nonce challenge \<and> rep_observed_at_unix r = now \<and>
        realpath (wd_fs (tk_disk tk)) (rts_game state) = Some q \<and>
        read_file (wd_fs (tk_disk tk)) q = Some bs \<and>
        rep_executable_sha256 r = sha256 L bs \<and>
        hello_build_id (rts_hello state) = hex_encode (sha256 L bs))"

lemma reads_build_id: "reads (executable_build_id V p) (\<lambda>_ _. True)"
  unfolding executable_build_id_def
  by (rule reads_conseq [OF reads_andThen [OF reads_attempt [OF reads_query] reads_ret]]) simp

lemma reads_inspect_executable:
  "reads (inspect_executable L V p)
     (\<lambda>s fs. \<exists>q bs. realpath fs p = Some q \<and> read_file fs q = Some bs \<and>
        snap_executable_sha256 s = hex_encode (sha256 L bs))"
  unfolding inspect_executable_def
proof (rule reads_conseq [OF reads_andThen [OF reads_query reads_andThen [OF reads_query]]])
  show "reads (case metadata of
       File contents \<Rightarrow>
         andThen (lift (ok_or ''game filename is not UTF-8'' (file_name q))) (\<lambda>name.
         andThen (query ''cannot open game executable'' (\<lambda>fs. read_file fs q)) (\<lambda>contents'.
         andThen (touch ''cannot hash game executable'') (\<lambda>_.
         andThen (executable_build_id V q) (\<lambda>build_id.
         ret \<lparr>snap_executable_name = name,
              snap_executable_sha256 = hex_encode (sha256 L contents'),
              snap_executable_size = length contents,
              snap_debugger_observed = debugger_observed V,
              snap_platform = ''linux'',
              snap_process_id = pv_self V,
              snap_loaded_module_basenames = loaded_module_basenames V,
              snap_executable_build_id = build_id\<rparr>))))
     | _ \<Rightarrow> throw ''game path is not a regular file'')
     (\<lambda>s fs. \<exists>bs. read_file fs q = Some bs \<and> snap_executable_sha256 s = hex_encode (sha256 L bs))"
    for metadata q
    by (cases metadata)
      (auto intro: reads_throw reads_conseq [OF reads_andThen [OF reads_lift reads_andThen [OF reads_query
            reads_andThen [OF reads_touch reads_andThen [OF reads_build_id reads_ret]]]]])
qed auto

lemma report_of_grounds:
  assumes "report_of L state launch s tk = Some r"
  shows "report_grounds L state launch tk r"
proof -
  from report_of_answer [OF assms] obtain payload now where
    recv: "tk_recv tk = Frame_received \<lparr>fr_message_type = Challenge, fr_payload = payload\<rparr>" and
    ans: "answer_challenge L state launch tk payload s = Inr (r, now)" by blast
  from ans show ?thesis
  proof (rule answer_challenge_ok)
    fix challenge snapshot w exe obs
    assume a: "tk_handler_now tk = Some now" "decode_challenge L payload now = Inr challenge"
      "chal_agent_session_id challenge = launch_session_id launch"
      "inspect_executable L (tk_procs tk) (rts_game state) (tk_disk tk) = (Inr snapshot, w)"
      "snap_executable_sha256 snapshot = hello_build_id (rts_hello state)"
      "hex_decode (hello_build_id (rts_hello state)) = Some exe"
      "sign_report L (runtime_report launch s challenge now exe obs) (rts_key state) = Inr r"
    from reads_ok [OF reads_inspect_executable a(4)] a(5) obtain q bs where
      "realpath (wd_fs (tk_disk tk)) (rts_game state) = Some q"
      "read_file (wd_fs (tk_disk tk)) q = Some bs"
      "hello_build_id (rts_hello state) = hex_encode (sha256 L bs)" by auto
    with a recv runtime_report_fields [OF a(7)] show ?thesis
      by (auto simp: report_grounds_def)
  qed
qed

lemma loop_report_grounds:
  "r \<in> set (loop_reports L state launch s tks) \<Longrightarrow> \<exists>tk \<in> set tks. report_grounds L state launch tk r"
  using loop_report_origin report_of_grounds by blast

lemma loop_report_signed:
  assumes "r \<in> set (loop_reports L state launch s tks)" and "signs_correctly L (rts_key state)"
  shows "verify_report L r (sk_verifying L (rts_key state)) = Inr ()"
proof -
  from loop_report_origin [OF assms(1)] report_of_answer obtain u tk payload now where
    "answer_challenge L state launch tk payload u = Inr (r, now)" by metis
  then show ?thesis
    by (rule answer_challenge_ok) (rule sign_then_verify [OF assms(2)])
qed

section \<open>The wire\<close>

definition report_frame :: "'v lib \<Rightarrow> AgentIntegrityReportV1 \<Rightarrow> Frame" where
  "report_frame L r =
     \<lparr>fr_message_type = IntegrityReport, fr_payload = encode_to_vec (report_codec L) r\<rparr>"

text \<open>From output \<open>a\<close> to output \<open>b\<close> the frames \<open>fs\<close> were written, whose reports are \<open>rs\<close>.\<close>

definition wrote :: "'v lib \<Rightarrow> bytes \<Rightarrow> AgentIntegrityReportV1 list \<Rightarrow> bytes \<Rightarrow> bool" where
  "wrote L a rs b \<longleftrightarrow>
     (\<exists>fs. b = a @ concat (map frame_bytes fs) \<and>
        (\<forall>f \<in> set fs. length (fr_payload f) \<le> MAX_FRAME_PAYLOAD \<and>
           fr_message_type f \<in> {Health, IntegrityReport}) \<and>
        filter (\<lambda>f. fr_message_type f = IntegrityReport) fs = map (report_frame L) rs)"

lemma wrote_refl: "wrote L a [] a"
  unfolding wrote_def by (rule exI [of _ "[]"]) simp

lemma wrote_trans:
  assumes "wrote L a rs b" and "wrote L b qs c"
  shows "wrote L a (rs @ qs) c"
proof -
  from assms obtain fs gs where
    "b = a @ concat (map frame_bytes fs)" "c = b @ concat (map frame_bytes gs)"
    "\<forall>f \<in> set fs. length (fr_payload f) \<le> MAX_FRAME_PAYLOAD \<and> fr_message_type f \<in> {Health, IntegrityReport}"
    "\<forall>f \<in> set gs. length (fr_payload f) \<le> MAX_FRAME_PAYLOAD \<and> fr_message_type f \<in> {Health, IntegrityReport}"
    "filter (\<lambda>f. fr_message_type f = IntegrityReport) fs = map (report_frame L) rs"
    "filter (\<lambda>f. fr_message_type f = IntegrityReport) gs = map (report_frame L) qs"
    unfolding wrote_def by blast
  then show ?thesis
    unfolding wrote_def by (intro exI [of _ "fs @ gs"]) auto
qed

abbreviation loop_out :: "loop_state \<Rightarrow> bytes" where
  "loop_out s \<equiv> w_out (io_writer (ls_io s))"

lemma publish_writer [simp]: "io_writer (publish_runtime state a b x) = io_writer x"
  by (simp add: publish_runtime_def split: option.split)

lemma write_health_wrote:
  assumes "write_health L sid hs at rs x = (Inr u, x')"
  shows "wrote L (w_out (io_writer x)) [] (w_out (io_writer x'))"
proof -
  let ?f = "\<lparr>fr_message_type = Health, fr_payload = encode_to_vec (health_codec L)
            \<lparr>health_agent_session_id = sid, health_state = hs,
             health_last_report_at_unix = at, health_public_reasons = rs\<rparr>\<rparr>"
  from assms have "write_frame (io_writer x) ?f = (Inr (), io_writer x')"
    by (auto simp: write_health_def mapErr_ok split: prod.splits)
  from write_frame_ok [OF this] show ?thesis
    unfolding wrote_def by (intro exI [of _ "[?f]"]) simp
qed

lemma step_wrote:
  assumes "serve_step L state launch s tk = Running t"
  shows "wrote L (loop_out s) (case report_of L state launch s tk of None \<Rightarrow> [] | Some r \<Rightarrow> [r]) (loop_out t)"
  using assms
proof (cases rule: serve_step_Running)
  case (timeout now)
  from timeout(5) show ?thesis
    unfolding timeout(6)
    by (auto simp: on_timeout_def wrote_refl split: option.splits if_splits
        elim!: health_then_Running dest: write_health_wrote)
next
  case (challenge now payload r at_time)
  from challenge(6) obtain w where
    "write_frame (io_writer (ls_io s)) (report_frame L r) = (Inr (), w)" and t: "loop_out t = w_out w"
    by (auto elim!: deliver_report_Running simp: report_frame_def)
  from write_frame_ok [OF this(1)] show ?thesis
    unfolding challenge(7) t wrote_def
    by (intro exI [of _ "[report_frame L r]"]) (simp add: report_frame_def)
qed

lemma loop_wrote:
  "serve_loop L state launch s tks = Running t \<Longrightarrow>
     wrote L (loop_out s) (loop_reports L state launch s tks) (loop_out t)"
proof (induction tks arbitrary: s)
  case Nil
  then show ?case by (simp add: wrote_refl)
next
  case (Cons tk tks)
  then obtain u where "serve_step L state launch s tk = Running u"
    "serve_loop L state launch u tks = Running t"
    by (auto split: run.splits)
  with wrote_trans [OF step_wrote Cons.IH] show ?case by simp
qed

section \<open>Deadlines\<close>

lemma serve_loop_append:
  "serve_loop L state launch s (tks @ uks) =
     (case serve_loop L state launch s tks of
        Running t \<Rightarrow> serve_loop L state launch t uks | Finished r x \<Rightarrow> Finished r x)"
  by (induction tks arbitrary: s) (auto split: run.splits)

lemma step_deadline:
  assumes "serve_step L state launch s tk = Running t"
  shows "ls_report_deadline t =
    (case report_of L state launch s tk of
       None \<Rightarrow> ls_report_deadline s | Some r \<Rightarrow> rep_observed_at_unix r + report_window launch)"
  using assms
proof (cases rule: serve_step_Running)
  case (timeout now)
  then show ?thesis
    using on_timeout_Running [of L state launch "tk_handler_now tk" s t] by (simp add: same_chain_def)
next
  case (challenge now payload r at_time)
  from challenge(5) have "rep_observed_at_unix r = at_time"
    by (rule answer_challenge_ok) (auto dest: runtime_report_fields)
  with challenge(6,7) show ?thesis
    by (auto elim!: deliver_report_Running)
qed

lemma loop_deadline:
  "serve_loop L state launch s tks = Running t \<Longrightarrow>
     ls_report_deadline t =
       (if loop_reports L state launch s tks = [] then ls_report_deadline s
        else rep_observed_at_unix (last (loop_reports L state launch s tks)) + report_window launch)"
proof (induction tks arbitrary: s)
  case (Cons tk tks)
  then obtain u where u: "serve_step L state launch s tk = Running u"
    "serve_loop L state launch u tks = Running t"
    by (auto split: run.splits)
  from Cons.IH [OF u(2)] step_deadline [OF u(1)] u(1) show ?case
    by (auto split: option.splits)
qed simp

text \<open>No step goes on at or after the policy's expiry.\<close>

lemma loop_running_clock:
  "serve_loop L state launch s tks = Running t \<Longrightarrow>
     \<forall>tk \<in> set tks. \<exists>now. tk_now tk = Some now \<and> sint now < sint (launch_policy_expires_at_unix launch)"
proof (induction tks arbitrary: s)
  case (Cons tk tks)
  then obtain u where u: "serve_step L state launch s tk = Running u"
    "serve_loop L state launch u tks = Running t"
    by (auto split: run.splits)
  from u(1) have "\<exists>now. tk_now tk = Some now \<and> sint now < sint (launch_policy_expires_at_unix launch)"
    by (cases rule: serve_step_Running) auto
  with Cons.IH [OF u(2)] show ?case by simp
qed simp

text \<open>With a validated policy the window is at most 3900 seconds and its sum does not wrap.\<close>

lemma report_window_bound:
  assumes "launch_report_seconds launch \<le> 3600" and "launch_disconnect_grace_seconds launch \<le> 300"
  shows "sint (report_window launch)
    = uint (launch_report_seconds launch) + uint (launch_disconnect_grace_seconds launch)"
proof -
  have "uint (launch_report_seconds launch) \<le> 3600" "uint (launch_disconnect_grace_seconds launch) \<le> 300"
    using assms by (simp_all add: word_le_def)
  then show ?thesis
    by (simp add: report_window_def sint_i64_of_u32 uint_word_ariths)
qed

end
