(* ===== verification/Handoff.thy ===== *)
theory Handoff
  imports RuntimeFacts
begin

text \<open>
  The hand-over of a signed build manifest from the protocol crate to the platform crate in
  \<^verbatim>\<open>crates/certael-agent/src/runtime.rs\<close>.

  The two crates check paths with different functions. A manifest that \<open>validate_build_manifest\<close>
  accepted never trips the platform's own checks of its entries, so on a disk without I/O errors
  \<open>verify_build_files\<close> returns exactly the list of the files that differ.
\<close>

section \<open>Paths\<close>

lemma slash_piece_not_parent:
  "safe_relative_path s \<Longrightarrow> p \<in> set (slash_pieces s) \<Longrightarrow> p \<noteq> ''..''"
  using safe_relative_path_pieces [of s "\<lambda>c. c = CHR ''/''"] by (auto simp: slash_pieces_def list_all_iff)

lemma components_normal_or_cur:
  assumes "\<forall>p \<in> set (slash_pieces s). p \<noteq> ''..''" and "\<not> is_absolute s"
  shows "list_all (\<lambda>c. case c of Normal _ \<Rightarrow> True | CurDir \<Rightarrow> True | _ \<Rightarrow> False) (components s)"
proof -
  have "list_all is_normal (inner_components (slash_pieces s))"
    by (rule inner_components_normal [OF assms(1)])
  then show ?thesis
    using assms(2)
    by (auto simp: components_def list_all_iff is_normal_def split: Component.splits)
qed

lemma protocol_path_platform_safe:
  assumes "safe_relative_path s"
  shows "platform_safe_relative_path s"
proof -
  have "\<not> is_absolute s"
    using assms by (simp add: safe_relative_path_def is_absolute_def)
  with components_normal_or_cur [of s] slash_piece_not_parent [OF assms] assms show ?thesis
    by (simp add: platform_safe_relative_path_def safe_relative_path_def)
qed

section \<open>Entries\<close>

definition protected_file :: "ProtectedBuildFileV1 \<Rightarrow> ProtectedBuildFile" where
  "protected_file f =
     \<lparr>pbf_path = bf_path f, pbf_size = bf_size f, pbf_sha256 = hex_encode (bf_sha256 f)\<rparr>"

lemma protected_manifest_files: "pbm_files (protected_manifest c) = map protected_file (man_files c)"
  by (simp add: protected_manifest_def protected_file_def)

lemma protected_file_well_formed:
  "safe_relative_path (bf_path f) \<Longrightarrow> length (bf_sha256 f) = 32 \<Longrightarrow> entry_well_formed (protected_file f)"
  by (simp add: entry_well_formed_def protected_file_def protocol_path_platform_safe list_all_iff
      hex_encode_hexdigits)

lemma validated_manifest_entries:
  assumes "validate_build_manifest c now = Inr ()"
  shows "list_all entry_well_formed (map protected_file (man_files c))"
    and "distinct (map pbf_path (map protected_file (man_files c)))"
proof -
  show "list_all entry_well_formed (map protected_file (man_files c))"
    using validate_build_manifest_files(3) [OF assms]
    by (simp add: list_all_iff protected_file_well_formed)
  have "distinct (map bf_path (man_files c))"
    using validate_build_manifest_files(4) [OF assms] by (rule distinct_map_of_key)
  then show "distinct (map pbf_path (map protected_file (man_files c)))"
    by (simp add: protected_file_def comp_def)
qed

lemma validated_manifest_header:
  assumes "validate_build_manifest c now = Inr ()"
  shows "pbm_build_id (protected_manifest c) \<noteq> []" "length (pbm_build_id (protected_manifest c)) \<le> 128"
    "pbm_files (protected_manifest c) \<noteq> []" "length (pbm_files (protected_manifest c)) \<le> 16384"
proof -
  from assms have "is_identifier (man_build_id c)"
    by (auto simp: validate_build_manifest_def split: if_splits)
  then show "pbm_build_id (protected_manifest c) \<noteq> []" "length (pbm_build_id (protected_manifest c)) \<le> 128"
    by (simp_all add: protected_manifest_def is_identifier_def)
  show "pbm_files (protected_manifest c) \<noteq> []" "length (pbm_files (protected_manifest c)) \<le> 16384"
    using validate_build_manifest_files(1,2) [OF assms] by (simp_all add: protected_manifest_def)
qed

lemma verify_manifest_calm:
  assumes "validate_build_manifest c now = Inr ()" and "calm w"
    and "realpath (wd_fs w) root = Some r" and "stat (wd_fs w) r = Some Dir"
  shows "verify_build_files L root (protected_manifest c) w =
    (Inr (List.map_filter (entry_mismatch L (wd_fs w) r) (map protected_file (man_files c))), w)"
  using verify_entries_calm [OF assms(2) validated_manifest_entries [OF assms(1)], of "{}" L r "[]"]
    validated_manifest_header [OF assms(1)] assms(3,4)
  by (simp add: verify_build_files_def andThen_def attempt_def run_simps calm_query assms(2)
      protected_manifest_files)

lemma map_filter_Nil: "List.map_filter f xs = [] \<longleftrightarrow> (\<forall>x \<in> set xs. f x = None)"
  by (induction xs) (auto simp: List.map_filter_simps split: option.splits)

lemma mismatches_Nil:
  "List.map_filter (entry_mismatch L fs r) files = [] \<longleftrightarrow> (\<forall>f \<in> set files. entry_ok L fs r f)"
  by (simp add: map_filter_Nil entry_mismatch_def entry_verdict_None)

end
