(* ===== verification/LocalTrust.thy ===== *)
theory LocalTrust
  imports ProtocolVerify FsLogic
begin

text \<open>
  Files the Agent trusts on its own disk: \<^verbatim>\<open>crates/certael-agent/src/trust.rs\<close> (the trust store) and
  \<^verbatim>\<open>crates/certael-agent/src/branding.rs\<close> (a game's signed artwork).

  Parameters: the mode bits of a file (\<open>mode\<close>), the JSON of the trust store, \<open>VerifyingKey::from_bytes\<close>,
  and the PNG decoder (\<open>png\<close>, the \<^verbatim>\<open>png\<close> crate under the code's limits and transformations).
\<close>

section \<open>Bounded files\<close>

text \<open>\<open>read_regular\<close>, which branding and registry share: a regular file of 1 to \<open>maximum\<close> bytes.\<close>

definition read_regular :: "path \<Rightarrow> nat \<Rightarrow> (string, bytes) call" where
  "read_regular p maximum =
     andThen (query ''cannot inspect file'' (\<lambda>fs. lstat fs p)) (\<lambda>metadata.
     case metadata of
       File contents \<Rightarrow>
         if contents = [] \<or> maximum < length contents
         then throw ''file is not a bounded regular file''
         else
           andThen (query ''cannot open file'' (\<lambda>fs. read_file fs p)) (\<lambda>bytes.
           let bytes = take (maximum + 1) bytes in
           if maximum < length bytes then throw ''file exceeds its size limit'' else ret bytes)
     | _ \<Rightarrow> throw ''file is not a bounded regular file'')"

text \<open>\<open>with_context\<close>: the error is replaced by the message.\<close>

definition context_msg :: "string \<Rightarrow> (string, 'a) call \<Rightarrow> (string, 'a) call" where
  "context_msg message m w = (case m w of (r, w') \<Rightarrow> (mapErr (\<lambda>_. message) r, w'))"

lemma reads_context: "reads m R \<Longrightarrow> reads (context_msg message m) R"
  by (auto simp: reads_def context_msg_def mapErr_ok split: prod.splits)

lemma reads_read_regular:
  "reads (read_regular p n) (\<lambda>bs fs. read_file fs p = Some bs \<and> bs \<noteq> [] \<and> length bs \<le> n)"
proof -
  have regular: "lstat fs p = Some (File c) \<Longrightarrow> read_file fs p = Some c" for fs c
  proof -
    assume a: "lstat fs p = Some (File c)"
    then obtain q where q: "locate fs p = Some q" "node_at fs q = Some (File c)"
      by (auto simp: lstat_def bind_eq_Some_conv)
    with realpath_locate [of fs p q] show ?thesis
      by (simp add: plain_node_def read_file_def stat_def)
  qed
  have rest: "reads (case metadata of
       File contents \<Rightarrow>
         if contents = [] \<or> n < length contents then throw ''file is not a bounded regular file''
         else
           andThen (query ''cannot open file'' (\<lambda>fs. read_file fs p)) (\<lambda>bytes.
           let bytes = take (n + 1) bytes in
           if n < length bytes then throw ''file exceeds its size limit'' else ret bytes)
     | _ \<Rightarrow> throw ''file is not a bounded regular file'')
     (\<lambda>bs fs. \<exists>c b. metadata = File c \<and> c \<noteq> [] \<and> length c \<le> n \<and> read_file fs p = Some b \<and>
        bs = take (n + 1) b)" for metadata
  proof (cases metadata)
    case (File c)
    have "reads (andThen (query ''cannot open file'' (\<lambda>fs. read_file fs p)) (\<lambda>bytes.
           let bytes = take (n + 1) bytes in
           if n < length bytes then throw ''file exceeds its size limit'' else ret bytes))
       (\<lambda>bs fs. \<exists>b. read_file fs p = Some b \<and> bs = take (n + 1) b)"
    proof (rule reads_conseq [OF reads_andThen [OF reads_query]])
      show "reads (let bytes = take (n + 1) bytes in
           if n < length bytes then throw ''file exceeds its size limit'' else ret bytes)
         (\<lambda>bs _. bs = take (n + 1) bytes)" for bytes :: bytes
        by (auto simp: Let_def intro: reads_throw reads_ret)
    qed auto
    with File show ?thesis
      by (auto intro: reads_throw elim!: reads_conseq)
  qed (auto intro: reads_throw)
  show ?thesis
    unfolding read_regular_def
    by (rule reads_conseq [OF reads_andThen [OF reads_query rest]]) (auto dest: regular)
qed

section \<open>The trust store\<close>

record TrustKeyFile =
  tkf_key_id :: string
  tkf_public_key_hex :: string
  tkf_not_before_unix :: i64
  tkf_not_after_unix :: i64
  tkf_revoked :: bool

record trust_lib =
  tl_mode :: "path \<Rightarrow> u32"
  tl_from_slice :: "bytes \<Rightarrow> TrustKeyFile list option"
  tl_verifying_key :: "bytes \<Rightarrow> bytes option"

definition parse_trust_key :: "trust_lib \<Rightarrow> TrustKeyFile \<Rightarrow> string + VerificationKey" where
  "parse_trust_key T v =
     bindE (ok_or ''Agent trust key is not valid hexadecimal'' (hex_decode (tkf_public_key_hex v))) (\<lambda>raw.
     if length raw \<noteq> 32 then Inl ''Agent trust key must be 32 bytes''
     else
       bindE (ok_or ''Agent trust key is invalid'' (tl_verifying_key T raw)) (\<lambda>key.
       Inr \<lparr>vk_key_id = tkf_key_id v, vk_key = key, vk_not_before_unix = tkf_not_before_unix v,
            vk_not_after_unix = tkf_not_after_unix v, vk_revoked = tkf_revoked v\<rparr>))"

fun parse_trust_keys :: "trust_lib \<Rightarrow> TrustKeyFile list \<Rightarrow> string + VerificationKey list" where
  "parse_trust_keys T [] = Inr []"
| "parse_trust_keys T (v # vs) =
     bindE (parse_trust_key T v) (\<lambda>k. bindE (parse_trust_keys T vs) (\<lambda>ks. Inr (k # ks)))"

definition trust_load :: "trust_lib \<Rightarrow> path \<Rightarrow> (string, VerificationKeyRing) call" where
  "trust_load T p =
     andThen (query ''Agent trust store does not exist'' (\<lambda>fs. lstat fs p)) (\<lambda>metadata.
     case metadata of
       File contents \<Rightarrow>
         if 64 * 1024 < length contents
         then throw ''Agent trust store must be a regular file no larger than 64 KiB''
         else if and (tl_mode T p) 18 \<noteq> 0
         then throw ''Agent trust store must not be group- or world-writable''
         else
           andThen (query ''cannot read Agent trust store'' (\<lambda>fs. read_file fs p)) (\<lambda>input.
           andThen (lift (ok_or ''Agent trust store is not valid JSON'' (tl_from_slice T input))) (\<lambda>parsed.
           andThen (lift (parse_trust_keys T parsed)) (\<lambda>keys.
           lift (mapErr (\<lambda>_. ''Agent trust store is invalid'') (key_ring_new keys)))))
     | _ \<Rightarrow> throw ''Agent trust store must be a regular file no larger than 64 KiB'')"

lemma reads_trust_load:
  "reads (trust_load T p)
     (\<lambda>K fs. key_ring_new K = Inr K \<and> and (tl_mode T p) 18 = 0 \<and>
        (\<exists>bs parsed. read_file fs p = Some bs \<and> tl_from_slice T bs = Some parsed \<and>
           parse_trust_keys T parsed = Inr K))"
proof -
  have rest: "reads (andThen (query ''cannot read Agent trust store'' (\<lambda>fs. read_file fs p)) (\<lambda>input.
           andThen (lift (ok_or ''Agent trust store is not valid JSON'' (tl_from_slice T input))) (\<lambda>parsed.
           andThen (lift (parse_trust_keys T parsed)) (\<lambda>keys.
           lift (mapErr (\<lambda>_. ''Agent trust store is invalid'') (key_ring_new keys))))))
     (\<lambda>K fs. key_ring_new K = Inr K \<and> (\<exists>bs parsed. read_file fs p = Some bs \<and>
        tl_from_slice T bs = Some parsed \<and> parse_trust_keys T parsed = Inr K))"
    by (rule reads_conseq [OF reads_andThen [OF reads_query reads_andThen [OF reads_lift
            reads_andThen [OF reads_lift reads_lift]]]])
      (auto simp: ok_or_ok mapErr_ok dest: key_ring_new_ok [THEN iffD1])
  have "reads (case metadata of
       File contents \<Rightarrow>
         if 64 * 1024 < length contents
         then throw ''Agent trust store must be a regular file no larger than 64 KiB''
         else if and (tl_mode T p) 18 \<noteq> 0
         then throw ''Agent trust store must not be group- or world-writable''
         else
           andThen (query ''cannot read Agent trust store'' (\<lambda>fs. read_file fs p)) (\<lambda>input.
           andThen (lift (ok_or ''Agent trust store is not valid JSON'' (tl_from_slice T input))) (\<lambda>parsed.
           andThen (lift (parse_trust_keys T parsed)) (\<lambda>keys.
           lift (mapErr (\<lambda>_. ''Agent trust store is invalid'') (key_ring_new keys)))))
     | _ \<Rightarrow> throw ''Agent trust store must be a regular file no larger than 64 KiB'')
     (\<lambda>K fs. key_ring_new K = Inr K \<and> and (tl_mode T p) 18 = 0 \<and>
        (\<exists>bs parsed. read_file fs p = Some bs \<and> tl_from_slice T bs = Some parsed \<and>
           parse_trust_keys T parsed = Inr K))" for metadata
    using rest by (cases metadata) (auto intro: reads_throw elim!: reads_conseq)
  then show ?thesis
    unfolding trust_load_def by (rule reads_conseq [OF reads_andThen [OF reads_query]]) auto
qed

section \<open>Branding images\<close>

datatype PngRole = Icon | Hero

datatype ColorType = Grayscale | Rgb | Indexed | GrayscaleAlpha | Rgba

text \<open>
  What the decoder reports: the size and whether the image is animated after \<open>read_info\<close>, the output
  size (\<^const>\<open>None\<close> on overflow), and the frame's pixels and color type.
\<close>

record png_image =
  png_width :: nat
  png_height :: nat
  png_animated :: bool
  png_output_size :: "nat option"
  png_frame :: "(bytes \<times> ColorType) option"

record png =
  png_read_info :: "nat \<Rightarrow> bytes \<Rightarrow> png_image option"

definition MAX_MANIFEST_BYTES :: nat where "MAX_MANIFEST_BYTES = 64 * 1024"

definition MAX_ICON_FILE_BYTES :: nat where "MAX_ICON_FILE_BYTES = 4 * 1024 * 1024"

definition MAX_HERO_FILE_BYTES :: nat where "MAX_HERO_FILE_BYTES = 12 * 1024 * 1024"

definition MAX_ICON_DECODED_BYTES :: nat where "MAX_ICON_DECODED_BYTES = 16 * 1024 * 1024"

definition MAX_HERO_DECODED_BYTES :: nat where "MAX_HERO_DECODED_BYTES = 48 * 1024 * 1024"

text \<open>
  The ratio test \<open>(1.5..=2.4).contains(&(width as f64 / height as f64))\<close>, over the integers: within
  the size limits the rounding of the quotient does not cross a bound, and 12/5 rounds to 2.4 itself.
\<close>

definition dimensions_valid :: "PngRole \<Rightarrow> nat \<Rightarrow> nat \<Rightarrow> bool" where
  "dimensions_valid role width height =
     (case role of
        Icon \<Rightarrow> 32 \<le> width \<and> 32 \<le> height \<and> width \<le> 2048 \<and> height \<le> 2048 \<and> width = height
      | Hero \<Rightarrow> 640 \<le> width \<and> 320 \<le> height \<and> width \<le> 3840 \<and> height \<le> 2160 \<and>
          3 * height \<le> 2 * width \<and> 5 * width \<le> 12 * height)"

fun rgb_to_rgba :: "bytes \<Rightarrow> bytes" where
  "rgb_to_rgba (r # g # b # rest) = r # g # b # 255 # rgb_to_rgba rest"
| "rgb_to_rgba _ = []"

definition decode_png :: "png \<Rightarrow> bytes \<Rightarrow> bool \<Rightarrow> PngRole \<Rightarrow> string + bytes \<times> nat \<times> nat" where
  "decode_png P bytes retain_pixels role =
     (let maximum_decoded =
        (case role of Icon \<Rightarrow> MAX_ICON_DECODED_BYTES | Hero \<Rightarrow> MAX_HERO_DECODED_BYTES) in
      bindE (ok_or ''branding icon is not a valid PNG'' (png_read_info P maximum_decoded bytes)) (\<lambda>info.
      if \<not> dimensions_valid role (png_width info) (png_height info) \<or> png_animated info
      then Inl ''branding PNG dimensions or animation are unsupported''
      else
        bindE (ok_or ''branding PNG decoded size is invalid'' (png_output_size info)) (\<lambda>output_size.
        if output_size = 0 \<or> maximum_decoded < output_size
        then Inl ''branding PNG decoded size exceeds its limit''
        else
          bindE (ok_or ''branding PNG pixel data is invalid'' (png_frame info)) (\<lambda>(output_pixels, color_type).
          if color_type \<notin> {Rgb, Rgba} then Inl ''branding PNG must decode to RGB or RGBA''
          else
            Inr (if retain_pixels
                 then (if color_type = Rgb then rgb_to_rgba output_pixels else output_pixels)
                 else [], png_width info, png_height info)))))"

definition verify_png :: "png \<Rightarrow> bytes \<Rightarrow> PngRole \<Rightarrow> string + nat \<times> nat" where
  "verify_png P bytes role = bindE (decode_png P bytes False role) (\<lambda>(_, width, height). Inr (width, height))"

definition decode_icon_rgba :: "png \<Rightarrow> path \<Rightarrow> (string, bytes \<times> nat \<times> nat) call" where
  "decode_icon_rgba P p =
     andThen (read_regular p MAX_ICON_FILE_BYTES) (\<lambda>bytes. lift (decode_png P bytes True Icon))"

definition decode_hero_rgba :: "png \<Rightarrow> path \<Rightarrow> (string, bytes \<times> nat \<times> nat) call" where
  "decode_hero_rgba P p =
     andThen (read_regular p MAX_HERO_FILE_BYTES) (\<lambda>bytes. lift (decode_png P bytes True Hero))"

section \<open>Signed branding\<close>

record InstalledBranding =
  ib_signed :: SignedBrandingManifestV1
  ib_icon :: bytes
  ib_hero :: "bytes option"

record VerifiedBranding =
  vb_claims :: BrandingManifestClaimsV1
  vb_icon :: path
  vb_hero :: "path option"

definition validate_binding :: "BrandingManifestClaimsV1 \<Rightarrow> string \<Rightarrow> string \<Rightarrow> string + unit" where
  "validate_binding claims registration_id game_id =
     (if brand_registration_id claims \<noteq> registration_id \<or> brand_game_id claims \<noteq> game_id
      then Inl ''branding manifest is bound to another game registration'' else Inr ())"

definition safe_relative :: "string \<Rightarrow> bool" where
  "safe_relative value \<longleftrightarrow>
     value \<noteq> [] \<and> length value \<le> 512 \<and> list_all is_normal (components value)"

text \<open>Decode, canonical form, signature and binding: the checks both paths make on the manifest.\<close>

definition check_branding ::
    "'v lib \<Rightarrow> string \<Rightarrow> bytes \<Rightarrow> VerificationKeyRing \<Rightarrow> string \<Rightarrow> string \<Rightarrow> i64
      \<Rightarrow> string + signed_object \<times> BrandingManifestClaimsV1"
where
  "check_branding L kind manifest keys registration_id game_id now =
     bindE (ok_or (kind @ '' branding manifest is malformed'') (decode (signed_codec L) manifest)) (\<lambda>so.
     if encode_to_vec (signed_codec L) so \<noteq> manifest
     then Inl (kind @ '' branding manifest is not canonical'')
     else
       bindE (mapErr (\<lambda>_. kind @ '' branding manifest was rejected'')
         (verify_branding_manifest L so keys now)) (\<lambda>claims.
       bindE (validate_binding claims registration_id game_id) (\<lambda>_.
       Inr (so, claims))))"

text \<open>One image below the asset root: canonical path inside the root, size, digest and pixels.\<close>

definition install_image ::
    "'v lib \<Rightarrow> png \<Rightarrow> path \<Rightarrow> string \<Rightarrow> bytes \<Rightarrow> nat \<Rightarrow> PngRole \<Rightarrow> string \<Rightarrow> (string, bytes) call"
where
  "install_image L P root relative_path digest maximum role name =
     andThen (query (''signed branding '' @ name @ '' is unavailable'')
         (\<lambda>fs. realpath fs (join_path root relative_path))) (\<lambda>image_path.
     if take (length root) image_path \<noteq> root
     then throw (''signed branding '' @ name @ '' escapes its asset root'')
     else
       andThen (context_msg (''signed branding '' @ name @ '' is invalid'') (read_regular image_path maximum))
         (\<lambda>bytes.
       if sha256 L bytes \<noteq> digest
       then throw (''signed branding '' @ name @ '' digest does not match'')
       else andThen (lift (verify_png P bytes role)) (\<lambda>_. ret bytes)))"

definition verify_install ::
    "'v lib \<Rightarrow> png \<Rightarrow> path \<Rightarrow> path \<Rightarrow> VerificationKeyRing \<Rightarrow> string \<Rightarrow> string \<Rightarrow> i64
      \<Rightarrow> (string, InstalledBranding) call"
where
  "verify_install L P signed_manifest_path branding_root keys registration_id game_id now =
     andThen (context_msg ''signed branding manifest is invalid''
       (read_regular signed_manifest_path MAX_MANIFEST_BYTES)) (\<lambda>manifest.
     andThen (lift (check_branding L ''signed'' manifest keys registration_id game_id now))
       (\<lambda>(so, claims).
     andThen (query ''branding asset root is unavailable'' (\<lambda>fs. realpath fs branding_root)) (\<lambda>root.
     andThen (attempt (query () (\<lambda>fs. if stat fs root = Some Dir then Some () else None))) (\<lambda>is_dir.
     if \<not> is_ok is_dir \<or> \<not> safe_relative (brand_icon_relative_path claims)
     then throw ''branding asset root or icon path is invalid''
     else
       andThen (install_image L P root (brand_icon_relative_path claims) (brand_icon_sha256 claims)
         MAX_ICON_FILE_BYTES Icon ''icon'') (\<lambda>icon.
       if brand_hero_relative_path claims = []
       then ret \<lparr>ib_signed = so, ib_icon = icon, ib_hero = None\<rparr>
       else
         andThen (install_image L P root (brand_hero_relative_path claims) (brand_hero_sha256 claims)
           MAX_HERO_FILE_BYTES Hero ''hero'') (\<lambda>hero.
         ret \<lparr>ib_signed = so, ib_icon = icon, ib_hero = Some hero\<rparr>))))))"

text \<open>One stored image: size, digest and pixels.\<close>

definition stored_image ::
    "'v lib \<Rightarrow> png \<Rightarrow> path \<Rightarrow> bytes \<Rightarrow> nat \<Rightarrow> PngRole \<Rightarrow> string \<Rightarrow> (string, unit) call"
where
  "stored_image L P image_path digest maximum role name =
     andThen (context_msg (''stored branding '' @ name @ '' is invalid'') (read_regular image_path maximum))
       (\<lambda>bytes.
     if sha256 L bytes \<noteq> digest then throw (''stored branding '' @ name @ '' digest does not match'')
     else andThen (lift (verify_png P bytes role)) (\<lambda>_. ret ()))"

text \<open>The images of verified claims; an unsigned hero image is refused.\<close>

definition stored_images ::
    "'v lib \<Rightarrow> png \<Rightarrow> path \<Rightarrow> path \<Rightarrow> BrandingManifestClaimsV1 \<Rightarrow> (string, VerifiedBranding) call"
where
  "stored_images L P icon_path hero_path claims =
     andThen (stored_image L P icon_path (brand_icon_sha256 claims) MAX_ICON_FILE_BYTES Icon ''icon'')
       (\<lambda>_.
     if brand_hero_relative_path claims = [] then
       andThen (path_exists hero_path) (\<lambda>present.
       if present then throw ''stored branding has an unsigned hero image''
       else ret \<lparr>vb_claims = claims, vb_icon = icon_path, vb_hero = None\<rparr>)
     else
       andThen (stored_image L P hero_path (brand_hero_sha256 claims) MAX_HERO_FILE_BYTES Hero ''hero'')
         (\<lambda>_.
       ret \<lparr>vb_claims = claims, vb_icon = icon_path, vb_hero = Some hero_path\<rparr>))"

definition verify_stored ::
    "'v lib \<Rightarrow> png \<Rightarrow> bytes \<Rightarrow> path \<Rightarrow> path \<Rightarrow> VerificationKeyRing \<Rightarrow> string \<Rightarrow> string \<Rightarrow> i64
      \<Rightarrow> (string, VerifiedBranding) call"
where
  "verify_stored L P signed_bytes icon_path hero_path keys registration_id game_id now =
     (if signed_bytes = [] \<or> MAX_MANIFEST_BYTES < length signed_bytes
      then throw ''stored branding manifest size is invalid''
      else
        andThen (lift (check_branding L ''stored'' signed_bytes keys registration_id game_id now))
          (\<lambda>verified. stored_images L P icon_path hero_path (snd verified)))"

section \<open>What is accepted\<close>

lemma check_branding_ok:
  "check_branding L kind manifest keys rid gid now = Inr (so, c) \<longleftrightarrow>
     decode (signed_codec L) manifest = Some so \<and> encode_to_vec (signed_codec L) so = manifest \<and>
     verify_branding_manifest L so keys now = Inr c \<and>
     brand_registration_id c = rid \<and> brand_game_id c = gid"
  by (auto simp: check_branding_def validate_binding_def bindE_ok ok_or_ok mapErr_ok if_err_ok)

definition image_accepted :: "'v lib \<Rightarrow> png \<Rightarrow> fs \<Rightarrow> path \<Rightarrow> bytes \<Rightarrow> nat \<Rightarrow> PngRole \<Rightarrow> bool" where
  "image_accepted L P fs p digest maximum role \<longleftrightarrow>
     (\<exists>bs w h. read_file fs p = Some bs \<and> bs \<noteq> [] \<and> length bs \<le> maximum \<and> sha256 L bs = digest \<and>
        verify_png P bs role = Inr (w, h))"

lemma reads_stored_image:
  "reads (stored_image L P p digest maximum role name)
     (\<lambda>_ fs. image_accepted L P fs p digest maximum role)"
proof -
  have "reads (if sha256 L bytes \<noteq> digest then throw (''stored branding '' @ name @ '' digest does not match'')
       else andThen (lift (verify_png P bytes role)) (\<lambda>_. ret ()))
     (\<lambda>_ _. sha256 L bytes = digest \<and> (\<exists>w h. verify_png P bytes role = Inr (w, h)))" for bytes
    by (auto intro: reads_throw intro!: reads_conseq [OF reads_andThen [OF reads_lift reads_ret]])
  then show ?thesis
    unfolding stored_image_def
    by (rule reads_conseq [OF reads_andThen [OF reads_context [OF reads_read_regular]]])
      (auto simp: image_accepted_def)
qed

text \<open>What \<open>verify_stored\<close> has established when it returns.\<close>

definition stored_branding_ok ::
    "'v lib \<Rightarrow> png \<Rightarrow> fs \<Rightarrow> bytes \<Rightarrow> path \<Rightarrow> path \<Rightarrow> VerificationKeyRing \<Rightarrow> string \<Rightarrow> string \<Rightarrow> i64
      \<Rightarrow> VerifiedBranding \<Rightarrow> bool"
where
  "stored_branding_ok L P fs signed_bytes icon_path hero_path keys rid gid now v \<longleftrightarrow>
     (\<exists>so. decode (signed_codec L) signed_bytes = Some so \<and>
        encode_to_vec (signed_codec L) so = signed_bytes \<and>
        verify_branding_manifest L so keys now = Inr (vb_claims v)) \<and>
     brand_registration_id (vb_claims v) = rid \<and> brand_game_id (vb_claims v) = gid \<and>
     vb_icon v = icon_path \<and>
     image_accepted L P fs icon_path (brand_icon_sha256 (vb_claims v)) MAX_ICON_FILE_BYTES Icon \<and>
     (case vb_hero v of
        None \<Rightarrow> brand_hero_relative_path (vb_claims v) = []
      | Some p \<Rightarrow> p = hero_path \<and> brand_hero_relative_path (vb_claims v) \<noteq> [] \<and>
          image_accepted L P fs hero_path (brand_hero_sha256 (vb_claims v)) MAX_HERO_FILE_BYTES Hero)"

lemma reads_stored_images:
  "reads (stored_images L P icon_path hero_path c)
     (\<lambda>v fs. vb_claims v = c \<and> vb_icon v = icon_path \<and>
        image_accepted L P fs icon_path (brand_icon_sha256 c) MAX_ICON_FILE_BYTES Icon \<and>
        (case vb_hero v of
           None \<Rightarrow> brand_hero_relative_path c = []
         | Some p \<Rightarrow> p = hero_path \<and> brand_hero_relative_path c \<noteq> [] \<and>
             image_accepted L P fs hero_path (brand_hero_sha256 c) MAX_HERO_FILE_BYTES Hero))"
proof -
  have no_hero: "reads (andThen (path_exists hero_path) (\<lambda>present.
          if present then throw ''stored branding has an unsigned hero image''
          else ret \<lparr>vb_claims = c, vb_icon = icon_path, vb_hero = None\<rparr>))
      (\<lambda>v _. v = \<lparr>vb_claims = c, vb_icon = icon_path, vb_hero = None\<rparr>)"
  proof (rule reads_conseq [OF reads_andThen [OF reads_path_exists]])
    show "reads (if present then throw ''stored branding has an unsigned hero image''
          else ret \<lparr>vb_claims = c, vb_icon = icon_path, vb_hero = None\<rparr>)
        (\<lambda>v _. v = \<lparr>vb_claims = c, vb_icon = icon_path, vb_hero = None\<rparr>)" for present
      by (auto intro: reads_throw reads_ret)
  qed auto
  have hero: "reads (andThen (stored_image L P hero_path d MAX_HERO_FILE_BYTES Hero ''hero'') (\<lambda>_.
          ret \<lparr>vb_claims = c, vb_icon = icon_path, vb_hero = Some hero_path\<rparr>))
      (\<lambda>v fs. v = \<lparr>vb_claims = c, vb_icon = icon_path, vb_hero = Some hero_path\<rparr> \<and>
         image_accepted L P fs hero_path d MAX_HERO_FILE_BYTES Hero)" for d
    by (rule reads_conseq [OF reads_andThen [OF reads_stored_image reads_ret]]) auto
  show ?thesis
    unfolding stored_images_def
    by (cases "brand_hero_relative_path c = []")
      (auto intro!: reads_conseq [OF reads_andThen [OF reads_stored_image no_hero]]
        reads_conseq [OF reads_andThen [OF reads_stored_image hero]])
qed

lemma reads_verify_stored:
  "reads (verify_stored L P signed_bytes icon_path hero_path keys rid gid now)
     (\<lambda>v fs. stored_branding_ok L P fs signed_bytes icon_path hero_path keys rid gid now v)"
proof -
  have "reads (andThen (lift (check_branding L ''stored'' signed_bytes keys rid gid now))
          (\<lambda>verified. stored_images L P icon_path hero_path (snd verified)))
     (\<lambda>v fs. stored_branding_ok L P fs signed_bytes icon_path hero_path keys rid gid now v)"
    by (rule reads_conseq [OF reads_andThen [OF reads_lift reads_stored_images]])
      (auto simp: check_branding_ok stored_branding_ok_def split: option.splits)
  then show ?thesis
    unfolding verify_stored_def by (auto intro: reads_throw)
qed

end
