(* ===== verification/Registry.thy ===== *)
theory Registry
  imports LocalTrust "HOL-Library.List_Lexorder" "HOL-Library.Char_ord"
begin

text \<open>
  The registry of games: \<^verbatim>\<open>crates/certael-agent/src/registry.rs\<close>, and the published status of a game,
  \<^verbatim>\<open>crates/certael-agent/src/status.rs\<close>, both on Unix.

  Parameters (\<open>registry_lib\<close>): those of the trust store and of the images, base64, and the JSON of the
  stored record and of the status. The clock is the world's; \<open>env\<close> is the environment, its paths
  absolute. A path stored as text is taken as absolute.
\<close>

section \<open>Data\<close>

record StoredRegistration =
  sr_format_version :: u32
  sr_signed_registration_base64 :: string
  sr_game_root :: string
  sr_signed_branding_base64 :: "string option"

record RuntimeStatus =
  st_format_version :: u32
  st_registration_id :: string
  st_game_id :: string
  st_state :: string
  st_public_reason :: "string option"
  st_updated_at_unix :: i64
  st_launch_attempt_id :: "string option"
  st_milestone_index :: "u32 option"
  st_milestone_total :: "u32 option"

record registry_lib =
  rl_trust :: trust_lib
  rl_png :: png
  rl_base64_encode :: "bytes \<Rightarrow> string"
  rl_base64_decode :: "string \<Rightarrow> bytes option"
  rl_record_to_vec :: "StoredRegistration \<Rightarrow> bytes option"
  rl_record_from_slice :: "bytes \<Rightarrow> StoredRegistration option"
  rl_status_to_vec :: "RuntimeStatus \<Rightarrow> bytes option"
  rl_status_from_slice :: "bytes \<Rightarrow> RuntimeStatus option"

record RegisteredGame =
  rg_claims :: GameRegistrationClaimsV1
  rg_game :: path
  rg_game_root :: path
  rg_trust_store :: path
  rg_update_root :: path
  rg_state_root :: path
  rg_status_path :: path
  rg_branding :: "VerifiedBranding option"

definition MAX_REGISTRATION_BYTES :: nat where "MAX_REGISTRATION_BYTES = 64 * 1024"

definition MAX_ROOT_BYTES :: nat where "MAX_ROOT_BYTES = 1024 * 1024"

definition default_root :: path where
  "default_root = [''usr'', ''local'', ''etc'', ''certael'', ''games'']"

section \<open>Helpers\<close>

definition safe_id :: "string \<Rightarrow> bool" where
  "safe_id value \<longleftrightarrow>
     value \<noteq> [] \<and> length value \<le> 128 \<and>
     list_all (\<lambda>c. is_ascii_alphanumeric c \<or> c \<in> {CHR ''.'', CHR ''_'', CHR ''-''}) value"

text \<open>Seconds since 1970 as an \<open>i64\<close>; the world's clock counts nanoseconds.\<close>

definition now_unix :: "(string, i64) call" where
  "now_unix =
     andThen (read_clock ''system clock is before Unix epoch'') (\<lambda>nanos.
     let seconds = nanos div 1000000000 in
     if seconds < 2 ^ 63 then ret (of_nat seconds) else throw ''system clock is out of range'')"

definition path_text :: "path \<Rightarrow> string" where
  "path_text p = (if p = [] then ''/'' else concat (map (\<lambda>c. ''/'' @ c) p))"

definition write_new :: "path \<Rightarrow> bytes \<Rightarrow> (string, unit) call" where
  "write_new p bytes =
     andThen (change ''cannot create file'' (create_new p)) (\<lambda>handle.
     andThen (touch ''cannot set permissions'') (\<lambda>_.
     andThen (write_handle ''cannot write file'' handle bytes) (\<lambda>_.
     touch ''cannot synchronise file'')))"

definition recover_registration :: "path \<Rightarrow> path \<Rightarrow> (string, unit) call" where
  "recover_registration destination backup =
     andThen (path_exists destination) (\<lambda>d.
     andThen (path_exists backup) (\<lambda>b.
     if \<not> d \<and> b then change ''cannot recover interrupted game registration'' (rename backup destination)
     else if d \<and> b then remove_tree ''cannot finish interrupted game registration'' backup
     else ret ()))"

definition signed_registration ::
    "'v lib \<Rightarrow> string \<Rightarrow> bytes \<Rightarrow> string + signed_object"
where
  "signed_registration L kind bytes =
     bindE (ok_or (kind @ '' is malformed'') (decode (signed_codec L) bytes)) (\<lambda>so.
     if encode_to_vec (signed_codec L) so \<noteq> bytes then Inl (kind @ '' is not canonical'') else Inr so)"

section \<open>Installing a registration\<close>

text \<open>
  The checks before anything is written: the claims, the two trust files, the canonical game root and
  the branding.
\<close>

record checked_registration =
  cr_claims :: GameRegistrationClaimsV1
  cr_registration :: bytes
  cr_trust :: bytes
  cr_update :: bytes
  cr_game_root :: path
  cr_branding :: "InstalledBranding option"

definition check_game_files :: "path \<Rightarrow> GameRegistrationClaimsV1 \<Rightarrow> (string, path) call" where
  "check_game_files game_root claims =
     andThen (query ''game installation root does not exist'' (\<lambda>fs. realpath fs game_root)) (\<lambda>root.
     andThen (attempt (query () (\<lambda>fs. if stat fs root = Some Dir then Some () else None))) (\<lambda>is_dir.
     if \<not> is_ok is_dir then throw ''game installation root is not a directory''
     else
       andThen (query ''registered game executable does not exist''
         (\<lambda>fs. realpath fs (join_path root (reg_executable_relative_path claims)))) (\<lambda>game.
       if take (length root) game \<noteq> root
       then throw ''registered executable escapes the game installation root''
       else
         andThen (attempt (query () (\<lambda>fs. read_file fs game))) (\<lambda>is_file.
         if \<not> is_ok is_file then throw ''registered executable escapes the game installation root''
         else ret root))))"

definition check_install_branding ::
    "'v lib \<Rightarrow> png \<Rightarrow> path option \<Rightarrow> path option \<Rightarrow> VerificationKeyRing \<Rightarrow> GameRegistrationClaimsV1
      \<Rightarrow> (string, InstalledBranding option) call"
where
  "check_install_branding L P branding_manifest branding_root keys claims =
     (case (branding_manifest, branding_root) of
        (Some manifest, Some root) \<Rightarrow>
          andThen now_unix (\<lambda>now.
          andThen (verify_install L P manifest root keys (reg_registration_id claims)
            (reg_game_id claims) now) (\<lambda>b. ret (Some b)))
      | (None, None) \<Rightarrow> ret None
      | _ \<Rightarrow> throw ''branding manifest and branding root must be supplied together'')"

definition check_registration_args ::
    "'v lib \<Rightarrow> registry_lib \<Rightarrow> path \<Rightarrow> path \<Rightarrow> path \<Rightarrow> path \<Rightarrow> path option \<Rightarrow> path option
      \<Rightarrow> (string, checked_registration) call"
where
  "check_registration_args L G signed_path publisher_trust_store update_root game_root
     branding_manifest branding_root =
     andThen (context_msg ''signed game registration is invalid''
       (read_regular signed_path MAX_REGISTRATION_BYTES)) (\<lambda>registration_bytes.
     andThen (lift (signed_registration L ''signed game registration'' registration_bytes)) (\<lambda>so.
     andThen (trust_load (rl_trust G) publisher_trust_store) (\<lambda>keys.
     andThen now_unix (\<lambda>now.
     andThen (lift (mapErr (\<lambda>_. ''game registration signature was rejected'')
       (verify_game_registration L so keys now))) (\<lambda>claims.
     andThen (context_msg ''publisher trust store is invalid''
       (read_regular publisher_trust_store MAX_ROOT_BYTES)) (\<lambda>trust_bytes.
     andThen (context_msg ''TUF update root is invalid'' (read_regular update_root MAX_ROOT_BYTES))
       (\<lambda>update_bytes.
     if sha256 L trust_bytes \<noteq> reg_trust_store_sha256 claims
        \<or> sha256 L update_bytes \<noteq> reg_update_root_sha256 claims
     then throw ''game registration does not bind the supplied trust material''
     else
       andThen (check_game_files game_root claims) (\<lambda>root.
       andThen (check_install_branding L (rl_png G) branding_manifest branding_root keys claims)
         (\<lambda>branding.
       ret \<lparr>cr_claims = claims, cr_registration = registration_bytes, cr_trust = trust_bytes,
            cr_update = update_bytes, cr_game_root = root, cr_branding = branding\<rparr>)))))))))"

definition stored_record :: "'v lib \<Rightarrow> registry_lib \<Rightarrow> checked_registration \<Rightarrow> StoredRegistration" where
  "stored_record L G c =
     \<lparr>sr_format_version = 2,
      sr_signed_registration_base64 = rl_base64_encode G (cr_registration c),
      sr_game_root = path_text (cr_game_root c),
      sr_signed_branding_base64 =
        map_option (\<lambda>b. rl_base64_encode G (encode_to_vec (signed_codec L) (ib_signed b)))
          (cr_branding c)\<rparr>"

text \<open>The files of a registration, below its staging directory.\<close>

definition write_registration_files ::
    "'v lib \<Rightarrow> registry_lib \<Rightarrow> path \<Rightarrow> checked_registration \<Rightarrow> (string, unit) call"
where
  "write_registration_files L G temporary c =
     andThen (write_new (join_path temporary ''trust-store.json'') (cr_trust c)) (\<lambda>_.
     andThen (write_new (join_path temporary ''update-root.json'') (cr_update c)) (\<lambda>_.
     andThen (lift (ok_or ''cannot encode registration'' (rl_record_to_vec G (stored_record L G c))))
       (\<lambda>record_bytes.
     andThen (write_new (join_path temporary ''registration.json'') record_bytes) (\<lambda>_.
     case cr_branding c of
       None \<Rightarrow> ret ()
     | Some branding \<Rightarrow>
         andThen (change ''cannot create directory'' (mkdir (join_path temporary ''branding''))) (\<lambda>_.
         andThen (write_new (join_path (join_path temporary ''branding'') ''icon.png'') (ib_icon branding))
           (\<lambda>_.
         case ib_hero branding of
           None \<Rightarrow> ret ()
         | Some hero \<Rightarrow> write_new (join_path (join_path temporary ''branding'') ''hero.png'') hero))))))"

definition activate_registration ::
    "bool \<Rightarrow> path \<Rightarrow> path \<Rightarrow> path \<Rightarrow> (string, unit) call"
where
  "activate_registration replace temporary destination backup =
     (if replace then
        andThen (change ''cannot stage existing game registration'' (rename destination backup)) (\<lambda>_.
        andThen (attempt (change ''cannot activate updated game registration''
          (rename temporary destination))) (\<lambda>r.
        case r of
          Inl e \<Rightarrow> andThen (attempt (change () (rename backup destination))) (\<lambda>_. throw e)
        | Inr _ \<Rightarrow> remove_tree ''cannot retire previous game registration'' backup))
      else change ''cannot activate game registration'' (rename temporary destination))"

definition registration_temporary :: "nat \<Rightarrow> nat \<Rightarrow> string" where
  "registration_temporary pid nonce = ''.register-'' @ show_nat pid @ ''-'' @ show_nat nonce"

definition store_registration ::
    "'v lib \<Rightarrow> registry_lib \<Rightarrow> path \<Rightarrow> bool \<Rightarrow> checked_registration \<Rightarrow> (string, GameRegistrationClaimsV1) call"
where
  "store_registration L G registry_root replace c =
     andThen (create_dir_all ''cannot create Agent game registry'' registry_root) (\<lambda>_.
     let destination = join_path registry_root (reg_registration_id (cr_claims c));
         backup = join_path registry_root (''.backup-'' @ reg_registration_id (cr_claims c)) in
     andThen (recover_registration destination backup) (\<lambda>_.
     andThen (path_exists destination) (\<lambda>present.
     if present \<and> \<not> replace then throw ''this game registration already exists''
     else
       andThen (path_exists destination) (\<lambda>present.
       if \<not> present \<and> replace then throw ''this game registration is not installed''
       else
         andThen process_id (\<lambda>pid.
         andThen (read_clock ''system clock is before Unix epoch'') (\<lambda>nonce.
         let temporary = join_path registry_root (registration_temporary pid nonce) in
         andThen (change ''cannot stage game registration'' (mkdir temporary)) (\<lambda>_.
         andThen (attempt
           (andThen (write_registration_files L G temporary c) (\<lambda>_.
            activate_registration replace temporary destination backup))) (\<lambda>result.
         if is_ok result then ret (cr_claims c)
         else andThen (attempt (remove_tree () temporary)) (\<lambda>_.
           andThen (lift result) (\<lambda>_. ret (cr_claims c)))))))))))"

definition install_registration ::
    "'v lib \<Rightarrow> registry_lib \<Rightarrow> path \<Rightarrow> path \<Rightarrow> path \<Rightarrow> path \<Rightarrow> path \<Rightarrow> path option \<Rightarrow> path option \<Rightarrow> bool
      \<Rightarrow> (string, GameRegistrationClaimsV1) call"
where
  "install_registration L G registry_root signed_path publisher_trust_store update_root game_root
     branding_manifest branding_root replace =
     andThen (check_registration_args L G signed_path publisher_trust_store update_root game_root
       branding_manifest branding_root) (store_registration L G registry_root replace)"

definition register ::
    "'v lib \<Rightarrow> registry_lib \<Rightarrow> path \<Rightarrow> path \<Rightarrow> path \<Rightarrow> path \<Rightarrow> path \<Rightarrow> path option \<Rightarrow> path option
      \<Rightarrow> (string, GameRegistrationClaimsV1) call"
where
  "register L G registry_root signed_path trust_store update_root game_root manifest brand_root =
     install_registration L G registry_root signed_path trust_store update_root game_root manifest
       brand_root False"

definition update_registration ::
    "'v lib \<Rightarrow> registry_lib \<Rightarrow> path \<Rightarrow> path \<Rightarrow> path \<Rightarrow> path \<Rightarrow> path \<Rightarrow> path option \<Rightarrow> path option
      \<Rightarrow> (string, GameRegistrationClaimsV1) call"
where
  "update_registration L G registry_root signed_path trust_store update_root game_root manifest brand_root =
     install_registration L G registry_root signed_path trust_store update_root game_root manifest
       brand_root True"

section \<open>Status\<close>

definition status_path :: "(string \<rightharpoonup> path) \<Rightarrow> string \<Rightarrow> string + path" where
  "status_path env registration_id =
     (if \<not> safe_id registration_id then Inl ''invalid status registration ID''
      else
        bindE (ok_or ''user state directory is unavailable''
          (case env ''XDG_STATE_HOME'' of
             Some root \<Rightarrow> Some root
           | None \<Rightarrow> map_option (\<lambda>home. join_path home ''.local/state'') (env ''HOME''))) (\<lambda>base.
        Inr (join_path (join_path base ''certael-agent'') (registration_id @ ''.json''))))"

definition status_temporary :: "nat \<Rightarrow> nat \<Rightarrow> string" where
  "status_temporary pid nonce = ''.status-'' @ show_nat pid @ ''-'' @ show_nat nonce"

definition status_publish :: "registry_lib \<Rightarrow> path \<Rightarrow> RuntimeStatus \<Rightarrow> (string, unit) call" where
  "status_publish G p status =
     (if p = [] then throw ''status path has no parent''
      else
        andThen (create_dir_all ''cannot create Agent status directory'' (butlast p)) (\<lambda>_.
        andThen (lift (ok_or ''cannot encode status'' (rl_status_to_vec G status))) (\<lambda>bytes.
        andThen process_id (\<lambda>pid.
        andThen (read_clock ''system clock is before Unix epoch'') (\<lambda>nonce.
        let temporary = join_path (butlast p) (status_temporary pid nonce) in
        andThen (change ''cannot create file'' (create_new temporary)) (\<lambda>handle.
        andThen (touch ''cannot set permissions'') (\<lambda>_.
        andThen (attempt
          (andThen (write_handle ''cannot publish Agent status'' handle bytes) (\<lambda>_.
           andThen (touch ''cannot publish Agent status'') (\<lambda>_.
           change ''cannot publish Agent status'' (rename temporary p))))) (\<lambda>result.
        if is_ok result then ret ()
        else andThen (attempt (change () (remove_file temporary))) (\<lambda>_. lift result)))))))))"

definition status_read :: "registry_lib \<Rightarrow> path \<Rightarrow> (string, RuntimeStatus) call" where
  "status_read G p =
     andThen (query ''cannot inspect file'' (\<lambda>fs. lstat fs p)) (\<lambda>metadata.
     case metadata of
       File contents \<Rightarrow>
         if 16 * 1024 < length contents then throw ''Agent status file is invalid''
         else
           andThen (query ''cannot open file'' (\<lambda>fs. read_file fs p)) (\<lambda>bytes.
           andThen (lift (ok_or ''Agent status is not valid JSON'' (rl_status_from_slice G bytes)))
             (\<lambda>value.
           if st_format_version value \<notin> {1, 2} then throw ''Agent status version is unsupported''
           else ret value))
     | _ \<Rightarrow> throw ''Agent status file is invalid'')"

section \<open>Loading a registered game\<close>

text \<open>The record on disk and the trust material it names: signed object, keys and the two files.\<close>

definition load_record ::
    "'v lib \<Rightarrow> registry_lib \<Rightarrow> path \<Rightarrow> (string, StoredRegistration \<times> signed_object) call"
where
  "load_record L G state_root =
     andThen (context_msg ''registered game metadata is unavailable''
       (read_regular (join_path state_root ''registration.json'') MAX_REGISTRATION_BYTES)) (\<lambda>record_bytes.
     andThen (lift (ok_or ''registered game metadata is invalid'' (rl_record_from_slice G record_bytes)))
       (\<lambda>record.
     if sr_format_version record \<notin> {1, 2} then throw ''registered game metadata version is unsupported''
     else
       andThen (lift (ok_or ''registered game signature is invalid''
         (rl_base64_decode G (sr_signed_registration_base64 record)))) (\<lambda>signed_bytes.
       andThen (lift (signed_registration L ''registered game signature'' signed_bytes)) (\<lambda>so.
       ret (record, so)))))"

definition load_claims ::
    "'v lib \<Rightarrow> registry_lib \<Rightarrow> string \<Rightarrow> path \<Rightarrow> signed_object
      \<Rightarrow> (string, VerificationKeyRing \<times> GameRegistrationClaimsV1) call"
where
  "load_claims L G registration_id state_root so =
     (let trust_store = join_path state_root ''trust-store.json'' in
      andThen (read_regular trust_store MAX_ROOT_BYTES) (\<lambda>trust_bytes.
      andThen (read_regular (join_path state_root ''update-root.json'') MAX_ROOT_BYTES) (\<lambda>update_bytes.
      andThen (trust_load (rl_trust G) trust_store) (\<lambda>keys.
      andThen now_unix (\<lambda>now.
      andThen (lift (mapErr (\<lambda>_. ''registered game is expired or revoked'')
        (verify_game_registration L so keys now))) (\<lambda>claims.
      if reg_registration_id claims \<noteq> registration_id
         \<or> sha256 L trust_bytes \<noteq> reg_trust_store_sha256 claims
         \<or> sha256 L update_bytes \<noteq> reg_update_root_sha256 claims
      then throw ''registered game trust binding is invalid''
      else ret (keys, claims)))))))"

definition load_game_path :: "string \<Rightarrow> GameRegistrationClaimsV1 \<Rightarrow> (string, path \<times> path) call" where
  "load_game_path stored_root claims =
     andThen (query ''registered game installation is unavailable''
       (\<lambda>fs. realpath fs (join_path [] stored_root))) (\<lambda>game_root.
     andThen (query ''cannot resolve game''
       (\<lambda>fs. realpath fs (join_path game_root (reg_executable_relative_path claims)))) (\<lambda>game.
     if take (length game_root) game \<noteq> game_root then throw ''registered game executable is unsafe''
     else
       andThen (attempt (query () (\<lambda>fs. read_file fs game))) (\<lambda>is_file.
       if \<not> is_ok is_file then throw ''registered game executable is unsafe''
       else ret (game_root, game))))"

definition load_branding ::
    "'v lib \<Rightarrow> registry_lib \<Rightarrow> path \<Rightarrow> string option \<Rightarrow> VerificationKeyRing \<Rightarrow> GameRegistrationClaimsV1
      \<Rightarrow> (string, VerifiedBranding option) call"
where
  "load_branding L G state_root encoded keys claims =
     (case encoded of
        None \<Rightarrow> ret None
      | Some e \<Rightarrow>
          andThen (lift (ok_or ''registered branding signature is invalid'' (rl_base64_decode G e)))
            (\<lambda>signed_bytes.
          andThen now_unix (\<lambda>now.
          andThen (verify_stored L (rl_png G) signed_bytes
            (join_path (join_path state_root ''branding'') ''icon.png'')
            (join_path (join_path state_root ''branding'') ''hero.png'')
            keys (reg_registration_id claims) (reg_game_id claims) now) (\<lambda>b. ret (Some b)))))"

definition registry_load ::
    "'v lib \<Rightarrow> registry_lib \<Rightarrow> (string \<rightharpoonup> path) \<Rightarrow> path \<Rightarrow> string \<Rightarrow> (string, RegisteredGame) call"
where
  "registry_load L G env registry_root registration_id =
     (if \<not> safe_id registration_id then throw ''invalid game registration ID''
      else
        let state_root = join_path registry_root registration_id in
        andThen (load_record L G state_root) (\<lambda>loaded.
        andThen (load_claims L G registration_id state_root (snd loaded)) (\<lambda>trusted.
        andThen (load_game_path (sr_game_root (fst loaded)) (snd trusted)) (\<lambda>paths.
        andThen (load_branding L G state_root (sr_signed_branding_base64 (fst loaded)) (fst trusted)
          (snd trusted)) (\<lambda>branding.
        andThen (lift (status_path env registration_id)) (\<lambda>status.
        ret \<lparr>rg_claims = snd trusted, rg_game = snd paths, rg_game_root = fst paths,
             rg_trust_store = join_path state_root ''trust-store.json'',
             rg_update_root = join_path state_root ''update-root.json'',
             rg_state_root = state_root, rg_status_path = status, rg_branding = branding\<rparr>))))))"

text \<open>\<open>entries\<close> are the names \<open>read_dir\<close> yields.\<close>

definition registry_list :: "path \<Rightarrow> string list \<Rightarrow> (string, string list) call" where
  "registry_list registry_root entries =
     andThen (path_exists registry_root) (\<lambda>present.
     if \<not> present then ret []
     else
       andThen (query ''cannot read directory'' (\<lambda>fs. stat fs registry_root)) (\<lambda>_.
       query ''cannot read directory'' (\<lambda>fs. Some (sort
         (filter (\<lambda>n. node_at fs (registry_root @ [n]) = Some Dir \<and> safe_id n \<and> \<not> starts_with n ''.'')
           entries)))))"

section \<open>What a loaded game rests on\<close>

lemma reads_now: "reads now_unix (\<lambda>_ _. True)"
proof -
  have "reads (let seconds = nanos div 1000000000 in
     if seconds < 2 ^ 63 then ret (of_nat seconds :: i64) else throw ''system clock is out of range'')
     (\<lambda>_ _. True)" for nanos :: nat
    by (auto simp: Let_def intro: reads_throw reads_conseq [OF reads_ret])
  then show ?thesis
    unfolding now_unix_def by (rule reads_conseq [OF reads_andThen [OF reads_clock]]) simp
qed

lemma signed_registration_ok:
  "signed_registration L kind bytes = Inr so \<longleftrightarrow>
     decode (signed_codec L) bytes = Some so \<and> encode_to_vec (signed_codec L) so = bytes"
  by (auto simp: signed_registration_def bindE_ok ok_or_ok if_err_ok)

text \<open>The claims are signed by the keys of the trust store they bind.\<close>

definition claims_trusted ::
    "'v lib \<Rightarrow> registry_lib \<Rightarrow> fs \<Rightarrow> path \<Rightarrow> string \<Rightarrow> signed_object \<Rightarrow> VerificationKeyRing
      \<Rightarrow> GameRegistrationClaimsV1 \<Rightarrow> bool"
where
  "claims_trusted L G fs state_root rid so K c \<longleftrightarrow>
     (\<exists>now. verify_game_registration L so K now = Inr c) \<and> reg_registration_id c = rid \<and>
     key_ring_new K = Inr K \<and>
     (\<exists>t u parsed. read_file fs (join_path state_root ''trust-store.json'') = Some t \<and>
        sha256 L t = reg_trust_store_sha256 c \<and> tl_from_slice (rl_trust G) t = Some parsed \<and>
        parse_trust_keys (rl_trust G) parsed = Inr K \<and>
        read_file fs (join_path state_root ''update-root.json'') = Some u \<and>
        sha256 L u = reg_update_root_sha256 c)"

definition game_found :: "fs \<Rightarrow> GameRegistrationClaimsV1 \<Rightarrow> path \<Rightarrow> path \<Rightarrow> bool" where
  "game_found fs c root game \<longleftrightarrow>
     realpath fs (join_path root (reg_executable_relative_path c)) = Some game \<and>
     take (length root) game = root \<and> read_file fs game \<noteq> None"

definition branding_trusted ::
    "'v lib \<Rightarrow> registry_lib \<Rightarrow> fs \<Rightarrow> path \<Rightarrow> VerificationKeyRing \<Rightarrow> GameRegistrationClaimsV1
      \<Rightarrow> VerifiedBranding option \<Rightarrow> bool"
where
  "branding_trusted L G fs state_root K c branding \<longleftrightarrow>
     (\<forall>v. branding = Some v \<longrightarrow> (\<exists>bs now. stored_branding_ok L (rl_png G) fs bs
          (join_path (join_path state_root ''branding'') ''icon.png'')
          (join_path (join_path state_root ''branding'') ''hero.png'')
          K (reg_registration_id c) (reg_game_id c) now v))"

lemma reads_load_claims:
  "reads (load_claims L G rid state_root so)
     (\<lambda>trusted fs. claims_trusted L G fs state_root rid so (fst trusted) (snd trusted))"
proof -
  have check: "reads (andThen (lift (mapErr (\<lambda>_. ''registered game is expired or revoked'')
        (verify_game_registration L so K now))) (\<lambda>c.
      if reg_registration_id c \<noteq> rid \<or> sha256 L t \<noteq> reg_trust_store_sha256 c
         \<or> sha256 L u \<noteq> reg_update_root_sha256 c
      then throw ''registered game trust binding is invalid'' else ret (K, c)))
    (\<lambda>r _. fst r = K \<and> verify_game_registration L so K now = Inr (snd r) \<and>
       reg_registration_id (snd r) = rid \<and> sha256 L t = reg_trust_store_sha256 (snd r) \<and>
       sha256 L u = reg_update_root_sha256 (snd r))" for K now t u
  proof (rule reads_conseq [OF reads_andThen [OF reads_lift]])
    show "reads (if reg_registration_id c \<noteq> rid \<or> sha256 L t \<noteq> reg_trust_store_sha256 c
         \<or> sha256 L u \<noteq> reg_update_root_sha256 c
      then throw ''registered game trust binding is invalid'' else ret (K, c))
      (\<lambda>r _. r = (K, c) \<and> reg_registration_id c = rid \<and> sha256 L t = reg_trust_store_sha256 c \<and>
         sha256 L u = reg_update_root_sha256 c)" for c
      by (auto intro: reads_throw reads_conseq [OF reads_ret])
  qed (auto simp: mapErr_ok)
  show ?thesis
    unfolding load_claims_def Let_def
    by (rule reads_conseq [OF reads_andThen [OF reads_read_regular reads_andThen [OF reads_read_regular
            reads_andThen [OF reads_trust_load reads_andThen [OF reads_now check]]]]])
      (auto simp: claims_trusted_def)
qed

lemma reads_load_game_path:
  "reads (load_game_path stored c)
     (\<lambda>paths fs. game_found fs c (fst paths) (snd paths))"
proof -
  have present: "reads (andThen (attempt (query () (\<lambda>fs. read_file fs game))) (\<lambda>is_file.
       if \<not> is_ok is_file then throw ''registered game executable is unsafe'' else ret (root, game)))
     (\<lambda>r fs. r = (root, game) \<and> read_file fs game \<noteq> None)" for root game
  proof (rule reads_conseq [OF reads_andThen [OF reads_attempt [OF reads_query]]])
    show "reads (if \<not> is_ok is_file then throw ''registered game executable is unsafe'' else ret (root, game))
      (\<lambda>r _. r = (root, game) \<and> is_ok is_file)" for is_file :: "unit + bytes"
      by (auto intro: reads_throw reads_conseq [OF reads_ret])
  qed (auto simp: is_ok_iff)
  have inside: "reads (if take (length root) game \<noteq> root then throw ''registered game executable is unsafe''
     else andThen (attempt (query () (\<lambda>fs. read_file fs game))) (\<lambda>is_file.
       if \<not> is_ok is_file then throw ''registered game executable is unsafe'' else ret (root, game)))
     (\<lambda>r fs. r = (root, game) \<and> read_file fs game \<noteq> None \<and> take (length root) game = root)"
    for root game
    using present [of game root] by (auto intro: reads_throw elim!: reads_conseq)
  show ?thesis
    unfolding load_game_path_def
    by (rule reads_conseq [OF reads_andThen [OF reads_query reads_andThen [OF reads_query inside]]])
      (auto simp: game_found_def)
qed

lemma reads_load_branding:
  "reads (load_branding L G state_root encoded K c)
     (\<lambda>r fs. branding_trusted L G fs state_root K c r)"
proof (cases encoded)
  case None
  then show ?thesis
    by (auto simp: load_branding_def branding_trusted_def intro: reads_conseq [OF reads_ret])
next
  case (Some e)
  have "reads (andThen (verify_stored L (rl_png G) bs icon hero K rid gid now) (\<lambda>b. ret (Some b)))
     (\<lambda>r fs. \<exists>v. r = Some v \<and> stored_branding_ok L (rl_png G) fs bs icon hero K rid gid now v)"
    for bs icon hero rid gid now
    by (rule reads_conseq [OF reads_andThen [OF reads_verify_stored reads_ret]]) auto
  note verified = this
  show ?thesis
    unfolding load_branding_def Some option.case
    by (rule reads_conseq [OF reads_andThen [OF reads_lift reads_andThen [OF reads_now verified]]])
      (auto simp: branding_trusted_def)
qed

definition loaded_game_ok ::
    "'v lib \<Rightarrow> registry_lib \<Rightarrow> fs \<Rightarrow> path \<Rightarrow> string \<Rightarrow> RegisteredGame \<Rightarrow> bool"
where
  "loaded_game_ok L G fs registry_root rid g \<longleftrightarrow>
     safe_id rid \<and> rg_state_root g = join_path registry_root rid \<and>
     (\<exists>so K. claims_trusted L G fs (rg_state_root g) rid so K (rg_claims g) \<and>
        branding_trusted L G fs (rg_state_root g) K (rg_claims g) (rg_branding g)) \<and>
     game_found fs (rg_claims g) (rg_game_root g) (rg_game g)"

lemma reads_load_record: "reads (load_record L G state_root) (\<lambda>_ _. True)"
proof -
  have "reads (if sr_format_version rc \<notin> {1, 2} then throw ''registered game metadata version is unsupported''
     else
       andThen (lift (ok_or ''registered game signature is invalid''
         (rl_base64_decode G (sr_signed_registration_base64 rc)))) (\<lambda>signed_bytes.
       andThen (lift (signed_registration L ''registered game signature'' signed_bytes)) (\<lambda>so.
       ret (rc, so)))) (\<lambda>_ _. True)" for rc
    by (auto intro: reads_throw reads_conseq [OF reads_andThen [OF reads_lift reads_andThen [OF reads_lift reads_ret]]])
  from reads_andThen [OF reads_context [OF reads_read_regular] reads_andThen [OF reads_lift this]]
  show ?thesis
    unfolding load_record_def by (rule reads_conseq) simp
qed

lemma reads_registry_load:
  "reads (registry_load L G env registry_root rid) (\<lambda>g fs. loaded_game_ok L G fs registry_root rid g)"
proof (cases "safe_id rid")
  case True
  then show ?thesis
    unfolding registry_load_def Let_def
    by simp (rule reads_conseq [OF reads_andThen [OF reads_load_record reads_andThen [OF reads_load_claims
            reads_andThen [OF reads_load_game_path reads_andThen [OF reads_load_branding
            reads_andThen [OF reads_lift reads_ret]]]]]], auto simp: loaded_game_ok_def, blast)
next
  case False
  then show ?thesis by (simp add: registry_load_def reads_throw)
qed

end
