(* ===== verification/LaunchEnvironment.thy ===== *)
theory LaunchEnvironment
  imports RustText "HOL-Library.List_Lexorder" "HOL-Library.Char_ord"
begin

text \<open>
  \<^verbatim>\<open>crates/certael-agent/src/windows_environment.rs\<close> and the command line of
  \<^verbatim>\<open>crates/certael-agent/src/windows_launch.rs\<close>: what a game started on Windows is given.

  \<open>to_uppercase\<close> is Unicode upper-casing; it is the parameter \<open>upper\<close>, used only as the sort key.
\<close>

section \<open>The environment block\<close>

definition is_drive_current_directory_key :: "string \<Rightarrow> bool" where
  "is_drive_current_directory_key key \<longleftrightarrow>
     length key = 3 \<and> key ! 0 = CHR ''='' \<and> is_ascii_alphabetic (key ! 1) \<and> key ! 2 = CHR '':''"

definition READ_HANDLE :: string where "READ_HANDLE = ''CERTAEL_AGENT_READ_HANDLE''"

definition WRITE_HANDLE :: string where "WRITE_HANDLE = ''CERTAEL_AGENT_WRITE_HANDLE''"

fun sanitize_sorted :: "(string \<times> string) list \<Rightarrow> string + (string \<times> string) list" where
  "sanitize_sorted [] = Inr []"
| "sanitize_sorted ((key, v) # entries) =
     (if key = [] \<or> CHR 0x00 \<in> set key \<or> CHR 0x00 \<in> set v
      then Inl ''process environment contains an invalid entry''
      else if starts_with key ''='' \<and> \<not> is_drive_current_directory_key key then sanitize_sorted entries
      else if \<not> is_drive_current_directory_key key \<and> CHR ''='' \<in> set key
      then Inl ''process environment contains an invalid entry''
      else bindE (sanitize_sorted entries) (\<lambda>rest. Inr ((key, v) # rest)))"

definition sanitize_environment_entries ::
    "(string \<Rightarrow> string) \<Rightarrow> (string \<times> string) list \<Rightarrow> nat \<Rightarrow> nat \<Rightarrow> string + (string \<times> string) list"
where
  "sanitize_environment_entries upper values read_handle write_handle =
     sanitize_sorted
       (sort_key (\<lambda>(key, _). upper key)
         (filter (\<lambda>(key, _). \<not> eq_ignore_ascii_case key READ_HANDLE \<and>
                             \<not> eq_ignore_ascii_case key WRITE_HANDLE) values
          @ [(READ_HANDLE, show_nat read_handle), (WRITE_HANDLE, show_nat write_handle)]))"

section \<open>Facts\<close>

definition environment_entry_ok :: "string \<times> string \<Rightarrow> bool" where
  "environment_entry_ok e \<longleftrightarrow>
     fst e \<noteq> [] \<and> CHR 0x00 \<notin> set (fst e) \<and> CHR 0x00 \<notin> set (snd e) \<and>
     (is_drive_current_directory_key (fst e) \<or> CHR ''='' \<notin> set (fst e))"

lemma sanitize_sorted_ok:
  "sanitize_sorted es = Inr out \<Longrightarrow>
     out = filter (\<lambda>e. \<not> (starts_with (fst e) ''='' \<and> \<not> is_drive_current_directory_key (fst e))) es \<and>
     list_all environment_entry_ok out"
proof (induction es arbitrary: out)
  case (Cons e es)
  obtain key v where e: "e = (key, v)" by fastforce
  show ?case
  proof (cases "starts_with key ''='' \<and> \<not> is_drive_current_directory_key key")
    case True
    with Cons e show ?thesis by (auto split: if_splits)
  next
    case False
    with Cons.prems e obtain rest where "sanitize_sorted es = Inr rest" "out = (key, v) # rest"
      "environment_entry_ok (key, v)"
      by (auto simp: bindE_ok environment_entry_ok_def split: if_splits)
    with Cons.IH [of rest] False e show ?thesis by auto
  qed
qed simp

lemma sanitize_environment_set:
  assumes "sanitize_environment_entries upper es r w = Inr out"
  shows "set out =
    {e \<in> set es. \<not> eq_ignore_ascii_case (fst e) READ_HANDLE \<and> \<not> eq_ignore_ascii_case (fst e) WRITE_HANDLE
        \<and> (starts_with (fst e) ''='' \<longrightarrow> is_drive_current_directory_key (fst e))}
    \<union> {(READ_HANDLE, show_nat r), (WRITE_HANDLE, show_nat w)}"
proof -
  have plain: "\<not> starts_with READ_HANDLE ''=''" "\<not> starts_with WRITE_HANDLE ''=''"
    by (simp_all add: READ_HANDLE_def WRITE_HANDLE_def starts_with_def)
  from sanitize_sorted_ok [OF assms [unfolded sanitize_environment_entries_def]] plain
  show ?thesis by (auto simp: split_beta)
qed

lemma sanitize_environment_handles:
  assumes "sanitize_environment_entries upper es r w = Inr out" and "e \<in> set out"
    and "eq_ignore_ascii_case (fst e) READ_HANDLE \<or> eq_ignore_ascii_case (fst e) WRITE_HANDLE"
  shows "e = (READ_HANDLE, show_nat r) \<or> e = (WRITE_HANDLE, show_nat w)"
  using assms(2,3) unfolding sanitize_environment_set [OF assms(1)] by auto

lemma sanitize_environment_sorted:
  assumes "sanitize_environment_entries upper es r w = Inr out"
  shows "sorted (map (\<lambda>e. upper (fst e)) out)"
proof -
  from sanitize_sorted_ok [OF assms [unfolded sanitize_environment_entries_def]]
  obtain P xs where "out = filter P (sort_key (\<lambda>e. upper (fst e)) xs)"
    by (auto simp: case_prod_unfold)
  then show ?thesis
    by (simp add: sorted_filter)
qed

section \<open>The command line\<close>

definition BACKSLASH :: char where "BACKSLASH = CHR 0x5C"

definition QUOTE :: char where "QUOTE = CHR 0x22"

definition argument_gap :: "char \<Rightarrow> bool" where
  "argument_gap c \<longleftrightarrow> c = CHR '' '' \<or> c = CHR 0x09"

text \<open>The loop of \<open>quote\<close>: \<open>slashes\<close> counts the backslashes just read.\<close>

fun quote_loop :: "nat \<Rightarrow> string \<Rightarrow> string" where
  "quote_loop slashes [] = replicate (slashes * 2) BACKSLASH @ [QUOTE]"
| "quote_loop slashes (character # rest) =
     (if character = BACKSLASH then quote_loop (slashes + 1) rest
      else
        (if character = QUOTE then replicate (slashes * 2 + 1) BACKSLASH else replicate slashes BACKSLASH)
          @ [character] @ quote_loop 0 rest)"

definition quote :: "string \<Rightarrow> string" where
  "quote value =
     (if value \<noteq> [] \<and> \<not> list_ex (\<lambda>byte. argument_gap byte \<or> byte = QUOTE) value then value
      else [QUOTE] @ quote_loop 0 value)"

fun join_spaces :: "string list \<Rightarrow> string" where
  "join_spaces [] = []"
| "join_spaces [a] = a"
| "join_spaces (a # as) = a @ [CHR '' ''] @ join_spaces as"

definition windows_command_line :: "string \<Rightarrow> string list \<Rightarrow> string" where
  "windows_command_line game args = join_spaces (map quote (game # args))"

text \<open>
  The documented rules by which a Windows program splits its command line: \<open>2n\<close> backslashes before a
  quote are \<open>n\<close> backslashes and the quote opens or closes, \<open>2n + 1\<close> are \<open>n\<close> and a literal quote, other
  backslashes are literal, and outside quotes a blank ends the argument. The result is the argument
  and what follows the blank.
\<close>

fun take_argument :: "bool \<Rightarrow> nat \<Rightarrow> string \<Rightarrow> string \<Rightarrow> string \<times> string" where
  "take_argument quoted n arg [] = (arg @ replicate n BACKSLASH, [])"
| "take_argument quoted n arg (c # cs) =
     (if c = BACKSLASH then take_argument quoted (n + 1) arg cs
      else if c = QUOTE then
        (if even n then take_argument (\<not> quoted) 0 (arg @ replicate (n div 2) BACKSLASH) cs
         else take_argument quoted 0 (arg @ replicate (n div 2) BACKSLASH @ [QUOTE]) cs)
      else if \<not> quoted \<and> argument_gap c then (arg @ replicate n BACKSLASH, cs)
      else take_argument quoted 0 (arg @ replicate n BACKSLASH @ [c]) cs)"

text \<open>The first \<open>n\<close> arguments.\<close>

fun split_command_line :: "nat \<Rightarrow> string \<Rightarrow> string list" where
  "split_command_line 0 line = []"
| "split_command_line (Suc n) line =
     (case take_argument False 0 [] line of (arg, rest) \<Rightarrow> arg # split_command_line n rest)"

lemma distinct_marks [simp]:
  "BACKSLASH \<noteq> QUOTE" "QUOTE \<noteq> BACKSLASH" "\<not> argument_gap BACKSLASH" "\<not> argument_gap QUOTE"
  "argument_gap (CHR '' '')" "CHR '' '' \<noteq> BACKSLASH" "CHR '' '' \<noteq> QUOTE"
  by (simp_all add: BACKSLASH_def QUOTE_def argument_gap_def)

lemma take_backslashes:
  "take_argument q n arg (replicate k BACKSLASH @ cs) = take_argument q (n + k) arg cs"
  by (induction k arbitrary: n) auto

text \<open>After the closing quote: the end of the line, or a blank and the rest.\<close>

definition argument_end :: "string \<Rightarrow> string \<Rightarrow> bool" where
  "argument_end tail rest \<longleftrightarrow> tail = [] \<and> rest = [] \<or> tail = CHR '' '' # rest"

lemma take_end: "argument_end tail rest \<Longrightarrow> take_argument False n arg tail = (arg @ replicate n BACKSLASH, rest)"
  by (auto simp: argument_end_def)

lemma take_quote_loop:
  assumes "argument_end tail rest"
  shows "take_argument True 0 arg (quote_loop n v @ tail) = (arg @ replicate n BACKSLASH @ v, rest)"
proof (induction v arbitrary: n arg)
  case Nil
  show ?case
    using take_end [OF assms, of 0] by (simp add: take_backslashes)
next
  case (Cons c v)
  consider "c = BACKSLASH" | "c = QUOTE" | "c \<noteq> BACKSLASH" "c \<noteq> QUOTE" by blast
  then show ?case
  proof cases
    case 1
    with Cons.IH [where n = "n + 1"] show ?thesis
      by (simp add: replicate_app_Cons_same)
  next
    case 2
    with Cons.IH [where n = 0] show ?thesis
      by (simp add: take_backslashes del: replicate.simps flip: replicate_Suc)
  next
    case 3
    with Cons.IH [where n = 0] show ?thesis
      by (simp add: take_backslashes)
  qed
qed

lemma take_plain:
  assumes "argument_end tail rest" and "\<forall>c \<in> set v. \<not> argument_gap c \<and> c \<noteq> QUOTE"
  shows "take_argument False n arg (v @ tail) = (arg @ replicate n BACKSLASH @ v, rest)"
  using assms(2)
proof (induction v arbitrary: n arg)
  case Nil
  show ?case using take_end [OF assms(1)] by simp
next
  case (Cons c v)
  then show ?case
    by (cases "c = BACKSLASH") (simp_all add: replicate_app_Cons_same)
qed

lemma take_quote:
  assumes "argument_end tail rest"
  shows "take_argument False 0 [] (quote v @ tail) = (v, rest)"
  using take_quote_loop [OF assms, of "[]" 0 v] take_plain [OF assms, of v 0 "[]"]
  by (auto simp: quote_def list_ex_iff)

lemma split_join_quoted: "split_command_line (length args) (join_spaces (map quote args)) = args"
proof (induction args)
  case (Cons a as)
  show ?case
  proof (cases as)
    case Nil
    then show ?thesis
      using take_quote [of "[]" "[]" a] by (simp add: argument_end_def)
  next
    case (Cons b bs)
    then have "join_spaces (map quote (a # as)) = quote a @ CHR '' '' # join_spaces (map quote as)"
      by simp
    then show ?thesis
      using take_quote [of "CHR '' '' # join_spaces (map quote as)" "join_spaces (map quote as)" a] Cons.IH
      by (simp add: argument_end_def)
  qed
qed simp

end
