(* ===== verification/Fixtures.thy ===== *)
theory Fixtures
  imports Session Probe Compatibility Progress Handoff Registry LaunchEnvironment
begin

text \<open>
  Concrete instances of the parameters and concrete inputs, on which the witnesses of the properties
  evaluate the model. They follow the test fixtures of
  \<^verbatim>\<open>crates/certael-agent-protocol/src/lib.rs\<close>: one trust key, one game, one signed policy, grant and
  build manifest. The encodings are one byte per message; a signature is the key followed by the
  message; the digest pads or cuts its input to 32 bytes. Nothing outside the witnesses uses them.
\<close>

section \<open>Signed objects\<close>

definition sample_sha :: "bytes \<Rightarrow> bytes" where
  "sample_sha bs = take 32 (bs @ replicate 32 0)"

definition sample_root_key :: bytes where
  "sample_root_key = replicate 32 7"

definition sample_agent_key :: bytes where
  "sample_agent_key = replicate 32 3"

definition sample_exe :: bytes where
  "sample_exe = [5]"

definition sample_build_id :: string where
  "sample_build_id = hex_encode (sample_sha sample_exe)"

definition sample_now :: i64 where
  "sample_now = 1700000001"

definition sample_keys :: VerificationKeyRing where
  "sample_keys =
     [\<lparr>vk_key_id = ''root-1'', vk_key = sample_root_key, vk_not_before_unix = 1600000000,
       vk_not_after_unix = 1800000000, vk_revoked = False\<rparr>]"

definition sample_envelope :: "bytes \<Rightarrow> byte \<Rightarrow> signed_object" where
  "sample_envelope domain tag =
     \<lparr>so_claims = [tag], so_signature = sample_root_key @ domain @ [tag], so_key_id = ''root-1''\<rparr>"

definition sample_policy :: AgentPolicyClaimsV1 where
  "sample_policy =
     \<lparr>pol_protocol_version = 1, pol_policy_id = ''policy'', pol_game_id = ''game'',
      pol_environment_id = ''production'', pol_requirement_mode = 2, pol_heartbeat_seconds = 10,
      pol_report_seconds = 30, pol_disconnect_grace_seconds = 20,
      pol_minimum_agent_version = ''0.1.0'', pol_expires_at_unix = 1700003600,
      pol_tenant_id = ''tenant''\<rparr>"

definition sample_grant :: AgentLaunchGrantClaimsV1 where
  "sample_grant =
     \<lparr>grant_protocol_version = 1, grant_grant_id = ''grant'', grant_tenant_id = ''tenant'',
      grant_game_id = ''game'', grant_environment_id = ''production'',
      grant_player_subject = ''player'', grant_match_id = ''match'',
      grant_build_id = sample_build_id, grant_agent_public_key = sample_agent_key,
      grant_issued_at_unix = 1700000000, grant_expires_at_unix = 1700000060,
      grant_policy_digest = sample_sha [1], grant_authoritative_server_id = ''server'',
      grant_build_manifest_digest = sample_sha [3]\<rparr>"

definition sample_manifest :: BuildManifestClaimsV1 where
  "sample_manifest =
     \<lparr>man_protocol_version = 1, man_manifest_id = ''manifest'', man_tenant_id = ''tenant'',
      man_game_id = ''game'', man_environment_id = ''production'', man_build_id = sample_build_id,
      man_files = [\<lparr>bf_path = ''game'', bf_size = 1, bf_sha256 = sample_sha sample_exe\<rparr>],
      man_not_before_unix = 1700000000, man_expires_at_unix = 1700003600,
      man_core_sdk_version = ''0.1.0'', man_engine_adapter = ''native'',
      man_engine_adapter_version = ''0.1.0'', man_core_c_abi_version = 1,
      man_action_protocol_version = 1, man_agent_protocol_version = 1,
      man_agent_probe_abi_version = 1\<rparr>"

definition sample_bundle :: AgentLaunchBundleV1 where
  "sample_bundle =
     \<lparr>bundle_signed_policy = [1], bundle_signed_launch_grant = [2], bundle_signed_build_manifest = [3]\<rparr>"

definition sample_trust_file :: bytes where
  "sample_trust_file = [51]"

definition sample_registration :: GameRegistrationClaimsV1 where
  "sample_registration =
     \<lparr>reg_protocol_version = 1, reg_registration_id = ''game-1'', reg_publisher_id = ''publisher'',
      reg_tenant_id = ''tenant'', reg_game_id = ''game'', reg_environment_id = ''production'',
      reg_executable_relative_path = ''game'', reg_trust_store_sha256 = sample_sha sample_trust_file,
      reg_update_root_sha256 = sample_sha [52],
      reg_update_metadata_url = ''https://updates.example/metadata'',
      reg_update_targets_url = ''https://updates.example/targets'', reg_update_channel = ''stable'',
      reg_not_before_unix = 1700000000, reg_expires_at_unix = 1700003600,
      reg_registered_files = [\<lparr>rgf_relative_path = ''game'', rgf_size = 1, rgf_sha256 = sample_sha sample_exe\<rparr>],
      reg_repair_executable_relative_path = ''game'', reg_repair_arguments = [],
      reg_offline_play_allowed = False, reg_offline_arguments = []\<rparr>"

definition sample_branding :: BrandingManifestClaimsV1 where
  "sample_branding =
     \<lparr>brand_protocol_version = 1, brand_registration_id = ''game-1'', brand_game_id = ''game'',
      brand_display_name = ''Game'', brand_publisher_name = ''Publisher'',
      brand_icon_relative_path = ''icon.png'', brand_icon_sha256 = sample_sha [53],
      brand_not_before_unix = 1700000000, brand_expires_at_unix = 1700003600,
      brand_hero_relative_path = [], brand_hero_sha256 = []\<rparr>"

definition sample_revocation :: AgentRevocationClaimsV1 where
  "sample_revocation =
     \<lparr>rev_protocol_version = 1, rev_tenant_id = ''tenant'', rev_game_id = ''game'',
      rev_environment_id = ''production'', rev_agent_session_id = ''grant'',
      rev_reason = ''operator'', rev_revoked_at_unix = 1700000000,
      rev_expires_at_unix = 1700000120\<rparr>"

definition sample_compatibility :: CompatibilityManifestClaimsV1 where
  "sample_compatibility =
     \<lparr>cm_schema_version = 1, cm_revision = 4, cm_issued_at_unix = 1700000000,
      cm_expires_at_unix = 1700003600,
      cm_products = [\<lparr>rule_product = 2, rule_minimum_supported_version = ''0.1.0'',
        rule_recommended_version = ''0.2.0'', rule_minimum_protocol_version = 1,
        rule_maximum_protocol_version = 1\<rparr>],
      cm_revocations = [\<lparr>crev_product = 2, crev_version = ''0.2.0'',
        crev_effective_at_unix = 1700000000, crev_reason = ''defect''\<rparr>]\<rparr>"

definition sample_challenge :: "byte \<Rightarrow> AgentReportChallengeV1" where
  "sample_challenge n =
     \<lparr>chal_agent_session_id = ''grant'', chal_nonce = replicate 16 n,
      chal_expires_at_unix = 1700000060\<rparr>"

section \<open>The third-party operations\<close>

definition tag_codec :: "byte \<Rightarrow> 'm \<Rightarrow> 'm codec" where
  "tag_codec tag m =
     \<lparr>encode_to_vec = (\<lambda>_. [tag]), decode = (\<lambda>bs. if bs = [tag] then Some m else None)\<rparr>"

definition sample_signed_codec :: "signed_object codec" where
  "sample_signed_codec =
     \<lparr>encode_to_vec = so_claims,
      decode = (\<lambda>bs. map_option (\<lambda>(tag, domain). sample_envelope domain tag)
        (find (\<lambda>(tag, _). bs = [tag])
          [(1, POLICY_DOMAIN), (2, LAUNCH_DOMAIN), (3, BUILD_MANIFEST_DOMAIN),
           (4, REGISTRATION_DOMAIN), (5, BRANDING_DOMAIN), (6, REVOCATION_DOMAIN),
           (7, COMPATIBILITY_DOMAIN)]))\<rparr>"

definition sample_challenge_codec :: "AgentReportChallengeV1 codec" where
  "sample_challenge_codec =
     \<lparr>encode_to_vec = (\<lambda>c. take 1 (chal_nonce c)),
      decode = (\<lambda>bs. case bs of [n] \<Rightarrow> Some (sample_challenge n) | _ \<Rightarrow> None)\<rparr>"

definition sample_version :: "string \<Rightarrow> nat option" where
  "sample_version s = map_of [(''0.1.0'', 1), (''0.2.0'', 2), (''0.4.0-alpha.1'', 4)] s"

definition sample_lib :: "nat lib" where
  "sample_lib =
     \<lparr>sha256 = sample_sha, sig_from_slice = Some,
      vk_verify = (\<lambda>key m s. s = key @ m), sk_verifying = (\<lambda>key. key),
      sk_sign = (\<lambda>key m. key @ m), version_parse = sample_version, version_less = (<),
      policy_codec = tag_codec 1 sample_policy, grant_codec = tag_codec 2 sample_grant,
      manifest_codec = tag_codec 3 sample_manifest,
      registration_codec = tag_codec 4 sample_registration,
      branding_codec = tag_codec 5 sample_branding, revocation_codec = tag_codec 6 sample_revocation,
      compatibility_codec = tag_codec 7 sample_compatibility, signed_codec = sample_signed_codec,
      bundle_codec = tag_codec 20 sample_bundle, challenge_codec = sample_challenge_codec,
      report_codec = \<lparr>encode_to_vec = (\<lambda>r. [ucast (rep_sequence r)]), decode = (\<lambda>_. None)\<rparr>,
      health_codec = \<lparr>encode_to_vec = (\<lambda>_. [41]), decode = (\<lambda>_. None)\<rparr>,
      hello_codec = \<lparr>encode_to_vec = (\<lambda>_. [40]), decode = (\<lambda>_. None)\<rparr>\<rparr>"

section \<open>Disks\<close>

definition sample_nanos :: nat where
  "sample_nanos = 1700000001000000000"

definition sample_world :: "fs \<Rightarrow> world" where
  "sample_world fs =
     \<lparr>wd_fs = fs, wd_faults = [], wd_stopped = False,
      wd_clock = [Some sample_nanos, Some sample_nanos, Some sample_nanos], wd_pid = 9\<rparr>"

definition game_fs :: fs where
  "game_fs = [[''opt''] \<mapsto> Dir, [''opt'', ''game''] \<mapsto> File sample_exe]"

section \<open>A session\<close>

definition sample_state :: RuntimeState where
  "sample_state =
     \<lparr>rts_game = [''opt'', ''game''], rts_game_root = [''opt''], rts_game_process_id = 11,
      rts_game_process_identity = None, rts_key = sample_agent_key,
      rts_hello = \<lparr>hello_protocol_version = 1, hello_agent_version = AGENT_VERSION,
        hello_agent_public_key = sample_agent_key, hello_build_id = sample_build_id,
        hello_executable_sha256 = sample_sha sample_exe\<rparr>,
      rts_trust = sample_keys, rts_registration = None, rts_automatic_update = None\<rparr>"

definition sample_json :: json where
  "sample_json = \<lparr>json_to_vec = (\<lambda>_. None), json_from_slice = (\<lambda>_. None)\<rparr>"

definition sample_tough :: "unit tough" where
  "sample_tough =
     \<lparr>tuf_load = (\<lambda>_ _. throw Verification), tuf_target_name = (\<lambda>_. None),
      tuf_same_target = (=), tuf_resolved = (\<lambda>t. t), tuf_targets = (\<lambda>_. []),
      tuf_save_target = (\<lambda>_ _ _. throw Verification)\<rparr>"

definition sample_host :: "unit host" where
  "sample_host =
     \<lparr>host_spawns_reader = True,
      host_bootstrap = Frame_received \<lparr>fr_message_type = LaunchGrant, fr_payload = [20]\<rparr>,
      host_admission_now = Some sample_now, host_disk = sample_world game_fs,
      host_heartbeat_now = Some sample_now, host_deadline_now = Some sample_now,
      host_starts_updater = False, host_url_parse = (\<lambda>_. None), host_json = sample_json,
      host_tough = sample_tough\<rparr>"

definition sample_io :: io where
  "sample_io =
     \<lparr>io_writer = \<lparr>w_out = [], w_room = None, w_flush_ok = True\<rparr>, io_published = []\<rparr>"

definition sample_procs :: proc_view where
  "sample_procs =
     \<lparr>pv_self = 10, pv_exe_link = (\<lambda>_. Some [''opt'', ''game'']), pv_stat = (\<lambda>_. None),
      pv_maps = (\<lambda>_. None), pv_status = (\<lambda>_. None), pv_pidfd_open = (\<lambda>_. 3), pv_poll = (\<lambda>_. 0),
      pv_build_id = (\<lambda>_. None)\<rparr>"

definition sample_tick :: "recv \<Rightarrow> tick" where
  "sample_tick r =
     \<lparr>tk_now = Some (sample_now + 5), tk_recv = r, tk_handler_now = Some (sample_now + 5),
      tk_disk = sample_world game_fs, tk_procs = sample_procs\<rparr>"

definition challenge_tick :: "byte \<Rightarrow> tick" where
  "challenge_tick n = sample_tick (Frame_received \<lparr>fr_message_type = Challenge, fr_payload = [n]\<rparr>)"

definition sample_launch :: BoundAgentLaunch where
  "sample_launch = bind_launch sample_policy sample_grant sample_manifest (sample_sha [3])"

definition sample_loop :: loop_state where
  "sample_loop =
     \<lparr>ls_sequence = 1, ls_previous_digest = replicate 32 0, ls_last_report_at = 0,
      ls_next_heartbeat = sample_now + 10, ls_report_deadline = sample_now + 50,
      ls_io = \<lparr>io_writer = \<lparr>w_out = concat (map frame_bytes
          [\<lparr>fr_message_type = AgentHello, fr_payload = [40]\<rparr>,
           \<lparr>fr_message_type = Health, fr_payload = [41]\<rparr>]), w_room = None, w_flush_ok = True\<rparr>,
        io_published = []\<rparr>\<rparr>"

section \<open>Evaluation\<close>

lemma sample_signs: "signs_correctly sample_lib key"
  by (simp add: signs_correctly_def sample_lib_def)

lemma length_sample_sha [simp]: "length (sample_sha b) = 32"
  by (simp add: sample_sha_def)

lemma sample_lib_simps [simp]:
  "sha256 sample_lib = sample_sha" "sig_from_slice sample_lib = Some"
  "vk_verify sample_lib k m s = (s = k @ m)" "sk_verifying sample_lib k = k"
  "sk_sign sample_lib k m = k @ m"
  "version_parse sample_lib = sample_version" "version_less sample_lib = (<)"
  "policy_codec sample_lib = tag_codec 1 sample_policy"
  "grant_codec sample_lib = tag_codec 2 sample_grant"
  "manifest_codec sample_lib = tag_codec 3 sample_manifest"
  "registration_codec sample_lib = tag_codec 4 sample_registration"
  "branding_codec sample_lib = tag_codec 5 sample_branding"
  "revocation_codec sample_lib = tag_codec 6 sample_revocation"
  "compatibility_codec sample_lib = tag_codec 7 sample_compatibility"
  "signed_codec sample_lib = sample_signed_codec"
  "bundle_codec sample_lib = tag_codec 20 sample_bundle"
  "challenge_codec sample_lib = sample_challenge_codec"
  "encode_to_vec (report_codec sample_lib) r = [ucast (rep_sequence r)]"
  "encode_to_vec (health_codec sample_lib) v = [41]"
  "encode_to_vec (hello_codec sample_lib) v' = [40]"
  by (simp_all add: sample_lib_def)

lemma tag_codec_canonical [simp]: "decode_canonical (tag_codec tag m) [tag] = Inr m"
  by (simp add: decode_canonical_ok tag_codec_def MAX_MESSAGE_BYTES_def)

lemma sample_envelopes [simp]:
  "decode_canonical sample_signed_codec [1] = Inr (sample_envelope POLICY_DOMAIN 1)"
  "decode_canonical sample_signed_codec [2] = Inr (sample_envelope LAUNCH_DOMAIN 2)"
  "decode_canonical sample_signed_codec [3] = Inr (sample_envelope BUILD_MANIFEST_DOMAIN 3)"
  "decode sample_signed_codec [4] = Some (sample_envelope REGISTRATION_DOMAIN 4)"
  "decode sample_signed_codec [6] = Some (sample_envelope REVOCATION_DOMAIN 6)"
  "encode_to_vec sample_signed_codec so = so_claims so"
  by (simp_all add: decode_canonical_ok sample_signed_codec_def sample_envelope_def MAX_MESSAGE_BYTES_def)

lemma sample_authentic [simp]:
  "authentic sample_lib domain (tag_codec tag m) (sample_envelope domain tag) sample_keys sample_now m"
  by (simp add: authentic_def canonical_def tag_codec_def ring_key_iff key_live_def sample_keys_def
      sample_now_def sample_envelope_def)

lemma sample_build_identifier: "is_identifier sample_build_id"
proof -
  have "is_ascii_hexdigit c \<Longrightarrow> is_ascii_alphanumeric c" for c
    by (auto simp: ascii_class_defs)
  then show ?thesis
    using hex_encode_hexdigits [of "sample_sha sample_exe"]
    by (auto simp: is_identifier_def sample_build_id_def list_all_iff simp flip: length_0_conv)
qed

lemmas lexical_defs =
  is_identifier_def version_identifier_def ascii_class_defs PROTOCOL_VERSION_def
  safe_relative_path_def starts_with_def is_separator_def sample_now_def

lemma sample_valid:
  "validate_policy sample_policy sample_now = Inr ()"
  "validate_launch_grant sample_grant sample_now = Inr ()"
  "validate_build_manifest sample_manifest sample_now = Inr ()"
  "validate_game_registration sample_registration sample_now = Inr ()"
  "validate_branding sample_branding sample_now = Inr ()"
  "validate_revocation sample_revocation sample_now = Inr ()"
  "validate_compatibility_manifest sample_lib sample_compatibility sample_now = Inr ()"
proof -
  show "validate_policy sample_policy sample_now = Inr ()"
    by (simp add: validate_policy_def sample_policy_def lexical_defs mode_try_from_def)
  show "validate_launch_grant sample_grant sample_now = Inr ()"
    using sample_build_identifier
    by (simp add: validate_launch_grant_def sample_grant_def sample_agent_key_def lexical_defs)
  show "validate_build_manifest sample_manifest sample_now = Inr ()"
    using sample_build_identifier
    by (simp add: validate_build_manifest_def sample_manifest_def lexical_defs)
  show "validate_game_registration sample_registration sample_now = Inr ()"
    by (simp add: validate_game_registration_def sample_registration_def lexical_defs https_url_def
        has_control_def is_control_def safe_arguments_def)
  show "validate_branding sample_branding sample_now = Inr ()"
    by (simp add: validate_branding_def sample_branding_def lexical_defs safe_display_def png_path_def
        ends_with_def to_ascii_lowercase_def ascii_lower_def trim_chars_def is_whitespace_def
        is_control_def is_bidi_control_def)
  show "validate_revocation sample_revocation sample_now = Inr ()"
    by (simp add: validate_revocation_def sample_revocation_def lexical_defs)
  show "validate_compatibility_manifest sample_lib sample_compatibility sample_now = Inr ()"
    by (simp add: validate_compatibility_manifest_def sample_compatibility_def lexical_defs
        product_try_from_def all_products_def sample_version_def)
qed

lemma sample_verified:
  "verify_policy sample_lib (sample_envelope POLICY_DOMAIN 1) sample_keys sample_now = Inr sample_policy"
  "verify_launch_grant sample_lib (sample_envelope LAUNCH_DOMAIN 2) sample_keys sample_now = Inr sample_grant"
  "verify_build_manifest sample_lib (sample_envelope BUILD_MANIFEST_DOMAIN 3) sample_keys sample_now
     = Inr sample_manifest"
  "verify_game_registration sample_lib (sample_envelope REGISTRATION_DOMAIN 4) sample_keys sample_now
     = Inr sample_registration"
  "verify_branding_manifest sample_lib (sample_envelope BRANDING_DOMAIN 5) sample_keys sample_now
     = Inr sample_branding"
  "verify_revocation sample_lib (sample_envelope REVOCATION_DOMAIN 6) sample_keys sample_now
     = Inr sample_revocation"
  "verify_compatibility_manifest sample_lib (sample_envelope COMPATIBILITY_DOMAIN 7) sample_keys sample_now
     = Inr sample_compatibility"
  by (simp_all add: policy_verifier.accepts_iff grant_verifier.accepts_iff manifest_verifier.accepts_iff
      registration_verifier.accepts_iff branding_verifier.accepts_iff revocation_verifier.accepts_iff
      compatibility_verifier.accepts_iff sample_valid)

lemma sample_admissible:
  "launch_admissible sample_lib [20] sample_keys sample_now sample_agent_key sample_build_id
     sample_bundle sample_policy sample_grant sample_manifest"
  by (simp add: launch_admissible_def envelope_accepted_def sample_verified sample_bundle_def)
   (simp add: sample_policy_def sample_grant_def sample_manifest_def)

lemma sample_bundle_accepted:
  "verify_launch_bundle sample_lib [20] sample_keys sample_now sample_agent_key sample_build_id
     AGENT_VERSION = Inr sample_launch"
  unfolding bundle_accept_iff sample_launch_def
  by (rule exI [of _ sample_bundle], rule exI [of _ sample_policy], rule exI [of _ sample_grant],
      rule exI [of _ sample_manifest], rule exI [of _ 1], rule exI [of _ 4],
      use sample_admissible in \<open>simp add: sample_bundle_def\<close>)
    (simp add: sample_policy_def sample_version_def AGENT_VERSION_def)

lemma game_fs_paths:
  "realpath game_fs [''opt''] = Some [''opt'']" "realpath game_fs [''opt'', ''game''] = Some [''opt'', ''game'']"
  "stat game_fs [''opt''] = Some Dir"
  "stat game_fs [''opt'', ''game''] = Some (File sample_exe)"
  "lstat game_fs [''opt'', ''game''] = Some (File sample_exe)"
  "locate game_fs [''opt'', ''game''] = Some [''opt'', ''game'']"
  "read_file game_fs [''opt'', ''game''] = Some sample_exe"
  by (simp_all add: realpath_def game_fs_def node_at_def stat_def lstat_def locate_def read_file_def MAX_SYMLINKS_def)

lemma sample_world_calm [simp]: "calm (sample_world fs)" by (simp add: calm_def sample_world_def)
lemma sample_world_fs [simp]: "wd_fs (sample_world fs) = fs" by (simp add: sample_world_def)

lemma sample_game_ok: "entry_ok sample_lib game_fs [''opt''] (protected_file \<lparr>bf_path = ''game'', bf_size = 1, bf_sha256 = sample_sha sample_exe\<rparr>)"
  unfolding entry_ok_def
  by (rule exI [of _ "[''opt'', ''game'']"], rule exI [of _ sample_exe],
      simp add: protected_file_def join_path_def slash_pieces_def is_absolute_def starts_with_def
        game_fs_paths eq_ignore_ascii_case_def)
    (simp add: sample_exe_def game_fs_def node_at_def)

lemma sample_files_ok: "verify_build_files sample_lib [''opt''] (protected_manifest sample_manifest) (sample_world game_fs) = (Inr [], sample_world game_fs)"
proof -
  have "verify_build_files sample_lib [''opt''] (protected_manifest sample_manifest) (sample_world game_fs) =
    (Inr (List.map_filter (entry_mismatch sample_lib game_fs [''opt'']) (map protected_file (man_files sample_manifest))), sample_world game_fs)"
    using verify_manifest_calm [OF sample_valid(3) sample_world_calm, of game_fs "[''opt'']" "[''opt'']" sample_lib]
    by (simp add: game_fs_paths)
  moreover have "\<forall>f \<in> set (map protected_file (man_files sample_manifest)). entry_ok sample_lib game_fs [''opt''] f"
    using sample_game_ok by (simp add: sample_manifest_def)
  ultimately show ?thesis
    by (simp only: mismatches_Nil [THEN iffD2])
qed

lemma sample_launch_fields [simp]:
  "launch_build_manifest sample_launch = sample_manifest"
  "launch_session_id sample_launch = ''grant''"
  "launch_tenant_id sample_launch = ''tenant''"
  "launch_game_id sample_launch = ''game''"
  "launch_environment_id sample_launch = ''production''"
  "launch_build_id sample_launch = sample_build_id"
  "launch_heartbeat_seconds sample_launch = 10"
  "launch_report_seconds sample_launch = 30"
  "launch_disconnect_grace_seconds sample_launch = 20"
  "launch_policy_expires_at_unix sample_launch = 1700003600"
  by (simp_all add: sample_launch_def bind_launch_def sample_grant_def sample_policy_def)

lemma sample_window: "report_window sample_launch = 50"
 by (simp add: report_window_def i64_of_u32_def )


lemma sample_challenge_decoded:
  "decode_challenge sample_lib [n] (sample_now + 5) = Inr (sample_challenge n)"
  by (simp add: decode_challenge_ok decode_canonical_ok sample_challenge_codec_def sample_challenge_def
      MAX_MESSAGE_BYTES_def lexical_defs)

lemma sample_inspected:
  "\<exists>s. inspect_executable sample_lib sample_procs [''opt'', ''game''] (sample_world game_fs)
       = (Inr s, sample_world game_fs) \<and> snap_executable_sha256 s = sample_build_id \<and>
     snap_executable_build_id s = None \<and> snap_loaded_module_basenames s = []"
  by (simp add: inspect_executable_def andThen_def run_simps calm_query calm_touch game_fs_paths
      file_name_def executable_build_id_def attempt_def sample_procs_def loaded_module_basenames_def
      sample_build_id_def)

lemma observations_few:
  "length (game_observations state self snap game) \<le> 300"
proof -
  have "length (take 96 xs) \<le> 96" for xs :: "string list" by simp
  then show ?thesis
    unfolding game_observations_def by (auto split: option.split simp: min_def)
qed

lemma sample_state_simps [simp]:
  "rts_game sample_state = [''opt'', ''game'']" "rts_game_process_id sample_state = 11"
  "rts_game_process_identity sample_state = None" "rts_key sample_state = sample_agent_key"
  "rts_trust sample_state = sample_keys" "rts_game_root sample_state = [''opt'']"
  "hello_build_id (rts_hello sample_state) = sample_build_id" "pv_self sample_procs = 10"
  by (simp_all add: sample_state_def sample_procs_def)

lemma sample_build_hex [simp]: "hex_decode sample_build_id = Some (sample_sha sample_exe)"
  by (simp add: sample_build_id_def)

lemma sample_answer:
  assumes "ls_sequence s \<noteq> 0" "length (ls_previous_digest s) = 32"
  shows "\<exists>r. answer_challenge sample_lib sample_state sample_launch (challenge_tick n) [n] s
      = Inr (r, sample_now + 5)"
proof -
  obtain snap where snap: "inspect_executable sample_lib sample_procs [''opt'', ''game''] (sample_world game_fs)
       = (Inr snap, sample_world game_fs)" "snap_executable_sha256 snap = sample_build_id"
    using sample_inspected by blast
  have "validate_report (runtime_report sample_launch s (sample_challenge n) (sample_now + 5)
      (sample_sha sample_exe) (game_observations sample_state 10 snap g)) = Inr ()" for g
    using assms observations_few [of sample_state 10 snap g] sample_build_identifier
    by (auto simp: validate_report_def runtime_report_def sample_challenge_def PROTOCOL_VERSION_def is_identifier_def)
  with snap show ?thesis
    by (simp add: answer_challenge_def challenge_tick_def sample_tick_def sample_challenge_decoded
        Let_def sign_report_def sample_challenge_def signing_bytes_def MAX_MESSAGE_BYTES_def)
qed

text \<open>A state of the sample session that can answer a challenge.\<close>

definition sample_ready :: "loop_state \<Rightarrow> bool" where
  "sample_ready s \<longleftrightarrow>
     ls_sequence s \<in> {1, 2} \<and> length (ls_previous_digest s) = 32 \<and>
     sint (sample_now + 5) < sint (ls_report_deadline s) \<and>
     w_room (io_writer (ls_io s)) = None \<and> w_flush_ok (io_writer (ls_io s))"

lemma sample_step_at:
  assumes "sample_ready s"
  shows "\<exists>r t. serve_step sample_lib sample_state sample_launch s (challenge_tick 30) = Running t \<and>
     report_of sample_lib sample_state sample_launch s (challenge_tick 30) = Some r \<and>
     ls_report_deadline t = sample_now + 55 \<and> ls_sequence t = ls_sequence s + 1 \<and>
     (ls_sequence s = 1 \<longrightarrow> sample_ready t)"
proof -
  obtain r where r: "answer_challenge sample_lib sample_state sample_launch (challenge_tick 30) [30] s
      = Inr (r, sample_now + 5)"
    using sample_answer [of s 30] assms by (auto simp: sample_ready_def)
  then have "report_of sample_lib sample_state sample_launch s (challenge_tick 30) = Some r"
    by (simp add: report_of_def challenge_tick_def sample_tick_def)
  moreover have "\<exists>t. deliver_report sample_lib sample_state sample_launch s r (sample_now + 5) = Running t
     \<and> ls_report_deadline t = sample_now + 55 \<and> ls_sequence t = ls_sequence s + 1 \<and>
     (ls_sequence s = 1 \<longrightarrow> sample_ready t)"
    using assms
    by (auto simp: deliver_report_def sample_ready_def checked_succ_def write_frame_def MAX_FRAME_PAYLOAD_def
        write_all_def flush_def sample_window report_digest_def publish_runtime_def sample_now_def
        sample_state_def)
  moreover have "serve_step sample_lib sample_state sample_launch s (challenge_tick 30)
     = deliver_report sample_lib sample_state sample_launch s r (sample_now + 5)"
    using r assms by (simp add: serve_step_def challenge_tick_def sample_tick_def on_frame_def on_challenge_def
        sample_ready_def) (simp add: sample_now_def)
  ultimately show ?thesis by auto
qed

lemma sample_loop_ready: "sample_ready sample_loop" "ls_sequence sample_loop = 1"
  by (simp_all add: sample_ready_def sample_loop_def sample_now_def)

lemma sample_step:
  "\<exists>r t. serve_step sample_lib sample_state sample_launch sample_loop (challenge_tick 30) = Running t \<and>
     report_of sample_lib sample_state sample_launch sample_loop (challenge_tick 30) = Some r \<and>
     ls_report_deadline t = sample_now + 55 \<and> ls_sequence t = 2"
  using sample_step_at [OF sample_loop_ready(1)] sample_loop_ready(2) by auto

lemma sample_steps_twice:
  "\<exists>r r'. loop_reports sample_lib sample_state sample_launch sample_loop [challenge_tick 30, challenge_tick 30]
     = [r, r']"
proof -
  from sample_step_at [OF sample_loop_ready(1)] sample_loop_ready(2) obtain r t where
    one: "serve_step sample_lib sample_state sample_launch sample_loop (challenge_tick 30) = Running t"
      "report_of sample_lib sample_state sample_launch sample_loop (challenge_tick 30) = Some r"
      "sample_ready t"
    by auto
  from sample_step_at [OF one(3)] one show ?thesis
    by auto
qed

section \<open>An installation\<close>

definition sample_slot :: "string \<Rightarrow> byte \<Rightarrow> ActivationSlot" where
  "sample_slot v b =
     \<lparr>slot_version = v, slot_relative_path = version_relative_path v ''agent'',
      slot_sha256 = hex_encode (sample_sha [b])\<rparr>"

definition agent_state ::
    "ActivationSlot option \<Rightarrow> ActivationSlot option \<Rightarrow> ActivationSlot option \<Rightarrow> ActivationState" where
  "agent_state active previous pending =
     \<lparr>act_format_version = 1, act_active = active, act_previous = previous, act_pending = pending\<rparr>"

definition slot_1 :: ActivationSlot where "slot_1 = sample_slot ''1'' 61"

definition slot_2 :: ActivationSlot where "slot_2 = sample_slot ''2'' 62"

definition agent_states :: "(byte \<times> ActivationState) list" where
  "agent_states =
     [(1, agent_state (Some slot_1) None (Some slot_2)),
      (2, agent_state (Some slot_2) (Some slot_1) None),
      (3, agent_state (Some slot_1) (Some slot_2) None)]"

definition agent_json :: json where
  "agent_json =
     \<lparr>json_to_vec = (\<lambda>s. map_option (\<lambda>(b, _). [b]) (find (\<lambda>(_, t). t = s) agent_states)),
      json_from_slice = (\<lambda>bs. map_option snd (find (\<lambda>(b, _). bs = [b]) agent_states))\<rparr>"

definition agent_fs :: "byte \<Rightarrow> fs" where
  "agent_fs b =
     [[''a''] \<mapsto> Dir, [''a'', ''versions''] \<mapsto> Dir,
      [''a'', ''versions'', ''1''] \<mapsto> Dir, [''a'', ''versions'', ''1'', ''agent''] \<mapsto> File [61],
      [''a'', ''versions'', ''2''] \<mapsto> Dir, [''a'', ''versions'', ''2'', ''agent''] \<mapsto> File [62],
      [''a'', ''launcher''] \<mapsto> File [60], [''a'', ''activation.json''] \<mapsto> File [b]]"

lemma slot_neq [simp]: "slot_1 \<noteq> slot_2" "slot_2 \<noteq> slot_1"
  by (simp_all add: slot_1_def slot_2_def sample_slot_def)

lemma agent_state_sel [simp]:
  "act_active (agent_state a p q) = a" "act_previous (agent_state a p q) = p"
  "act_pending (agent_state a p q) = q" "act_format_version (agent_state a p q) = 1"
  "agent_state a p q = agent_state a' p' q' \<longleftrightarrow> a = a' \<and> p = p' \<and> q = q'"
  by (auto simp: agent_state_def)

lemma agent_state_upd [simp]:
  "(agent_state a p q)\<lparr>act_active := a'\<rparr> = agent_state a' p q"
  "(agent_state a p q)\<lparr>act_previous := p'\<rparr> = agent_state a p' q"
  "(agent_state a p q)\<lparr>act_pending := q'\<rparr> = agent_state a p q'"
  by (simp_all add: agent_state_def)

lemma agent_json_roundtrip:
  "json_to_vec agent_json s = Some bs \<Longrightarrow> json_from_slice agent_json bs = Some s"
  by (auto simp: agent_json_def agent_states_def split: if_splits)

lemma agent_json_1: "json_from_slice agent_json [1] = Some (agent_state (Some slot_1) None (Some slot_2))"
  by (simp add: agent_json_def agent_states_def)

lemma agent_json_vec:
  "json_to_vec agent_json (agent_state (Some slot_2) (Some slot_1) None) = Some [2]"
  "json_to_vec agent_json (agent_state (Some slot_1) (Some slot_2) None) = Some [3]"
  "json_to_vec agent_json (agent_state (Some slot_1) None (Some slot_2)) = Some [1]"
  by (simp_all add: agent_json_def agent_states_def)

lemma digest_valid: "valid_digest (hex_encode (sample_sha b))"
  by (simp add: valid_digest_def list_all_iff hex_encode_hexdigits)

lemma slots_valid: "validate_slot slot_1 = Inr ()" "validate_slot slot_2 = Inr ()"
  by (simp_all add: slot_1_def slot_2_def sample_slot_def validate_slot_def digest_valid
      version_relative_path_def safe_component_def windows_reserved_component_def Let_def
      to_ascii_uppercase_def ascii_upper_def ascii_class_defs starts_with_def is_absolute_def
      components_def slash_pieces_def is_normal_def)

lemma agent_paths:
  assumes "fs = agent_fs b"
  shows "plain_dir fs [''a'']"
    "realpath fs [''a'', ''versions'', ''1'', ''agent''] = Some [''a'', ''versions'', ''1'', ''agent'']"
    "realpath fs [''a'', ''versions'', ''2'', ''agent''] = Some [''a'', ''versions'', ''2'', ''agent'']"
proof -
  show "plain_dir fs [''a'']"
    using plain_dir_snoc [of fs "[]" "''a''"] by (simp add: assms agent_fs_def plain_name_def)
qed (simp_all add: assms agent_fs_def realpath_def node_at_def MAX_SYMLINKS_def)

lemma slot_paths:
  "join_path [''a''] (slot_relative_path slot_1) = [''a'', ''versions'', ''1'', ''agent'']"
  "join_path [''a''] (slot_relative_path slot_2) = [''a'', ''versions'', ''2'', ''agent'']"
  "slot_sha256 slot_1 = hex_encode (sample_sha [61])" "slot_sha256 slot_2 = hex_encode (sample_sha [62])"
  by (simp_all add: slot_1_def slot_2_def sample_slot_def join_path_def version_relative_path_def
      slash_pieces_def is_absolute_def starts_with_def)

lemma agent_slots:
  "slot_verified sample_lib (agent_fs b) [''a''] slot_1" "slot_verified sample_lib (agent_fs b) [''a''] slot_2"
proof -
  have "node_at (agent_fs b) [''a'', ''versions'', ''1'', ''agent''] = Some (File [61])"
    "node_at (agent_fs b) [''a'', ''versions'', ''2'', ''agent''] = Some (File [62])"
    by (simp_all add: agent_fs_def node_at_def)
  then show "slot_verified sample_lib (agent_fs b) [''a''] slot_1"
    "slot_verified sample_lib (agent_fs b) [''a''] slot_2"
    using agent_paths(2,3) [OF refl, of b] by (simp_all add: slot_verified_def slots_valid slot_paths)
qed

lemma agent_state_valid:
  "set (state_slots s) \<subseteq> {slot_1, slot_2} \<Longrightarrow> act_format_version s = 1 \<Longrightarrow> validate_state s = Inr ()"
proof -
  have "set slots \<subseteq> {slot_1, slot_2} \<Longrightarrow> validate_slots slots = Inr ()" for slots
    by (induction slots) (auto simp: slots_valid)
  then show "set (state_slots s) \<subseteq> {slot_1, slot_2} \<Longrightarrow> act_format_version s = 1 \<Longrightarrow> validate_state s = Inr ()"
    by (simp add: validate_state_def)
qed

lemma activation_a: "activation_path [''a''] = [''a'', ''activation.json'']"
  by (simp add: activation_path_eq)

lemma agent_root_written: "(agent_fs b)(activation_path [''a''] \<mapsto> File [c]) = agent_fs c"
  by (simp add: activation_a agent_fs_def)

lemma agent_on_disk:
  "state_on_disk agent_json (agent_fs 1) [''a''] (agent_state (Some slot_1) None (Some slot_2))"
  "state_on_disk agent_json (agent_fs 2) [''a''] (agent_state (Some slot_2) (Some slot_1) None)"
  unfolding state_on_disk_def
  by (auto simp: activation_a agent_fs_def agent_json_def agent_states_def state_slots_set
      MAX_ACTIVATION_STATE_BYTES_def intro!: agent_state_valid)

lemma agent_can_write:
  assumes "json_to_vec agent_json (agent_state x y z) = Some [c]"
    "{x, y, z} \<subseteq> {None, Some slot_1, Some slot_2}" "calm w" "wd_fs w = agent_fs b" "wd_clock w = Some t # ts"
  shows "can_write agent_json w [''a''] (agent_state x y z)"
proof -
  have "agent_fs b ([''a''] @ [activation_temporary p t]) = None" for p
    using activation_temporary_plain(4) [of p t] by (simp add: agent_fs_def activation_temporary_def)
  moreover have "validate_state (agent_state x y z) = Inr ()"
    by (rule agent_state_valid) (use assms(2) in \<open>auto simp: state_slots_set\<close>)
  ultimately show ?thesis
    using assms agent_paths(1) [OF refl, of b]
    by (simp add: can_write_def activation_a MAX_ACTIVATION_STATE_BYTES_def agent_fs_def)
qed

lemma agent_activates:
  "\<exists>w. activate_pending sample_lib agent_json (AbsolutePath [''a'']) (sample_world (agent_fs 1))
     = (Inr (agent_state (Some slot_2) (Some slot_1) None), w) \<and>
     calm w \<and> wd_fs w = agent_fs 2 \<and> (\<exists>t ts. wd_clock w = Some t # ts)"
proof -
  have "can_write agent_json (sample_world (agent_fs 1)) [''a''] (agent_state (Some slot_2) (Some slot_1) None)"
    by (rule agent_can_write [OF agent_json_vec(1)]) (simp_all add: sample_world_def calm_def)
  from activate_pending_calm [OF _ _ _ _ this, of "agent_state (Some slot_1) None (Some slot_2)" slot_2 sample_lib]
  have "activate_pending sample_lib agent_json (AbsolutePath [''a'']) (sample_world (agent_fs 1))
     = (Inr (agent_state (Some slot_2) (Some slot_1) None), written agent_json (sample_world (agent_fs 1)) [''a''] (agent_state (Some slot_2) (Some slot_1) None))"
    by (simp add: agent_on_disk agent_slots)
  then show ?thesis
    by (simp add: written_def agent_json_vec agent_root_written) (simp add: sample_world_def)
qed

lemma agent_rolls_back:
  assumes "calm w" "wd_fs w = agent_fs 2" "wd_clock w = Some t # ts"
  shows "\<exists>w'. rollback sample_lib agent_json (AbsolutePath [''a'']) w
     = (Inr (agent_state (Some slot_1) (Some slot_2) None), w')"
proof -
  have "can_write agent_json w [''a''] (agent_state (Some slot_1) (Some slot_2) None)"
    by (rule agent_can_write [OF agent_json_vec(2)]) (use assms in auto)
  from rollback_calm [OF _ _ _ _ this, of "agent_state (Some slot_2) (Some slot_1) None" slot_1 sample_lib]
  show ?thesis
    by (simp add: agent_on_disk agent_slots assms)
qed

lemma agent_recovers:
  "\<exists>w. recover sample_lib agent_json (AbsolutePath [''a'']) (sample_world (agent_fs 1))
     = (Inr (agent_state (Some slot_1) None (Some slot_2)), w) \<and> calm w \<and> wd_fs w = agent_fs 1"
proof -
  have "can_write agent_json (sample_world (agent_fs 1)) [''a''] (agent_state (Some slot_1) None (Some slot_2))"
    by (rule agent_can_write [OF agent_json_vec(3)]) (simp_all add: sample_world_def calm_def)
  from recover_calm [OF _ _ this, of sample_lib]
  have "recover sample_lib agent_json (AbsolutePath [''a'']) (sample_world (agent_fs 1))
      = (Inr (agent_state (Some slot_1) None (Some slot_2)),
         written agent_json (sample_world (agent_fs 1)) [''a''] (agent_state (Some slot_1) None (Some slot_2)))"
    by (simp add: agent_on_disk agent_slots state_slots_set)
  then show ?thesis
    by (simp add: written_def agent_json_vec agent_root_written)
qed

lemma agent_active:
  "\<exists>w. active_target sample_lib agent_json (AbsolutePath [''a'']) (sample_world (agent_fs 1))
       = (Inr [''a'', ''versions'', ''1'', ''agent''], w) \<and> calm w \<and> wd_fs w = agent_fs 1"
proof -
  obtain w where run: "recover sample_lib agent_json (AbsolutePath [''a'']) (sample_world (agent_fs 1))
      = (Inr (agent_state (Some slot_1) None (Some slot_2)), w)" "calm w" "wd_fs w = agent_fs 1"
    using agent_recovers by blast
  have "verify_slot sample_lib [''a''] slot_1 w = (Inr (), w)"
    by (rule verify_slot_calm [OF run(2)]) (simp add: run(3) agent_slots)
  with run agent_paths [OF refl, of 1] show ?thesis
    by (simp add: active_target_def andThen_def canonical_root_calm run_simps calm_query slot_paths)
qed

end
