(* ===== verification/ProtocolProperties.thy ===== *)
theory ProtocolProperties
  imports Fixtures
begin

text \<open>
  Properties of the protocol crate and of \<open>AgentSession\<close>: what is admitted, what the signatures bind,
  what the validators guarantee, how compatibility decides, and the report chain. Each property stands
  after a note with its number; a witness applies it to the inputs of \<open>Fixtures\<close>.
\<close>

section \<open>Admission\<close>

text \<open>C25: \<open>verify_launch_bundle\<close> accepts a bundle exactly when its bytes are canonical; its policy, grant
  and manifest are each a canonical envelope whose claims are valid and were signed, behind the tag of
  their own kind, by the live key of the ring that the envelope names; the grant names this Agent's key,
  this build and the digests of the very policy and manifest bytes of the bundle; all three agree on
  tenant, game and environment, the manifest also on the build; and the Agent is at least the minimum
  version. The result carries, field by field, the identities of the grant, the timing of the policy
  and the manifest.\<close>

theorem launch_bundle_accepted_iff:
  "verify_launch_bundle L input keys now key build version = Inr launch \<longleftrightarrow>
     (\<exists>bundle p g m minimum current.
        canonical (bundle_codec L) input bundle \<and>
        signed_claims L (bytes_of ''certael.agent.policy.v1'' @ [0]) (policy_codec L)
          (bundle_signed_policy bundle) keys now p \<and> validate_policy p now = Inr () \<and>
        signed_claims L (bytes_of ''certael.agent.launch.v1'' @ [0]) (grant_codec L)
          (bundle_signed_launch_grant bundle) keys now g \<and> validate_launch_grant g now = Inr () \<and>
        signed_claims L (bytes_of ''certael.agent.build-manifest.v1'' @ [0]) (manifest_codec L)
          (bundle_signed_build_manifest bundle) keys now m \<and> validate_build_manifest m now = Inr () \<and>
        grant_agent_public_key g = key \<and> grant_build_id g = build \<and> man_build_id m = build \<and>
        {pol_tenant_id p, man_tenant_id m} = {grant_tenant_id g} \<and>
        {pol_game_id p, man_game_id m} = {grant_game_id g} \<and>
        {pol_environment_id p, man_environment_id m} = {grant_environment_id g} \<and>
        grant_policy_digest g = sha256 L (bundle_signed_policy bundle) \<and>
        grant_build_manifest_digest g = sha256 L (bundle_signed_build_manifest bundle) \<and>
        version_parse L (pol_minimum_agent_version p) = Some minimum \<and>
        version_parse L version = Some current \<and> \<not> version_less L current minimum \<and>
        launch =
          \<lparr>launch_session_id = grant_grant_id g, launch_tenant_id = grant_tenant_id g,
           launch_game_id = grant_game_id g, launch_environment_id = grant_environment_id g,
           launch_player_subject = grant_player_subject g, launch_match_id = grant_match_id g,
           launch_build_id = build,
           launch_authoritative_server_id = grant_authoritative_server_id g,
           launch_build_manifest = m,
           launch_build_manifest_digest = grant_build_manifest_digest g,
           launch_heartbeat_seconds = pol_heartbeat_seconds p,
           launch_report_seconds = pol_report_seconds p,
           launch_disconnect_grace_seconds = pol_disconnect_grace_seconds p,
           launch_policy_expires_at_unix = pol_expires_at_unix p,
           launch_grant_expires_at_unix = grant_expires_at_unix g\<rparr>)"
  (is "?accepts = (\<exists>bundle p g m minimum current. ?spec bundle p g m minimum current)")
proof -
  have "launch_admissible L input keys now key build b p g m \<and>
        version_parse L (pol_minimum_agent_version p) = Some minimum \<and>
        version_parse L version = Some current \<and> \<not> version_less L current minimum \<and>
        launch = bind_launch p g m (sha256 L (bundle_signed_build_manifest b))
      \<longleftrightarrow> ?spec b p g m minimum current" for b p g m minimum current
    unfolding launch_admissible_iff launch_binding_iff bind_launch_def POLICY_DOMAIN_def
      LAUNCH_DOMAIN_def BUILD_MANIFEST_DOMAIN_def
    by (auto simp: doubleton_eq_iff)
  then show ?thesis
    by (simp only: bundle_accept_iff)
qed

text \<open>The error that starts the automatic updater, \<open>agent_update_required\<close>, is returned exactly
  for a bundle that is admissible in every respect but the Agent's version: an unsigned or foreign
  bundle cannot start an update.\<close>

theorem launch_update_required_iff:
  "verify_launch_bundle L input keys now key build version
       = Inl (InvalidField ''agent_update_required'') \<longleftrightarrow>
     (\<exists>bundle p g m minimum current.
        launch_admissible L input keys now key build bundle p g m \<and>
        version_parse L (pol_minimum_agent_version p) = Some minimum \<and>
        version_parse L version = Some current \<and> version_less L current minimum)"
  by (rule bundle_update_required_iff)

section \<open>Signed objects\<close>

text \<open>C26: each of the seven verifiers accepts an object exactly when it is authentic and the claims pass the
  verifier's validation. Authentic means that the claims' bytes are between 1 and 65536, decode to the
  result and are its canonical encoding, that the first key of the ring with the object's key id is
  not revoked and its validity holds now, and that this key verifies the signature over exactly the
  verifier's own tag, a zero byte and the claims' bytes. The seven tags are written out.\<close>

theorem signed_objects_accepted_iff:
  "(verify_policy L s K now = Inr p \<longleftrightarrow>
      authentic L (bytes_of ''certael.agent.policy.v1'' @ [0]) (policy_codec L) s K now p \<and>
      validate_policy p now = Inr ()) \<and>
   (verify_launch_grant L s K now = Inr g \<longleftrightarrow>
      authentic L (bytes_of ''certael.agent.launch.v1'' @ [0]) (grant_codec L) s K now g \<and>
      validate_launch_grant g now = Inr ()) \<and>
   (verify_build_manifest L s K now = Inr m \<longleftrightarrow>
      authentic L (bytes_of ''certael.agent.build-manifest.v1'' @ [0]) (manifest_codec L) s K now m \<and>
      validate_build_manifest m now = Inr ()) \<and>
   (verify_game_registration L s K now = Inr r \<longleftrightarrow>
      authentic L (bytes_of ''certael.agent.registration.v1'' @ [0]) (registration_codec L) s K now r \<and>
      validate_game_registration r now = Inr ()) \<and>
   (verify_branding_manifest L s K now = Inr b \<longleftrightarrow>
      authentic L (bytes_of ''certael.agent.branding.v1'' @ [0]) (branding_codec L) s K now b \<and>
      validate_branding b now = Inr ()) \<and>
   (verify_revocation L s K now = Inr v \<longleftrightarrow>
      authentic L (bytes_of ''certael.agent.revocation.v1'' @ [0]) (revocation_codec L) s K now v \<and>
      validate_revocation v now = Inr ()) \<and>
   (verify_compatibility_manifest L s K now = Inr c \<longleftrightarrow>
      authentic L (bytes_of ''certael.compatibility.v1'' @ [0]) (compatibility_codec L) s K now c \<and>
      validate_compatibility_manifest L c now = Inr ())"
proof -
  note iffs = policy_verifier.accepts_iff grant_verifier.accepts_iff manifest_verifier.accepts_iff
    registration_verifier.accepts_iff branding_verifier.accepts_iff revocation_verifier.accepts_iff
    compatibility_verifier.accepts_iff
  show ?thesis
    by (intro conjI iffs [unfolded domain_defs])
qed

text \<open>The bytes that are signed determine the domain and the claims, so a signature made for one
  kind of object is never a signature for another.\<close>

theorem domains_separate:
  assumes "d \<in> set all_domains" and "d' \<in> set all_domains"
    and "signed_message d claims = signed_message d' claims'"
  shows "d = d' \<and> claims = claims'"
proof -
  from assms(1,2) obtain n n' where "d = n @ [0]" "0 \<notin> set n" "d' = n' @ [0]" "0 \<notin> set n'"
    by (meson domain_terminated)
  with assms(3) append_terminator_inj [of 0 n n' claims claims'] show ?thesis
    by (simp add: signed_message_def)
qed

lemma domains_separate_witness: "POLICY_DOMAIN = POLICY_DOMAIN \<and> [1] = [1 :: byte]"
  by (rule domains_separate) (simp_all add: all_domains_def)

text \<open>In a key ring that \<open>VerificationKeyRing::new\<close> made, an id resolves exactly to the bytes of the
  one key with that id, and only while that key is live and not revoked.\<close>

theorem key_ring_resolves:
  assumes "key_ring_new keys = Inr K"
  shows "resolve K key_id now = Inr key \<longleftrightarrow>
    (\<exists>k \<in> set keys. vk_key_id k = key_id \<and> key_live k now \<and> vk_key k = key)"
proof -
  from assms have K: "K = keys" "distinct (map vk_key_id keys)"
    by (auto simp: key_ring_new_ok)
  then show ?thesis
    using find_distinct_key [of vk_key_id keys]
    by (auto simp: resolve_ok dest: find_SomeD)
qed

lemma key_ring_resolves_witness:
  "key_ring_new sample_keys = Inr sample_keys \<and>
   resolve sample_keys ''root-1'' sample_now = Inr sample_root_key"
proof -
  have new: "key_ring_new sample_keys = Inr sample_keys"
    by (simp add: key_ring_new_ok sample_keys_def)
  then show ?thesis
    using key_ring_resolves [OF new, of "''root-1''" sample_now sample_root_key]
    by (simp add: sample_keys_def key_live_def sample_now_def)
qed

text \<open>C27: a launch grant pins everything about a launch but the Agent's version and the time. Two bundles
  that \<open>verify_launch_bundle\<close> accepts and that carry the same grant bytes, whatever the rest of them,
  the key rings, the times and the versions, were accepted for the same Agent key and build, yield the
  same session, tenant, game, environment, player, match, build, server and grant expiry, and have
  policy and manifest bytes with the same SHA-256. The same policy bytes give the same timing and the
  same manifest bytes the same manifest, so a different one of either is a SHA-256 collision.\<close>

theorem launch_grant_pins:
  assumes "verify_launch_bundle L i K now key build version = Inr launch"
    and "verify_launch_bundle L i' K' now' key' build' version' = Inr launch'"
    and "decode (bundle_codec L) i = Some b" and "decode (bundle_codec L) i' = Some b'"
    and "bundle_signed_launch_grant b = bundle_signed_launch_grant b'"
  shows "key = key' \<and> build = build' \<and>
    launch_session_id launch = launch_session_id launch' \<and>
    launch_tenant_id launch = launch_tenant_id launch' \<and>
    launch_game_id launch = launch_game_id launch' \<and>
    launch_environment_id launch = launch_environment_id launch' \<and>
    launch_player_subject launch = launch_player_subject launch' \<and>
    launch_match_id launch = launch_match_id launch' \<and>
    launch_build_id launch = build \<and> launch_build_id launch' = build \<and>
    launch_authoritative_server_id launch = launch_authoritative_server_id launch' \<and>
    launch_grant_expires_at_unix launch = launch_grant_expires_at_unix launch' \<and>
    launch_build_manifest_digest launch = launch_build_manifest_digest launch' \<and>
    sha256 L (bundle_signed_build_manifest b) = launch_build_manifest_digest launch \<and>
    sha256 L (bundle_signed_build_manifest b') = launch_build_manifest_digest launch \<and>
    sha256 L (bundle_signed_policy b) = sha256 L (bundle_signed_policy b') \<and>
    (bundle_signed_policy b = bundle_signed_policy b' \<longrightarrow>
      launch_heartbeat_seconds launch = launch_heartbeat_seconds launch' \<and>
      launch_report_seconds launch = launch_report_seconds launch' \<and>
      launch_disconnect_grace_seconds launch = launch_disconnect_grace_seconds launch' \<and>
      launch_policy_expires_at_unix launch = launch_policy_expires_at_unix launch') \<and>
    (bundle_signed_build_manifest b = bundle_signed_build_manifest b' \<longrightarrow>
      launch_build_manifest launch = launch_build_manifest launch')"
proof -
  from assms(1,3) obtain p g m where
    one: "launch_admissible L i K now key build b p g m"
      "launch = bind_launch p g m (sha256 L (bundle_signed_build_manifest b))"
    by (rule accepted_bundle)
  from assms(2,4) obtain p' g' m' where
    two: "launch_admissible L i' K' now' key' build' b' p' g' m'"
      "launch' = bind_launch p' g' m' (sha256 L (bundle_signed_build_manifest b'))"
    by (rule accepted_bundle)
  have "g = g'"
    using one(1) two(1) assms(5) by (auto simp: launch_admissible_iff intro: signed_claims_unique)
  moreover have "p = p'" if "bundle_signed_policy b = bundle_signed_policy b'"
    using one(1) two(1) that by (auto simp: launch_admissible_iff intro: signed_claims_unique)
  moreover have "m = m'" if "bundle_signed_build_manifest b = bundle_signed_build_manifest b'"
    using one(1) two(1) that by (auto simp: launch_admissible_iff intro: signed_claims_unique)
  moreover note one(1) two(1)
  ultimately show ?thesis
    unfolding one(2) two(2) by (auto simp: launch_admissible_iff launch_binding_iff bind_launch_def)
qed

text \<open>Two accepted bundles with one grant and different policies, in a library whose digest collides on the
  bytes of the two policies.\<close>

definition twin_policy :: AgentPolicyClaimsV1 where
  "twin_policy = sample_policy\<lparr>pol_heartbeat_seconds := 20\<rparr>"

definition twin_bundle :: AgentLaunchBundleV1 where
  "twin_bundle = sample_bundle\<lparr>bundle_signed_policy := [1, 0]\<rparr>"

definition twin_envelope :: signed_object where
  "twin_envelope =
     \<lparr>so_claims = [1, 0], so_signature = sample_root_key @ POLICY_DOMAIN @ [1, 0], so_key_id = ''root-1''\<rparr>"

definition twin_codec :: "bytes \<Rightarrow> 'm \<Rightarrow> bytes \<Rightarrow> 'm \<Rightarrow> 'm codec" where
  "twin_codec one m two m' =
     \<lparr>encode_to_vec = (\<lambda>x. if x = m then one else two),
      decode = [one \<mapsto> m, two \<mapsto> m']\<rparr>"

definition twin_lib :: "nat lib" where
  "twin_lib = sample_lib
     \<lparr>policy_codec := twin_codec [1] sample_policy [1, 0] twin_policy,
      bundle_codec := twin_codec [20] sample_bundle [21] twin_bundle,
      signed_codec := sample_signed_codec
        \<lparr>decode := (decode sample_signed_codec)([1, 0] \<mapsto> twin_envelope)\<rparr>\<rparr>"

lemma twin_lib_simps:
  "policy_codec twin_lib = twin_codec [1] sample_policy [1, 0] twin_policy"
  "bundle_codec twin_lib = twin_codec [20] sample_bundle [21] twin_bundle"
  "grant_codec twin_lib = tag_codec 2 sample_grant" "manifest_codec twin_lib = tag_codec 3 sample_manifest"
  "signed_codec twin_lib = sample_signed_codec\<lparr>decode := (decode sample_signed_codec)([1, 0] \<mapsto> twin_envelope)\<rparr>"
  "sha256 twin_lib = sample_sha" "sig_from_slice twin_lib = Some" "vk_verify twin_lib = (\<lambda>k m s. s = k @ m)"
  "version_parse twin_lib = sample_version" "version_less twin_lib = (<)"
  by (simp_all add: twin_lib_def) (simp_all add: sample_lib_def)

lemma twin_neq: "twin_policy \<noteq> sample_policy" "twin_bundle \<noteq> sample_bundle"
  by (auto simp: twin_policy_def twin_bundle_def sample_policy_def sample_bundle_def)

lemma twin_key:
  "ring_key sample_keys ''root-1'' sample_now
     \<lparr>vk_key_id = ''root-1'', vk_key = sample_root_key, vk_not_before_unix = 1600000000,
      vk_not_after_unix = 1800000000, vk_revoked = False\<rparr>"
  by (simp add: ring_key_iff sample_keys_def key_live_def sample_now_def)

lemma twin_signed:
  "signed_claims twin_lib POLICY_DOMAIN (policy_codec twin_lib) [1] sample_keys sample_now sample_policy"
  "signed_claims twin_lib POLICY_DOMAIN (policy_codec twin_lib) [1, 0] sample_keys sample_now twin_policy"
  "signed_claims twin_lib LAUNCH_DOMAIN (grant_codec twin_lib) [2] sample_keys sample_now sample_grant"
  "signed_claims twin_lib BUILD_MANIFEST_DOMAIN (manifest_codec twin_lib) [3] sample_keys sample_now sample_manifest"
proof -
  note defs = signed_claims_def authentic_def canonical_def twin_lib_simps twin_codec_def tag_codec_def
    sample_signed_codec_def twin_envelope_def sample_envelope_def twin_neq
  show "signed_claims twin_lib POLICY_DOMAIN (policy_codec twin_lib) [1] sample_keys sample_now sample_policy"
    using twin_key by (auto simp: defs)
  show "signed_claims twin_lib POLICY_DOMAIN (policy_codec twin_lib) [1, 0] sample_keys sample_now twin_policy"
    using twin_key by (auto simp: defs)
  show "signed_claims twin_lib LAUNCH_DOMAIN (grant_codec twin_lib) [2] sample_keys sample_now sample_grant"
    using twin_key by (auto simp: defs)
  show "signed_claims twin_lib BUILD_MANIFEST_DOMAIN (manifest_codec twin_lib) [3] sample_keys sample_now
      sample_manifest"
    using twin_key by (auto simp: defs)
qed

lemma twin_valid: "validate_policy twin_policy sample_now = Inr ()"
  by (simp add: validate_policy_def twin_policy_def sample_policy_def lexical_defs mode_try_from_def)

lemma twin_collision: "sample_sha [1, 0] = sample_sha [1]"
  by (simp add: sample_sha_def numeral_eq_Suc)

lemma twin_accepted:
  "verify_launch_bundle twin_lib [20] sample_keys sample_now sample_agent_key sample_build_id AGENT_VERSION
     = Inr (bind_launch sample_policy sample_grant sample_manifest (sample_sha [3]))" (is ?one)
  "verify_launch_bundle twin_lib [21] sample_keys sample_now sample_agent_key sample_build_id ''0.1.0''
     = Inr (bind_launch twin_policy sample_grant sample_manifest (sample_sha [3]))" (is ?two)
proof -
  have "launch_admissible twin_lib [20] sample_keys sample_now sample_agent_key sample_build_id
      sample_bundle sample_policy sample_grant sample_manifest"
    using twin_signed sample_valid
    by (simp add: launch_admissible_iff launch_binding_iff sample_bundle_def canonical_def twin_lib_simps
        twin_codec_def)
      (simp add: sample_policy_def sample_grant_def sample_manifest_def)
  then show ?one
    unfolding bundle_accept_iff
    by (intro exI [of _ sample_bundle] exI [of _ sample_policy] exI [of _ sample_grant]
        exI [of _ sample_manifest] exI [of _ 1] exI [of _ 4])
      (simp add: twin_lib_simps sample_bundle_def, simp add: sample_policy_def sample_version_def AGENT_VERSION_def)
  have "launch_admissible twin_lib [21] sample_keys sample_now sample_agent_key sample_build_id
      twin_bundle twin_policy sample_grant sample_manifest"
    using twin_signed sample_valid twin_valid twin_neq
    by (simp add: launch_admissible_iff launch_binding_iff twin_bundle_def sample_bundle_def canonical_def
        twin_lib_simps twin_codec_def twin_collision)
      (simp add: twin_policy_def sample_policy_def sample_grant_def sample_manifest_def)
  then show ?two
    unfolding bundle_accept_iff
    by (intro exI [of _ twin_bundle] exI [of _ twin_policy] exI [of _ sample_grant]
        exI [of _ sample_manifest] exI [of _ 1] exI [of _ 1])
      (simp add: twin_lib_simps twin_bundle_def sample_bundle_def, simp add: twin_policy_def sample_policy_def sample_version_def)
qed

lemma launch_grant_pins_witness:
  "\<exists>one two. verify_launch_bundle twin_lib [20] sample_keys sample_now sample_agent_key sample_build_id
       AGENT_VERSION = Inr one \<and>
     verify_launch_bundle twin_lib [21] sample_keys sample_now sample_agent_key sample_build_id ''0.1.0''
       = Inr two \<and> one \<noteq> two \<and> launch_session_id one = launch_session_id two \<and>
     sha256 twin_lib (bundle_signed_policy sample_bundle) = sha256 twin_lib (bundle_signed_policy twin_bundle)"
proof -
  have "decode (bundle_codec twin_lib) [20] = Some sample_bundle"
    "decode (bundle_codec twin_lib) [21] = Some twin_bundle"
    by (simp_all add: twin_lib_simps twin_codec_def)
  note launch_grant_pins [OF twin_accepted this]
  moreover have "bundle_signed_launch_grant sample_bundle = bundle_signed_launch_grant twin_bundle"
    by (simp add: twin_bundle_def)
  moreover have "bind_launch sample_policy sample_grant sample_manifest d
      \<noteq> bind_launch twin_policy sample_grant sample_manifest d" for d
    by (simp add: bind_launch_def twin_policy_def sample_policy_def)
  ultimately show ?thesis
    using twin_accepted by blast
qed

section \<open>Validators\<close>

text \<open>C28: a path that \<open>safe_relative_path\<close> accepts never leaves the directory it is joined to. After any
  number of its components the path names something below that directory, and at the end something
  other than the directory, both where the slash alone separates and an absolute path replaces the
  directory (Unix) and where either slash separates, a leading one keeps only the drive and a drive
  letter replaces the directory (Windows).\<close>

theorem safe_relative_path_stays:
  assumes "safe_relative_path p"
  shows "(\<exists>below. resolve_unix base p n = base @ below \<and> (0 < n \<longrightarrow> below \<noteq> [])) \<and>
    (\<exists>below. resolve_windows base p n = base @ below \<and> (0 < n \<longrightarrow> below \<noteq> []))"
proof -
  have stays: "\<exists>below. lex_resolve base (take n (split_on sep p)) = base @ below \<and> (0 < n \<longrightarrow> below \<noteq> [])"
    if "\<And>c. sep c \<Longrightarrow> c = CHR ''/'' \<or> c = CHR 0x5C" for sep
    using lex_resolve_normal [OF list_all_take [OF safe_relative_path_pieces [OF assms that]]] by auto
  note start = safe_relative_path_start [OF assms]
  show ?thesis
  proof
    show "\<exists>below. resolve_unix base p n = base @ below \<and> (0 < n \<longrightarrow> below \<noteq> [])"
      using stays [of "\<lambda>c. c = CHR ''/''"] start(1) by (simp add: resolve_unix_def)
    show "\<exists>below. resolve_windows base p n = base @ below \<and> (0 < n \<longrightarrow> below \<noteq> [])"
      using stays [of "\<lambda>c. c = CHR ''/'' \<or> c = CHR 0x5C"] start unfolding resolve_windows_def by auto
  qed
qed

lemma safe_relative_path_stays_witness:
  "safe_relative_path ''bin/game.exe'' \<and>
   (\<exists>below. resolve_windows [''C:'', ''games''] ''bin/game.exe'' 2 = [''C:'', ''games''] @ below \<and> below \<noteq> []) \<and>
   resolve_windows [''C:'', ''games''] ''bin/game.exe'' 2 = [''C:'', ''games'', ''bin'', ''game.exe'']"
proof -
  have "safe_relative_path ''bin/game.exe''"
    by (simp add: safe_relative_path_def starts_with_def is_separator_def)
  with safe_relative_path_stays [OF this, of "[''C:'', ''games'']" 2] show ?thesis
    by (simp add: resolve_windows_def)
qed

text \<open>In an accepted build manifest no two entries name the same file, even on a file system that
  ignores ASCII case, and every entry is a safe relative path with a 32-byte digest.\<close>

theorem build_manifest_unambiguous:
  assumes "validate_build_manifest c now = Inr ()" and "i < length (man_files c)" and "j < i"
  shows "\<not> eq_ignore_ascii_case (bf_path (man_files c ! i)) (bf_path (man_files c ! j)) \<and>
    safe_relative_path (bf_path (man_files c ! i)) \<and> length (bf_sha256 (man_files c ! i)) = 32"
  using validate_build_manifest_files [OF assms(1)] assms(2,3)
  by (simp add: eq_ignore_ascii_case_def distinct_conv_nth)

definition two_files :: BuildManifestClaimsV1 where
  "two_files = sample_manifest\<lparr>man_files :=
     [\<lparr>bf_path = ''game'', bf_size = 1, bf_sha256 = sample_sha [5]\<rparr>,
      \<lparr>bf_path = ''data'', bf_size = 1, bf_sha256 = sample_sha [6]\<rparr>]\<rparr>"

lemma two_files_valid: "validate_build_manifest two_files sample_now = Inr ()"
  using sample_build_identifier
  by (simp add: validate_build_manifest_def two_files_def sample_manifest_def lexical_defs
      to_ascii_lowercase_def ascii_lower_def)

lemma build_manifest_unambiguous_witness:
  "\<not> eq_ignore_ascii_case (bf_path (man_files two_files ! 1)) (bf_path (man_files two_files ! 0))"
  using build_manifest_unambiguous [OF two_files_valid, of 1 0] by (simp add: two_files_def)

text \<open>A launch grant issued after 1970 lives for at most 120 seconds, is not issued more than 30
  seconds in the future, and so expires within 150 seconds of the check.\<close>

theorem launch_grant_short_lived:
  assumes "validate_launch_grant c now = Inr ()" and "0 \<le> sint (grant_issued_at_unix c)"
    and "sint now < 2 ^ 63 - 30"
  shows "sint (grant_expires_at_unix c) \<le> sint (grant_issued_at_unix c) + 120 \<and>
    sint (grant_issued_at_unix c) \<le> sint now + 30 \<and>
    sint now < sint (grant_expires_at_unix c) \<and> sint (grant_expires_at_unix c) \<le> sint now + 150"
proof -
  have "sint (grant_expires_at_unix c - grant_issued_at_unix c)
      = sint (grant_expires_at_unix c) - sint (grant_issued_at_unix c)"
    using validate_launch_grant_ok(4) [OF assms(1)] assms(2) sint_bounds64 [of "grant_expires_at_unix c"]
    by (intro sint_sub_exact) simp_all
  with validate_launch_grant_ok(3-6) [OF assms(1)] now_plus_30 [OF assms(3)] show ?thesis
    by simp
qed

lemma launch_grant_short_lived_witness:
  "sint (grant_expires_at_unix sample_grant) \<le> sint sample_now + 150"
  using launch_grant_short_lived [OF sample_valid(2)] by (simp add: sample_grant_def sample_now_def)

definition long_lived_grant :: AgentLaunchGrantClaimsV1 where
  "long_lived_grant =
     sample_grant\<lparr>grant_issued_at_unix := 0x8000000000000000, grant_expires_at_unix := 0x4000000000000000\<rparr>"

text \<open>The hypothesis of the bound above, an issue time after 1970, is
  needed. The subtraction of the two times wraps, so a grant
  whose issue time is far enough in the past passes the 120-second check and stays valid for
  more than a thousand million years.\<close>

theorem launch_grant_lifetime_overflow:
  "validate_launch_grant long_lived_grant sample_now = Inr () \<and>
   2 ^ 62 < sint (grant_expires_at_unix long_lived_grant) - sint (grant_issued_at_unix long_lived_grant) \<and>
   2 ^ 62 - 2 ^ 31 < sint (grant_expires_at_unix long_lived_grant) - sint sample_now"
  using sample_build_identifier
  by (simp add: validate_launch_grant_def long_lived_grant_def sample_grant_def sample_agent_key_def
      lexical_defs)

text \<open>An accepted game registration only runs what it registered: a repair executable is one of the
  registered files (ignoring case and the kind of separator), arguments come only with the executable
  or the permission they belong to, and no two registered files have the same path.\<close>

theorem registration_runs_registered_files:
  assumes "validate_game_registration c now = Inr ()"
  shows "(reg_repair_executable_relative_path c \<noteq> [] \<longrightarrow>
      safe_relative_path (reg_repair_executable_relative_path c) \<and>
      (\<exists>f \<in> set (reg_registered_files c). registration_path_key (rgf_relative_path f)
         = registration_path_key (reg_repair_executable_relative_path c))) \<and>
    (reg_repair_executable_relative_path c = [] \<longrightarrow> reg_repair_arguments c = []) \<and>
    (\<not> reg_offline_play_allowed c \<longrightarrow> reg_offline_arguments c = []) \<and>
    distinct (map (\<lambda>f. registration_path_key (rgf_relative_path f)) (reg_registered_files c))"
  using assms
  by (auto simp: validate_game_registration_def bindE_ok register_paths_ok split: if_splits)

lemma registration_runs_registered_files_witness:
  "\<exists>f \<in> set (reg_registered_files sample_registration). registration_path_key (rgf_relative_path f)
     = registration_path_key (reg_repair_executable_relative_path sample_registration)"
  using registration_runs_registered_files [OF sample_valid(4)] by (simp add: sample_registration_def)

section \<open>Compatibility\<close>

text \<open>With a manifest that \<open>verify_compatibility_manifest\<close> accepted, \<open>evaluate_compatibility\<close> always
  returns a decision: the two \<open>expect\<close> calls on the rule's versions are never reached with an invalid
  version, whatever the product, version, protocol and time.\<close>

theorem compatibility_never_panics:
  assumes "verify_compatibility_manifest L s K vtime = Inr m"
  shows "\<exists>d. evaluate_compatibility L (Some m) product version protocol now = Some d"
  using assms evaluate_total compatibility_verifier.accepts_iff by blast

lemma compatibility_never_panics_witness:
  "\<exists>d. evaluate_compatibility sample_lib (Some sample_compatibility) Agent ''0.1.0'' 1 sample_now = Some d"
  by (rule compatibility_never_panics [OF sample_verified(7)])

text \<open>A new protected session is allowed exactly with a live manifest, for a version that parses, is
  not revoked and is not below the minimum of its product's rule, on a protocol version inside the
  rule's range. Without a manifest, or with an expired one, it is never allowed.\<close>

theorem compatibility_allows_iff:
  "(\<exists>d. evaluate_compatibility L mo product version protocol now = Some d
      \<and> allows_new_protected_session d) \<longleftrightarrow>
   (\<exists>m rule current minimum recommended.
      mo = Some m \<and> manifest_live m now \<and> version_parse L version = Some current \<and>
      \<not> version_revoked m product version now \<and> product_rule m product = Some rule \<and>
      rule_minimum_protocol_version rule \<le> protocol \<and>
      protocol \<le> rule_maximum_protocol_version rule \<and>
      version_parse L (rule_minimum_supported_version rule) = Some minimum \<and>
      version_parse L (rule_recommended_version rule) = Some recommended \<and>
      \<not> version_less L current minimum)"
  by (rule evaluate_allows_iff)

text \<open>A revocation is final. Once a version is reported as revoked, every later evaluation against
  the same manifest, for any protocol version, reports it as revoked or the manifest as expired, and
  allows no session.\<close>

theorem compatibility_revocation_final:
  assumes "evaluate_compatibility L (Some m) product version protocol now = Some d"
    and "dec_state d = Revoked" and "sint now \<le> sint now'"
  shows "\<exists>d'. evaluate_compatibility L (Some m) product version protocol' now' = Some d' \<and>
    dec_state d' = (if manifest_live m now' then Revoked else Indeterminate) \<and>
    \<not> allows_new_protected_session d'"
proof -
  from assms(1,2) have "version_parse L version \<noteq> None" and revoked: "version_revoked m product version now"
    by (auto simp: evaluate_compatibility_def evaluate_rule_def split: option.splits if_splits)
  moreover have "version_revoked m product version now'"
    using revoked assms(3) by (fastforce simp: version_revoked_def list_ex_iff)
  ultimately show ?thesis
    by (auto simp: evaluate_compatibility_def allows_iff)
qed

lemma compatibility_revocation_final_witness:
  "\<exists>d. evaluate_compatibility sample_lib (Some sample_compatibility) Agent ''0.2.0'' 1 (sample_now + 9)
     = Some d \<and> \<not> allows_new_protected_session d"
proof -
  have "evaluate_compatibility sample_lib (Some sample_compatibility) Agent ''0.2.0'' 1 sample_now
      = Some (compatibility_decision Revoked ''VERSION_REVOKED'' (Some ''0.2.0'') 4)"
    by (simp add: evaluate_compatibility_def sample_compatibility_def manifest_live_def sample_now_def
        sample_version_def version_revoked_def product_rule_def)
  from compatibility_revocation_final [OF this, of "sample_now + 9" 1] show ?thesis
    by (auto simp: sample_now_def)
qed

section \<open>Reports\<close>

text \<open>The reports an activated session makes, over any sequence of challenges, accepted or refused,
  are one chain: they are numbered 1, 2, 3, and so on, and each carries the digest of the one before
  it, the first 32 zero bytes.\<close>

theorem session_reports_chained:
  assumes "activate L key grant policy sp sid = Inr s"
  shows "report_chain (report_digest L) 1 (replicate 32 0)
    (fst (run_producer (session_produce L) s requests))"
  using session_producer.run_chain [of L s requests] activate_ok(1,2) [OF assms] by simp

definition sample_session :: AgentSession where
  "sample_session =
     \<lparr>ses_signing_key = sample_agent_key, ses_grant = sample_grant, ses_policy = sample_policy,
      ses_agent_session_id = ''grant'', ses_sequence = 0, ses_previous_digest = replicate 32 0,
      ses_last_challenge_digest = None\<rparr>"

lemma sample_activated:
  "activate sample_lib sample_agent_key sample_grant sample_policy (sample_envelope POLICY_DOMAIN 1) ''grant''
     = Inr sample_session"
  by (simp add: activate_def sample_session_def sample_envelope_def)
    (simp add: sample_grant_def sample_policy_def)

lemma sample_reported:
  "\<exists>r t. create_report sample_lib sample_session (sample_challenge n) sample_now (sample_sha [5]) [] = (Inr r, t)"
  using sample_build_identifier
  by (simp add: create_report_def sample_session_def session_report_def sample_challenge_def
      sample_now_def checked_succ_def sign_report_def signing_bytes_def MAX_MESSAGE_BYTES_def
      validate_report_def PROTOCOL_VERSION_def sample_grant_def is_identifier_def)

lemma session_reports_chained_witness:
  "\<exists>r. fst (run_producer (session_produce sample_lib) sample_session
         [(sample_challenge 1, sample_now, sample_sha [5], [])]) = [r] \<and>
     report_chain (report_digest sample_lib) 1 (replicate 32 0) [r]"
proof -
  obtain r t where "create_report sample_lib sample_session (sample_challenge 1) sample_now (sample_sha [5]) []
      = (Inr r, t)"
    using sample_reported by blast
  then have "fst (run_producer (session_produce sample_lib) sample_session
      [(sample_challenge 1, sample_now, sample_sha [5], [])]) = [r]"
    by (simp add: session_produce_def)
  with session_reports_chained [OF sample_activated, of "[(sample_challenge 1, sample_now, sample_sha [5], [])]"]
  show ?thesis by auto
qed

text \<open>The challenge a session answered last is refused when it is sent again, whatever the time and
  the evidence, and the refusal changes nothing.\<close>

theorem session_refuses_replay:
  assumes "create_report L s challenge now exe obs = (Inr r, t)"
  shows "create_report L t challenge now' exe' obs' = (Inl BadChallenge, t)"
  using assms by (rule create_report_ok) (simp add: create_report_def Let_def)

lemma session_refuses_replay_witness:
  "\<exists>r t. create_report sample_lib sample_session (sample_challenge 1) sample_now (sample_sha [5]) [] = (Inr r, t) \<and>
     create_report sample_lib t (sample_challenge 1) sample_now (sample_sha [5]) [] = (Inl BadChallenge, t)"
  using sample_reported session_refuses_replay by blast

text \<open>A call of \<open>create_report\<close> that fails, for any reason, leaves the session as it was, so the chain
  never skips a number and never refers to a report that was not returned.\<close>

theorem session_error_keeps_state:
  assumes "fst (create_report L s challenge now exe obs) = Inl e"
  shows "snd (create_report L s challenge now exe obs) = s"
  using assms by (rule create_report_error_keeps)

lemma session_error_keeps_state_witness:
  "create_report sample_lib sample_session (sample_challenge 1) 1700000060 [] [] = (Inl BadChallenge, sample_session)"
proof -
  have "fst (create_report sample_lib sample_session (sample_challenge 1) 1700000060 [] []) = Inl BadChallenge"
    by (simp add: create_report_def sample_session_def sample_challenge_def)
  with session_error_keeps_state [OF this] show ?thesis by (simp add: prod_eq_iff)
qed

text \<open>A report that \<open>sign_report\<close> returns is the report it was given but for the signature, and
  \<open>verify_report\<close> accepts it under the verifying key, provided the signature scheme verifies its own
  signatures.\<close>

theorem signed_report_verifies:
  assumes "signs_correctly L key" and "sign_report L r key = Inr s"
  shows "verify_report L s (sk_verifying L key) = Inr () \<and> s\<lparr>rep_signature := []\<rparr> = r\<lparr>rep_signature := []\<rparr>"
  using sign_then_verify [OF assms] assms(2) by (auto simp: sign_report_ok)

lemma signed_report_verifies_witness:
  "\<exists>s. sign_report sample_lib (session_report sample_session 1 (sample_challenge 1) sample_now (sample_sha [5]) [])
       sample_agent_key = Inr s \<and> verify_report sample_lib s sample_agent_key = Inr ()"
proof -
  have "\<exists>s. sign_report sample_lib
      (session_report sample_session 1 (sample_challenge 1) sample_now (sample_sha [5]) []) sample_agent_key = Inr s"
    using sample_build_identifier
    by (simp add: sample_session_def session_report_def sample_challenge_def sign_report_def
        signing_bytes_def MAX_MESSAGE_BYTES_def validate_report_def PROTOCOL_VERSION_def sample_grant_def
        is_identifier_def)
  with signed_report_verifies [OF sample_signs] show ?thesis by fastforce
qed

end
