(* ===== verification/TransportProperties.thy ===== *)
theory TransportProperties
  imports Fixtures
begin

text \<open>
  Properties of the two ends of the channel between the game and the Agent: the frames of the IPC crate
  and the probe's C interface.
\<close>

section \<open>Frames\<close>

text \<open>C29: a list of frames written without an error is exactly what the reader gets back, frame by
  frame, and the reader stops right where the list ends, whatever bytes follow.\<close>

theorem frames_roundtrip:
  assumes "ipc.put_list w fs = (Inr u, w')"
  shows "\<exists>bs. w_out w' = w_out w @ bs \<and> (\<forall>rest. ipc.get_list (length fs) (bs @ rest) = (Inr fs, rest))"
  using assms by (rule ipc.put_list_get_list)

lemma frames_roundtrip_witness:
  "\<exists>bs. ipc.get_list 2 (bs @ [9]) =
     (Inr [\<lparr>fr_message_type = Challenge, fr_payload = [1, 2]\<rparr>,
           \<lparr>fr_message_type = Shutdown, fr_payload = []\<rparr>], [9])"
proof -
  obtain w' where "ipc.put_list \<lparr>w_out = [], w_room = Some 50, w_flush_ok = True\<rparr>
      [\<lparr>fr_message_type = Challenge, fr_payload = [1, 2]\<rparr>,
       \<lparr>fr_message_type = Shutdown, fr_payload = []\<rparr>] = (Inr (), w')"
    by (simp add: write_frame_def write_all_def flush_def MAX_FRAME_PAYLOAD_def HEADER_LENGTH_def)
  from frames_roundtrip [OF this] show ?thesis
    by (auto simp: numeral_2_eq_2)
qed

text \<open>The wire format is canonical. \<open>read_frame\<close> returns a frame exactly when the input starts with
  the bytes \<open>write_frame\<close> produces for it and its payload is within the limit, and it leaves exactly the
  bytes after them.\<close>

theorem frame_canonical:
  "read_frame r = (Inr f, rest) \<longleftrightarrow>
     r = frame_bytes f @ rest \<and> length (fr_payload f) \<le> MAX_FRAME_PAYLOAD"
  by (rule read_frame_ok)

section \<open>The probe\<close>

text \<open>C30: no sequence of calls to \<open>certael_agent_channel_read\<close>, with buffers of any size, loses,
  duplicates or reorders a frame: the frames handed over are a prefix of the ones sent, with their
  types and payloads, and the channel still holds exactly the others.\<close>

theorem probe_delivers_in_order:
  assumes "channel_holds c fs" and "os \<noteq> OtherTarget"
    and "\<forall>f \<in> set fs. length (fr_payload f) \<le> MAX_FRAME_PAYLOAD"
    and "read_run os c bufs = (ds, c')"
  shows "ds = map frame_pair (take (length ds) fs) \<and> length ds \<le> length fs \<and>
    channel_holds c' (drop (length ds) fs)"
  using assms by (rule read_run_prefix)

definition sample_channel :: CertaelAgentChannel where
  "sample_channel =
     \<lparr>ch_poisoned = False, ch_read_handle = 3, ch_write_handle = 3,
      ch_reader = frame_bytes \<lparr>fr_message_type = Challenge, fr_payload = [1, 2]\<rparr>,
      ch_writer = \<lparr>w_out = [], w_room = None, w_flush_ok = True\<rparr>, ch_pending = None\<rparr>"

lemma sample_channel_holds:
  "channel_holds sample_channel [\<lparr>fr_message_type = Challenge, fr_payload = [1, 2]\<rparr>]"
  by (simp add: channel_holds_def sample_channel_def)

text \<open>The first buffer is too small, the second one gets the frame.\<close>

lemma probe_delivers_in_order_witness:
  "fst (read_run Unix sample_channel [[0], [0, 0, 0]]) = [(3, [1, 2])] \<and>
   channel_holds (snd (read_run Unix sample_channel [[0], [0, 0, 0]])) []"
proof -
  have frame: "read_frame (ch_reader sample_channel) = (Inr \<lparr>fr_message_type = Challenge, fr_payload = [1, 2]\<rparr>, [])"
    using read_frame_bytes [of "\<lparr>fr_message_type = Challenge, fr_payload = [1, 2]\<rparr>" "[]"]
    by (simp add: sample_channel_def MAX_FRAME_PAYLOAD_def)
  have run: "fst (read_run Unix sample_channel [[0], [0, 0, 0]]) = [(3, [1, 2])]"
    using frame [unfolded sample_channel_def]
    by (simp add: read_call_def certael_agent_channel_read_def deliver_pending_def Let_def delivered_def
        split_beta sample_channel_def)
  obtain c' where "read_run Unix sample_channel [[0], [0, 0, 0]] = ([(3, [1, 2])], c')"
    using run by (metis prod.collapse)
  with probe_delivers_in_order [OF sample_channel_holds _ _ this] show ?thesis
    by (simp add: MAX_FRAME_PAYLOAD_def)
qed

text \<open>A write that returns \<open>Ok\<close> put exactly one frame on the wire, with the type and the payload
  bytes the game passed; the Agent's \<open>read_frame\<close> gets that frame and leaves what follows.\<close>

theorem probe_write_delivers:
  assumes "certael_agent_channel_write os (Some c) ty p n = (Ok, Some d)"
  shows "\<exists>bs kind. w_out (ch_writer d) = w_out (ch_writer c) @ bs \<and> ty = message_type_u8 kind \<and>
    (\<forall>rest. read_frame (bs @ rest) =
       (Inr \<lparr>fr_message_type = kind, fr_payload = (case p of Some b \<Rightarrow> take n b | None \<Rightarrow> [])\<rparr>, rest))"
  using assms by (rule channel_write_delivers)

lemma probe_write_delivers_witness:
  "\<exists>d bs kind. certael_agent_channel_write Unix (Some sample_channel) 1 (Some [7, 8]) 2 = (Ok, Some d) \<and>
     w_out (ch_writer d) = bs \<and> read_frame (bs @ []) = (Inr \<lparr>fr_message_type = kind, fr_payload = [7, 8]\<rparr>, [])"
proof -
  have "\<exists>d. certael_agent_channel_write Unix (Some sample_channel) 1 (Some [7, 8]) 2 = (Ok, Some d) \<and>
      w_out (ch_writer sample_channel) = []"
    by (simp add: certael_agent_channel_write_def message_type_try_from_def MAX_FRAME_PAYLOAD_def Let_def
        sample_channel_def write_frame_def write_all_def flush_def)
  then obtain d where d: "certael_agent_channel_write Unix (Some sample_channel) 1 (Some [7, 8]) 2 = (Ok, Some d)"
    "w_out (ch_writer sample_channel) = []"
    by blast
  from probe_write_delivers [OF d(1)] d show ?thesis
    by (metis append_Nil option.case(2) take_Suc_Cons numeral_2_eq_2 take0)
qed

end
