(* ===== verification/Staging.thy ===== *)
theory Staging
  imports Progress
begin

text \<open>
  Updating from a TUF repository with \<open>verify_stage_and_install_automatic\<close> of
  \<^verbatim>\<open>crates/certael-agent-updater/src/lib.rs\<close>: what the client promises, and what a successful update has done,
  and that the next command finds the state an operation has stored.
\<close>

text \<open>
  What the TUF client promises: \<open>tuf_digest\<close> is the SHA-256 of a target in the signed metadata of a repository,
  and \<open>save_target\<close> succeeds only when the file it wrote has that digest.
\<close>

definition saves_verified :: "'v lib \<Rightarrow> 'r tough \<Rightarrow> ('r \<Rightarrow> string \<Rightarrow> string) \<Rightarrow> bool" where
  "saves_verified L T tuf_digest \<longleftrightarrow>
     (\<forall>repository target dir w w'. tuf_save_target T repository target dir w = (Inr (), w') \<longrightarrow>
        (\<exists>bs. read_file (wd_fs w') (join_path dir (tuf_resolved T target)) = Some bs \<and>
           hex_encode (sha256 L bs) = tuf_digest repository target))"

definition names_release ::
    "'r tough \<Rightarrow> 'r \<Rightarrow> UpdateConfig \<Rightarrow> string \<Rightarrow> string \<Rightarrow> string \<Rightarrow> string \<Rightarrow> bool"
where
  "names_release T repository update target version channel platform \<longleftrightarrow>
     tuf_target_name T (upd_target_name update) = Some target \<and>
     (\<exists>candidate custom. (candidate, custom) \<in> set (tuf_targets T repository) \<and>
        tuf_same_target T candidate target \<and>
        custom ''version'' = Some version \<and> custom ''channel'' = Some channel \<and>
        custom ''platform'' = Some platform)"

lemma custom_string_ok: "custom_string custom name = Inr s \<longleftrightarrow> custom name = Some s \<and> safe_component s"
  by (auto simp: custom_string_def split: option.splits)

lemma target_found:
  "map_option snd (find (\<lambda>(candidate, _). same candidate target) xs) = Some custom \<Longrightarrow>
     \<exists>candidate. (candidate, custom) \<in> set xs \<and> same candidate target"
  by (induction xs) (auto split: if_splits)

lemma verify_and_stage_release_ok:
  assumes "verify_and_stage_release T update w = (Inr release, w')"
  shows "\<exists>root_bytes repository target w1 w2 w3. validate update = Inr () \<and>
    read_file (wd_fs w) (path_pieces (upd_trusted_root update)) = Some root_bytes \<and>
    tuf_load T root_bytes update w1 = (Inr repository, w2) \<and>
    names_release T repository update target (rel_version release) (rel_channel release) (rel_platform release) \<and>
    tuf_save_target T repository target (path_pieces (upd_staging_directory update)) w3 = (Inr (), w') \<and>
    rel_path release = join_path (path_pieces (upd_staging_directory update)) (tuf_resolved T target)"
proof -
  let ?root = "path_pieces (upd_trusted_root update)"
  let ?continue = "\<lambda>contents. if contents = [] \<or> MAX_TRUSTED_ROOT_BYTES < length contents then throw TrustedRoot
    else andThen (query TrustedRoot (\<lambda>fs. read_file fs ?root)) (\<lambda>_. ret ())"
  from assms obtain node w1 where valid: "validate update = Inr ()"
    and node: "query TrustedRoot (\<lambda>fs. stat fs ?root) w = (Inr node, w1)"
    unfolding verify_and_stage_release_def by (auto simp: andThen_ok lift_def)
  from assms node obtain contents where "node = File contents"
    by (cases node) (auto simp: verify_and_stage_release_def andThen_def lift_def throw_def valid)
  with assms node obtain root_bytes w2 w3 w4 repository w5 target custom where
    bytes: "query TrustedRoot (\<lambda>fs. read_file fs ?root) w1 = (Inr root_bytes, w2)" and
    load: "tuf_load T root_bytes update w4 = (Inr repository, w5)" and
    target: "tuf_target_name T (upd_target_name update) = Some target" and
    custom: "map_option snd (find (\<lambda>(candidate, _). tuf_same_target T candidate target) (tuf_targets T repository)) = Some custom" and
    version: "custom_string custom ''version'' = Inr (rel_version release)" and
    channel: "custom_string custom ''channel'' = Inr (rel_channel release)" and
    platform: "custom_string custom ''platform'' = Inr (rel_platform release)" and
    save: "tuf_save_target T repository target (path_pieces (upd_staging_directory update)) w5 = (Inr (), w')" and
    path: "rel_path release = join_path (path_pieces (upd_staging_directory update)) (tuf_resolved T target)"
    unfolding verify_and_stage_release_def
    by (auto simp: andThen_ok lift_def throw_def ret_def ok_or_ok split: if_splits)
  from reads_ok [OF reads_query node] reads_ok [OF reads_query bytes] have
    "read_file (wd_fs w) ?root = Some root_bytes" by auto
  with valid load save path target target_found [where same = "tuf_same_target T" and target = target, OF custom] version channel platform show ?thesis
    unfolding names_release_def custom_string_ok by blast
qed

lemma automatic_update_ok:
  assumes "saves_verified L T tuf_digest"
    and "verify_stage_and_install_automatic L J T update install_root name channel platform w = (Inr q, w')"
  shows "\<exists>root_bytes repository target version w1 w2.
    read_file (wd_fs w) (path_pieces (upd_trusted_root update)) = Some root_bytes \<and>
    tuf_load T root_bytes update w1 = (Inr repository, w2) \<and>
    names_release T repository update target version channel platform \<and>
    installed L J \<lparr>inst_install_root = install_root, inst_version = version, inst_installed_name = name\<rparr>
      (tuf_digest repository target) q (wd_fs w')"
proof -
  from assms(2) obtain release digest w3 w4 where
    release: "verify_and_stage_release T update w = (Inr release, w3)"
      "rel_channel release = channel" "rel_platform release = platform" and
    digest: "hash_file L (rel_path release) w3 = (Inr digest, w4)" and
    q: "install_verified_target L J (rel_path release) \<lparr>inst_install_root = install_root,
      inst_version = rel_version release, inst_installed_name = name\<rparr> digest w4 = (Inr q, w')"
    by (auto simp: verify_stage_and_install_automatic_def andThen_ok throw_def split: if_splits)
  from verify_and_stage_release_ok [OF release(1)] obtain root_bytes repository target w1 w2 w0 where
    staged: "read_file (wd_fs w) (path_pieces (upd_trusted_root update)) = Some root_bytes"
      "tuf_load T root_bytes update w1 = (Inr repository, w2)"
      "names_release T repository update target (rel_version release) channel platform"
      "tuf_save_target T repository target (path_pieces (upd_staging_directory update)) w0 = (Inr (), w3)"
      "rel_path release = join_path (path_pieces (upd_staging_directory update)) (tuf_resolved T target)"
    using release(2,3) by blast
  from staged(4,5) assms(1) reads_ok [OF reads_hash_file digest] have "digest = tuf_digest repository target"
    unfolding saves_verified_def by fastforce
  with validD_ok [OF valid_install_verified_target q keeps_files_refl] staged(1-3) show ?thesis
    by blast
qed

section \<open>The state an operation has stored\<close>

lemma swapped_keeps_root:
  assumes "state_swapped J root F s G" and "plain_dir F root"
  shows "plain_dir G root"
proof (rule plain_dir_cong [OF assms(2)])
  fix i
  assume "i \<le> length root"
  then have "take i root \<noteq> root @ [c]" for c
    by (auto dest: arg_cong [where f = length])
  then have "take i root \<noteq> activation_path root" "\<not> is_temporary root (take i root)"
    by (auto simp: activation_path_eq is_temporary_def)
  with assms(1) show "G (take i root) = F (take i root)"
    by (simp add: state_swapped_def)
qed

lemma swapped_stored:
  assumes "\<forall>s bs. json_to_vec J s = Some bs \<longrightarrow> json_from_slice J bs = Some s"
    and "state_swapped J root F s G" and "plain_dir G root" and "stored_state J G root t"
  shows "t = s"
proof -
  from assms(2) obtain bs where "json_to_vec J s = Some bs" "G (activation_path root) = Some (File bs)"
    by (auto simp: state_swapped_def)
  with activation_file(2) [OF assms(3)] assms(1,4) show ?thesis
    by (auto simp: stored_state_def)
qed

end
