(* ===== verification/StagingFixtures.thy ===== *)
theory StagingFixtures
  imports Staging Fixtures
begin

text \<open>
  A small repository for the witnesses: one signed target, which is staged where it already lies on the sample
  disk, and the update, installation and start that succeed there.
\<close>

definition sample_install :: InstallConfig where
  "sample_install =
     \<lparr>inst_install_root = AbsolutePath [''a''], inst_version = ''2'', inst_installed_name = ''agent''\<rparr>"

lemma sample_installs:
  "\<exists>w. install_verified_target sample_lib agent_json [''a'', ''versions'', ''2'', ''agent''] sample_install
     (hex_encode (sample_sha [62])) (sample_world (agent_fs 1))
     = (Inr [''a'', ''versions'', ''2'', ''agent''], w) \<and> wd_fs w = agent_fs 1"
proof -
  let ?w = "sample_world (agent_fs 1)" and ?s = "agent_state (Some slot_1) None (Some slot_2)"
  let ?q = "[''a'', ''versions'', ''2'', ''agent'']"
  have files: "lstat (agent_fs 1) ?q = Some (File [62])" "stat (agent_fs 1) ?q = Some (File [62])"
    "read_file (agent_fs 1) ?q = Some [62]" "stat (agent_fs 1) [''a''] = Some Dir"
    "stat (agent_fs 1) [''a'', ''versions''] = Some Dir"
    "lstat (agent_fs 1) [''a'', ''versions''] = Some Dir" "lstat (agent_fs 1) [''a''] = Some Dir"
    "realpath (agent_fs 1) [''a''] = Some [''a'']"
    by (simp_all add: agent_fs_def stat_def lstat_def read_file_def locate_def realpath_def node_at_def
        MAX_SYMLINKS_def)
  have "validate_install sample_install (hex_encode (sample_sha [62])) = Inr ()"
    by (simp add: validate_install_def sample_install_def absolute_def digest_valid safe_component_def
        windows_reserved_component_def Let_def to_ascii_uppercase_def ascii_upper_def ascii_class_defs
        starts_with_def)
  then have prepared: "prepare_install_root ?q sample_install (hex_encode (sample_sha [62])) ?w = (Inr [''a''], ?w)"
    by (simp add: prepare_install_root_def Let_def andThen_def run_simps calm_query files is_regular_def
        sample_install_def create_dir_all_def attempt_def join_path_def is_absolute_def starts_with_def
        slash_pieces_def)
  have final: "join_path (join_path [''a'', ''versions''] (inst_version sample_install))
      (inst_installed_name sample_install) = ?q"
    by (simp add: sample_install_def join_path_def is_absolute_def starts_with_def slash_pieces_def)
  have slot: "\<lparr>slot_version = inst_version sample_install,
      slot_relative_path = version_relative_path (inst_version sample_install) (inst_installed_name sample_install),
      slot_sha256 = to_ascii_lowercase (hex_encode (sample_sha [62]))\<rparr> = slot_2"
    by (simp add: slot_2_def sample_slot_def sample_install_def)
  have writable: "can_write agent_json ?w [''a''] ?s"
    by (rule agent_can_write [OF agent_json_vec(3)]) (simp_all add: sample_world_def calm_def)
  have stored: "read_activation_state agent_json (AbsolutePath [''a'']) ?w = (Inr ?s, ?w)"
    by (rule read_state_calm) (simp_all add: agent_paths(1) [OF refl] agent_on_disk)
  have kept: "wd_fs (written agent_json ?w [''a''] ?s) = agent_fs 1"
    using agent_root_written by (simp add: written_def agent_json_vec sample_world_def)
  show ?thesis
    unfolding install_verified_target_def Let_def slot
    by (simp add: andThen_def prepared final path_exists_def attempt_def run_simps calm_query files hash_file_def
        is_regular_def slot_paths verify_slot_calm agent_slots stored
        write_state_calm [OF writable] kept)
qed

definition staging_tough :: "unit tough" where
  "staging_tough =
     \<lparr>tuf_load = (\<lambda>_ _. ret ()), tuf_target_name = Some, tuf_same_target = (=), tuf_resolved = (\<lambda>t. t),
      tuf_targets = (\<lambda>_. [(''agent'', [''version'' \<mapsto> ''2'', ''channel'' \<mapsto> ''stable'', ''platform'' \<mapsto> ''linux''])]),
      tuf_save_target = (\<lambda>_ target dir. query Verification
        (\<lambda>fs. if read_file fs (join_path dir target) = Some [62] then Some () else None))\<rparr>"

definition staging_update :: UpdateConfig where
  "staging_update =
     (let url = \<lparr>url_scheme = ''https'', url_host = Some ''h''\<rparr> in
      \<lparr>upd_trusted_root = AbsolutePath [''a'', ''launcher''], upd_metadata_base_url = url,
       upd_targets_base_url = url, upd_datastore = AbsolutePath [''a''],
       upd_staging_directory = AbsolutePath [''a'', ''versions'', ''2''], upd_target_name = ''agent''\<rparr>)"

lemma staging_runs:
  "\<exists>w. verify_stage_and_install_automatic sample_lib agent_json staging_tough staging_update (AbsolutePath [''a''])
       ''agent'' ''stable'' ''linux'' (sample_world (agent_fs 1)) = (Inr [''a'', ''versions'', ''2'', ''agent''], w) \<and>
     wd_fs w = agent_fs 1"
proof -
  let ?w = "sample_world (agent_fs 1)" and ?q = "[''a'', ''versions'', ''2'', ''agent'']"
  have disk: "stat (agent_fs 1) [''a'', ''launcher''] = Some (File [60])"
    "read_file (agent_fs 1) [''a'', ''launcher''] = Some [60]"
    "stat (agent_fs 1) [''a''] = Some Dir" "stat (agent_fs 1) [''a'', ''versions''] = Some Dir"
    "stat (agent_fs 1) [''a'', ''versions'', ''2''] = Some Dir"
    "stat (agent_fs 1) ?q = Some (File [62])" "lstat (agent_fs 1) ?q = Some (File [62])"
    "read_file (agent_fs 1) ?q = Some [62]"
    by (simp_all add: agent_fs_def stat_def lstat_def read_file_def locate_def realpath_def node_at_def
        MAX_SYMLINKS_def)
  have staged: "join_path [''a'', ''versions'', ''2''] ''agent'' = ?q"
    by (simp add: join_path_def is_absolute_def starts_with_def slash_pieces_def)
  have calm: "calm ?w" "wd_fs ?w = agent_fs 1"
    by (simp_all add: sample_world_def calm_def)
  have release: "verify_and_stage_release staging_tough staging_update ?w
      = (Inr \<lparr>rel_path = ?q, rel_version = ''2'', rel_channel = ''stable'', rel_platform = ''linux''\<rparr>, ?w)"
    by (simp add: verify_and_stage_release_def staging_update_def Let_def validate_def absolute_def andThen_def
        run_simps calm_query calm disk create_dir_all_def attempt_def staging_tough_def custom_string_def
        safe_component_def windows_reserved_component_def to_ascii_uppercase_def ascii_upper_def
        ascii_class_defs starts_with_def staged MAX_TRUSTED_ROOT_BYTES_def)
  have hash: "hash_file sample_lib ?q ?w = (Inr (hex_encode (sample_sha [62])), ?w)"
    by (simp add: hash_file_def andThen_def run_simps calm_query calm disk is_regular_def)
  obtain w where w: "install_verified_target sample_lib agent_json ?q sample_install
      (hex_encode (sample_sha [62])) ?w = (Inr ?q, w)" and "wd_fs w = agent_fs 1"
    using sample_installs by blast
  then have "verify_stage_and_install_automatic sample_lib agent_json staging_tough staging_update
      (AbsolutePath [''a'']) ''agent'' ''stable'' ''linux'' ?w = (Inr ?q, w)"
    by (simp add: verify_stage_and_install_automatic_def andThen_run release hash sample_install_def)
  with \<open>wd_fs w = agent_fs 1\<close> show ?thesis by blast
qed

lemma staging_saves: "saves_verified sample_lib staging_tough (\<lambda>_ _. hex_encode (sample_sha [62]))"
unfolding saves_verified_def
proof (intro allI impI)
  fix repository target dir w w'
  assume "tuf_save_target staging_tough repository target dir w = (Inr (), w')"
  then have "query Verification
      (\<lambda>fs. if read_file fs (join_path dir target) = Some [62] then Some () else None) w = (Inr (), w')"
    "tuf_resolved staging_tough target = target"
    by (simp_all add: staging_tough_def)
  from reads_ok [OF reads_query this(1)] this(2) show "\<exists>bs. read_file (wd_fs w') (join_path dir (tuf_resolved staging_tough target)) = Some bs \<and>
      hex_encode (sha256 sample_lib bs) = hex_encode (sample_sha [62])"
    by (auto split: if_splits)
qed

text \<open>The launcher once the staged version is active.\<close>

lemma staged_active:
  "\<exists>w. active_target sample_lib agent_json (AbsolutePath [''a'']) (sample_world (agent_fs 2))
       = (Inr [''a'', ''versions'', ''2'', ''agent''], w)"
proof -
  let ?w = "sample_world (agent_fs 2)" and ?s = "agent_state (Some slot_2) (Some slot_1) None"
  have writable: "can_write agent_json ?w [''a''] ?s"
    by (rule agent_can_write [OF agent_json_vec(1)]) (simp_all add: sample_world_def calm_def)
  from recover_calm [OF _ _ writable, of sample_lib] have "recover sample_lib agent_json (AbsolutePath [''a'']) ?w
      = (Inr ?s, written agent_json ?w [''a''] ?s)"
    by (simp add: agent_on_disk agent_slots state_slots_set sample_world_def)
  moreover have w: "calm (written agent_json ?w [''a''] ?s)" "wd_fs (written agent_json ?w [''a''] ?s) = agent_fs 2"
    "calm ?w" "wd_fs ?w = agent_fs 2"
    using agent_root_written by (simp_all add: written_def agent_json_vec sample_world_def calm_def)
  moreover have "verify_slot sample_lib [''a''] slot_2 (written agent_json ?w [''a''] ?s)
      = (Inr (), written agent_json ?w [''a''] ?s)"
    by (rule verify_slot_calm [OF w(1)]) (simp add: w(2) agent_slots)
  ultimately show ?thesis
    using agent_paths [OF refl, of 2]
    by (simp add: active_target_def andThen_def canonical_root_calm run_simps calm_query slot_paths)
qed

end
