(* ===== verification/UpdaterProperties.thy ===== *)
theory UpdaterProperties
  imports StagingFixtures
begin

text \<open>
  Properties of the updater: the activation state under failures and crashes, that the operations
  succeed when nothing fails, that activation and rollback are inverse, that recovery only keeps verified
  files, the frame of an installation, and that an update installs what the TUF metadata signed.
\<close>

section \<open>The activation state\<close>

text \<open>What a call on the activation state has done, by its outcome.\<close>

definition updated_atomically ::
    "json \<Rightarrow> (fs \<Rightarrow> path \<Rightarrow> ActivationState \<Rightarrow> bool) \<Rightarrow> PathBuf \<Rightarrow> world
      \<Rightarrow> (UpdateError + ActivationState) \<times> world \<Rightarrow> bool"
where
  "updated_atomically J post p w outcome \<longleftrightarrow>
     (case outcome of
        (Inr s, w') \<Rightarrow>
          \<exists>root. plain_dir (wd_fs w) root \<and> realpath (wd_fs w) (path_pieces p) = Some root \<and>
            post (wd_fs w) root s \<and> state_swapped J root (wd_fs w) s (wd_fs w')
      | (Inl e, w') \<Rightarrow>
          wd_fs w' = wd_fs w \<or>
          (\<exists>root s. plain_dir (wd_fs w) root \<and> realpath (wd_fs w) (path_pieces p) = Some root \<and>
             post (wd_fs w) root s \<and> state_swap J root (wd_fs w) s (wd_fs w')))"

lemma updated_atomicallyI:
  assumes "\<And>s w'. outcome = (Inr s, w') \<Longrightarrow> \<exists>root. plain_dir (wd_fs w) root \<and>
      realpath (wd_fs w) (path_pieces p) = Some root \<and> post (wd_fs w) root s \<and>
      state_swapped J root (wd_fs w) s (wd_fs w')"
    and "\<And>r w'. outcome = (r, w') \<Longrightarrow> wd_fs w' = wd_fs w \<or>
      (\<exists>root s. plain_dir (wd_fs w) root \<and> realpath (wd_fs w) (path_pieces p) = Some root \<and>
         post (wd_fs w) root s \<and> state_swap J root (wd_fs w) s (wd_fs w'))"
  shows "updated_atomically J post p w outcome"
proof (cases outcome)
  case (Pair r w')
  with assms(1) [of _ w'] assms(2) [OF Pair] show ?thesis
    by (cases r) (simp_all add: updated_atomically_def)
qed

text \<open>C33: the four operations on the activation state are atomic under every schedule of I/O errors and
  crashes. After the call, or at the point where the process was killed, the disk differs from before
  at most in the updater's temporaries and in the state file, and the state file holds either its old
  contents or the complete new state of that operation. When the call reports success, it is the new state.\<close>

theorem activation_atomic:
  "updated_atomically J (activated L J) p w (activate_pending L J p w) \<and>
   updated_atomically J (rolled_back L J) p w (rollback L J p w) \<and>
   updated_atomically J (recovered L J) p w (recover L J p w) \<and>
   updated_atomically J (registered L J version name immediately) p w
     (register_existing_version L J version name immediately p w)"
  by (intro conjI updated_atomicallyI activate_pending_update.update_returns activate_pending_update.update_atomic
      rollback_update.update_returns rollback_update.update_atomic
      recover_update.update_returns recover_update.update_atomic
      register_update.update_returns register_update.update_atomic)

text \<open>C34: when nothing fails, \<open>activate_pending\<close> succeeds for a stored state whose pending slot verifies:
  it returns the state with that slot active and the old one as the rollback target, and that state is
  what the disk then holds.\<close>

theorem activation_succeeds:
  assumes "state_on_disk J (wd_fs w) root old" and "act_pending old = Some slot"
    and "slot_verified L (wd_fs w) root slot"
    and "s = old\<lparr>act_previous := act_active old, act_active := Some slot, act_pending := None\<rparr>"
    and "can_write J w root s"
  shows "activate_pending L J (AbsolutePath root) w = (Inr s, written J w root s)"
  using assms by (rule activate_pending_calm)

lemma activation_succeeds_witness:
  "fst (activate_pending sample_lib agent_json (AbsolutePath [''a'']) (sample_world (agent_fs 1)))
     = Inr (agent_state (Some slot_2) (Some slot_1) None)"
proof -
  have "can_write agent_json (sample_world (agent_fs 1)) [''a''] (agent_state (Some slot_2) (Some slot_1) None)"
    by (rule agent_can_write [OF agent_json_vec(1)]) (simp_all add: sample_world_def calm_def)
  from activation_succeeds [OF _ _ _ _ this, of "agent_state (Some slot_1) None (Some slot_2)" slot_2 sample_lib]
  show ?thesis
    by (simp add: agent_on_disk agent_slots)
qed

text \<open>\<open>rollback\<close> undoes \<open>activate_pending\<close>. When both return, under any schedule of failures, the
  version that was active before is active again, the one that was pending is the rollback target, and
  nothing is pending.\<close>

theorem rollback_undoes_activation:
  assumes json: "\<forall>s bs. json_to_vec J s = Some bs \<longrightarrow> json_from_slice J bs = Some s"
    and root: "plain_dir (wd_fs w) root"
    and act: "activate_pending L J (AbsolutePath root) w = (Inr s1, w1)"
    and rb: "rollback L J (AbsolutePath root) w1 = (Inr s2, w2)"
  shows "\<exists>old. stored_state J (wd_fs w) root old \<and> act_active s2 = act_active old \<and>
    act_previous s2 = act_pending old \<and> act_pending s2 = None"
proof -
  from activate_pending_update.update_returns [OF act] realpath_dir [OF root]
  have s1: "activated L J (wd_fs w) root s1" "state_swapped J root (wd_fs w) s1 (wd_fs w1)"
    by auto
  from swapped_keeps_root [OF s1(2) root] have root1: "plain_dir (wd_fs w1) root" .
  have stored: "t = s1" if "stored_state J (wd_fs w1) root t" for t
    using swapped_stored [OF json s1(2) root1 that] .
  from rollback_update.update_returns [OF rb] realpath_dir [OF root1]
  obtain slot where s2: "act_previous s1 = Some slot"
    "s2 = s1\<lparr>act_active := Some slot, act_previous := act_active s1, act_pending := None\<rparr>"
    by (auto simp: rolled_back_def dest!: stored)
  from s1(1) obtain old where "stored_state J (wd_fs w) root old" "act_previous s1 = act_active old"
    "act_active s1 = act_pending old"
    by (auto simp: activated_def)
  with s2 show ?thesis by auto
qed

lemma rollback_undoes_activation_witness:
  "\<exists>w1 s2 w2. activate_pending sample_lib agent_json (AbsolutePath [''a'']) (sample_world (agent_fs 1))
       = (Inr (agent_state (Some slot_2) (Some slot_1) None), w1) \<and>
     rollback sample_lib agent_json (AbsolutePath [''a'']) w1 = (Inr s2, w2) \<and>
     act_previous s2 \<noteq> None \<and> act_pending s2 = None"
proof -
  obtain w1 t ts where w1: "activate_pending sample_lib agent_json (AbsolutePath [''a'']) (sample_world (agent_fs 1))
       = (Inr (agent_state (Some slot_2) (Some slot_1) None), w1)"
    "calm w1" "wd_fs w1 = agent_fs 2" "wd_clock w1 = Some t # ts"
    using agent_activates by blast
  from agent_rolls_back [OF w1(2-4)] obtain w2 where
    rb: "rollback sample_lib agent_json (AbsolutePath [''a'']) w1
      = (Inr (agent_state (Some slot_1) (Some slot_2) None), w2)" by blast
  have root: "plain_dir (wd_fs (sample_world (agent_fs 1))) [''a'']"
    by (simp add: agent_paths(1) [OF refl])
  from rollback_undoes_activation [OF _ root w1(1) rb] agent_json_roundtrip
  have "act_pending (agent_state (Some slot_1) (Some slot_2) None) = None" by blast
  with w1(1) rb show ?thesis
    by (intro exI [of _ w1] exI [of _ "agent_state (Some slot_1) (Some slot_2) None"] exI [of _ w2]) simp
qed

text \<open>C35: after \<open>recover\<close> every version the state names is verified on disk, whatever fails meanwhile: a slot is
  kept or dropped, and the active version is only replaced by a verified previous one. When no call fails, it starts
  from the state the file holds, and from the empty one only if there is no file, and exactly the slots whose
  files fail verification go: a pending version that verifies stays pending, an active one that verifies stays
  active and then a previous one that verifies stays the rollback target, and an active one that does not
  verify is replaced by the previous one.\<close>

theorem recovery_verified:
  assumes "recover L J p w = (Inr s, w')"
  shows "\<exists>root old. realpath (wd_fs w) (path_pieces p) = Some root \<and>
    (old = default_activation_state \<or> stored_state J (wd_fs w) root old) \<and>
    (\<forall>slot \<in> set (state_slots s). slot_verified L (wd_fs w) root slot) \<and>
    act_pending s \<in> {None, act_pending old} \<and>
    (act_active s = act_active old \<and> act_previous s \<in> {None, act_previous old} \<or>
     act_active old \<noteq> None \<and> act_previous old \<noteq> None \<and>
       act_active s = act_previous old \<and> act_previous s = None) \<and>
    (calm w \<longrightarrow>
       (old = default_activation_state \<and> stat (wd_fs w) (activation_path root) = None \<or>
        stat (wd_fs w) (activation_path root) \<noteq> None \<and> stored_state J (wd_fs w) root old) \<and>
       (\<forall>bs. wd_fs w (activation_path root) = Some (File bs) \<longrightarrow> json_from_slice J bs = Some old) \<and>
       act_pending s = surviving L (wd_fs w) root (act_pending old) \<and>
       (if surviving L (wd_fs w) root (act_active old) = act_active old
        then act_active s = act_active old \<and> act_previous s = surviving L (wd_fs w) root (act_previous old)
        else act_active s = act_previous old \<and> act_previous s = None)) \<and>
    state_swapped J root (wd_fs w) s (wd_fs w')"
proof -
  have stored: "json_from_slice J bs = Some old"
    if "found_state J (wd_fs w) root old" "plain_dir (wd_fs w) root"
      "wd_fs w (activation_path root) = Some (File bs)" for root old bs
    using that by (rule found_state_file)
  have found: "old = default_activation_state \<and> stat (wd_fs w) (activation_path root) = None \<or>
      stat (wd_fs w) (activation_path root) \<noteq> None \<and> stored_state J (wd_fs w) root old"
    if "found_state J (wd_fs w) root old" for root old
    using that by (auto simp: found_state_def split: if_splits)
  from recover_returns [OF assms] obtain root old where
    o: "plain_dir (wd_fs w) root" "calm w \<longrightarrow> found_state J (wd_fs w) root old" and
    rest: "realpath (wd_fs w) (path_pieces p) = Some root \<and>
      (old = default_activation_state \<or> stored_state J (wd_fs w) root old) \<and>
      (\<forall>slot \<in> set (state_slots s). slot_verified L (wd_fs w) root slot) \<and>
      act_pending s \<in> {None, act_pending old} \<and>
      (act_active s = act_active old \<and> act_previous s \<in> {None, act_previous old} \<or>
       act_active old \<noteq> None \<and> act_previous old \<noteq> None \<and>
         act_active s = act_previous old \<and> act_previous s = None)"
      "calm w \<longrightarrow> act_pending s = surviving L (wd_fs w) root (act_pending old) \<and>
         (if surviving L (wd_fs w) root (act_active old) = act_active old
          then act_active s = act_active old \<and> act_previous s = surviving L (wd_fs w) root (act_previous old)
          else act_active s = act_previous old \<and> act_previous s = None)"
      "state_swapped J root (wd_fs w) s (wd_fs w')"
    by blast
  from o found [of root old] stored [of root old] rest show ?thesis
    by (intro exI [of _ root] exI [of _ old]) blast
qed

lemma recovery_verified_witness:
  "\<exists>w. recover sample_lib agent_json (AbsolutePath [''a'']) (sample_world (agent_fs 1))
       = (Inr (agent_state (Some slot_1) None (Some slot_2)), w) \<and>
     (\<forall>slot \<in> set (state_slots (agent_state (Some slot_1) None (Some slot_2))).
        slot_verified sample_lib (agent_fs 1) [''a''] slot)"
proof -
  obtain w where run: "recover sample_lib agent_json (AbsolutePath [''a'']) (sample_world (agent_fs 1))
      = (Inr (agent_state (Some slot_1) None (Some slot_2)), w)"
    using agent_recovers by blast
  have "realpath (agent_fs 1) [''a''] = Some [''a'']"
    by (rule realpath_dir [OF agent_paths(1) [OF refl]])
  with recovery_verified [OF run] run show ?thesis by auto
qed

section \<open>Installing\<close>

text \<open>C36: \<open>install_verified_target\<close> never changes or removes a file that is not its own: every file whose
  path is not the state file nor below one of the updater's temporaries is still there with the same
  contents, at every point where the call fails or the process is killed. When it returns, there was a point at
  which the new version was at the returned path with the expected digest and the state file was as before the
  call, and from there it only made the new version the pending one of the state \<open>old\<close> and stored the
  result. On a disk without failures \<open>old\<close> is what the state file held before the call, so the active
  and the previous version are unchanged; the empty state is used only if there is no state file.\<close>

theorem install_keeps_and_registers:
  assumes "install_verified_target L J staged config digest w = (r, w')"
  shows "keeps_files (wd_fs w) (wd_fs w') \<and>
    (\<forall>q. r = Inr q \<longrightarrow> (\<exists>root before old.
       q = root @ [''versions'', inst_version config, inst_installed_name config] \<and>
       keeps_files (wd_fs w) before \<and>
       slot_verified L before root (install_slot config digest) \<and>
       (\<forall>bs. wd_fs w (activation_path root) = Some (File bs) \<longrightarrow>
          before (activation_path root) = Some (File bs) \<and> (calm w \<longrightarrow> json_from_slice J bs = Some old)) \<and>
       (old = default_activation_state \<and> (calm w \<longrightarrow> stat before (activation_path root) = None) \<or>
        stored_state J before root old) \<and>
       state_swapped J root before (old\<lparr>act_pending := Some (install_slot config digest)\<rparr>) (wd_fs w')))"
proof (cases r)
  case (Inl e)
  with assms have "install_verified_target L J staged config digest w = (Inl e, w')" by simp
  from validD_err [OF valid_install_verified_target this keeps_files_refl] Inl show ?thesis by simp
next
  case (Inr q)
  with assms have run: "install_verified_target L J staged config digest w = (Inr q, w')" by simp
  from validD_ok [OF valid_install_verified_target this keeps_files_refl]
  have "keeps_files (wd_fs w) (wd_fs w')" by simp
  moreover from install_returns [OF run] obtain root before old where
    b: "q = root @ [''versions'', inst_version config, inst_installed_name config]"
      "plain_dir before root" "keeps_files (wd_fs w) before"
      "\<forall>bs. wd_fs w (activation_path root) = Some (File bs) \<longrightarrow> before (activation_path root) = Some (File bs)"
      "slot_verified L before root (install_slot config digest)"
      "old = default_activation_state \<or> stored_state J before root old"
      "calm w \<longrightarrow> found_state J before root old"
      "state_swapped J root before (old\<lparr>act_pending := Some (install_slot config digest)\<rparr>) (wd_fs w')"
    by blast
  moreover have "json_from_slice J bs = Some old"
    if "calm w" "wd_fs w (activation_path root) = Some (File bs)" for bs
    using found_state_file [OF _ b(2)] b(4,7) that by blast
  moreover have "old = default_activation_state \<and> (calm w \<longrightarrow> stat before (activation_path root) = None) \<or>
      stored_state J before root old"
    using b(6,7) by (auto simp: found_state_def split: if_splits)
  ultimately show ?thesis
    using Inr by blast
qed

lemma install_keeps_and_registers_witness:
  "\<exists>(w :: world) before. state_swapped agent_json [''a''] before (agent_state (Some slot_1) None (Some slot_2)) (wd_fs w) \<and>
     before [''a'', ''activation.json''] = Some (File [1])"
proof -
  obtain w where "install_verified_target sample_lib agent_json [''a'', ''versions'', ''2'', ''agent'']
      sample_install (hex_encode (sample_sha [62])) (sample_world (agent_fs 1))
      = (Inr [''a'', ''versions'', ''2'', ''agent''], w)"
    using sample_installs by blast
  from install_keeps_and_registers [OF this] obtain root before old where
    b: "[''a'', ''versions'', ''2'', ''agent''] = root @ [''versions'', ''2'', ''agent'']"
      "agent_fs 1 (activation_path root) = Some (File [1]) \<Longrightarrow> before (activation_path root) = Some (File [1])"
      "agent_fs 1 (activation_path root) = Some (File [1]) \<Longrightarrow> json_from_slice agent_json [1] = Some old"
      "state_swapped agent_json root before
        (old\<lparr>act_pending := Some (install_slot sample_install (hex_encode (sample_sha [62])))\<rparr>) (wd_fs w)"
    by (auto simp: sample_install_def)
  from b(1) have root: "root = [''a'']"
    by (cases root rule: rev_cases) auto
  then have "agent_fs 1 (activation_path root) = Some (File [1])"
    by (simp add: activation_a agent_fs_def)
  with b(2-4) have "before (activation_path root) = Some (File [1])"
    "old = agent_state (Some slot_1) None (Some slot_2)"
    by (simp_all add: agent_json_1)
  moreover have "install_slot sample_install (hex_encode (sample_sha [62])) = slot_2"
    by (simp add: install_slot_def sample_install_def slot_2_def sample_slot_def)
  ultimately have "state_swapped agent_json [''a''] before (agent_state (Some slot_1) None (Some slot_2)) (wd_fs w)"
    "before [''a'', ''activation.json''] = Some (File [1])"
    using b(4) root by (simp_all add: activation_a)
  then show ?thesis by blast
qed

section \<open>Updating from a repository\<close>

text \<open>C32: What an automatic update puts in place is what the TUF metadata signed. When it succeeds, the repository
  was loaded from the trusted root on disk; it has the configured target for exactly the expected channel and
  platform; and the pending version of the activation state, the version that metadata names, is a file with
  the digest that metadata gives.\<close>

theorem update_installs_signed_target:
  assumes "saves_verified L T tuf_digest"
    and "verify_stage_and_install_automatic L J T update install_root name channel platform w = (Inr q, w')"
  shows "\<exists>root_bytes repository target version w1 w2.
    read_file (wd_fs w) (path_pieces (upd_trusted_root update)) = Some root_bytes \<and>
    tuf_load T root_bytes update w1 = (Inr repository, w2) \<and>
    names_release T repository update target version channel platform \<and>
    installed L J \<lparr>inst_install_root = install_root, inst_version = version, inst_installed_name = name\<rparr>
      (tuf_digest repository target) q (wd_fs w')"
  using assms by (rule automatic_update_ok)

lemma update_installs_signed_target_witness:
  "\<exists>w. verify_stage_and_install_automatic sample_lib agent_json staging_tough staging_update (AbsolutePath [''a''])
       ''agent'' ''stable'' ''linux'' (sample_world (agent_fs 1)) = (Inr [''a'', ''versions'', ''2'', ''agent''], w) \<and>
     installed sample_lib agent_json sample_install (hex_encode (sample_sha [62]))
       [''a'', ''versions'', ''2'', ''agent''] (wd_fs w)"
proof -
  obtain w where run: "verify_stage_and_install_automatic sample_lib agent_json staging_tough staging_update
      (AbsolutePath [''a'']) ''agent'' ''stable'' ''linux'' (sample_world (agent_fs 1))
      = (Inr [''a'', ''versions'', ''2'', ''agent''], w)"
    using staging_runs by blast
  from update_installs_signed_target [OF staging_saves run] obtain version where
    "installed sample_lib agent_json \<lparr>inst_install_root = AbsolutePath [''a''], inst_version = version,
       inst_installed_name = ''agent''\<rparr> (hex_encode (sample_sha [62])) [''a'', ''versions'', ''2'', ''agent''] (wd_fs w)"
    "names_release staging_tough () staging_update ''agent'' version ''stable'' ''linux''"
    by (auto simp: names_release_def staging_tough_def staging_update_def)
  moreover then have "version = ''2''"
    by (simp add: names_release_def staging_tough_def)
  ultimately show ?thesis
    using run by (auto simp: sample_install_def)
qed

end
