(* ===== verification/HostFixtures.thy ===== *)
theory HostFixtures
  imports Fixtures
begin

text \<open>
  A registry with one game on a disk with that game, an Agent and a user's state directory, for the
  witnesses of the properties of the registry and of starting a game.
\<close>

section \<open>The registry\<close>

definition sample_registry :: registry_lib where
  "sample_registry =
     \<lparr>rl_trust = \<lparr>tl_mode = (\<lambda>_. 0),
        tl_from_slice = (\<lambda>bs. if bs = sample_trust_file
          then Some [\<lparr>tkf_key_id = ''root-1'', tkf_public_key_hex = hex_encode sample_root_key,
            tkf_not_before_unix = 1600000000, tkf_not_after_unix = 1800000000, tkf_revoked = False\<rparr>]
          else None),
        tl_verifying_key = Some\<rparr>,
      rl_png = \<lparr>png_read_info = (\<lambda>_ _. None)\<rparr>, rl_base64_encode = (\<lambda>_. []),
      rl_base64_decode = (\<lambda>_. Some [4]), rl_record_to_vec = (\<lambda>_. None),
      rl_record_from_slice = (\<lambda>_. Some \<lparr>sr_format_version = 2, sr_signed_registration_base64 = [],
        sr_game_root = ''/opt'', sr_signed_branding_base64 = None\<rparr>),
      rl_status_to_vec = (\<lambda>_. None), rl_status_from_slice = (\<lambda>_. None)\<rparr>"

definition registry_fs :: fs where
  "registry_fs =
     [[''r''] \<mapsto> Dir, [''r'', ''game-1''] \<mapsto> Dir,
      [''r'', ''game-1'', ''registration.json''] \<mapsto> File [50],
      [''r'', ''game-1'', ''trust-store.json''] \<mapsto> File sample_trust_file,
      [''r'', ''game-1'', ''update-root.json''] \<mapsto> File [52],
      [''opt''] \<mapsto> Dir, [''opt'', ''game''] \<mapsto> File sample_exe, [''agent''] \<mapsto> File [8], [''compat''] \<mapsto> File [7],
      [''home''] \<mapsto> Dir, [''home'', ''.local''] \<mapsto> Dir, [''home'', ''.local'', ''state''] \<mapsto> Dir,
      [''home'', ''.local'', ''state'', ''certael-agent''] \<mapsto> Dir]"

lemma registry_files:
  "lstat registry_fs [''r'', ''game-1'', ''registration.json''] = Some (File [50])"
  "read_file registry_fs [''r'', ''game-1'', ''registration.json''] = Some [50]"
  "lstat registry_fs [''r'', ''game-1'', ''trust-store.json''] = Some (File sample_trust_file)"
  "read_file registry_fs [''r'', ''game-1'', ''trust-store.json''] = Some sample_trust_file"
  "lstat registry_fs [''r'', ''game-1'', ''update-root.json''] = Some (File [52])"
  "read_file registry_fs [''r'', ''game-1'', ''update-root.json''] = Some [52]"
  "realpath registry_fs [''opt''] = Some [''opt'']"
  "realpath registry_fs [''opt'', ''game''] = Some [''opt'', ''game'']"
  "realpath registry_fs [[], ''opt''] = Some [''opt'']"
  "read_file registry_fs [''opt'', ''game''] = Some sample_exe"
  by (simp_all add: registry_fs_def lstat_def read_file_def stat_def locate_def realpath_def node_at_def
      MAX_SYMLINKS_def)

lemma sample_trust_length [simp]: "sample_trust_file \<noteq> []" "length sample_trust_file = 1"
  by (simp_all add: sample_trust_file_def)

lemma registry_joins:
  "join_path [''r''] ''game-1'' = [''r'', ''game-1'']"
  "join_path [''r'', ''game-1''] ''registration.json'' = [''r'', ''game-1'', ''registration.json'']"
  "join_path [''r'', ''game-1''] ''trust-store.json'' = [''r'', ''game-1'', ''trust-store.json'']"
  "join_path [''r'', ''game-1''] ''update-root.json'' = [''r'', ''game-1'', ''update-root.json'']"
  "join_path [] ''/opt'' = [[], ''opt'']" "join_path [''opt''] ''game'' = [''opt'', ''game'']"
  by (simp_all add: join_path_def is_absolute_def starts_with_def slash_pieces_def)

lemma read_regular_calm:
  assumes "calm w" and "lstat (wd_fs w) p = Some (File bs)" and "read_file (wd_fs w) p = Some bs"
    and "bs \<noteq> []" and "length bs \<le> n"
  shows "read_regular p n w = (Inr bs, w)"
  using assms by (simp add: read_regular_def andThen_def calm_query run_simps)

lemma sample_trust_loaded:
  assumes "calm w" and "wd_fs w = registry_fs"
  shows "trust_load (rl_trust sample_registry) [''r'', ''game-1'', ''trust-store.json''] w = (Inr sample_keys, w)"
proof -
  have "key_ring_new sample_keys = Inr sample_keys"
    by (simp add: key_ring_new_ok sample_keys_def)
  then show ?thesis
    using assms
    by (simp add: trust_load_def andThen_def calm_query registry_files run_simps sample_registry_def
        sample_trust_file_def parse_trust_key_def)
      (simp add: sample_keys_def sample_root_key_def)
qed

lemma sample_now_read:
  "now_unix (sample_world fs) = (Inr sample_now, (sample_world fs)\<lparr>wd_clock := [Some sample_nanos, Some sample_nanos]\<rparr>)"
  by (simp add: now_unix_def read_clock_def andThen_def run_simps sample_world_def sample_nanos_def
      sample_now_def Let_def)

lemma state_path_joins:
  "join_path [''home''] ''.local/state'' = [''home'', ''.local'', ''state'']"
  "join_path [''home'', ''.local'', ''state''] ''certael-agent'' = [''home'', ''.local'', ''state'', ''certael-agent'']"
  "join_path [''home'', ''.local'', ''state'', ''certael-agent''] ''game-1.json''
     = [''home'', ''.local'', ''state'', ''certael-agent'', ''game-1.json'']"
  by (simp_all add: join_path_def is_absolute_def starts_with_def slash_pieces_def)

definition sample_game :: RegisteredGame where
  "sample_game =
     \<lparr>rg_claims = sample_registration, rg_game = [''opt'', ''game''], rg_game_root = [''opt''],
      rg_trust_store = [''r'', ''game-1'', ''trust-store.json''],
      rg_update_root = [''r'', ''game-1'', ''update-root.json''],
      rg_state_root = [''r'', ''game-1''],
      rg_status_path = [''home'', ''.local'', ''state'', ''certael-agent'', ''game-1.json''],
      rg_branding = None\<rparr>"

definition loaded_world :: world where
  "loaded_world = (sample_world registry_fs)\<lparr>wd_clock := [Some sample_nanos, Some sample_nanos]\<rparr>"

lemma registry_loads:
  "registry_load sample_lib sample_registry [''HOME'' \<mapsto> [''home'']] [''r''] ''game-1''
     (sample_world registry_fs) = (Inr sample_game, loaded_world)"
proof -
  let ?w = "sample_world registry_fs"
  have rec: "load_record sample_lib sample_registry [''r'', ''game-1''] ?w =
      (Inr (\<lparr>sr_format_version = 2, sr_signed_registration_base64 = [],
        sr_game_root = ''/opt'', sr_signed_branding_base64 = None\<rparr>, sample_envelope REGISTRATION_DOMAIN 4), ?w)"
    by (simp add: load_record_def registry_joins context_msg_def andThen_def read_regular_calm
        registry_files MAX_REGISTRATION_BYTES_def run_simps)
      (simp add: sample_registry_def signed_registration_def andThen_def run_simps, simp add: sample_envelope_def)
  have cl: "load_claims sample_lib sample_registry ''game-1'' [''r'', ''game-1'']
      (sample_envelope REGISTRATION_DOMAIN 4) ?w
    = (Inr (sample_keys, sample_registration), ?w\<lparr>wd_clock := [Some sample_nanos, Some sample_nanos]\<rparr>)"
    by (simp add: load_claims_def Let_def registry_joins andThen_def read_regular_calm registry_files
        MAX_ROOT_BYTES_def run_simps sample_trust_loaded sample_now_read sample_verified)
      (simp add: sample_registration_def)
  have gp: "load_game_path ''/opt'' sample_registration w = (Inr ([''opt''], [''opt'', ''game'']), w)"
    if "calm w" "wd_fs w = registry_fs" for w
    using that
    by (simp add: load_game_path_def registry_joins registry_files andThen_def calm_query attempt_def
        run_simps sample_registration_def)
  show ?thesis
    by (simp add: registry_load_def safe_id_def ascii_class_defs Let_def registry_joins andThen_def rec
        cl gp load_branding_def run_simps status_path_def state_path_joins sample_game_def loaded_world_def)
qed

end
