(* ===== verification/HostProperties.thy ===== *)
theory HostProperties
  imports HostFixtures
begin

text \<open>
  Properties of the parts that read what the host says: the command line a game is started with, the
  process table, and the registry of games.
\<close>

section \<open>Starting a game\<close>

text \<open>C37: a Windows program that splits its command line by the documented rules gets exactly the
  arguments that \<open>windows_command_line\<close> was given, whatever blanks, quotes and backslashes they contain;
  no argument can end early or bring in another one.\<close>

theorem command_line_roundtrip:
  "split_command_line (Suc (length args)) (windows_command_line game args) = game # args"
  unfolding windows_command_line_def using split_join_quoted [of "game # args"] by simp

section \<open>The process table\<close>

text \<open>The fields the Agent reads from \<^verbatim>\<open>/proc/<pid>/stat\<close>, the parent and the start time of a process,
  do not depend on the process name, which the process chooses: no name, with parentheses, blanks or
  digits in it, changes them.\<close>

theorem stat_fields_unspoofable:
  assumes "CHR '')'' \<notin> set rest"
  shows "stat_field n (pid @ '' ('' @ name @ '')'' @ rest) =
    (let fs = split_whitespace (trim_start rest) in if n < length fs then Some (fs ! n) else None)"
  using after_last_append [OF assms, of "pid @ '' ('' @ name"] by (simp add: stat_field_def)

lemma stat_fields_unspoofable_witness:
  "stat_field 1 ''42 (a) S 1 (b) S 7 42'' = Some ''7''"
proof -
  have "stat_field 1 (''42'' @ '' ('' @ ''a) S 1 (b'' @ '')'' @ '' S 7 42'') = Some ''7''"
    by (subst stat_fields_unspoofable)
      (simp_all add: split_whitespace_def trim_start_def white_group_def is_whitespace_def)
  then show ?thesis by simp
qed

section \<open>The registry\<close>

text \<open>A game that \<open>registry::load\<close> returns rests on signed claims for that very registration, made
  by a key of the trust store on disk whose digest the claims themselves bind, as they bind the update
  root; the executable is a file below the game root, and artwork, if any, is signed for this game and
  matches its digests. No call of \<open>load\<close> writes to the disk.\<close>

theorem registry_load_trusted:
  assumes "registry_load L G env registry_root rid w = (Inr g, w')"
  shows "loaded_game_ok L G (wd_fs w) registry_root rid g \<and> wd_fs w' = wd_fs w"
  using reads_ok [OF reads_registry_load assms] by simp

lemma registry_load_trusted_witness:
  "\<exists>g. loaded_game_ok sample_lib sample_registry registry_fs [''r''] ''game-1'' g \<and>
     rg_game g = [''opt'', ''game'']"
proof -
  from registry_load_trusted [OF registry_loads] show ?thesis
    by (auto simp: sample_game_def)
qed

end
