(* ===== verification/Launch.thy ===== *)
theory Launch
  imports Runtime Registry
begin

text \<open>
  Starting a game: the launch flow of \<^verbatim>\<open>crates/certael-agent/src/main.rs\<close> on Unix, and the stable
  launcher \<^verbatim>\<open>crates/certael-agent/src/bin/certael-agent-launcher.rs\<close>.

  A step acts on a \<open>machine\<close>: the world of the file system calls, the processes started and killed so
  far, and what the next attempts to start a process yield. \<open>launch_host\<close> is what the flow takes from
  its surroundings: the environment variables, the path of the running executable, whether debug
  assertions are compiled in, the process table, the generated key, the outcome of the socket calls and
  of waiting for the game, and the host and ticks of \<open>serve\<close>. What \<open>serve\<close> publishes is written to the
  status file in its order, when \<open>serve\<close> returns.
\<close>

section \<open>Processes\<close>

datatype env_value = Env_text string | Env_path path

record command =
  cmd_program :: path
  cmd_args :: "string list"
  cmd_env :: "(string \<times> env_value option) list"

record machine =
  mc_world :: world
  mc_starts :: "nat option list"
  mc_spawned :: "command list"
  mc_killed :: "nat list"

type_synonym 'a act = "machine \<Rightarrow> (string + 'a) \<times> machine"

definition act_ret :: "'a \<Rightarrow> 'a act" where
  "act_ret x m = (Inr x, m)"

definition act_fail :: "string \<Rightarrow> 'a act" where
  "act_fail e m = (Inl e, m)"

definition act_then :: "'a act \<Rightarrow> ('a \<Rightarrow> 'b act) \<Rightarrow> 'b act" where
  "act_then a f m = (case a m of (Inl e, m') \<Rightarrow> (Inl e, m') | (Inr x, m') \<Rightarrow> f x m')"

definition act_attempt :: "'a act \<Rightarrow> (string + 'a) act" where
  "act_attempt a m = (case a m of (r, m') \<Rightarrow> (Inr r, m'))"

definition on_disk :: "(string, 'a) call \<Rightarrow> 'a act" where
  "on_disk c m = (case c (mc_world m) of (r, w) \<Rightarrow> (r, m\<lparr>mc_world := w\<rparr>))"

text \<open>\<open>Command::spawn\<close>: the process id, or the error.\<close>

definition spawn :: "string \<Rightarrow> command \<Rightarrow> nat act" where
  "spawn message c m =
     (case mc_starts m of
        Some pid # rest \<Rightarrow> (Inr pid, m\<lparr>mc_starts := rest, mc_spawned := mc_spawned m @ [c]\<rparr>)
      | _ \<Rightarrow> (Inl message, m\<lparr>mc_starts := tl (mc_starts m)\<rparr>))"

definition kill_process :: "nat \<Rightarrow> unit act" where
  "kill_process pid m = (Inr (), m\<lparr>mc_killed := mc_killed m @ [pid]\<rparr>)"

record 'r launch_host =
  lh_debug_assertions :: bool
  lh_current_exe :: "path option"
  lh_env :: "string \<rightharpoonup> env_value"
  lh_procs :: proc_view
  lh_key :: bytes
  lh_socketpair :: bool
  lh_cloexec :: bool
  lh_child_fd :: nat
  lh_clone :: bool
  lh_serve :: "'r host"
  lh_writer :: writer
  lh_ticks :: "tick list"
  lh_exit_success :: "bool option"

section \<open>Publishing the status of a launch\<close>

definition publish_binding ::
    "registry_lib \<Rightarrow> RegistrationBinding \<Rightarrow> string \<Rightarrow> string option \<Rightarrow> (string, unit) call"
where
  "publish_binding G registration runtime_state reason =
     andThen (attempt now_unix) (\<lambda>now.
     andThen (attempt (status_publish G (bind_status_path registration)
       \<lparr>st_format_version = 2,
        st_registration_id = bind_registration_id registration,
        st_game_id = bind_game_id registration,
        st_state = runtime_state,
        st_public_reason = reason,
        st_updated_at_unix = (case (now :: string + i64) of Inr t \<Rightarrow> t | Inl _ \<Rightarrow> 0),
        st_launch_attempt_id = Some (bind_launch_attempt_id registration),
        st_milestone_index = map_option of_nat (milestone_index runtime_state),
        st_milestone_total = Some 8\<rparr>)) (\<lambda>_ :: string + unit.
     ret ()))"

text \<open>\<open>publish_runtime\<close> for a list of states, in order.\<close>

fun publish_states ::
    "registry_lib \<Rightarrow> RegistrationBinding option \<Rightarrow> (string \<times> string option) list \<Rightarrow> (string, unit) call"
where
  "publish_states G None entries = ret ()"
| "publish_states G (Some registration) [] = ret ()"
| "publish_states G (Some registration) ((state, reason) # entries) =
     andThen (publish_binding G registration state reason) (\<lambda>_.
     publish_states G (Some registration) entries)"

section \<open>The selected Agent\<close>

definition default_install_root :: path where
  "default_install_root = [''usr'', ''local'', ''lib'', ''certael-agent'']"

definition platform_agent_name :: string where
  "platform_agent_name = ''certael-agent''"

definition target_platform :: string where
  "target_platform = ''x86_64-unknown-linux-gnu''"

definition env_text :: "(string \<rightharpoonup> env_value) \<Rightarrow> string \<Rightarrow> string option" where
  "env_text env name = (case env name of Some (Env_text s) \<Rightarrow> Some s | _ \<Rightarrow> None)"

definition env_path :: "(string \<rightharpoonup> env_value) \<Rightarrow> string \<Rightarrow> path option" where
  "env_path env name =
     (case env name of
        Some (Env_path p) \<Rightarrow> Some p
      | Some (Env_text s) \<Rightarrow> Some (join_path [] s)
      | None \<Rightarrow> None)"

text \<open>The variables the launcher sets, checked left to right.\<close>

definition launcher_verified :: "(string \<rightharpoonup> env_value) \<Rightarrow> path \<Rightarrow> (string, bool) call" where
  "launcher_verified env selected =
     (if env_text env ''CERTAEL_AGENT_LAUNCHER_VERIFIED'' = Some ''1''
         \<and> env_text env ''CERTAEL_AGENT_SELECTED_VERSION'' = Some AGENT_VERSION then
        (case env_path env ''CERTAEL_AGENT_SELECTED_TARGET'' of
           None \<Rightarrow> ret False
         | Some p \<Rightarrow>
             andThen (attempt (query () (\<lambda>fs. realpath fs p))) (\<lambda>r. ret (r = Inr selected)))
      else ret False)"

definition is_active_target :: "'v lib \<Rightarrow> json \<Rightarrow> path \<Rightarrow> (string, bool) call" where
  "is_active_target L J selected =
     andThen (attempt (active_target L J (AbsolutePath default_install_root))) (\<lambda>active.
     case active of
       Inl _ \<Rightarrow> ret False
     | Inr p \<Rightarrow> andThen (attempt (query () (\<lambda>fs. realpath fs p))) (\<lambda>r. ret (r = Inr selected)))"

definition verify_selected_agent ::
    "'v lib \<Rightarrow> json \<Rightarrow> 'r launch_host \<Rightarrow> (string, unit) call"
where
  "verify_selected_agent L J H =
     andThen (lift (ok_or ''cannot locate selected Certael Agent version'' (lh_current_exe H))) (\<lambda>exe.
     andThen (query ''cannot resolve selected Certael Agent version'' (\<lambda>fs. realpath fs exe)) (\<lambda>selected.
     andThen (attempt (query () (\<lambda>fs. read_file fs selected))) (\<lambda>is_file.
     if \<not> is_ok is_file then throw ''selected Certael Agent version is unavailable''
     else
       andThen (launcher_verified (lh_env H) selected) (\<lambda>verified.
       if verified then ret ()
       else
         andThen (is_active_target L J selected) (\<lambda>active.
         if active then ret ()
         else if lh_debug_assertions H then ret ()
         else throw ''selected Certael Agent was not verified by the stable launcher'')))))"

section \<open>Starting the game and serving it\<close>

text \<open>\<open>u8::from_str_radix\<close> of two characters in base 16, which accepts a leading plus sign.\<close>

definition byte_from_hex :: "char \<Rightarrow> char \<Rightarrow> byte option" where
  "byte_from_hex c d =
     (if c = CHR ''+'' then map_option of_nat (hex_value d)
      else
        (case (hex_value c, hex_value d) of
           (Some h, Some l) \<Rightarrow> Some (of_nat (16 * h + l)) | _ \<Rightarrow> None))"

fun bytes_from_hex :: "string \<Rightarrow> bytes option" where
  "bytes_from_hex (c # d # s) =
     (case byte_from_hex c d of
        None \<Rightarrow> None | Some b \<Rightarrow> map_option ((#) b) (bytes_from_hex s))"
| "bytes_from_hex s = Some []"

definition hex_to_32 :: "string \<Rightarrow> string + bytes" where
  "hex_to_32 value =
     (if length value \<noteq> 64 then Inl ''invalid SHA-256 digest''
      else ok_or ''invalid SHA-256 digest'' (bytes_from_hex value))"

text \<open>A session has ended well, or is still going on when the ticks end.\<close>

datatype session_end = Ended | Ongoing

definition game_command :: "path \<Rightarrow> string list \<Rightarrow> nat \<Rightarrow> command" where
  "game_command game args child_fd =
     \<lparr>cmd_program = game, cmd_args = args,
      cmd_env = [(''CERTAEL_AGENT_FD'', Some (Env_text (show_nat child_fd)))]\<rparr>"

definition serve_game ::
    "'v lib \<Rightarrow> registry_lib \<Rightarrow> 'r launch_host \<Rightarrow> RuntimeState \<Rightarrow> nat \<Rightarrow> session_end act"
where
  "serve_game L G H state pid =
     (case serve L (lh_serve H) state \<lparr>io_writer = lh_writer H, io_published = []\<rparr> (lh_ticks H) of
        Running s \<Rightarrow>
          act_then (on_disk (publish_states G (rts_registration state) (io_published (ls_io s)))) (\<lambda>_.
          act_ret Ongoing)
      | Finished (Inl e) x \<Rightarrow>
          act_then (on_disk (publish_states G (rts_registration state) (io_published x))) (\<lambda>_.
          act_then (kill_process pid) (\<lambda>_. act_fail e))
      | Finished (Inr _) x \<Rightarrow>
          act_then (on_disk (publish_states G (rts_registration state) (io_published x))) (\<lambda>_.
          case lh_exit_success H of
            None \<Rightarrow> act_fail ''cannot wait for the game''
          | Some False \<Rightarrow> act_fail ''game exited unsuccessfully''
          | Some True \<Rightarrow> act_ret Ended))"

definition launch_unix ::
    "'v lib \<Rightarrow> registry_lib \<Rightarrow> 'r launch_host \<Rightarrow> path \<Rightarrow> string list \<Rightarrow> RuntimeState \<Rightarrow> session_end act"
where
  "launch_unix L G H game args state =
     (if \<not> lh_socketpair H then act_fail ''failed to create private Agent socketpair''
      else if \<not> lh_cloexec H then act_fail ''failed to secure private Agent socketpair''
      else
        act_then (spawn ''failed to launch game'' (game_command game args (lh_child_fd H))) (\<lambda>pid.
        if \<not> lh_clone H then act_fail ''failed to clone private Agent channel''
        else
          serve_game L G H
            (state\<lparr>rts_game_process_id := pid,
                   rts_game_process_identity := process_identity (lh_procs H) pid\<rparr>) pid))"

definition agent_hello :: "'v lib \<Rightarrow> 'r launch_host \<Rightarrow> IntegritySnapshot \<Rightarrow> bytes \<Rightarrow> AgentHelloV1" where
  "agent_hello L H snapshot executable_sha256 =
     \<lparr>hello_protocol_version = PROTOCOL_VERSION,
      hello_agent_version = AGENT_VERSION,
      hello_agent_public_key = sk_verifying L (lh_key H),
      hello_build_id = snap_executable_sha256 snapshot,
      hello_executable_sha256 = executable_sha256\<rparr>"

definition launch_with_root ::
    "'v lib \<Rightarrow> registry_lib \<Rightarrow> 'r launch_host \<Rightarrow> path \<Rightarrow> path \<Rightarrow> path \<Rightarrow> string list
      \<Rightarrow> RegistrationBinding option \<Rightarrow> AutomaticUpdateBinding option \<Rightarrow> session_end act"
where
  "launch_with_root L G H game game_root trust_store args registration automatic_update =
     act_then (on_disk (inspect_executable L (lh_procs H) game)) (\<lambda>snapshot.
     act_then (on_disk (lift (hex_to_32 (snap_executable_sha256 snapshot)))) (\<lambda>executable_sha256.
     act_then (on_disk (trust_load (rl_trust G) trust_store)) (\<lambda>keys.
     act_then (on_disk (publish_states G registration [(''starting_game'', None)])) (\<lambda>_.
     launch_unix L G H game args
       \<lparr>rts_game = game,
        rts_game_root = game_root,
        rts_game_process_id = 0,
        rts_game_process_identity = None,
        rts_key = lh_key H,
        rts_hello = agent_hello L H snapshot executable_sha256,
        rts_trust = keys,
        rts_registration = registration,
        rts_automatic_update = automatic_update\<rparr>))))"

definition launch_with_registration ::
    "'v lib \<Rightarrow> registry_lib \<Rightarrow> 'r launch_host \<Rightarrow> path \<Rightarrow> path \<Rightarrow> string list
      \<Rightarrow> RegistrationBinding option \<Rightarrow> session_end act"
where
  "launch_with_registration L G H game trust_store args registration =
     act_then (on_disk (validate_game_path game)) (\<lambda>game.
     if game = [] then act_fail ''game has no installation root''
     else launch_with_root L G H game (butlast game) trust_store args registration None)"

text \<open>The command \<open>launch\<close>, for a game that is not registered.\<close>

definition launch_unregistered ::
    "'v lib \<Rightarrow> registry_lib \<Rightarrow> 'r launch_host \<Rightarrow> path \<Rightarrow> path \<Rightarrow> string list \<Rightarrow> session_end act"
where
  "launch_unregistered L G H game trust_store args =
     launch_with_registration L G H game trust_store args None"

section \<open>Registered games\<close>

definition registered_entry :: "RegisteredGameFileV1 \<Rightarrow> ProtectedBuildFile" where
  "registered_entry f =
     \<lparr>pbf_path = rgf_relative_path f, pbf_size = rgf_size f, pbf_sha256 = hex_encode (rgf_sha256 f)\<rparr>"

definition registration_manifest ::
    "GameRegistrationClaimsV1 \<Rightarrow> RegisteredGameFileV1 list \<Rightarrow> ProtectedBuildManifest"
where
  "registration_manifest claims files =
     \<lparr>pbm_build_id = ''registration:'' @ reg_registration_id claims,
      pbm_files = map registered_entry files\<rparr>"

definition verify_registered_file :: "'v lib \<Rightarrow> RegisteredGame \<Rightarrow> string \<Rightarrow> (string, unit) call" where
  "verify_registered_file L registered relative_path =
     andThen (lift (ok_or ''registered recovery executable has no signed file binding''
       (find (\<lambda>f. eq_ignore_ascii_case (rgf_relative_path f) relative_path)
         (reg_registered_files (rg_claims registered))))) (\<lambda>f.
     andThen (context_msg ''registered recovery executable could not be verified''
       (verify_build_files L (rg_game_root registered)
         (registration_manifest (rg_claims registered) [f]))) (\<lambda>mismatches.
     if mismatches \<noteq> [] then throw ''registered recovery executable does not match its signed digest''
     else ret ()))"

definition run_registered_repair :: "'v lib \<Rightarrow> RegisteredGame \<Rightarrow> unit act" where
  "run_registered_repair L registered =
     (let claims = rg_claims registered; path = reg_repair_executable_relative_path claims in
      if path = [] then act_fail ''this game did not register a repair action''
      else
        act_then (on_disk (verify_registered_file L registered path)) (\<lambda>_.
        act_then (spawn ''failed to start the registered game repair action''
          \<lparr>cmd_program = join_path (rg_game_root registered) path,
           cmd_args = reg_repair_arguments claims, cmd_env = []\<rparr>) (\<lambda>_.
        act_ret ())))"

definition launch_registered_offline :: "'v lib \<Rightarrow> proc_view \<Rightarrow> RegisteredGame \<Rightarrow> unit act" where
  "launch_registered_offline L V registered =
     (let claims = rg_claims registered; path = reg_executable_relative_path claims in
      if \<not> reg_offline_play_allowed claims
      then act_fail ''this game does not allow offline launch from Certael Agent''
      else
        act_then
          (if list_ex (\<lambda>f. eq_ignore_ascii_case (rgf_relative_path f) path) (reg_registered_files claims)
           then on_disk (verify_registered_file L registered path)
           else
             act_then (on_disk (context_msg ''offline game executable could not be verified''
               (inspect_executable L V (rg_game registered)))) (\<lambda>_. act_ret ())) (\<lambda>_.
        act_then (spawn ''failed to launch the registered offline game''
          \<lparr>cmd_program = rg_game registered, cmd_args = reg_offline_arguments claims,
           cmd_env = [(''CERTAEL_AGENT_FD'', None), (''CERTAEL_AGENT_READ_HANDLE'', None),
             (''CERTAEL_AGENT_WRITE_HANDLE'', None)]\<rparr>) (\<lambda>_.
        act_ret ())))"

definition registration_binding :: "RegisteredGame \<Rightarrow> string \<Rightarrow> RegistrationBinding" where
  "registration_binding registered launch_attempt_id =
     \<lparr>bind_registration_id = reg_registration_id (rg_claims registered),
      bind_tenant_id = reg_tenant_id (rg_claims registered),
      bind_game_id = reg_game_id (rg_claims registered),
      bind_environment_id = reg_environment_id (rg_claims registered),
      bind_status_path = rg_status_path registered,
      bind_launch_attempt_id = launch_attempt_id\<rparr>"

definition update_binding :: "RegisteredGame \<Rightarrow> AutomaticUpdateBinding" where
  "update_binding registered =
     (let claims = rg_claims registered in
      \<lparr>auto_trusted_root = AbsolutePath (rg_update_root registered),
       auto_metadata_url = reg_update_metadata_url claims,
       auto_targets_url = reg_update_targets_url claims,
       auto_state_root =
         join_path (join_path (butlast (rg_status_path registered)) ''updates'') (reg_registration_id claims),
       auto_install_root = AbsolutePath default_install_root,
       auto_channel = reg_update_channel claims,
       auto_platform = target_platform,
       auto_target_name = ''certael-agent/'' @ reg_update_channel claims @ ''/'' @ target_platform,
       auto_installed_name = platform_agent_name\<rparr>)"

text \<open>Run a check; when it fails, publish the reason and fail with its error.\<close>

definition or_publish_failure ::
    "registry_lib \<Rightarrow> RegistrationBinding \<Rightarrow> string \<Rightarrow> (string, 'a) call \<Rightarrow> (string, 'a) call"
where
  "or_publish_failure G binding reason check =
     andThen (attempt check) (\<lambda>r.
     case r of
       Inr x \<Rightarrow> ret x
     | Inl e \<Rightarrow>
         andThen (publish_binding G binding ''launch_failed'' (Some reason)) (\<lambda>_. throw e))"

text \<open>The files of the registration, or without any the executable.\<close>

definition check_registered_files ::
    "'v lib \<Rightarrow> registry_lib \<Rightarrow> proc_view \<Rightarrow> RegisteredGame \<Rightarrow> RegistrationBinding \<Rightarrow> (string, unit) call"
where
  "check_registered_files L G V registered binding =
     (let claims = rg_claims registered in
      if reg_registered_files claims \<noteq> [] then
        andThen (or_publish_failure G binding ''REGISTERED_GAME_FILES_UNREADABLE''
          (context_msg ''registered game files could not be hashed''
            (verify_build_files L (rg_game_root registered)
              (registration_manifest claims (reg_registered_files claims))))) (\<lambda>mismatches.
        if mismatches \<noteq> [] then
          andThen (publish_binding G binding ''launch_failed'' (Some ''REGISTERED_GAME_FILES_MISMATCH''))
            (\<lambda>_. throw ''registered game files do not match their signed registration'')
        else ret ())
      else
        andThen (context_msg ''registered game executable could not be hashed''
          (inspect_executable L V (rg_game registered))) (\<lambda>_. ret ()))"

text \<open>Everything \<open>launch_registered\<close> does before it builds the update binding.\<close>

definition prepare_launch ::
    "'v lib \<Rightarrow> json \<Rightarrow> registry_lib \<Rightarrow> 'r launch_host \<Rightarrow> RegisteredGame \<Rightarrow> RegistrationBinding
      \<Rightarrow> (string, unit) call"
where
  "prepare_launch L J G H registered binding =
     andThen (publish_binding G binding ''verifying_agent_version'' None) (\<lambda>_.
     andThen (or_publish_failure G binding ''AGENT_VERSION_UNVERIFIED'' (verify_selected_agent L J H)) (\<lambda>_.
     andThen (publish_binding G binding ''loading_signed_registration'' None) (\<lambda>_.
     andThen (publish_binding G binding ''hashing_registered_game_files'' None) (\<lambda>_.
     check_registered_files L G (lh_procs H) registered binding))))"

text \<open>After a failed launch: unless this attempt's final state is published already, publish one.\<close>

definition already_published :: "RegistrationBinding \<Rightarrow> RuntimeStatus \<Rightarrow> bool" where
  "already_published binding status \<longleftrightarrow>
     st_launch_attempt_id status = Some (bind_launch_attempt_id binding) \<and>
     st_state status \<in> {''launch_failed'', ''update_failed'', ''update_ready''}"

definition publish_failed_launch :: "registry_lib \<Rightarrow> RegistrationBinding \<Rightarrow> (string, unit) call" where
  "publish_failed_launch G binding =
     andThen (attempt (status_read G (bind_status_path binding))) (\<lambda>status.
     case status of
       Inr value \<Rightarrow>
         if already_published binding value then ret ()
         else publish_binding G binding ''launch_failed'' (Some ''PROTECTED_LAUNCH_FAILED'')
     | Inl (_ :: string) \<Rightarrow>
         publish_binding G binding ''launch_failed'' (Some ''PROTECTED_LAUNCH_FAILED''))"

definition launch_registered ::
    "'v lib \<Rightarrow> json \<Rightarrow> registry_lib \<Rightarrow> 'r launch_host \<Rightarrow> RegisteredGame \<Rightarrow> string list \<Rightarrow> string
      \<Rightarrow> session_end act"
where
  "launch_registered L J G H registered args launch_attempt_id =
     (if rg_status_path registered = []
      then act_fail ''registered game has no user update-state directory''
      else
        let binding = registration_binding registered launch_attempt_id in
        act_then (on_disk (prepare_launch L J G H registered binding)) (\<lambda>_.
        act_then (act_attempt (launch_with_root L G H (rg_game registered) (rg_game_root registered)
          (rg_trust_store registered) args (Some binding) (Some (update_binding registered)))) (\<lambda>result.
        case result of
          Inr e \<Rightarrow> act_ret e
        | Inl e \<Rightarrow>
            act_then (on_disk (publish_failed_launch G binding)) (\<lambda>_. act_fail e))))"

section \<open>The commands that start a game\<close>

definition spawn_launch_splash :: "'r launch_host \<Rightarrow> string \<Rightarrow> string \<Rightarrow> path \<Rightarrow> unit act" where
  "spawn_launch_splash H registration_id launch_attempt_id registry_root =
     (case lh_current_exe H of
        None \<Rightarrow> act_fail ''cannot locate the Certael Agent launch window''
      | Some executable \<Rightarrow>
          act_then (spawn ''failed to start the Certael Agent launch window''
            \<lparr>cmd_program = executable,
             cmd_args = [''launch-splash'', ''--registration-id'', registration_id,
               ''--launch-attempt-id'', launch_attempt_id, ''--registry-root'', path_text registry_root],
             cmd_env = []\<rparr>) (\<lambda>_. act_ret ()))"

text \<open>\<open>launch-game\<close>; the attempt id is a fresh UUID.\<close>

definition launch_game ::
    "'v lib \<Rightarrow> json \<Rightarrow> registry_lib \<Rightarrow> (string \<rightharpoonup> path) \<Rightarrow> 'r launch_host \<Rightarrow> string \<Rightarrow> path option
      \<Rightarrow> string list \<Rightarrow> string \<Rightarrow> session_end act"
where
  "launch_game L J G env H registration_id registry_root args uuid =
     (let root = (case registry_root of Some r \<Rightarrow> r | None \<Rightarrow> default_root) in
      act_then (on_disk (registry_load L G env root registration_id)) (\<lambda>registered.
      act_then (spawn_launch_splash H registration_id uuid root) (\<lambda>_.
      launch_registered L J G H registered args uuid)))"

section \<open>The stable launcher\<close>

text \<open>The command the launcher executes in its place; \<open>args\<close> are its own arguments.\<close>

definition launcher_command :: "path \<Rightarrow> string list \<Rightarrow> command" where
  "launcher_command target args =
     \<lparr>cmd_program = target, cmd_args = args,
      cmd_env =
        [(''CERTAEL_AGENT_LAUNCHER_VERIFIED'', Some (Env_text ''1'')),
         (''CERTAEL_AGENT_SELECTED_VERSION'', Some (Env_text AGENT_VERSION)),
         (''CERTAEL_AGENT_SELECTED_TARGET'', Some (Env_path target))]\<rparr>"

definition launcher_main ::
    "'v lib \<Rightarrow> json \<Rightarrow> path option \<Rightarrow> string list \<Rightarrow> (string, command) call"
where
  "launcher_main L J current_exe args =
     andThen (lift (ok_or ''cannot locate the Certael Agent launcher'' current_exe)) (\<lambda>exe.
     andThen (query ''cannot resolve the Certael Agent launcher'' (\<lambda>fs. realpath fs exe)) (\<lambda>launcher.
     if launcher = [] then throw ''Certael Agent launcher has no installation root''
     else
       andThen (attempt (active_target L J (AbsolutePath (butlast launcher)))) (\<lambda>active.
       case active of
         Inl _ \<Rightarrow>
           throw ''the active Certael Agent installation is invalid; run recovery or reinstall''
       | Inr target \<Rightarrow>
           if target = launcher then throw ''Certael Agent launcher activation loop detected''
           else ret (launcher_command target args))))"

text \<open>
  Windows has no \<open>exec\<close>: there the launcher waits for the command and exits with its code, or with 1 when it has
  none. \<open>status\<close> is the answer of \<open>Command::status\<close>.
\<close>

definition launcher_exit_code :: "int option option \<Rightarrow> string + int" where
  "launcher_exit_code status =
     bindE (ok_or ''failed to execute the active Certael Agent'' status) (\<lambda>status_code.
     Inr (case status_code of Some n \<Rightarrow> n | None \<Rightarrow> 1))"

end
