(* ===== verification/LaunchFacts.thy ===== *)
theory LaunchFacts
  imports Launch RuntimeFacts Handoff
begin

text \<open>
  Facts on starting a game: which processes a launch starts and kills, what was checked on the file
  system from which the game is started, and that the Agent a launcher starts accepts itself.
\<close>

section \<open>Composition\<close>

lemma act_then_ok:
  "act_then a f m = (Inr y, m') \<longleftrightarrow> (\<exists>x m1. a m = (Inr x, m1) \<and> f x m1 = (Inr y, m'))"
  by (auto simp: act_then_def split: prod.splits sum.splits)

lemma act_run:
  "a m = (Inr x, m1) \<Longrightarrow> act_then a f m = f x m1"
  "a m = (Inl e, m1) \<Longrightarrow> act_then a f m = (Inl e, m1)"
  "act_ret x m = (Inr x, m)" "act_fail e m = (Inl e, m)"
  "a m = (r, m1) \<Longrightarrow> act_attempt a m = (Inr r, m1)"
  by (simp_all add: act_then_def act_ret_def act_fail_def act_attempt_def)

lemma on_disk_ok: "on_disk c m = (Inr x, m') \<longleftrightarrow> (\<exists>w. c (mc_world m) = (Inr x, w) \<and> m' = m\<lparr>mc_world := w\<rparr>)"
  by (auto simp: on_disk_def split: prod.splits)

lemma context_msg_ok: "context_msg e c w = (Inr x, w') \<longleftrightarrow> c w = (Inr x, w')"
  by (auto simp: context_msg_def mapErr_ok split: prod.splits)

text \<open>The processes a step does not touch.\<close>

definition same_processes :: "machine \<Rightarrow> machine \<Rightarrow> bool" where
  "same_processes m m' \<longleftrightarrow> mc_spawned m' = mc_spawned m \<and> mc_killed m' = mc_killed m"

definition starts_nothing :: "'a act \<Rightarrow> bool" where
  "starts_nothing a \<longleftrightarrow> (\<forall>m r m'. a m = (r, m') \<longrightarrow> same_processes m m')"

lemma starts_nothingD: "starts_nothing a \<Longrightarrow> a m = (r, m') \<Longrightarrow> same_processes m m'"
  by (auto simp: starts_nothing_def)

lemma same_processes_trans: "same_processes m m1 \<Longrightarrow> same_processes m1 m2 \<Longrightarrow> same_processes m m2"
  by (simp add: same_processes_def)

lemma starts_nothing_intros:
  "starts_nothing (on_disk c)" "starts_nothing (act_ret x)" "starts_nothing (act_fail e)"
  by (auto simp: starts_nothing_def same_processes_def on_disk_def act_ret_def act_fail_def split: prod.splits)

lemma starts_nothing_then:
  assumes "starts_nothing a" and "\<And>x. starts_nothing (f x)"
  shows "starts_nothing (act_then a f)"
  unfolding starts_nothing_def
proof (intro allI impI)
  fix m r m'
  assume run: "act_then a f m = (r, m')"
  obtain q m1 where a: "a m = (q, m1)"
    by fastforce
  note first = starts_nothingD [OF assms(1) a]
  show "same_processes m m'"
  proof (cases q)
    case (Inl e)
    with run a first show ?thesis by (simp add: act_run)
  next
    case (Inr x)
    with run a have "f x m1 = (r, m')"
      by (simp add: act_run)
    with first show ?thesis
      by (blast intro: same_processes_trans starts_nothingD [OF assms(2)])
  qed
qed

lemma spawn_cases:
  assumes "spawn e c m = (r, m')"
  obtains (started) pid where "r = Inr pid" "mc_spawned m' = mc_spawned m @ [c]"
      "mc_killed m' = mc_killed m" "mc_world m' = mc_world m" "hd (mc_starts m) = Some pid"
  | (failed) "r = Inl e" "same_processes m m'" "mc_world m' = mc_world m"
  using assms by (auto simp: spawn_def same_processes_def split: list.splits option.splits)

section \<open>Serving a game\<close>

definition session_of :: "'v lib \<Rightarrow> 'r launch_host \<Rightarrow> RuntimeState \<Rightarrow> run" where
  "session_of L H state =
     serve L (lh_serve H) state \<lparr>io_writer = lh_writer H, io_published = []\<rparr> (lh_ticks H)"

text \<open>How serving ends decides what happens to the game's process.\<close>

lemma serve_game_cases:
  assumes "serve_game L G H state pid m = (r, m')"
  shows "mc_spawned m' = mc_spawned m \<and>
    mc_killed m' = mc_killed m @ (case session_of L H state of Finished (Inl e) x \<Rightarrow> [pid] | _ \<Rightarrow> []) \<and>
    (case session_of L H state of
       Running s \<Rightarrow> r = Inr Ongoing
     | Finished (Inl e) x \<Rightarrow> r = Inl e
     | Finished (Inr u) x \<Rightarrow>
         (r = Inr Ended \<longleftrightarrow> lh_exit_success H = Some True) \<and> r \<noteq> Inr Ongoing)"
proof -
  have total: "\<exists>w'. publish_states G reg es w = (Inr (), w')" for reg es w
    by (induction G reg es arbitrary: w rule: publish_states.induct)
      (auto simp: publish_binding_def andThen_def attempt_def ret_def split: prod.splits)
  then obtain f where f: "publish_states G reg es w = (Inr (), f reg es w)" for reg es w
    by metis
  show ?thesis
    using assms
    by (auto simp: serve_game_def session_of_def [symmetric] act_then_def on_disk_def f act_ret_def act_fail_def
        kill_process_def split: run.splits sum.splits option.splits bool.splits)
qed

definition running_state :: "'r launch_host \<Rightarrow> RuntimeState \<Rightarrow> nat \<Rightarrow> RuntimeState" where
  "running_state H state pid =
     state\<lparr>rts_game_process_id := pid, rts_game_process_identity := process_identity (lh_procs H) pid\<rparr>"

lemma launch_unix_cases:
  assumes "launch_unix L G H game args state m = (r, m')"
  obtains (none) e where "r = Inl e" "same_processes m m'"
  | (unserved) e where "r = Inl e" "\<not> lh_clone H" "mc_killed m' = mc_killed m"
      "mc_spawned m' = mc_spawned m @ [game_command game args (lh_child_fd H)]"
  | (served) pid m1 where "lh_clone H" "mc_killed m1 = mc_killed m"
      "mc_spawned m1 = mc_spawned m @ [game_command game args (lh_child_fd H)]"
      "serve_game L G H (running_state H state pid) pid m1 = (r, m')"
proof (cases "lh_socketpair H \<and> lh_cloexec H")
  case True
  obtain q m1 where s: "spawn ''failed to launch game'' (game_command game args (lh_child_fd H)) m = (q, m1)"
    by fastforce
  from s show ?thesis
  proof (cases rule: spawn_cases)
    case (started pid)
    show ?thesis
    proof (cases "lh_clone H")
      case True
      with started assms s \<open>lh_socketpair H \<and> lh_cloexec H\<close> show ?thesis
        by (intro served [of m1 pid]) (simp_all add: launch_unix_def act_run running_state_def)
    next
      case False
      with started assms s \<open>lh_socketpair H \<and> lh_cloexec H\<close> show ?thesis
        by (intro unserved) (auto simp: launch_unix_def act_run)
    qed
  next
    case failed
    with assms s True show ?thesis
      by (intro none) (auto simp: launch_unix_def act_run)
  qed
next
  case False
  with assms obtain e where "r = Inl e" "m' = m"
    by (cases "lh_socketpair H") (auto simp: launch_unix_def act_run)
  then show ?thesis
    by (intro none) (simp_all add: same_processes_def)
qed

section \<open>What is started, and from which files\<close>

text \<open>The state a game is served with.\<close>

definition served_state ::
    "'v lib \<Rightarrow> 'r launch_host \<Rightarrow> path \<Rightarrow> path \<Rightarrow> bytes \<Rightarrow> VerificationKeyRing \<Rightarrow> RegistrationBinding option
      \<Rightarrow> RuntimeState \<Rightarrow> bool"
where
  "served_state L H game game_root executable keys registration state \<longleftrightarrow>
     rts_game state = game \<and> rts_game_root state = game_root \<and> rts_key state = lh_key H \<and>
     rts_trust state = keys \<and> rts_registration state = registration \<and>
     hello_build_id (rts_hello state) = hex_encode (sha256 L executable)"

text \<open>A launch that started the game: the session's state, and what became of the process.\<close>

definition started_game ::
    "'v lib \<Rightarrow> 'r launch_host \<Rightarrow> command \<Rightarrow> RuntimeState \<Rightarrow> machine \<Rightarrow> string + session_end \<Rightarrow> machine \<Rightarrow> bool"
where
  "started_game L H c state m r m' \<longleftrightarrow>
     mc_spawned m' = mc_spawned m @ [c] \<and>
     (\<not> lh_clone H \<and> \<not> is_ok r \<and> mc_killed m' = mc_killed m \<or>
      lh_clone H \<and>
      (case session_of L H state of
         Running s \<Rightarrow> r = Inr Ongoing \<and> mc_killed m' = mc_killed m
       | Finished (Inl e) x \<Rightarrow>
           r = Inl e \<and> mc_killed m' = mc_killed m @ [rts_game_process_id state]
       | Finished (Inr u) x \<Rightarrow>
           (r = Inr Ended \<longleftrightarrow> lh_exit_success H = Some True) \<and> r \<noteq> Inr Ongoing \<and>
           mc_killed m' = mc_killed m))"

lemma launch_unix_started:
  assumes "launch_unix L G H game args state m = (r, m')" and "\<not> (\<exists>e. r = Inl e \<and> same_processes m m')"
  shows "\<exists>pid. started_game L H (game_command game args (lh_child_fd H)) (running_state H state pid) m r m'"
  using assms(1)
proof (cases rule: launch_unix_cases)
  case (none e)
  with assms(2) show ?thesis by blast
next
  case (unserved e)
  then show ?thesis
    by (auto simp: started_game_def)
next
  case (served pid m1)
  from serve_game_cases [OF served(4)] served(1-3) show ?thesis
    by (intro exI [of _ pid])
      (auto simp: started_game_def running_state_def split: run.splits sum.splits)
qed

lemma started_game_from:
  assumes "started_game L H c state m1 r m'" and "same_processes m m1"
  shows "started_game L H c state m r m'"
  using assms unfolding started_game_def same_processes_def by metis

lemma started_game_until:
  assumes "started_game L H c state m r m1" and "same_processes m1 m'"
  shows "started_game L H c state m r m'"
  using assms unfolding started_game_def same_processes_def by metis

lemma launch_with_root_started:
  assumes run: "launch_with_root L G H game game_root trust_store args reg upd m = (r, m')"
    and started: "\<not> (\<exists>e. r = Inl e \<and> same_processes m m')"
  shows "\<exists>q exe K state. realpath (wd_fs (mc_world m)) game = Some q \<and>
    read_file (wd_fs (mc_world m)) q = Some exe \<and>
    served_state L H game game_root exe K reg state \<and>
    started_game L H (game_command game args (lh_child_fd H)) state m r m'"
proof -
  define rest where "rest snapshot sha keys = act_then (on_disk (publish_states G reg [(''starting_game'', None)])) (\<lambda>_.
     launch_unix L G H game args
       \<lparr>rts_game = game, rts_game_root = game_root, rts_game_process_id = 0,
        rts_game_process_identity = None, rts_key = lh_key H, rts_hello = agent_hello L H snapshot sha,
        rts_trust = keys, rts_registration = reg, rts_automatic_update = upd\<rparr>)" for snapshot sha keys
  have same: "same_processes m (m\<lparr>mc_world := w\<rparr>)" for w
    by (simp add: same_processes_def)
  from run started obtain snapshot w1 sha w2 keys w3 where
    i: "inspect_executable L (lh_procs H) game (mc_world m) = (Inr snapshot, w1)" and
    rest: "rest snapshot sha keys (m\<lparr>mc_world := w3\<rparr>) = (r, m')"
    by (auto simp: launch_with_root_def act_then_def on_disk_def lift_def rest_def [symmetric] same
        split: prod.splits sum.splits)
  from rest started obtain w4 state0 where
    u: "launch_unix L G H game args state0 (m\<lparr>mc_world := w4\<rparr>) = (r, m')" and
    state0: "rts_game state0 = game" "rts_game_root state0 = game_root" "rts_key state0 = lh_key H"
      "rts_trust state0 = keys" "rts_registration state0 = reg"
      "hello_build_id (rts_hello state0) = snap_executable_sha256 snapshot"
    by (auto simp: rest_def act_then_def on_disk_def same agent_hello_def split: prod.splits sum.splits)
  from started have "\<not> (\<exists>e. r = Inl e \<and> same_processes (m\<lparr>mc_world := w4\<rparr>) m')"
    by (simp add: same_processes_def)
  from launch_unix_started [OF u this] obtain pid where
    "started_game L H (game_command game args (lh_child_fd H)) (running_state H state0 pid) m r m'"
    by (blast intro: started_game_from same)
  moreover from reads_ok [OF reads_inspect_executable i] obtain q exe where
    "realpath (wd_fs (mc_world m)) game = Some q" "read_file (wd_fs (mc_world m)) q = Some exe"
    "snap_executable_sha256 snapshot = hex_encode (sha256 L exe)"
    by auto
  ultimately show ?thesis
    using state0
    by (intro exI [of _ q] exI [of _ exe] exI [of _ keys] exI [of _ "running_state H state0 pid"])
      (simp add: served_state_def running_state_def)
qed

definition registered_files_ok :: "'v lib \<Rightarrow> fs \<Rightarrow> RegisteredGame \<Rightarrow> bool" where
  "registered_files_ok L fs g \<longleftrightarrow>
     reg_registered_files (rg_claims g) \<noteq> [] \<longrightarrow>
     (\<exists>root. realpath fs (rg_game_root g) = Some root \<and>
        (\<forall>f \<in> set (reg_registered_files (rg_claims g)). entry_ok L fs root (registered_entry f)))"

lemma or_publish_failure_ok:
  "or_publish_failure G b reason c w = (Inr x, w') \<longleftrightarrow> c w = (Inr x, w')"
  by (auto simp: or_publish_failure_def andThen_def attempt_def ret_def throw_def split: prod.splits sum.splits)

lemma check_registered_files_ok:
  assumes "check_registered_files L G V g b w = (Inr (), w')"
  shows "registered_files_ok L (wd_fs w') g"
proof (cases "reg_registered_files (rg_claims g) = []")
  case True
  then show ?thesis by (simp add: registered_files_ok_def)
next
  case False
  with assms have "verify_build_files L (rg_game_root g)
      (registration_manifest (rg_claims g) (reg_registered_files (rg_claims g))) w = (Inr [], w')"
    by (auto simp: check_registered_files_def Let_def andThen_ok or_publish_failure_ok context_msg_ok
        throw_def ret_def split: if_splits)
  from reads_ok [OF reads_verify_build_files this] show ?thesis
    by (auto simp: registered_files_ok_def registration_manifest_def)
qed

text \<open>
  What a verified Agent is, on the disk it is verified on: the running program is a file there, and the launcher
  named it together with this version, or it is the version that \<open>active_target\<close> finds in the installation, or
  this is a debug build.
\<close>

definition selected_agent_ok :: "'v lib \<Rightarrow> json \<Rightarrow> 'r launch_host \<Rightarrow> fs \<Rightarrow> bool" where
  "selected_agent_ok L J H fs \<longleftrightarrow>
     (\<exists>exe q bs. lh_current_exe H = Some exe \<and> realpath fs exe = Some q \<and> read_file fs q = Some bs \<and>
        (env_text (lh_env H) ''CERTAEL_AGENT_LAUNCHER_VERIFIED'' = Some ''1'' \<and>
         env_text (lh_env H) ''CERTAEL_AGENT_SELECTED_VERSION'' = Some AGENT_VERSION \<and>
         (\<exists>p. env_path (lh_env H) ''CERTAEL_AGENT_SELECTED_TARGET'' = Some p \<and> realpath fs p = Some q) \<or>
         (\<exists>w p w'. wd_fs w = fs \<and>
            active_target L J (AbsolutePath default_install_root) w = (Inr p, w') \<and>
            realpath (wd_fs w') p = Some q) \<or>
         lh_debug_assertions H))"

lemma attempt_query_found:
  assumes "(andThen (attempt (query () f)) (\<lambda>r. ret (r = Inr x)) :: (string, bool) call) w = (Inr b, w')"
  shows "wd_fs w' = wd_fs w \<and> (b \<longrightarrow> f (wd_fs w) = Some x)"
proof -
  obtain r w1 where r: "query () f w = (r, w1)"
    by fastforce
  with assms have "b \<longleftrightarrow> r = Inr x" "w' = w1"
    by (auto simp: andThen_def attempt_def run_simps)
  moreover have "wd_fs w1 = wd_fs w"
    using r reads_query [of "()" f] by (auto simp: reads_def)
  moreover have "f (wd_fs w) = Some x" if "r = Inr x"
    using reads_ok [OF reads_query, of "()" f w x w1] r that by simp
  ultimately show ?thesis by blast
qed

lemma launcher_verified_found:
  assumes "launcher_verified env q w = (Inr b, w')"
  shows "wd_fs w' = wd_fs w \<and>
     (b \<longrightarrow> env_text env ''CERTAEL_AGENT_LAUNCHER_VERIFIED'' = Some ''1'' \<and>
        env_text env ''CERTAEL_AGENT_SELECTED_VERSION'' = Some AGENT_VERSION \<and>
        (\<exists>p. env_path env ''CERTAEL_AGENT_SELECTED_TARGET'' = Some p \<and> realpath (wd_fs w) p = Some q))"
proof (cases "env_text env ''CERTAEL_AGENT_LAUNCHER_VERIFIED'' = Some ''1''
    \<and> env_text env ''CERTAEL_AGENT_SELECTED_VERSION'' = Some AGENT_VERSION")
  case True
  show ?thesis
  proof (cases "env_path env ''CERTAEL_AGENT_SELECTED_TARGET''")
    case (Some p)
    with True assms have
      "(andThen (attempt (query () (\<lambda>fs. realpath fs p))) (\<lambda>r. ret (r = Inr q)) :: (string, bool) call) w = (Inr b, w')"
      by (simp add: launcher_verified_def)
    from attempt_query_found [OF this] True Some show ?thesis by simp
  qed (use True assms in \<open>simp add: launcher_verified_def run_simps\<close>)
qed (use assms in \<open>auto simp: launcher_verified_def run_simps\<close>)

lemma is_active_found:
  assumes "is_active_target L J q w = (Inr True, w')"
  shows "\<exists>p w1. active_target L J (AbsolutePath default_install_root) w = (Inr p, w1) \<and>
    realpath (wd_fs w1) p = Some q"
proof -
  obtain r w1 where r: "active_target L J (AbsolutePath default_install_root) w = (r, w1)"
    by fastforce
  then have step: "andThen (attempt (active_target L J (AbsolutePath default_install_root))) f w = f r w1"
    for f :: "UpdateError + path \<Rightarrow> (string, bool) call"
    by (simp add: andThen_def attempt_def)
  show ?thesis
  proof (cases r)
    case (Inr p)
    with assms have
      "(andThen (attempt (query () (\<lambda>fs. realpath fs p))) (\<lambda>r. ret (r = Inr q)) :: (string, bool) call) w1
         = (Inr True, w')"
      by (simp add: is_active_target_def step)
    from attempt_query_found [OF this] r Inr show ?thesis by simp
  qed (use assms in \<open>simp add: is_active_target_def step run_simps\<close>)
qed

lemma verify_selected_agent_ok:
  assumes "verify_selected_agent L J H w = (Inr (), w')"
  shows "selected_agent_ok L J H (wd_fs w)"
proof -
  let ?read = "\<lambda>q. attempt (query () (\<lambda>fs. read_file fs q)) :: (string, unit + bytes) call"
  from assms obtain exe q w1 r w2 verified w3 where
    exe: "lh_current_exe H = Some exe" and
    q: "query ''cannot resolve selected Certael Agent version'' (\<lambda>fs. realpath fs exe) w = (Inr q, w1)" and
    r: "?read q w1 = (Inr r, w2)" "is_ok r" and
    v: "launcher_verified (lh_env H) q w2 = (Inr verified, w3)" and
    rest: "verified \<or> lh_debug_assertions H \<or> (\<exists>w4. is_active_target L J q w3 = (Inr True, w4))"
    unfolding verify_selected_agent_def
    by (auto simp: andThen_ok run_simps ok_or_ok split: if_splits)
  from reads_ok [OF reads_query q] have w1: "wd_fs w1 = wd_fs w" "realpath (wd_fs w) exe = Some q"
    by auto
  from r obtain bs where "query () (\<lambda>fs. read_file fs q) w1 = (Inr bs, w2)"
    by (auto simp: attempt_def is_ok_iff split: prod.splits)
  from reads_ok [OF reads_query this] w1(1) have w2: "wd_fs w2 = wd_fs w" "read_file (wd_fs w) q = Some bs"
    by auto
  note found = launcher_verified_found [OF v]
  show ?thesis
  proof (cases "verified \<or> lh_debug_assertions H")
    case True
    with found exe w1(2) w2 show ?thesis
      unfolding selected_agent_ok_def by auto
  next
    case False
    with rest is_active_found obtain p w5 where
      "active_target L J (AbsolutePath default_install_root) w3 = (Inr p, w5)" "realpath (wd_fs w5) p = Some q"
      by blast
    moreover have "wd_fs w3 = wd_fs w"
      using found w2(1) by simp
    ultimately show ?thesis
      unfolding selected_agent_ok_def using exe w1(2) w2(2) by blast
  qed
qed

text \<open>The steps before a launch in their order, each on the disk the one before it has left.\<close>

lemma prepare_launch_ok:
  assumes "prepare_launch L J G H g b w = (Inr (), w')"
  shows "\<exists>v v1 v2 v3. publish_binding G b ''verifying_agent_version'' None w = (Inr (), v) \<and>
    verify_selected_agent L J H v = (Inr (), v1) \<and>
    publish_binding G b ''loading_signed_registration'' None v1 = (Inr (), v2) \<and>
    publish_binding G b ''hashing_registered_game_files'' None v2 = (Inr (), v3) \<and>
    check_registered_files L G (lh_procs H) g b v3 = (Inr (), w')"
  using assms by (auto simp: prepare_launch_def andThen_ok or_publish_failure_ok)

lemma launch_registered_started:
  assumes run: "launch_registered L J G H g args uuid m = (r, m')"
    and started: "mc_spawned m' \<noteq> mc_spawned m"
  shows "\<exists>w q exe K state.
    prepare_launch L J G H g (registration_binding g uuid) (mc_world m) = (Inr (), w) \<and>
    realpath (wd_fs w) (rg_game g) = Some q \<and> read_file (wd_fs w) q = Some exe \<and>
    served_state L H (rg_game g) (rg_game_root g) exe K (Some (registration_binding g uuid)) state \<and>
    started_game L H (game_command (rg_game g) args (lh_child_fd H)) state m r m'"
proof -
  let ?b = "registration_binding g uuid"
  let ?l = "launch_with_root L G H (rg_game g) (rg_game_root g) (rg_trust_store g) args (Some ?b)
    (Some (update_binding g))"
  have path: "rg_status_path g \<noteq> []"
    using run started by (auto simp: launch_registered_def act_fail_def)
  obtain p w where p: "prepare_launch L J G H g ?b (mc_world m) = (p, w)"
    by fastforce
  have p': "p = Inr ()"
  proof (cases p)
    case (Inl e)
    with run path p have "m' = m\<lparr>mc_world := w\<rparr>"
      by (simp add: launch_registered_def Let_def act_then_def on_disk_def)
    with started show ?thesis by simp
  qed simp
  define m1 where "m1 = m\<lparr>mc_world := w\<rparr>"
  obtain q m2 where l: "?l m1 = (q, m2)"
    by fastforce
  have tail: "r = q \<and> same_processes m2 m'"
    using run path p p' l
    by (auto simp: launch_registered_def Let_def act_then_def on_disk_def act_attempt_def m1_def [symmetric]
        act_ret_def act_fail_def same_processes_def publish_failed_launch_def publish_binding_def
        andThen_def attempt_def ret_def split: sum.splits prod.splits if_splits)
  have "\<not> (\<exists>e. q = Inl e \<and> same_processes m1 m2)"
    using started tail by (auto simp: same_processes_def m1_def)
  from launch_with_root_started [OF l this] obtain x exe K state where
    s: "realpath (wd_fs w) (rg_game g) = Some x" "read_file (wd_fs w) x = Some exe"
      "served_state L H (rg_game g) (rg_game_root g) exe K (Some ?b) state"
      "started_game L H (game_command (rg_game g) args (lh_child_fd H)) state m1 q m2"
    by (auto simp: m1_def)
  have "started_game L H (game_command (rg_game g) args (lh_child_fd H)) state m r m'"
  proof (rule started_game_from)
    show "started_game L H (game_command (rg_game g) args (lh_child_fd H)) state m1 r m'"
      using started_game_until [OF s(4), of m'] tail by simp
    show "same_processes m m1"
      by (simp add: same_processes_def m1_def)
  qed
  with s(1-3) p p' show ?thesis by blast
qed

end
