(* ===== verification/LaunchOutcome.thy ===== *)
theory LaunchOutcome
  imports LaunchFacts Install
begin

text \<open>
  What can be relied on after a launch: that \<open>protected\<close> is published only for an admitted session, what
  \<open>launch-game\<close> started and from which checks, what the repair and offline commands start, and that
  an Agent started by the launcher accepts itself.
\<close>

section \<open>The state protected\<close>

definition publishes_protected :: "io \<Rightarrow> bool" where
  "publishes_protected x \<longleftrightarrow> ''protected'' \<in> fst ` set (io_published x)"

lemma publish_runtime_protected:
  "st \<noteq> ''protected'' \<Longrightarrow> publishes_protected (publish_runtime state st reason x) = publishes_protected x"
  by (auto simp: publishes_protected_def publish_runtime_def split: option.splits)

lemma write_health_published [simp]:
  "io_published (snd (write_health L sid hs t rs x)) = io_published x"
  by (auto simp: write_health_def split: prod.splits)

lemma write_health_protected [simp]:
  "publishes_protected (snd (write_health L sid hs t rs x)) = publishes_protected x"
  by (simp add: publishes_protected_def)

lemma reject_protected:
  "st \<noteq> ''protected'' \<Longrightarrow> publishes_protected (snd (reject L state st sid hs reason m x)) = publishes_protected x"
  by (simp add: reject_def publish_runtime_protected)

lemma update_required_protected:
  "publishes_protected (snd (update_required L h state x)) = publishes_protected x"
  by (auto simp: update_required_def Let_def publish_runtime_protected split: option.splits sum.splits bool.splits)

lemma send_hello_protected: "publishes_protected (snd (send_hello L state x)) = publishes_protected x"
  by (auto simp: send_hello_def publish_runtime_protected split: prod.splits sum.splits)
    (simp_all add: publishes_protected_def)

lemma await_bootstrap_protected:
  "publishes_protected (snd (await_bootstrap L state sp rc x)) = publishes_protected x"
  by (auto simp: await_bootstrap_def reject_protected split: recv.splits)

lemma admit_bundle_protected:
  "publishes_protected (snd (admit_bundle L h state p x)) = publishes_protected x"
  by (auto simp: admit_bundle_def Let_def reject_protected update_required_protected publish_runtime_protected
      split: option.splits sum.splits)

lemma check_registration_protected:
  "publishes_protected (snd (check_registration L state launch x)) = publishes_protected x"
  by (auto simp: check_registration_def reject_protected)

lemma check_files_protected:
  "publishes_protected (snd (check_files L state disk launch x)) = publishes_protected x"
  by (auto simp: check_files_def reject_protected split: sum.splits)

lemma then_io_protected:
  assumes "publishes_protected (snd (then_io r f))" and "\<not> publishes_protected (snd r)"
    and "\<And>u x. r = (Inr u, x) \<Longrightarrow> \<not> publishes_protected x \<Longrightarrow> publishes_protected (snd (f u x)) \<Longrightarrow> Q"
  shows Q
  using assms by (auto simp: then_io_def split: prod.splits sum.splits)

lemmas checks_protected = send_hello_protected await_bootstrap_protected admit_bundle_protected
  check_registration_protected check_files_protected

text \<open>The state is published only after every check of the admission has passed.\<close>

lemma admission_protected:
  assumes "publishes_protected (snd (admission L h state x))" and "\<not> publishes_protected x"
  shows "\<exists>launch. admitted L h state launch"
  using assms(1) unfolding admission_def
proof (rule then_io_protected)
  fix u0 x0
  assume "\<not> publishes_protected x0" and "publishes_protected (snd (
     then_io (await_bootstrap L state (host_spawns_reader h) (host_bootstrap h) x0) (\<lambda>payload x.
     then_io (admit_bundle L h state payload x) (\<lambda>launch x.
     then_io (check_registration L state launch x) (\<lambda>_ x.
     then_io (check_files L state (host_disk h) launch x) (\<lambda>_ x.
     then_io (become_ready L h state launch x) (\<lambda>s x. (Inr (launch, s), x))))))))"
  then obtain payload x1 launch x2 u3 x3 u4 x4 where
    b: "await_bootstrap L state (host_spawns_reader h) (host_bootstrap h) x0 = (Inr payload, x1)" and
    a: "admit_bundle L h state payload x1 = (Inr launch, x2)" and
    r: "check_registration L state launch x2 = (Inr u3, x3)" and
    f: "check_files L state (host_disk h) launch x3 = (Inr u4, x4)"
    by (auto simp: checks_protected elim!: then_io_protected) blast
  from r have "\<not> registration_mismatch state launch"
    by (auto simp: check_registration_def split: if_splits)
  with await_bootstrap_ok [THEN iffD1, OF b] admit_bundle_ok [OF a] check_files_ok [OF f]
  have "admitted L h state launch"
    unfolding admitted_def by blast
  then show ?thesis ..
qed (simp add: checks_protected assms(2))

definition run_io :: "run \<Rightarrow> io" where
  "run_io r = (case r of Running s \<Rightarrow> ls_io s | Finished _ x \<Rightarrow> x)"

lemma serve_protected:
  assumes "publishes_protected (run_io (serve L h state x ticks))" and "\<not> publishes_protected x"
  shows "\<exists>launch. admitted L h state launch"
proof (cases "admission L h state x")
  case (Pair r x')
  show ?thesis
  proof (cases r)
    case (Inl e)
    with assms Pair show ?thesis
      by (intro admission_protected [of L h state x]) (simp_all add: serve_def run_io_def)
  next
    case (Inr v)
    with Pair show ?thesis
      using admission_ok [of L h state x "fst v" "snd v" x'] by auto
  qed
qed

section \<open>The command launch-game\<close>

definition splash_command :: "path \<Rightarrow> string \<Rightarrow> string \<Rightarrow> path \<Rightarrow> command" where
  "splash_command executable rid uuid root =
     \<lparr>cmd_program = executable,
      cmd_args = [''launch-splash'', ''--registration-id'', rid, ''--launch-attempt-id'', uuid,
        ''--registry-root'', path_text root],
      cmd_env = []\<rparr>"

lemma spawn_launch_splash_cases:
  assumes "spawn_launch_splash H rid uuid root m = (r, m')"
  shows "(\<exists>e. r = Inl e \<and> same_processes m m') \<or>
    (r = Inr () \<and> mc_world m' = mc_world m \<and> mc_killed m' = mc_killed m \<and>
     (\<exists>exe. lh_current_exe H = Some exe \<and> mc_spawned m' = mc_spawned m @ [splash_command exe rid uuid root]))"
proof (cases "lh_current_exe H")
  case None
  with assms show ?thesis
    by (auto simp: spawn_launch_splash_def act_fail_def same_processes_def)
next
  case (Some exe)
  obtain q m1 where s: "spawn ''failed to start the Certael Agent launch window''
      (splash_command exe rid uuid root) m = (q, m1)"
    by fastforce
  with assms Some have "(case q of Inl e \<Rightarrow> r = Inl e | Inr _ \<Rightarrow> r = Inr ()) \<and> m' = m1"
    by (auto simp: spawn_launch_splash_def splash_command_def [symmetric] act_then_def act_ret_def
        split: sum.splits)
  with s Some show ?thesis
    by (cases rule: spawn_cases [OF s]) auto
qed

definition selected_root :: "path option \<Rightarrow> path" where
  "selected_root root = (case root of Some r \<Rightarrow> r | None \<Rightarrow> default_root)"

lemma launch_game_started:
  assumes run: "launch_game L J G env H rid root args uuid m = (r, m')"
    and two: "Suc (length (mc_spawned m)) < length (mc_spawned m')"
  shows "\<exists>g w0 w1 m1 q exe K state.
    registry_load L G env (selected_root root) rid (mc_world m) = (Inr g, w0) \<and>
    mc_spawned m1 = mc_spawned m @ [splash_command (the (lh_current_exe H)) rid uuid (selected_root root)] \<and>
    mc_killed m1 = mc_killed m \<and>
    prepare_launch L J G H g (registration_binding g uuid) w0 = (Inr (), w1) \<and>
    realpath (wd_fs w1) (rg_game g) = Some q \<and> read_file (wd_fs w1) q = Some exe \<and>
    served_state L H (rg_game g) (rg_game_root g) exe K (Some (registration_binding g uuid)) state \<and>
    started_game L H (game_command (rg_game g) args (lh_child_fd H)) state m1 r m'"
proof -
  let ?root = "selected_root root"
  obtain p w0 where l: "registry_load L G env ?root rid (mc_world m) = (p, w0)"
    by fastforce
  have "mc_spawned m' \<noteq> mc_spawned m"
    using two by auto
  with run l obtain g where p: "p = Inr g"
    by (cases p) (auto simp: launch_game_def Let_def selected_root_def [symmetric] act_then_def on_disk_def)
  define m0 where "m0 = m\<lparr>mc_world := w0\<rparr>"
  obtain s m1 where s: "spawn_launch_splash H rid uuid ?root m0 = (s, m1)"
    by fastforce
  have rest: "(case s of Inl e \<Rightarrow> (Inl e, m1) | Inr _ \<Rightarrow> launch_registered L J G H g args uuid m1) = (r, m')"
    using run l p s
    by (simp add: launch_game_def Let_def selected_root_def [symmetric] act_then_def on_disk_def m0_def
        split: sum.splits)
  from spawn_launch_splash_cases [OF s]
  have started: "s = Inr () \<and> mc_world m1 = w0 \<and> mc_killed m1 = mc_killed m \<and>
      mc_spawned m1 = mc_spawned m @ [splash_command (the (lh_current_exe H)) rid uuid ?root]"
    using rest two by (auto simp: same_processes_def m0_def)
  with rest have lr: "launch_registered L J G H g args uuid m1 = (r, m')"
    by simp
  have "mc_spawned m' \<noteq> mc_spawned m1"
    using two started by auto
  from launch_registered_started [OF lr this] started l p show ?thesis
    by blast
qed

section \<open>Repair and offline play\<close>

text \<open>Some registered file, named up to ASCII case, is on disk as registered.\<close>

definition registered_file_ok :: "'v lib \<Rightarrow> fs \<Rightarrow> RegisteredGame \<Rightarrow> string \<Rightarrow> RegisteredGameFileV1 \<Rightarrow> bool" where
  "registered_file_ok L fs g p f \<longleftrightarrow>
     f \<in> set (reg_registered_files (rg_claims g)) \<and> eq_ignore_ascii_case (rgf_relative_path f) p \<and>
     (\<exists>root. realpath fs (rg_game_root g) = Some root \<and> entry_ok L fs root (registered_entry f))"

lemma verify_registered_file_ok:
  assumes "verify_registered_file L g p w = (Inr (), w')"
  shows "\<exists>f. registered_file_ok L (wd_fs w) g p f"
proof -
  from assms obtain f where
    f: "find (\<lambda>f. eq_ignore_ascii_case (rgf_relative_path f) p) (reg_registered_files (rg_claims g)) = Some f"
    and v: "verify_build_files L (rg_game_root g) (registration_manifest (rg_claims g) [f]) w = (Inr [], w')"
    by (auto simp: verify_registered_file_def andThen_ok lift_def ok_or_ok context_msg_ok throw_def ret_def
        split: if_splits)
  from f have "f \<in> set (reg_registered_files (rg_claims g))" "eq_ignore_ascii_case (rgf_relative_path f) p"
    by (auto simp: find_Some_iff)
  with reads_ok [OF reads_verify_build_files v] show ?thesis
    by (auto simp: registered_file_ok_def registration_manifest_def)
qed

lemma act_then_spawn:
  assumes "act_then (spawn e c) (\<lambda>_. act_ret ()) m = (r, m')" and "mc_spawned m' \<noteq> mc_spawned m"
  shows "r = Inr () \<and> mc_spawned m' = mc_spawned m @ [c] \<and> mc_killed m' = mc_killed m"
  using assms by (auto simp: act_then_def act_ret_def spawn_def split: list.splits option.splits)

lemma repair_started:
  assumes run: "run_registered_repair L g m = (r, m')" and started: "mc_spawned m' \<noteq> mc_spawned m"
  shows "r = Inr () \<and> mc_spawned m' = mc_spawned m @
      [\<lparr>cmd_program = join_path (rg_game_root g) (reg_repair_executable_relative_path (rg_claims g)),
        cmd_args = reg_repair_arguments (rg_claims g), cmd_env = []\<rparr>] \<and>
    (\<exists>f. registered_file_ok L (wd_fs (mc_world m)) g (reg_repair_executable_relative_path (rg_claims g)) f)"
proof -
  let ?p = "reg_repair_executable_relative_path (rg_claims g)"
  obtain q w where v: "verify_registered_file L g ?p (mc_world m) = (q, w)"
    by fastforce
  from run started have "?p \<noteq> []"
    by (auto simp: run_registered_repair_def Let_def act_fail_def)
  with run started v have "q = Inr ()"
    by (cases q) (auto simp: run_registered_repair_def Let_def act_then_def on_disk_def)
  from this run v \<open>?p \<noteq> []\<close>
  have spawned: "act_then (spawn ''failed to start the registered game repair action''
      \<lparr>cmd_program = join_path (rg_game_root g) ?p, cmd_args = reg_repair_arguments (rg_claims g),
       cmd_env = []\<rparr>) (\<lambda>_. act_ret ()) (m\<lparr>mc_world := w\<rparr>) = (r, m')"
    by (simp add: run_registered_repair_def Let_def act_run on_disk_def)
  show ?thesis
    using act_then_spawn [OF spawned] started verify_registered_file_ok v \<open>q = Inr ()\<close> by auto
qed

text \<open>An offline start: allowed by the claims, without the variables of the Agent's channel.\<close>

definition offline_command :: "RegisteredGame \<Rightarrow> command" where
  "offline_command g =
     \<lparr>cmd_program = rg_game g, cmd_args = reg_offline_arguments (rg_claims g),
      cmd_env = [(''CERTAEL_AGENT_FD'', None), (''CERTAEL_AGENT_READ_HANDLE'', None),
        (''CERTAEL_AGENT_WRITE_HANDLE'', None)]\<rparr>"

lemma offline_started:
  assumes run: "launch_registered_offline L V g m = (r, m')" and started: "mc_spawned m' \<noteq> mc_spawned m"
  shows "r = Inr () \<and> mc_spawned m' = mc_spawned m @ [offline_command g] \<and>
    reg_offline_play_allowed (rg_claims g) \<and>
    ((\<exists>f \<in> set (reg_registered_files (rg_claims g)).
        eq_ignore_ascii_case (rgf_relative_path f) (reg_executable_relative_path (rg_claims g))) \<longrightarrow>
     (\<exists>f. registered_file_ok L (wd_fs (mc_world m)) g (reg_executable_relative_path (rg_claims g)) f))"
proof -
  let ?p = "reg_executable_relative_path (rg_claims g)"
  define bound where "bound = list_ex (\<lambda>f. eq_ignore_ascii_case (rgf_relative_path f) ?p)
    (reg_registered_files (rg_claims g))"
  define check where "check = (if bound then on_disk (verify_registered_file L g ?p)
    else act_then (on_disk (context_msg ''offline game executable could not be verified''
      (inspect_executable L V (rg_game g)))) (\<lambda>_. act_ret ()))"
  have allowed: "reg_offline_play_allowed (rg_claims g)"
  proof (rule ccontr)
    assume "\<not> reg_offline_play_allowed (rg_claims g)"
    with run have "m' = m"
      by (simp add: launch_registered_offline_def Let_def act_fail_def)
    with started show False by simp
  qed
  with run have all: "act_then check (\<lambda>_. act_then (spawn ''failed to launch the registered offline game''
      (offline_command g)) (\<lambda>_. act_ret ())) m = (r, m')"
    by (simp add: launch_registered_offline_def Let_def check_def bound_def offline_command_def)
  obtain q m1 where c: "check m = (q, m1)"
    by fastforce
  have "starts_nothing check"
    by (auto simp: check_def intro!: starts_nothing_intros starts_nothing_then)
  from starts_nothingD [OF this c] have m1: "mc_spawned m1 = mc_spawned m" "mc_killed m1 = mc_killed m"
    by (simp_all add: same_processes_def)
  with all c started have q: "q = Inr ()"
    by (cases q) (auto simp: act_run)
  have "r = Inr () \<and> mc_spawned m' = mc_spawned m @ [offline_command g]"
    using act_then_spawn [of _ "offline_command g" m1 r m'] all c q m1 started by (simp add: act_run)
  moreover have "\<exists>f. registered_file_ok L (wd_fs (mc_world m)) g ?p f" if bound
    using that c q by (auto simp: check_def on_disk_ok dest: verify_registered_file_ok)
  ultimately show ?thesis
    using allowed by (auto simp: bound_def list_ex_iff)
qed

section \<open>The launcher and the Agent it starts\<close>

definition command_env :: "(string \<rightharpoonup> env_value) \<Rightarrow> command \<Rightarrow> (string \<rightharpoonup> env_value)" where
  "command_env env c = foldl (\<lambda>e (name, value). e(name := value)) env (cmd_env c)"

lemma active_target_plain:
  assumes "active_target L J p w = (Inr q, w')"
  shows "realpath (wd_fs w') q = Some q \<and> (\<exists>bs. read_file (wd_fs w') q = Some bs)"
proof -
  from assms obtain root slot w2 w4 where
    v: "verify_slot L root slot w2 = (Inr (), w4)" and
    q: "query InvalidActivationState (\<lambda>fs. realpath fs (join_path root (slot_relative_path slot))) w4
      = (Inr q, w')"
    by (auto simp: active_target_def andThen_ok lift_def)
  from reads_ok [OF reads_verify_slot v] reads_ok [OF reads_query q]
  have verified: "slot_verified L (wd_fs w') root slot"
    and "realpath (wd_fs w') (join_path root (slot_relative_path slot)) = Some q"
    by auto
  then obtain bs where "node_at (wd_fs w') q = Some (File bs)" "realpath (wd_fs w') q = Some q"
    by (auto simp: slot_verified_def dest: realpath_plain intro: plain_path_realpath)
  then show ?thesis
    by (simp add: read_file_def stat_def)
qed

lemma attempt_then_ok:
  "andThen (attempt c) f w = (Inr y, w') \<longleftrightarrow>
     (\<exists>e w1. c w = (Inl e, w1) \<and> f (Inl e) w1 = (Inr y, w')) \<or>
     (\<exists>x w1. c w = (Inr x, w1) \<and> f (Inr x) w1 = (Inr y, w'))"
  by (cases "c w", cases "fst (c w)") (auto simp: andThen_def attempt_def)

lemma launcher_starts:
  assumes "launcher_main L J exe args w = (Inr c, w')"
  shows "\<exists>e launcher target. exe = Some e \<and> realpath (wd_fs w) e = Some launcher \<and> target \<noteq> launcher \<and>
    c = launcher_command target args \<and>
    (\<exists>w1. wd_fs w1 = wd_fs w \<and> active_target L J (AbsolutePath (butlast launcher)) w1 = (Inr target, w'))"
proof -
  from assms obtain e launcher w1 target where
    "exe = Some e" "query ''cannot resolve the Certael Agent launcher'' (\<lambda>fs. realpath fs e) w = (Inr launcher, w1)"
    "active_target L J (AbsolutePath (butlast launcher)) w1 = (Inr target, w')" "target \<noteq> launcher"
    "c = launcher_command target args"
    by (auto simp: launcher_main_def attempt_then_ok andThen_ok [of "lift _"] andThen_ok [of "query _ _"]
        lift_def ok_or_ok throw_def ret_def split: if_splits)
  moreover from reads_ok [OF reads_query this(2)] have "wd_fs w1 = wd_fs w" "realpath (wd_fs w) e = Some launcher"
    by auto
  ultimately show ?thesis by blast
qed

lemma launcher_agent_accepts:
  assumes "launcher_main L J exe args w = (Inr c, w')" and "calm v" and "wd_fs v = wd_fs w'"
    and "lh_current_exe H = Some (cmd_program c)" and "lh_env H = command_env env c"
  shows "verify_selected_agent L J' H v = (Inr (), v)"
proof -
  from launcher_starts [OF assms(1)] obtain launcher target w1 where c: "c = launcher_command target args"
    and t: "active_target L J (AbsolutePath (butlast launcher)) w1 = (Inr target, w')"
    by blast
  from active_target_plain [OF t] assms(3) obtain bs where
    r: "realpath (wd_fs v) target = Some target" "read_file (wd_fs v) target = Some bs"
    by auto
  have env: "env_text (lh_env H) ''CERTAEL_AGENT_LAUNCHER_VERIFIED'' = Some ''1''"
    "env_text (lh_env H) ''CERTAEL_AGENT_SELECTED_VERSION'' = Some AGENT_VERSION"
    "env_path (lh_env H) ''CERTAEL_AGENT_SELECTED_TARGET'' = Some target"
    by (simp_all add: assms(5) c command_env_def launcher_command_def env_text_def env_path_def)
  have "launcher_verified (lh_env H) target v = (Inr True, v)"
    using r assms(2) by (simp add: launcher_verified_def env andThen_def attempt_def run_simps calm_query)
  with r assms(2,4) show ?thesis
    by (simp add: verify_selected_agent_def c launcher_command_def andThen_def attempt_def run_simps calm_query)
qed

end
