(* ===== verification/StatusFile.thy ===== *)
theory StatusFile
  imports Launch Progress
begin

text \<open>
  The status file of a game: that \<open>status_publish\<close> of \<^verbatim>\<open>crates/certael-agent/src/status.rs\<close> replaces it
  whole or not at all, under every schedule of failures and crashes, and what it holds after a launch
  has ended, where nothing fails.
\<close>

section \<open>Names\<close>

definition status_file_name :: "string \<Rightarrow> bool" where
  "status_file_name name \<longleftrightarrow> plain_name name \<and> (\<exists>rid. name = rid @ ''.json'')"

lemma status_temporary_plain:
  "plain_name (status_temporary pid t)" "CHR ''/'' \<notin> set (status_temporary pid t)"
  "status_temporary pid t \<noteq> []"
  by (auto simp: status_temporary_def plain_name_def show_nat_no_slash)

lemma show_nat_last: "is_ascii_digit (last (show_nat n))"
proof -
  have "show_nat n \<noteq> []"
    by (subst show_nat.simps) simp
  then show ?thesis
    using show_nat_digits [of n] by simp
qed

lemma status_name_not_temporary:
  assumes "status_file_name name"
  shows "name \<noteq> status_temporary pid t"
proof
  assume "name = status_temporary pid t"
  moreover have "show_nat t \<noteq> []"
    by (subst show_nat.simps) simp
  ultimately have "last name = last (show_nat t)"
    by (simp add: status_temporary_def)
  moreover from assms have "last name = CHR ''n''"
    by (auto simp: status_file_name_def)
  ultimately have "is_ascii_digit (CHR ''n'')"
    using show_nat_last [of t] by metis
  then show False
    by (simp add: is_ascii_digit_def)
qed

lemma status_temporary_path:
  "join_path d (status_temporary pid t) = d @ [status_temporary pid t]"
  by (rule join_path_child) (simp_all add: status_temporary_plain)

section \<open>Under failures\<close>

lemma plain_dir_prefix: "plain_dir fs (p @ q) \<Longrightarrow> plain_dir fs p"
  by (induction q rule: rev_induct) (auto simp: plain_dir_snoc simp flip: append_assoc)

lemma valid_existing_dirs:
  assumes "plain_dir F (made @ cs)"
  shows "valid (\<lambda>fs. fs = F) (make_prefixes e made cs) (\<lambda>_ fs. fs = F) (\<lambda>fs. fs = F)"
  using assms
proof (induction cs arbitrary: made)
  case Nil
  then show ?case by (auto intro: valid_ret)
next
  case (Cons c cs)
  then have rest: "valid (\<lambda>fs. fs = F) (make_prefixes e (made @ [c]) cs) (\<lambda>_ fs. fs = F) (\<lambda>fs. fs = F)"
    by simp
  have dir: "plain_dir F (made @ [c])"
    using Cons.prems by (intro plain_dir_prefix [of F "made @ [c]" cs]) simp
  then have "locate F (made @ [c]) = Some (made @ [c])" "node_at F (made @ [c]) = Some Dir"
    by (auto simp: plain_dir_snoc locate_child intro: plain_dir_node)
  then have "mkdir (made @ [c]) F = None"
    by (simp add: mkdir_def)
  then have made: "valid (\<lambda>fs. fs = F) (change e (mkdir (made @ [c]))) (\<lambda>_ fs. fs = F) (\<lambda>fs. fs = F)"
    by (intro valid_change) auto
  show ?case
    by (auto intro!: valid_pass [OF reads_attempt [OF reads_query]] valid_if rest valid_andThen [OF made])
qed

definition status_kept :: "fs \<Rightarrow> path \<Rightarrow> fs \<Rightarrow> bool" where
  "status_kept F d fs \<longleftrightarrow> (\<exists>pid t x. fs = F(d @ [status_temporary pid t] := x))"

lemma status_kept_refl [simp]: "status_kept F d F"
  unfolding status_kept_def by (metis fun_upd_triv)

lemma valid_status_publish:
  assumes d: "plain_dir F d" and name: "status_file_name name"
  shows "valid (\<lambda>fs. fs = F) (status_publish G (d @ [name]) status)
    (\<lambda>_ fs. \<exists>bytes. rl_status_to_vec G status = Some bytes \<and> fs = F(d @ [name] \<mapsto> File bytes))
    (status_kept F d)"
proof -
  let ?p = "d @ [name]"
  let ?done = "\<lambda>bytes fs. fs = F(?p \<mapsto> File bytes)"
  have tail: "valid (\<lambda>fs. handle = t \<and> F t = None \<and> fs = F(t \<mapsto> File []))
      (andThen (touch e1) (\<lambda>_.
       andThen (attempt
          (andThen (write_handle e2 handle bytes) (\<lambda>_.
           andThen (touch e3) (\<lambda>_. change e4 (rename t ?p))))) (\<lambda>result.
        if is_ok result then ret ()
        else andThen (attempt (change () (remove_file t))) (\<lambda>_. lift result))))
      (\<lambda>_. ?done bytes) (status_kept F d)"
    if t: "t = d @ [status_temporary pid nonce]" for t handle pid nonce bytes e1 and e2 e3 e4 :: string
  proof (cases "handle = t \<and> F t = None")
    case True
    let ?torn = "\<lambda>fs. \<exists>x. fs = F(t := x)"
    have neq: "t \<noteq> ?p"
      using status_name_not_temporary [OF name, of pid nonce] by (auto simp: t)
    have node: "node_at fs t = fs t" "node_at fs ?p = fs ?p" for fs
      by (simp_all add: node_at_def t)
    have loc: "locate (F(t := x)) t = Some t" "locate (F(t := x)) ?p = Some ?p" for x
      using locate_child [OF plain_dir_update [OF d, of t x]] status_temporary_plain(1) [of pid nonce] name
      by (simp_all add: t status_file_name_def)
    have start: "valid (\<lambda>fs. fs = F(t \<mapsto> File [])) (touch e1) (\<lambda>_ fs. fs = F(t \<mapsto> File [])) (status_kept F d)"
      by (rule valid_reads [OF reads_touch]) (auto simp: status_kept_def t)
    have wrote: "valid (\<lambda>fs. fs = F(t \<mapsto> File [])) (write_handle e2 t bytes) (\<lambda>_ fs. fs = F(t \<mapsto> File bytes)) ?torn"
      unfolding write_handle_def by (rule valid_syscall) (auto simp: append_file_def)
    have sync: "valid (\<lambda>fs. fs = F(t \<mapsto> File bytes)) (touch e3) (\<lambda>_ fs. fs = F(t \<mapsto> File bytes)) ?torn"
      by (rule valid_reads [OF reads_touch]) auto
    have gone: "F(t \<mapsto> File bytes, ?p \<mapsto> File bytes, t := None) = F(?p \<mapsto> File bytes)"
      using True neq by (auto simp: fun_eq_iff)
    have swap: "valid (\<lambda>fs. fs = F(t \<mapsto> File bytes)) (change e4 (rename t ?p)) (\<lambda>_. ?done bytes) ?torn"
      by (rule valid_change) (auto simp: rename_def loc node neq gone split: if_splits)
    have remove: "valid ?torn (change () (remove_file t)) (\<lambda>_. ?torn) ?torn"
      by (rule valid_change) (auto simp: remove_file_def loc node split: option.splits node.splits)
    have kept: "status_kept F d fs" if "?torn fs" for fs
      using that by (auto simp: status_kept_def t)
    note attempted = valid_attempt [OF valid_andThen [OF wrote valid_andThen [OF sync swap]]]
    have finish: "valid (\<lambda>fs. case result of Inl _ \<Rightarrow> ?torn fs | Inr _ \<Rightarrow> ?done bytes fs)
       (if is_ok result then ret () else andThen (attempt (change () (remove_file t))) (\<lambda>_. lift result))
       (\<lambda>_. ?done bytes) (status_kept F d)" for result
    proof (cases result)
      case (Inl e)
      have "valid ?torn (attempt (change () (remove_file t))) (\<lambda>_. ?torn) (status_kept F d)"
        by (rule valid_conseq [OF valid_attempt [OF remove]]) (auto split: sum.splits)
      then have "valid ?torn (andThen (attempt (change () (remove_file t))) (\<lambda>_. lift result))
          (\<lambda>_. ?done bytes) (status_kept F d)"
        by (rule valid_andThen, intro valid_lift) (use Inl kept in auto)
      with Inl show ?thesis by simp
    qed (auto intro: valid_ret)
    from True show ?thesis
      by (simp del: fun_upd_apply) (rule valid_andThen [OF start valid_andThen [OF attempted finish]])
  qed (auto simp: valid_def)
  have create: "valid (\<lambda>fs. fs = F) (change e (create_new (d @ [status_temporary pid nonce])))
      (\<lambda>handle fs. handle = d @ [status_temporary pid nonce] \<and> F (d @ [status_temporary pid nonce]) = None \<and>
         fs = F(d @ [status_temporary pid nonce] \<mapsto> File [])) (status_kept F d)" for e :: string and pid nonce
    by (rule valid_change)
      (auto simp: create_new_def locate_child [OF d status_temporary_plain(1)] node_at_def split: if_splits)
  have dirs: "valid (\<lambda>fs. fs = F) (create_dir_all e d) (\<lambda>_ fs. fs = F) (status_kept F d)" for e :: string
    unfolding create_dir_all_def
    by (rule valid_conseq [OF valid_existing_dirs]) (use d in auto)
  have body: "valid (\<lambda>fs. fs = F)
      (andThen process_id (\<lambda>pid. andThen (read_clock e) (\<lambda>nonce.
        let temporary = join_path d (status_temporary pid nonce) in
        andThen (change e0 (create_new temporary)) (\<lambda>handle.
        andThen (touch e1) (\<lambda>_.
        andThen (attempt
          (andThen (write_handle e2 handle bytes) (\<lambda>_.
           andThen (touch e3) (\<lambda>_. change e4 (rename temporary ?p))))) (\<lambda>result.
        if is_ok result then ret ()
        else andThen (attempt (change () (remove_file temporary))) (\<lambda>_. lift result)))))))
      (\<lambda>_. ?done bytes) (status_kept F d)" for bytes and e e0 e1 e2 e3 e4 :: string
    unfolding Let_def status_temporary_path
    by (rule valid_pass [OF reads_process_id], simp,
        rule valid_pass [OF reads_clock], simp, rule valid_andThen [OF create tail [OF refl]])
  show ?thesis
  proof (cases "rl_status_to_vec G status")
    case None
    then show ?thesis
      unfolding status_publish_def
      by (auto intro!: valid_andThen [OF dirs] valid_throw simp: andThen_lift)
  next
    case (Some bytes)
    then show ?thesis
      unfolding status_publish_def
      by (auto intro!: valid_andThen [OF dirs] valid_conseq [OF body] simp: andThen_lift)
  qed
qed

section \<open>Without failures\<close>

lemma make_prefixes_calm:
  assumes "calm w" and "plain_dir (wd_fs w) (made @ cs)"
  shows "make_prefixes e made cs w = (Inr (), w)"
  using assms(2)
proof (induction cs arbitrary: made)
  case (Cons c cs)
  then have rest: "make_prefixes e (made @ [c]) cs w = (Inr (), w)"
    by simp
  have "plain_dir (wd_fs w) (made @ [c])"
    using Cons.prems by (intro plain_dir_prefix [of "wd_fs w" "made @ [c]" cs]) simp
  then have "stat (wd_fs w) (made @ [c]) = Some Dir"
    by (simp add: stat_def realpath_dir plain_dir_node)
  with rest assms(1) show ?case
    by (simp add: andThen_def attempt_def calm_query)
qed (simp add: run_simps)

text \<open>\<open>n\<close> more publications can succeed.\<close>

definition status_ready :: "world \<Rightarrow> path \<Rightarrow> string \<Rightarrow> nat \<Rightarrow> bool" where
  "status_ready w d name n \<longleftrightarrow>
     calm w \<and> plain_dir (wd_fs w) d \<and> status_file_name name \<and> wd_fs w (d @ [name]) \<noteq> Some Dir \<and>
     2 * n \<le> length (wd_clock w) \<and> None \<notin> set (wd_clock w) \<and>
     (\<forall>t. Some t \<in> set (wd_clock w) \<longrightarrow> wd_fs w (d @ [status_temporary (wd_pid w) t]) = None)"

lemma status_publish_calm:
  assumes "calm w" and "plain_dir (wd_fs w) d" and "status_file_name name" and "wd_clock w = Some t # ts"
    and "wd_fs w (d @ [status_temporary (wd_pid w) t]) = None" and "wd_fs w (d @ [name]) \<noteq> Some Dir"
    and "rl_status_to_vec G status = Some bytes"
  shows "status_publish G (d @ [name]) status w =
    (Inr (), w\<lparr>wd_fs := (wd_fs w)(d @ [name] \<mapsto> File bytes), wd_clock := ts\<rparr>)"
proof -
  define q where "q = d @ [status_temporary (wd_pid w) t]"
  let ?p = "d @ [name]" and ?F = "wd_fs w"
  have neq: "q \<noteq> ?p"
    using status_name_not_temporary [OF assms(3)] by (auto simp: q_def)
  have node: "node_at fs q = fs q" "node_at fs ?p = fs ?p" for fs
    by (simp_all add: node_at_def q_def)
  have loc: "locate (?F(q := x)) q = Some q" "locate (?F(q := x)) ?p = Some ?p" for x
    using locate_child [OF plain_dir_update [OF assms(2), of q x]] status_temporary_plain(1) assms(3)
    by (simp_all add: q_def status_file_name_def)
  have loc0: "locate ?F q = Some q"
    using locate_child [OF assms(2) status_temporary_plain(1)] by (simp add: q_def)
  have gone: "?F(?p \<mapsto> File bytes, q := None) = ?F(?p \<mapsto> File bytes)"
    using assms(5) neq by (auto simp: fun_eq_iff q_def)
  have twist: "?F(q \<mapsto> n, ?p \<mapsto> m, q := None) = ?F(?p \<mapsto> m)" for n m
    using assms(5) neq by (auto simp: fun_eq_iff q_def)
  have dirs: "create_dir_all e d w = (Inr (), w)" for e :: string
    unfolding create_dir_all_def by (rule make_prefixes_calm [OF assms(1)]) (simp add: assms(2))
  have free: "?F q = None"
    using assms(5) by (simp add: q_def)
  have swap: "rename q ?p (?F(q \<mapsto> File bytes)) = Some ((), ?F(?p \<mapsto> File bytes))"
    using neq neq [symmetric] assms(6) twist by (simp add: rename_def loc node)
  show ?thesis
    using assms(1,4,7) free loc0
    by (simp add: status_publish_def dirs andThen_def attempt_def run_simps process_id_def read_clock_def
        Let_def status_temporary_path q_def [symmetric] calm_change calm_syscall calm_touch write_handle_def
        create_new_def node append_file_def swap)
qed

definition status_of :: "RegistrationBinding \<Rightarrow> i64 \<Rightarrow> string \<times> string option \<Rightarrow> RuntimeStatus" where
  "status_of b now entry =
     \<lparr>st_format_version = 2, st_registration_id = bind_registration_id b, st_game_id = bind_game_id b,
      st_state = fst entry, st_public_reason = snd entry, st_updated_at_unix = now,
      st_launch_attempt_id = Some (bind_launch_attempt_id b),
      st_milestone_index = map_option of_nat (milestone_index (fst entry)),
      st_milestone_total = Some 8\<rparr>"

text \<open>The JSON of a published status is read back as that status; it is no larger than \<open>status_read\<close> takes.\<close>

definition status_encodes :: "registry_lib \<Rightarrow> RegistrationBinding \<Rightarrow> string \<times> string option \<Rightarrow> bool" where
  "status_encodes G b entry \<longleftrightarrow>
     (\<forall>now. \<exists>bytes. rl_status_to_vec G (status_of b now entry) = Some bytes \<and> length bytes \<le> 16 * 1024 \<and>
        rl_status_from_slice G bytes = Some (status_of b now entry))"

text \<open>The status file holds an entry.\<close>

definition status_holds :: "registry_lib \<Rightarrow> RegistrationBinding \<Rightarrow> world \<Rightarrow> string \<times> string option \<Rightarrow> bool" where
  "status_holds G b w entry \<longleftrightarrow>
     (\<exists>now. status_read G (bind_status_path b) w = (Inr (status_of b now entry), w))"

lemma status_read_calm:
  assumes "calm w" and "plain_dir (wd_fs w) d" and "plain_name name"
    and "wd_fs w (d @ [name]) = Some (File bytes)" and "length bytes \<le> 16 * 1024"
    and "rl_status_from_slice G bytes = Some (status_of b now entry)"
  shows "status_read G (d @ [name]) w = (Inr (status_of b now entry), w)"
proof -
  have plain: "plain_path (wd_fs w) (d @ [name])"
    using assms(2-4) by (simp add: plain_path_def plain_node_def)
  have "lstat (wd_fs w) (d @ [name]) = Some (File bytes)"
    by (rule lstat_plain_file [OF plain assms(4)]) simp
  moreover have "read_file (wd_fs w) (d @ [name]) = Some bytes"
    using plain assms(4) by (simp add: read_file_def stat_def plain_path_realpath node_at_def)
  ultimately show ?thesis
    using assms(1,5,6) by (simp add: status_read_def andThen_def run_simps calm_query status_of_def)
qed

lemma now_unix_any: "wd_clock w = Some t # ts \<Longrightarrow> \<exists>r. now_unix w = (r, w\<lparr>wd_clock := ts\<rparr>)"
  by (simp add: now_unix_def read_clock_def andThen_def Let_def run_simps)

lemma publish_binding_ready:
  assumes ready: "status_ready w d name (Suc n)" and path: "bind_status_path b = d @ [name]"
    and enc: "status_encodes G b (st, reason)"
  shows "\<exists>w'. publish_binding G b st reason w = (Inr (), w') \<and> status_ready w' d name n \<and>
    status_holds G b w' (st, reason)"
proof -
  from ready obtain t1 t2 ts where clock: "wd_clock w = Some t1 # Some t2 # ts"
    by (cases "wd_clock w" rule: list.exhaust; cases "tl (wd_clock w)"; cases "hd (wd_clock w)";
        cases "hd (tl (wd_clock w))") (auto simp: status_ready_def)
  from now_unix_any [OF clock] obtain r where r: "now_unix w = (r, w\<lparr>wd_clock := Some t2 # ts\<rparr>)"
    by blast
  define now where "now = (case r of Inr t \<Rightarrow> t | Inl _ \<Rightarrow> 0)"
  from enc obtain bytes where bytes: "rl_status_to_vec G (status_of b now (st, reason)) = Some bytes"
    "length bytes \<le> 16 * 1024" "rl_status_from_slice G bytes = Some (status_of b now (st, reason))"
    unfolding status_encodes_def by blast
  let ?w = "w\<lparr>wd_clock := Some t2 # ts\<rparr>"
  let ?w' = "w\<lparr>wd_fs := (wd_fs w)(d @ [name] \<mapsto> File bytes), wd_clock := ts\<rparr>"
  have "status_publish G (d @ [name]) (status_of b now (st, reason)) ?w = (Inr (), ?w')"
    by (subst status_publish_calm [of ?w d name t2 ts])
      (use ready clock bytes(1) in \<open>simp_all add: status_ready_def\<close>)
  then have "publish_binding G b st reason w = (Inr (), ?w')"
    by (simp add: publish_binding_def andThen_def attempt_def r run_simps path now_def [symmetric]
        status_of_def)
  moreover have "status_ready ?w' d name n"
    using ready clock status_name_not_temporary [of name]
    by (auto simp: status_ready_def plain_dir_update)
  moreover have "status_holds G b ?w' (st, reason)"
    unfolding status_holds_def path
    by (intro exI status_read_calm)
      (use ready bytes in \<open>auto simp: status_ready_def plain_dir_update status_file_name_def\<close>)
  ultimately show ?thesis by blast
qed

lemma publish_states_ready:
  assumes "status_ready w d name (length entries + n)" and "bind_status_path b = d @ [name]"
    and "\<forall>entry \<in> set entries. status_encodes G b entry" and "entries \<noteq> []"
  shows "\<exists>w'. publish_states G (Some b) entries w = (Inr (), w') \<and> status_ready w' d name n \<and>
    status_holds G b w' (last entries)"
  using assms(1,3,4)
proof (induction entries arbitrary: w)
  case (Cons entry entries)
  obtain st reason where entry: "entry = (st, reason)"
    by fastforce
  from Cons.prems obtain w1 where w1: "publish_binding G b st reason w = (Inr (), w1)"
    "status_ready w1 d name (length entries + n)" "status_holds G b w1 entry"
    using publish_binding_ready [OF _ assms(2), of w "length entries + n" G st reason] by (auto simp: entry)
  show ?case
  proof (cases "entries = []")
    case True
    with w1 show ?thesis by (simp add: entry andThen_def run_simps)
  next
    case False
    with Cons w1 show ?thesis by (simp add: entry andThen_def)
  qed
qed simp

text \<open>What a launch that failed leaves: its final state if that is one of three, a general failure otherwise.\<close>

definition final_state :: "string \<times> string option \<Rightarrow> string \<times> string option" where
  "final_state entry =
     (if fst entry \<in> {''launch_failed'', ''update_failed'', ''update_ready''} then entry
      else (''launch_failed'', Some ''PROTECTED_LAUNCH_FAILED''))"

lemma publish_failed_launch_ready:
  assumes "status_ready w d name (Suc n)" and "bind_status_path b = d @ [name]"
    and "status_holds G b w entry" and "status_encodes G b (''launch_failed'', Some ''PROTECTED_LAUNCH_FAILED'')"
  shows "\<exists>w'. publish_failed_launch G b w = (Inr (), w') \<and> status_holds G b w' (final_state entry)"
proof -
  from assms(3) obtain now where "status_read G (bind_status_path b) w = (Inr (status_of b now entry), w)"
    by (auto simp: status_holds_def)
  then have "publish_failed_launch G b w =
      (if fst entry \<in> {''launch_failed'', ''update_failed'', ''update_ready''} then (Inr (), w)
       else publish_binding G b ''launch_failed'' (Some ''PROTECTED_LAUNCH_FAILED'') w)"
    by (simp add: publish_failed_launch_def andThen_def attempt_def run_simps already_published_def status_of_def)
  with assms publish_binding_ready [OF assms(1,2,4)] show ?thesis
    by (auto simp: final_state_def)
qed

end
