(* ===== verification/Splash.thy ===== *)
theory Splash
  imports Launch
begin

text \<open>
  The two windows of \<^verbatim>\<open>crates/certael-agent/src/ui.rs\<close>: the launch splash (\<open>SplashApp\<close>) and the list of
  games (\<open>AgentApp\<close>).

  Modelled is what the windows decide: what they read, the state they keep, the commands they start,
  when the splash closes itself, and what it shows (which step of the progress rail is marked how,
  which texts, pictures and buttons). Layout, colours, fonts and the crop of a picture are not. Times are milliseconds of a
  monotonic clock. The native windows and the screenshots of debug builds are in \<open>Preview\<close>, the
  elevation dialogs of other platforms than Linux in \<open>Elevation\<close>; a program that is searched on the path stands as a path of one piece.
\<close>

section \<open>Texts and phases\<close>

definition phase_for_state :: "string \<Rightarrow> nat" where
  "phase_for_state state =
     (if state \<in> {''verifying_agent_version'', ''loading_signed_registration'',
          ''checking_required_update'', ''installing_required_update'', ''update_required'',
          ''update_ready'', ''update_failed'', ''hashing_registered_game_files''} then 0
      else if state \<in> {''starting_game'', ''awaiting_server_admission'', ''verifying_signed_launch_bundle''}
      then 1
      else if state = ''protected'' then 2
      else 1)"

definition failure_phase :: "string option \<Rightarrow> nat" where
  "failure_phase reason =
     (if reason \<in> {Some ''REGISTERED_GAME_FILES_MISMATCH'', Some ''REGISTERED_GAME_FILES_UNREADABLE'',
          Some ''AGENT_VERSION_UNVERIFIED'', Some ''AGENT_UPDATE_FAILED''} then 0 else 1)"

definition default_title :: string where
  "default_title = ''Launching protected mode''"

definition state_copy :: "string \<Rightarrow> string \<Rightarrow> string \<times> string" where
  "state_copy state game =
     (if state = ''verifying_agent_version'' then
        (''Verifying Certael Agent'', ''Checking the selected stable Agent version.'')
      else if state = ''loading_signed_registration'' then
        (''Loading signed game registration'',
         ''Confirming this game'' @ [CHR 0xE2, CHR 0x80, CHR 0x99]
           @ ''s publisher and protected-play settings.'')
      else if state = ''checking_required_update'' then
        (''Checking required Agent update'',
         ''Protected play will continue only with a supported Agent version.'')
      else if state \<in> {''installing_required_update'', ''update_required''} then
        (''Updating Certael Agent'', ''Verifying and staging the required signed update.'')
      else if state = ''update_ready'' then
        (''Agent update is ready'', ''Restart protected play to use the verified update.'')
      else if state = ''hashing_registered_game_files'' then
        (''Checking protected game files'', ''Hashing the files listed in the signed game registration.'')
      else if state = ''starting_game'' then
        (''Starting '' @ game, ''The game is launching with its private Agent channel.'')
      else if state = ''awaiting_server_admission'' then
        (''Waiting for secure server admission'',
         ''The game is running. Protection is not confirmed until the server admits this session.'')
      else if state = ''verifying_signed_launch_bundle'' then
        (''Establishing protected session'',
         ''Verifying the signed policy, launch grant, and build manifest.'')
      else if state = ''protected'' then
        (''Protected session ready'', ''The game server admitted this verified session.'')
      else (default_title, ''Certael Agent is preparing the protected session.''))"

definition failure_copy :: "string option \<Rightarrow> string \<times> string" where
  "failure_copy reason =
     (if reason \<in> {Some ''REGISTERED_GAME_FILES_MISMATCH'', Some ''AGENT_BUILD_MISMATCH''} then
        (''Game files do not match the registered build.'',
         ''Repair the game files, then try protected play again.'')
      else if reason = Some ''AGENT_VERSION_UNVERIFIED'' then
        (''The selected Certael Agent version could not be verified.'',
         ''Repair or reinstall Certael Agent, then try again.'')
      else if reason = Some ''AGENT_UPDATE_FAILED'' then
        (''The required Agent update could not be installed.'',
         ''Check your connection or run Agent repair, then try again.'')
      else if reason = Some ''AGENT_ADMISSION_TIMEOUT'' then
        (''The game server did not admit this session in time.'',
         ''Check the game service status and try protected play again.'')
      else
        (''Certael Agent could not establish protected play.'',
         ''Close this window and try again. The game was not marked protected.''))"

section \<open>The splash\<close>

type_synonym texture = "bytes \<times> nat \<times> nat"

record SplashApp =
  sp_registered :: RegisteredGame
  sp_launch_attempt_id :: string
  sp_icon :: "texture option"
  sp_hero :: "texture option"
  sp_status :: "RuntimeStatus option"
  sp_last_refresh :: int
  sp_ready_since :: "int option"
  sp_action_message :: "string option"
  sp_failure_resized :: bool

definition load_texture :: "registry_lib \<Rightarrow> path \<Rightarrow> bool \<Rightarrow> (string, texture) call" where
  "load_texture G p hero =
     (if hero then decode_hero_rgba (rl_png G) p else decode_icon_rgba (rl_png G) p)"

text \<open>A picture that is missing or cannot be decoded is left out.\<close>

definition optional_texture :: "registry_lib \<Rightarrow> path option \<Rightarrow> bool \<Rightarrow> (string, texture option) call" where
  "optional_texture G p hero =
     (case p of
        None \<Rightarrow> ret None
      | Some q \<Rightarrow>
          andThen (attempt (load_texture G q hero)) (\<lambda>r.
          ret (case r of Inr t \<Rightarrow> Some t | Inl (_ :: string) \<Rightarrow> None)))"

definition splash_new :: "registry_lib \<Rightarrow> RegisteredGame \<Rightarrow> string \<Rightarrow> int \<Rightarrow> (string, SplashApp) call" where
  "splash_new G registered launch_attempt_id now =
     andThen (optional_texture G (map_option vb_icon (rg_branding registered)) False) (\<lambda>icon.
     andThen (optional_texture G (Option.bind (rg_branding registered) vb_hero) True) (\<lambda>hero.
     ret
       \<lparr>sp_registered = registered, sp_launch_attempt_id = launch_attempt_id, sp_icon = icon,
        sp_hero = hero, sp_status = None, sp_last_refresh = now - 1000, sp_ready_since = None,
        sp_action_message = None, sp_failure_resized = False\<rparr>))"

definition splash_refresh :: "registry_lib \<Rightarrow> int \<Rightarrow> SplashApp \<Rightarrow> (string, SplashApp) call" where
  "splash_refresh G now app =
     andThen (attempt (status_read G (rg_status_path (sp_registered app)))) (\<lambda>r.
     ret ((case r of
        Inr status \<Rightarrow>
          if st_launch_attempt_id status = Some (sp_launch_attempt_id app) then
            app\<lparr>sp_ready_since :=
                   (if st_state status = ''protected'' \<and> sp_ready_since app = None then Some now
                    else sp_ready_since app),
                 sp_status := Some status\<rparr>
          else app
      | Inl (_ :: string) \<Rightarrow> app)\<lparr>sp_last_refresh := now\<rparr>))"

definition splash_state :: "SplashApp \<Rightarrow> string" where
  "splash_state app =
     (case sp_status app of Some st \<Rightarrow> st_state st | None \<Rightarrow> ''verifying_agent_version'')"

definition splash_failed :: "SplashApp \<Rightarrow> bool" where
  "splash_failed app \<longleftrightarrow>
     splash_state app \<in> {''launch_failed'', ''update_failed'', ''expired'', ''lost'', ''revoked''}"

definition display_name :: "SplashApp \<Rightarrow> string" where
  "display_name app =
     (case rg_branding (sp_registered app) of
        Some b \<Rightarrow> brand_display_name (vb_claims b)
      | None \<Rightarrow> reg_game_id (rg_claims (sp_registered app)))"

definition publisher_name :: "SplashApp \<Rightarrow> string option" where
  "publisher_name app =
     map_option (\<lambda>b. brand_publisher_name (vb_claims b)) (rg_branding (sp_registered app))"

definition public_reason :: "SplashApp \<Rightarrow> string option" where
  "public_reason app = Option.bind (sp_status app) st_public_reason"

section \<open>What the splash shows\<close>

datatype step_mark = Failed_mark | Complete_mark | Active_mark | Pending_mark

text \<open>The marks in the order in which the rail may show them.\<close>

primrec mark_rank :: "step_mark \<Rightarrow> nat" where
  "mark_rank Complete_mark = 0"
| "mark_rank Failed_mark = 1"
| "mark_rank Active_mark = 2"
| "mark_rank Pending_mark = 3"

instantiation step_mark :: linorder
begin

definition less_eq_step_mark :: "step_mark \<Rightarrow> step_mark \<Rightarrow> bool" where
  "less_eq_step_mark a b \<longleftrightarrow> mark_rank a \<le> mark_rank b"

definition less_step_mark :: "step_mark \<Rightarrow> step_mark \<Rightarrow> bool" where
  "less_step_mark a b \<longleftrightarrow> mark_rank a < mark_rank b"

instance
proof
  fix a b :: step_mark
  show "a \<le> b \<Longrightarrow> b \<le> a \<Longrightarrow> a = b"
    by (cases a; cases b) (simp_all add: less_eq_step_mark_def)
qed (auto simp: less_eq_step_mark_def less_step_mark_def)

end

text \<open>The mark of one of the three steps, by the order in which they are drawn.\<close>

definition progress_mark :: "SplashApp \<Rightarrow> nat \<Rightarrow> step_mark" where
  "progress_mark app index =
     (let failed_phase = (if splash_failed app then Some (failure_phase (public_reason app)) else None);
          phase = (case failed_phase of Some p \<Rightarrow> p | None \<Rightarrow> phase_for_state (splash_state app));
          failed = (failed_phase = Some index);
          complete = (index < phase \<or> splash_state app = ''protected'');
          active = (index = phase \<and> splash_state app \<noteq> ''protected'' \<and> \<not> failed)
      in if failed then Failed_mark else if complete then Complete_mark
         else if active then Active_mark else Pending_mark)"

datatype splash_button = Repair_files | Play_offline | Close_window

text \<open>
  The lower half: the failure, with its buttons, the note on offline play and the message of the last
  action, or the text of the state. Above it the header, the large picture if there is room, which a
  failure never shows, and the progress rail. Without a picture the icon and the name stand there.
\<close>

datatype splash_body =
    Failure_body string string "splash_button list" bool "string option"
  | Active_body string string

datatype splash_hero = Hero_picture texture | Hero_name "texture option" string

record splash_view =
  sv_header :: "texture option \<times> string \<times> string option"
  sv_hero :: "splash_hero option"
  sv_marks :: "step_mark list"
  sv_body :: splash_body

definition failure_buttons :: "SplashApp \<Rightarrow> splash_button list" where
  "failure_buttons app =
     (let claims = rg_claims (sp_registered app) in
      (if reg_repair_executable_relative_path claims \<noteq> [] then [Repair_files] else [])
      @ (if reg_offline_play_allowed claims then [Play_offline] else [])
      @ [Close_window])"

definition render_body :: "SplashApp \<Rightarrow> splash_body" where
  "render_body app =
     (if splash_failed app then
        (case failure_copy (public_reason app) of
           (message, help) \<Rightarrow>
             Failure_body message help (failure_buttons app)
               (reg_offline_play_allowed (rg_claims (sp_registered app))) (sp_action_message app))
      else
        (case state_copy (splash_state app) (display_name app) of
           (title, body) \<Rightarrow> Active_body title body))"

definition render_hero :: "SplashApp \<Rightarrow> splash_hero" where
  "render_hero app =
     (case sp_hero app of
        Some hero \<Rightarrow> Hero_picture hero
      | None \<Rightarrow> Hero_name (sp_icon app) (display_name app))"

text \<open>\<open>roomy\<close>: at least 420 points are left below the header.\<close>

definition render_splash :: "bool \<Rightarrow> SplashApp \<Rightarrow> splash_view" where
  "render_splash roomy app =
     \<lparr>sv_header = (sp_icon app, display_name app, publisher_name app),
      sv_hero = (if \<not> splash_failed app \<and> roomy then Some (render_hero app) else None),
      sv_marks = map (progress_mark app) [0, 1, 2],
      sv_body = render_body app\<rparr>"

section \<open>A frame of the splash\<close>

datatype viewport = Close_view | Resize_view nat nat

text \<open>
  One call of \<open>ui\<close>: the commands to the viewport, what is drawn, nothing after the window has closed
  itself, and the new state.
\<close>

definition splash_frame ::
    "registry_lib \<Rightarrow> int \<Rightarrow> bool \<Rightarrow> bool \<Rightarrow> SplashApp
      \<Rightarrow> (string, viewport list \<times> splash_view option \<times> SplashApp) call"
where
  "splash_frame G now escape roomy app =
     andThen (if 100 \<le> now - sp_last_refresh app then splash_refresh G now app else ret app) (\<lambda>app.
     if (case sp_ready_since app of Some ready \<Rightarrow> 1200 \<le> now - ready | None \<Rightarrow> False)
     then ret ([Close_view], None, app)
     else
       let closing = (if escape then [Close_view] else []);
           resize = (splash_failed app \<and> \<not> sp_failure_resized app);
           app = (if resize then app\<lparr>sp_failure_resized := True\<rparr> else app)
       in ret (closing @ (if resize then [Resize_view 1040 560] else []),
               Some (render_splash roomy app), app))"

definition run_agent_command :: "path option \<Rightarrow> string \<Rightarrow> SplashApp \<Rightarrow> SplashApp act" where
  "run_agent_command current_exe agent_command app =
     (let say = (\<lambda>message. app\<lparr>sp_action_message := Some message\<rparr>) in
      if rg_state_root (sp_registered app) = []
      then act_ret (say ''The game registration cannot be located.'')
      else
        (case current_exe of
           None \<Rightarrow> act_ret (say ''Certael Agent cannot start this action.'')
         | Some executable \<Rightarrow>
             act_then (act_attempt (spawn ''not started''
               \<lparr>cmd_program = executable,
                cmd_args = [agent_command, ''--registration-id'',
                  reg_registration_id (rg_claims (sp_registered app)), ''--registry-root'',
                  path_text (butlast (rg_state_root (sp_registered app)))],
                cmd_env = []\<rparr>)) (\<lambda>r.
             act_ret (say (case r of
                 Inr _ \<Rightarrow>
                   if agent_command = ''repair-game'' then ''The registered game repair action is starting.''
                   else if agent_command = ''launch-offline-game''
                   then ''The game is starting without protected play.''
                   else ''The requested action is starting.''
               | Inl _ \<Rightarrow>
                   ''Certael Agent could not start that action. Close this window and use the game launcher.'')))))"

section \<open>The list of games\<close>

record GameView =
  gv_registration_id :: string
  gv_state :: string
  gv_reason :: "string option"

record AgentApp =
  ag_games :: "GameView list"
  ag_last_refresh :: int
  ag_action :: "string option"

definition game_view ::
    "registry_lib \<Rightarrow> (string \<rightharpoonup> path) \<Rightarrow> string \<Rightarrow> (string, GameView) call"
where
  "game_view G env registration_id =
     andThen (attempt
       (andThen (lift (status_path env registration_id)) (\<lambda>p. status_read G p))) (\<lambda>r.
     let status = (case r of Inr st \<Rightarrow> Some st | Inl (_ :: string) \<Rightarrow> None) in
     ret \<lparr>gv_registration_id = registration_id,
          gv_state = (case status of Some st \<Rightarrow> st_state st | None \<Rightarrow> ''not_running''),
          gv_reason = Option.bind status st_public_reason\<rparr>)"

fun game_views ::
    "registry_lib \<Rightarrow> (string \<rightharpoonup> path) \<Rightarrow> string list \<Rightarrow> (string, GameView list) call"
where
  "game_views G env [] = ret []"
| "game_views G env (rid # rids) =
     andThen (game_view G env rid) (\<lambda>v. andThen (game_views G env rids) (\<lambda>vs. ret (v # vs)))"

definition agent_refresh ::
    "registry_lib \<Rightarrow> (string \<rightharpoonup> path) \<Rightarrow> string list \<Rightarrow> int \<Rightarrow> AgentApp \<Rightarrow> (string, AgentApp) call"
where
  "agent_refresh G env entries now app =
     andThen (attempt (registry_list default_root entries)) (\<lambda>listed.
     andThen (game_views G env (case listed of Inr ids \<Rightarrow> ids | Inl (_ :: string) \<Rightarrow> [])) (\<lambda>views.
     ret (app\<lparr>ag_games := views, ag_last_refresh := now\<rparr>)))"

definition agent_default ::
    "registry_lib \<Rightarrow> (string \<rightharpoonup> path) \<Rightarrow> string list \<Rightarrow> int \<Rightarrow> (string, AgentApp) call"
where
  "agent_default G env entries now =
     agent_refresh G env entries now \<lparr>ag_games = [], ag_last_refresh = now - 10000, ag_action = None\<rparr>"

definition spawn_elevated_update :: "path \<Rightarrow> string \<Rightarrow> nat act" where
  "spawn_elevated_update executable registration_id =
     spawn ''not started''
       \<lparr>cmd_program = [''pkexec''],
        cmd_args = [path_text executable, ''update-registered-game'', ''--registration-id'',
          registration_id, ''--activate''],
        cmd_env = []\<rparr>"

definition ELLIPSIS :: string where
  "ELLIPSIS = [CHR 0xE2, CHR 0x80, CHR 0xA6]"

definition run_action :: "path option \<Rightarrow> string \<Rightarrow> string \<Rightarrow> AgentApp \<Rightarrow> AgentApp act" where
  "run_action current_exe registration_id agent_command app =
     (let say = (\<lambda>message. app\<lparr>ag_action := Some message\<rparr>) in
      case current_exe of
        None \<Rightarrow> act_ret (say ''Agent installation cannot be resolved; run repair.'')
      | Some executable \<Rightarrow>
          if agent_command = ''update-registered-game'' then
            act_then (act_attempt (spawn_elevated_update executable registration_id)) (\<lambda>r.
            act_ret (say (case r of
                Inr _ \<Rightarrow> ''Checking trusted updates for '' @ registration_id
                  @ '' with administrator approval'' @ ELLIPSIS
              | Inl _ \<Rightarrow> ''The secure updater could not request administrator approval; ''
                  @ ''run the Agent update command as administrator.'')))
          else
            act_then (act_attempt (spawn ''not started''
              \<lparr>cmd_program = executable,
               cmd_args = [agent_command, ''--registration-id'', registration_id], cmd_env = []\<rparr>)) (\<lambda>r.
            act_ret (say (case r of
                Inr _ \<Rightarrow>
                  if agent_command = ''launch-game''
                  then ''Starting '' @ registration_id @ '' in protected mode'' @ ELLIPSIS
                  else ''Checking trusted updates for '' @ registration_id @ ELLIPSIS
              | Inl _ \<Rightarrow> ''Action failed to start; run Agent repair as administrator.''))))"

definition run_recovery :: "path option \<Rightarrow> string \<Rightarrow> AgentApp \<Rightarrow> AgentApp act" where
  "run_recovery current_exe agent_command app =
     (let say = (\<lambda>message. app\<lparr>ag_action := Some message\<rparr>) in
      case current_exe of
        None \<Rightarrow> act_ret (say ''Agent installation cannot be resolved; reinstall Agent.'')
      | Some executable \<Rightarrow>
          act_then (act_attempt (spawn ''not started''
            \<lparr>cmd_program = executable,
             cmd_args = [agent_command, ''--install-root'', path_text default_install_root],
             cmd_env = []\<rparr>)) (\<lambda>r.
          act_ret (say (case r of
              Inr _ \<Rightarrow> ''Agent '' @ agent_command @ '' started'' @ ELLIPSIS
            | Inl _ \<Rightarrow> ''Recovery failed to start; run as administrator.''))))"

text \<open>The buttons of the window; those of a game are numbered with its place in the list.\<close>

datatype agent_button =
    Launch_protected nat
  | Check_update nat
  | Repair_interrupted
  | Roll_back
  | Exit_button

fun requested_action :: "(agent_button \<Rightarrow> bool) \<Rightarrow> nat \<Rightarrow> GameView list \<Rightarrow> (string \<times> string) option \<Rightarrow> (string \<times> string) option" where
  "requested_action clicked i [] requested = requested"
| "requested_action clicked i (g # gs) requested =
     requested_action clicked (Suc i) gs
       (if clicked (Check_update i) then Some (gv_registration_id g, ''update-registered-game'')
        else if clicked (Launch_protected i) then Some (gv_registration_id g, ''launch-game'')
        else requested)"

text \<open>One call of \<open>ui\<close>: the games and the message drawn, whether the window is to close, the new state.\<close>

definition agent_frame ::
    "registry_lib \<Rightarrow> (string \<rightharpoonup> path) \<Rightarrow> string list \<Rightarrow> path option \<Rightarrow> int \<Rightarrow> (agent_button \<Rightarrow> bool) \<Rightarrow> AgentApp
      \<Rightarrow> (GameView list \<times> string option \<times> bool \<times> AgentApp) act"
where
  "agent_frame G env entries current_exe now clicked app =
     act_then (if 1000 \<le> now - ag_last_refresh app then on_disk (agent_refresh G env entries now app)
       else act_ret app) (\<lambda>app.
     act_then (case requested_action clicked 0 (ag_games app) None of
         Some (registration_id, agent_command) \<Rightarrow> run_action current_exe registration_id agent_command app
       | None \<Rightarrow> act_ret app) (\<lambda>app1.
     act_then (if clicked Repair_interrupted then run_recovery current_exe ''recover-update'' app1
       else act_ret app1) (\<lambda>app2.
     act_then (if clicked Roll_back then run_recovery current_exe ''rollback-update'' app2
       else act_ret app2) (\<lambda>app3.
     act_ret (ag_games app, ag_action app1, clicked Exit_button, app3)))))"

section \<open>What the splash shows is what was published\<close>

text \<open>Frames are drawn one after the other, each with the time, the input and the disk of its moment.\<close>

record splash_input =
  si_now :: int
  si_escape :: bool
  si_roomy :: bool
  si_world :: world

definition splash_step ::
    "registry_lib \<Rightarrow> splash_input \<Rightarrow> SplashApp \<Rightarrow> string + viewport list \<times> splash_view option \<times> SplashApp"
where
  "splash_step G i app = fst (splash_frame G (si_now i) (si_escape i) (si_roomy i) app (si_world i))"

fun splash_after :: "registry_lib \<Rightarrow> splash_input list \<Rightarrow> SplashApp \<Rightarrow> SplashApp" where
  "splash_after G [] app = app"
| "splash_after G (i # frames) app =
     (case splash_step G i app of
        Inr (_, _, app') \<Rightarrow> splash_after G frames app'
      | Inl _ \<Rightarrow> app)"

text \<open>A frame whose disk held a status of the window's own launch.\<close>

definition frame_read :: "registry_lib \<Rightarrow> SplashApp \<Rightarrow> splash_input \<Rightarrow> RuntimeStatus \<Rightarrow> bool" where
  "frame_read G app i st \<longleftrightarrow>
     (\<exists>w'. status_read G (rg_status_path (sp_registered app)) (si_world i) = (Inr st, w')) \<and>
     st_launch_attempt_id st = Some (sp_launch_attempt_id app)"

definition same_window :: "SplashApp \<Rightarrow> SplashApp \<Rightarrow> bool" where
  "same_window app app' \<longleftrightarrow>
     sp_registered app' = sp_registered app \<and> sp_launch_attempt_id app' = sp_launch_attempt_id app"

lemma frame_read_same: "same_window app app' \<Longrightarrow> frame_read G app' = frame_read G app"
  by (simp add: fun_eq_iff frame_read_def same_window_def)

definition splash_grounded :: "registry_lib \<Rightarrow> splash_input list \<Rightarrow> SplashApp \<Rightarrow> bool" where
  "splash_grounded G frames app \<longleftrightarrow>
     (\<forall>st. sp_status app = Some st \<longrightarrow> (\<exists>fr \<in> set frames. frame_read G app fr st)) \<and>
     (\<forall>ready. sp_ready_since app = Some ready \<longrightarrow>
        (\<exists>fr \<in> set frames. \<exists>st. frame_read G app fr st \<and> st_state st = ''protected'' \<and> si_now fr = ready))"

lemma splash_refresh_grounded:
  assumes "splash_grounded G frames app"
  shows "\<exists>app' w'. splash_refresh G (si_now i) app (si_world i) = (Inr app', w') \<and> same_window app app' \<and>
    splash_grounded G (frames @ [i]) app'"
proof -
  obtain r w' where r: "status_read G (rg_status_path (sp_registered app)) (si_world i) = (r, w')"
    by fastforce
  show ?thesis
  proof (cases r)
    case (Inl e)
    with r assms show ?thesis
      by (fastforce simp: splash_refresh_def andThen_def attempt_def ret_def same_window_def splash_grounded_def
          frame_read_def)
  next
    case (Inr st)
    with r have here: "frame_read G app i st"
      if "st_launch_attempt_id st = Some (sp_launch_attempt_id app)"
      using that by (simp add: frame_read_def)
    let ?app' = "(if st_launch_attempt_id st = Some (sp_launch_attempt_id app) then
            app\<lparr>sp_ready_since :=
                   (if st_state st = ''protected'' \<and> sp_ready_since app = None then Some (si_now i)
                    else sp_ready_since app),
                 sp_status := Some st\<rparr>
          else app)\<lparr>sp_last_refresh := si_now i\<rparr>"
    have run: "splash_refresh G (si_now i) app (si_world i) = (Inr ?app', w')"
      using r Inr by (simp add: splash_refresh_def andThen_def attempt_def ret_def)
    have same: "same_window app ?app'"
      by (simp add: same_window_def)
    have "splash_grounded G (frames @ [i]) ?app'"
      unfolding splash_grounded_def frame_read_same [OF same]
      using assms here unfolding splash_grounded_def by (auto split: if_splits)
    with run same show ?thesis by blast
  qed
qed

lemma splash_step_grounded:
  assumes "splash_grounded G frames app"
  shows "\<exists>vs drawn app'. splash_step G i app = Inr (vs, drawn, app') \<and>
    same_window app app' \<and> splash_grounded G (frames @ [i]) app' \<and>
    (Close_view \<in> set vs \<longrightarrow>
       si_escape i \<or> (\<exists>ready. sp_ready_since app' = Some ready \<and> 1200 \<le> si_now i - ready)) \<and>
    (\<forall>v. drawn = Some v \<longrightarrow> v = render_splash (si_roomy i) app')"
proof -
  have kept: "splash_grounded G (frames @ [i]) app"
    using assms by (fastforce simp: splash_grounded_def)
  obtain app1 w1 where first: "(if 100 \<le> si_now i - sp_last_refresh app then splash_refresh G (si_now i) app
      else ret app) (si_world i) = (Inr app1, w1)" "same_window app app1" "splash_grounded G (frames @ [i]) app1"
    using splash_refresh_grounded [OF assms, of i] kept
    by (cases "100 \<le> si_now i - sp_last_refresh app") (auto simp: ret_def same_window_def)
  have resized: "splash_grounded G fs (app1\<lparr>sp_failure_resized := b\<rparr>) = splash_grounded G fs app1"
    "same_window app (app1\<lparr>sp_failure_resized := b\<rparr>) = same_window app app1" for fs b
    by (simp_all add: splash_grounded_def frame_read_def same_window_def)
  show ?thesis
    using first resized
    by (auto simp: splash_step_def splash_frame_def andThen_def ret_def Let_def split: option.splits)
qed

lemma splash_after_grounded:
  assumes "splash_grounded G earlier app"
  shows "splash_grounded G (earlier @ frames) (splash_after G frames app) \<and>
    same_window app (splash_after G frames app)"
  using assms
proof (induction frames arbitrary: earlier app)
  case Nil
  then show ?case by (simp add: same_window_def)
next
  case (Cons i frames)
  from splash_step_grounded [OF Cons.prems, of i] obtain vs drawn app' where
    f: "splash_step G i app = Inr (vs, drawn, app')" "same_window app app'"
      "splash_grounded G (earlier @ [i]) app'"
    by blast
  from Cons.IH [OF f(3)] f(1,2) show ?case
    by (simp add: same_window_def)
qed

lemma splash_new_ok:
  assumes "splash_new G g uuid now w = (Inr app, w')"
  shows "sp_registered app = g \<and> sp_launch_attempt_id app = uuid \<and> sp_status app = None \<and>
    sp_ready_since app = None \<and> sp_last_refresh app = now - 1000"
  using assms by (auto simp: splash_new_def andThen_ok ret_def)

lemma splash_new_grounded:
  assumes "splash_new G g uuid now w = (Inr app, w')"
  shows "splash_grounded G' [] app"
  using splash_new_ok [OF assms] by (simp add: splash_grounded_def)

lemma splash_new_total: "\<exists>app w'. splash_new G g uuid now w = (Inr app, w')"
proof -
  have "\<exists>t w'. optional_texture G p hero v = (Inr t, w')" for p hero v
    by (auto simp: optional_texture_def andThen_def attempt_def ret_def split: option.splits prod.splits)
  then obtain t v where t: "optional_texture G p hero x = (Inr (t p hero x), v p hero x)" for p hero x
    by metis
  show ?thesis
    by (simp add: splash_new_def andThen_def ret_def t)
qed

section \<open>What the windows start\<close>

text \<open>The commands of the window with the list of games: the Agent itself for a listed game or a recovery,
  and the elevated update.\<close>

definition window_command :: "path \<Rightarrow> string set \<Rightarrow> command \<Rightarrow> bool" where
  "window_command exe ids c \<longleftrightarrow> cmd_env c = [] \<and>
     ((\<exists>id \<in> ids. cmd_program c = exe \<and> cmd_args c = [''launch-game'', ''--registration-id'', id]) \<or>
      (\<exists>id \<in> ids. cmd_program c = [''pkexec''] \<and> cmd_args c =
         [path_text exe, ''update-registered-game'', ''--registration-id'', id, ''--activate'']) \<or>
      (\<exists>a \<in> {''recover-update'', ''rollback-update''}. cmd_program c = exe \<and>
         cmd_args c = [a, ''--install-root'', path_text default_install_root]))"

lemma requested_listed:
  "requested_action clicked i gs r = Some (rid, a) \<Longrightarrow>
     r = Some (rid, a) \<or> rid \<in> gv_registration_id ` set gs \<and> a \<in> {''launch-game'', ''update-registered-game''}"
  by (induction clicked i gs r rule: requested_action.induct) (auto split: if_splits)

definition starts_only :: "(command \<Rightarrow> bool) \<Rightarrow> 'a act \<Rightarrow> bool" where
  "starts_only P a \<longleftrightarrow>
     (\<forall>m r m'. a m = (r, m') \<longrightarrow> mc_killed m' = mc_killed m \<and>
        (\<exists>cs. mc_spawned m' = mc_spawned m @ cs \<and> (\<forall>c \<in> set cs. P c)))"

lemma starts_only_intros:
  "starts_only P (act_ret x)" "starts_only P (on_disk k)" "P c \<Longrightarrow> starts_only P (spawn e c)"
  by (auto simp: starts_only_def act_ret_def on_disk_def spawn_def
      split: prod.splits list.splits option.splits)

lemma starts_only_attempt: "starts_only P a \<Longrightarrow> starts_only P (act_attempt a)"
  by (auto simp: starts_only_def act_attempt_def split: prod.splits)

lemma starts_only_then:
  assumes "starts_only P a" and "\<And>x. starts_only P (f x)"
  shows "starts_only P (act_then a f)"
  unfolding starts_only_def
proof (intro allI impI)
  fix m r m'
  assume run: "act_then a f m = (r, m')"
  obtain q m1 where a: "a m = (q, m1)"
    by fastforce
  with assms(1) obtain cs where first: "mc_killed m1 = mc_killed m" "mc_spawned m1 = mc_spawned m @ cs"
    "\<forall>c \<in> set cs. P c"
    unfolding starts_only_def by blast
  show "mc_killed m' = mc_killed m \<and> (\<exists>cs. mc_spawned m' = mc_spawned m @ cs \<and> (\<forall>c \<in> set cs. P c))"
  proof (cases q)
    case (Inl e)
    with run a first show ?thesis by (auto simp: act_then_def)
  next
    case (Inr x)
    with run a have "f x m1 = (r, m')"
      by (simp add: act_then_def)
    with assms(2) [of x] obtain ds where "mc_killed m' = mc_killed m1" "mc_spawned m' = mc_spawned m1 @ ds"
      "\<forall>c \<in> set ds. P c"
      unfolding starts_only_def by blast
    with first show ?thesis
      by (intro conjI exI [of _ "cs @ ds"]) auto
  qed
qed

lemmas starts_only_rules = starts_only_intros starts_only_attempt starts_only_then

lemma run_action_starts:
  assumes "rid \<in> ids" and "a \<in> {''launch-game'', ''update-registered-game''}"
  shows "starts_only (window_command exe ids) (run_action (Some exe) rid a app)"
  using assms
  by (auto simp: run_action_def Let_def spawn_elevated_update_def window_command_def intro!: starts_only_rules)

lemma run_recovery_starts:
  "a \<in> {''recover-update'', ''rollback-update''} \<Longrightarrow>
     starts_only (window_command exe ids) (run_recovery (Some exe) a app)"
  by (auto simp: run_recovery_def Let_def window_command_def intro!: starts_only_rules)

lemma agent_frame_starts:
  assumes "agent_frame G env entries (Some exe) now clicked app m = (Inr (games, message, close, app'), m')"
  shows "mc_killed m' = mc_killed m \<and> (\<exists>cs. mc_spawned m' = mc_spawned m @ cs \<and>
    (\<forall>c \<in> set cs. window_command exe (gv_registration_id ` set games) c))"
proof -
  let ?P = "window_command exe (gv_registration_id ` set games)"
  define rest where "rest app = act_then (case requested_action clicked 0 (ag_games app) None of
         Some (registration_id, agent_command) \<Rightarrow> run_action (Some exe) registration_id agent_command app
       | None \<Rightarrow> act_ret app) (\<lambda>app1.
     act_then (if clicked Repair_interrupted then run_recovery (Some exe) ''recover-update'' app1
       else act_ret app1) (\<lambda>app2.
     act_then (if clicked Roll_back then run_recovery (Some exe) ''rollback-update'' app2
       else act_ret app2) (\<lambda>app3.
     act_ret (ag_games app, ag_action app1, clicked Exit_button, app3))))" for app
  obtain app1 w where r: "rest app1 (m\<lparr>mc_world := w\<rparr>) = (Inr (games, message, close, app'), m')"
  proof (cases "1000 \<le> now - ag_last_refresh app")
    case True
    obtain q w where "agent_refresh G env entries now app (mc_world m) = (q, w)"
      by fastforce
    with True assms that [of _ w] show thesis
      by (cases q) (auto simp: agent_frame_def rest_def [symmetric] act_then_def on_disk_def)
  next
    case False
    with assms that [of app "mc_world m"] show thesis
      by (simp add: agent_frame_def rest_def [symmetric] act_then_def act_ret_def)
  qed
  have "ag_games app1 = games"
    using r by (auto simp: rest_def act_then_def act_ret_def split: prod.splits sum.splits)
  then have "starts_only ?P (rest app1)"
    unfolding rest_def
    by (auto intro!: starts_only_rules run_action_starts run_recovery_starts dest: requested_listed
        split: option.splits)
  then have "\<And>m r m'. rest app1 m = (r, m') \<Longrightarrow> mc_killed m' = mc_killed m \<and>
      (\<exists>cs. mc_spawned m' = mc_spawned m @ cs \<and> (\<forall>c \<in> set cs. ?P c))"
    unfolding starts_only_def by blast
  from this [OF r] show ?thesis by simp
qed

section \<open>The progress rail\<close>

lemma phase_bound: "phase_for_state s \<le> 2" "failure_phase r \<le> 1"
  by (simp_all add: phase_for_state_def failure_phase_def)

lemma phase_protected: "phase_for_state s = 2 \<longleftrightarrow> s = ''protected''"
  by (simp add: phase_for_state_def)

text \<open>Complete steps, then one that has failed or is active unless all are complete, then pending ones.\<close>

lemma progress_rail:
  assumes "marks = map (progress_mark app) [0, 1, 2]"
  shows "sorted marks \<and>
    filter (\<lambda>k. k \<noteq> Complete_mark \<and> k \<noteq> Pending_mark) marks
      = (if splash_state app = ''protected'' then []
         else if splash_failed app then [Failed_mark] else [Active_mark]) \<and>
    (set marks = {Complete_mark} \<longleftrightarrow> splash_state app = ''protected'')"
proof (cases "splash_state app = ''protected''")
  case True
  then have "\<not> splash_failed app"
    by (simp add: splash_failed_def)
  with True show ?thesis
    by (simp add: assms progress_mark_def Let_def)
next
  case False
  define k where "k = (if splash_failed app then failure_phase (public_reason app)
    else phase_for_state (splash_state app))"
  have "k = 0 \<or> k = 1 \<or> k = 2"
    using phase_bound(1) [of "splash_state app"] phase_bound(2) [of "public_reason app"] by (auto simp: k_def)
  moreover have "progress_mark app i = (if i < k then Complete_mark else if i = k then
      (if splash_failed app then Failed_mark else Active_mark) else Pending_mark)" for i
    using False by (simp add: progress_mark_def Let_def k_def)
  ultimately show ?thesis
    using False by (auto simp: assms less_eq_step_mark_def)
qed

lemma mark_complete: "progress_mark app 2 = Complete_mark \<Longrightarrow> splash_state app = ''protected''"
  using phase_bound(1) [of "splash_state app"] phase_bound(2) [of "public_reason app"]
  by (auto simp: progress_mark_def Let_def split: if_splits)

lemma phase_of_milestone:
  "milestone_index s = Some i \<Longrightarrow>
     phase_for_state s = (if i \<le> 4 then 0 else if i \<le> 7 then 1 else 2)"
  unfolding milestone_index_def phase_for_state_def
  by (auto split: if_splits)

lemma milestone_phase:
  assumes "milestone_index s = Some i" and "milestone_index s' = Some j" and "i \<le> j"
  shows "phase_for_state s \<le> phase_for_state s'"
  using assms by (simp add: phase_of_milestone)

lemma milestone_text:
  assumes "milestone_index s = Some i" and "s \<noteq> ''update_failed''"
  shows "fst (state_copy s game) \<noteq> default_title"
  using assms by (auto simp: milestone_index_def state_copy_def default_title_def split: if_splits)

end
