(* ===== verification/LaunchFixtures.thy ===== *)
theory LaunchFixtures
  imports HostFixtures LaunchOutcome StatusFile Splash
begin

text \<open>
  Concrete launches: the registered game of \<open>HostFixtures\<close> started by an Agent that the stable launcher
  has verified, and a status file with an encoding that is read back.
\<close>

section \<open>Starting the registered game\<close>

definition sample_launch_host :: "unit launch_host" where
  "sample_launch_host =
     \<lparr>lh_debug_assertions = False, lh_current_exe = Some [''agent''],
      lh_env = command_env Map.empty (launcher_command [''agent''] []),
      lh_procs = sample_procs, lh_key = sample_agent_key, lh_socketpair = True, lh_cloexec = True,
      lh_child_fd = 5, lh_clone = True, lh_serve = sample_host,
      lh_writer = \<lparr>w_out = [], w_room = None, w_flush_ok = True\<rparr>, lh_ticks = [],
      lh_exit_success = None\<rparr>"

lemma sample_launch_host_fields [simp]:
  "lh_debug_assertions sample_launch_host = False"
  "lh_current_exe sample_launch_host = Some [''agent'']"
  "lh_procs sample_launch_host = sample_procs"
  "lh_key sample_launch_host = sample_agent_key"
  "lh_socketpair sample_launch_host"
  "lh_cloexec sample_launch_host"
  "lh_child_fd sample_launch_host = 5"
  "lh_clone sample_launch_host"
  by (simp_all add: sample_launch_host_def)

definition sample_machine :: machine where
  "sample_machine =
     \<lparr>mc_world = sample_world registry_fs, mc_starts = [Some 21, Some 22], mc_spawned = [], mc_killed = []\<rparr>"

definition registry_calm :: "world \<Rightarrow> bool" where
  "registry_calm w \<longleftrightarrow> calm w \<and> wd_fs w = registry_fs"

lemma registry_state_dir: "plain_dir registry_fs [''home'', ''.local'', ''state'', ''certael-agent'']"
proof -
  have "i \<le> 4 \<longleftrightarrow> i \<in> {0, 1, 2, 3, 4}" for i :: nat
    by auto
  then show ?thesis
    by (auto simp: plain_dir_def plain_name_def node_at_def registry_fs_def numeral_eq_Suc)
qed

lemma sample_publish:
  assumes "registry_calm w" and "bind_status_path b = rg_status_path sample_game"
  shows "\<exists>w'. publish_binding sample_registry b st reason w = (Inr (), w') \<and> registry_calm w'"
proof -
  obtain r w1 where now: "now_unix w = (r, w1)"
    by fastforce
  have w1: "registry_calm w1"
    using assms(1) now
    by (auto simp: registry_calm_def now_unix_def read_clock_def andThen_def Let_def run_simps
        split: list.splits option.splits if_splits)
  have "create_dir_all e [''home'', ''.local'', ''state'', ''certael-agent''] w1 = (Inr (), w1)" for e :: string
    unfolding create_dir_all_def
    using w1 registry_state_dir by (intro make_prefixes_calm) (simp_all add: registry_calm_def)
  then have "status_publish sample_registry (rg_status_path sample_game) status w1
      = (Inl ''cannot encode status'', w1)" for status
    by (simp add: status_publish_def sample_game_def andThen_def run_simps sample_registry_def)
  then show ?thesis
    using now w1 assms(2) by (simp add: publish_binding_def andThen_def attempt_def run_simps)
qed

lemma sample_agent_selected:
  assumes "registry_calm w"
  shows "verify_selected_agent sample_lib sample_json sample_launch_host w = (Inr (), w)"
proof -
  have "realpath registry_fs [''agent''] = Some [''agent'']" "read_file registry_fs [''agent''] = Some [8]"
    by (simp_all add: registry_fs_def read_file_def stat_def realpath_def node_at_def MAX_SYMLINKS_def)
  then show ?thesis
    using assms
    by (simp add: verify_selected_agent_def launcher_verified_def sample_launch_host_def registry_calm_def
        command_env_def launcher_command_def env_text_def env_path_def andThen_def attempt_def run_simps
        calm_query)
qed

lemma registered_entry_ok:
  "entry_ok sample_lib registry_fs [''opt'']
     (registered_entry \<lparr>rgf_relative_path = ''game'', rgf_size = 1, rgf_sha256 = sample_sha sample_exe\<rparr>)"
  by (simp add: entry_ok_lstat registered_entry_def registry_joins lstat_def locate_def realpath_def
      registry_fs_def node_at_def MAX_SYMLINKS_def eq_ignore_ascii_case_def sample_exe_def)

lemma one_file_verified:
  assumes "calm w" and "entry_well_formed f" and "entry_ok L (wd_fs w) r f"
    and "realpath (wd_fs w) root = Some r" and "stat (wd_fs w) r = Some Dir" and "b \<noteq> []" "length b \<le> 128"
  shows "verify_build_files L root \<lparr>pbm_build_id = b, pbm_files = [f]\<rparr> w = (Inr [], w)"
proof -
  have "List.map_filter (entry_mismatch L (wd_fs w) r) [f] = []"
    using assms(3) by (simp only: mismatches_Nil) simp
  then have "verify_entries L r {} [] [f] w = (Inr [], w)"
    using assms(1,2) verify_entries_calm [of w "[f]" "{}" L r "[]"] by (simp del: verify_entries.simps)
  with assms show ?thesis
    by (simp add: verify_build_files_def andThen_def attempt_def run_simps calm_query del: verify_entries.simps)
qed

lemma sample_registered_files:
  assumes "registry_calm w"
  shows "verify_build_files sample_lib [''opt'']
    (registration_manifest sample_registration (reg_registered_files sample_registration)) w = (Inr [], w)"
proof -
  let ?f = "registered_entry \<lparr>rgf_relative_path = ''game'', rgf_size = 1, rgf_sha256 = sample_sha sample_exe\<rparr>"
  have "entry_well_formed ?f"
    by (simp add: entry_well_formed_def registered_entry_def list_all_iff hex_encode_hexdigits
        platform_safe_relative_path_def is_absolute_def starts_with_def components_def slash_pieces_def
        sample_sha_def sample_exe_def)
  moreover have "stat registry_fs [''opt''] = Some Dir"
    by (simp add: stat_def registry_files, simp add: registry_fs_def node_at_def)
  ultimately show ?thesis
    using assms registered_entry_ok one_file_verified [of w ?f sample_lib "[''opt'']" "[''opt'']"]
    by (simp add: registry_calm_def registry_files registration_manifest_def sample_registration_def)
qed

lemma sample_prepared:
  assumes "registry_calm w"
  shows "\<exists>w'. prepare_launch sample_lib sample_json sample_registry sample_launch_host sample_game
    (registration_binding sample_game uuid) w = (Inr (), w') \<and> registry_calm w'"
proof -
  let ?b = "registration_binding sample_game uuid"
  have path: "bind_status_path ?b = rg_status_path sample_game"
    by (simp add: registration_binding_def)
  from sample_publish [OF assms path] obtain w1 where
    w1: "publish_binding sample_registry ?b ''verifying_agent_version'' None w = (Inr (), w1)" "registry_calm w1"
    by blast
  from sample_publish [OF w1(2) path] obtain w2 where
    w2: "publish_binding sample_registry ?b ''loading_signed_registration'' None w1 = (Inr (), w2)" "registry_calm w2"
    by blast
  from sample_publish [OF w2(2) path] obtain w3 where
    w3: "publish_binding sample_registry ?b ''hashing_registered_game_files'' None w2 = (Inr (), w3)" "registry_calm w3"
    by blast
  have "reg_registered_files sample_registration \<noteq> []"
    by (simp add: sample_registration_def)
  then have "check_registered_files sample_lib sample_registry V sample_game ?b w3 = (Inr (), w3)" for V
    using sample_registered_files [OF w3(2)]
    by (simp add: check_registered_files_def Let_def sample_game_def or_publish_failure_def context_msg_def
        andThen_def attempt_def run_simps)
  with w1 w2 w3 sample_agent_selected [OF w1(2)] show ?thesis
    by (simp add: prepare_launch_def andThen_def or_publish_failure_def attempt_def run_simps)
qed

lemma byte_from_hex_digits:
  assumes "h < 16" and "l < 16"
  shows "byte_from_hex (hex_digit h) (hex_digit l) = Some (of_nat (16 * h + l))"
proof -
  have "hex_digit h \<noteq> CHR ''+''"
    using assms(1) hex_value_digit [of h] by (auto simp: hex_value_def is_ascii_digit_def)
  then show ?thesis
    using assms by (simp add: byte_from_hex_def hex_value_digit)
qed

lemma bytes_from_hex_encode: "bytes_from_hex (hex_encode bs) = Some bs"
proof (induction bs)
  case Nil
  then show ?case by (simp add: hex_encode_def)
next
  case (Cons b bs)
  have "unat b div 16 < 16" "unat b mod 16 < 16" "16 * (unat b div 16) + unat b mod 16 = unat b"
    using unsigned_less [of b, where 'a = nat] by auto
  with Cons show ?case
    by (simp add: hex_encode_Cons byte_from_hex_digits)
qed

lemma sample_game_inspected:
  assumes "registry_calm w"
  shows "\<exists>snapshot. inspect_executable sample_lib sample_procs [''opt'', ''game''] w = (Inr snapshot, w) \<and>
    snap_executable_sha256 snapshot = sample_build_id"
proof -
  have "stat registry_fs [''opt'', ''game''] = Some (File sample_exe)"
    by (simp add: stat_def registry_files, simp add: registry_fs_def node_at_def)
  with assms show ?thesis
    by (simp add: inspect_executable_def andThen_def attempt_def run_simps calm_query calm_touch registry_calm_def
        registry_files file_name_def executable_build_id_def sample_procs_def sample_build_id_def)
qed

lemma sample_launch_starts:
  "\<exists>r m'. launch_game sample_lib sample_json sample_registry [''HOME'' \<mapsto> [''home'']] sample_launch_host
     ''game-1'' (Some [''r'']) [] ''attempt'' sample_machine = (r, m') \<and>
   Suc (length (mc_spawned sample_machine)) < length (mc_spawned m')"
proof -
  let ?H = sample_launch_host and ?G = sample_registry
  let ?b = "registration_binding sample_game ''attempt''"
  have loaded: "registry_calm loaded_world"
    by (simp add: registry_calm_def loaded_world_def calm_def sample_world_def)
  from sample_prepared [OF loaded, of "''attempt''"] obtain w1 where w1: "registry_calm w1"
    "prepare_launch sample_lib sample_json ?G ?H sample_game ?b loaded_world = (Inr (), w1)"
    by blast
  from sample_game_inspected [OF w1(1)] obtain snapshot where
    i: "inspect_executable sample_lib sample_procs [''opt'', ''game''] w1 = (Inr snapshot, w1)"
      "snap_executable_sha256 snapshot = sample_build_id" by blast
  have hex: "hex_to_32 sample_build_id = Inr (sample_sha sample_exe)"
    by (simp add: hex_to_32_def sample_build_id_def bytes_from_hex_encode)
  have trust: "trust_load (rl_trust ?G) [''r'', ''game-1'', ''trust-store.json''] w1 = (Inr sample_keys, w1)"
    using w1(1) by (intro sample_trust_loaded) (simp_all add: registry_calm_def)
  have path: "bind_status_path ?b = rg_status_path sample_game"
    by (simp add: registration_binding_def)
  from sample_publish [OF w1(1) path] obtain w2 where
    w2: "publish_binding ?G ?b ''starting_game'' None w1 = (Inr (), w2)"
    by blast
  define state where "state = \<lparr>rts_game = [''opt'', ''game''], rts_game_root = [''opt''],
    rts_game_process_id = 0, rts_game_process_identity = None, rts_key = sample_agent_key,
    rts_hello = agent_hello sample_lib ?H snapshot (sample_sha sample_exe), rts_trust = sample_keys,
    rts_registration = Some ?b, rts_automatic_update = Some (update_binding sample_game)\<rparr>"
  define m2 where "m2 = sample_machine\<lparr>mc_world := w2, mc_starts := [Some 22],
    mc_spawned := [splash_command [''agent''] ''game-1'' ''attempt'' [''r'']]\<rparr>"
  have world: "m2 = m2\<lparr>mc_world := w2\<rparr>"
    by (simp add: m2_def)
  obtain q m3 where u: "launch_unix sample_lib ?G ?H [''opt'', ''game''] [] state m2 = (q, m3)"
    by fastforce
  have spawned: "length (mc_spawned m3) = 2"
  proof (cases "serve_game sample_lib ?G ?H (running_state ?H state 22) 22
      (m2\<lparr>mc_starts := [], mc_spawned := mc_spawned m2 @ [game_command [''opt'', ''game''] [] 5]\<rparr>)")
    case (Pair r m)
    from serve_game_cases [OF this] u Pair show ?thesis
      by (simp add: launch_unix_def sample_launch_host_def act_run spawn_def m2_def running_state_def)
  qed
  have run: "launch_with_root sample_lib ?G ?H [''opt'', ''game''] [''opt'']
      [''r'', ''game-1'', ''trust-store.json''] [] (Some ?b) (Some (update_binding sample_game))
      (m2\<lparr>mc_world := w1\<rparr>) = (q, m3)"
    using i hex trust w2 u
    by (simp add: launch_with_root_def act_then_def on_disk_def run_simps andThen_def state_def
        world [symmetric])
  obtain q' m4 where game: "launch_registered sample_lib sample_json ?G ?H sample_game [] ''attempt''
      (sample_machine\<lparr>mc_world := loaded_world, mc_starts := [Some 22],
         mc_spawned := [splash_command [''agent''] ''game-1'' ''attempt'' [''r'']]\<rparr>) = (q', m4)"
    by fastforce
  have "mc_spawned m4 = mc_spawned m3"
    using game w1(2) run
    by (auto simp: launch_registered_def Let_def act_then_def on_disk_def act_attempt_def act_ret_def
        act_fail_def sample_game_def m2_def split: sum.splits prod.splits)
  with spawned have "length (mc_spawned m4) = 2"
    by simp
  moreover have "launch_game sample_lib sample_json ?G [''HOME'' \<mapsto> [''home'']] ?H ''game-1'' (Some [''r'']) []
      ''attempt'' sample_machine = (q', m4)"
    using game
    by (simp add: launch_game_def Let_def act_then_def on_disk_def registry_loads spawn_launch_splash_def
        spawn_def act_ret_def sample_launch_host_def sample_machine_def splash_command_def)
  ultimately show ?thesis
    by (simp add: sample_machine_def)
qed

end
