(* ===== verification/SessionFixtures.thy ===== *)
theory SessionFixtures
  imports LaunchFixtures
begin

text \<open>
  A session of the registered game that is admitted and then revoked, with a status file whose encoding
  is read back; and a registration whose repair program differs from its verified file in case only.
\<close>

section \<open>A status file\<close>

fun le_bytes :: "nat \<Rightarrow> nat \<Rightarrow> bytes" where
  "le_bytes 0 n = []"
| "le_bytes (Suc k) n = of_nat n # le_bytes k (n div 256)"

fun le_value :: "bytes \<Rightarrow> nat" where
  "le_value [] = 0"
| "le_value (b # bs) = unat b + 256 * le_value bs"

lemma le_value_bytes: "le_value (le_bytes k n) = n mod 256 ^ k"
proof (induction k arbitrary: n)
  case (Suc k)
  then show ?case
    by (simp add: unat_of_nat mod_mult2_eq)
qed simp

lemma length_le_bytes [simp]: "length (le_bytes k n) = k"
  by (induction k n rule: le_bytes.induct) simp_all

definition status_binding :: RegistrationBinding where
  "status_binding = registration_binding sample_game ''attempt''"

definition status_entries :: "(byte \<times> (string \<times> string option)) list" where
  "status_entries =
     [(1, ''awaiting_server_admission'', None), (2, ''verifying_signed_launch_bundle'', None),
      (3, ''protected'', None), (4, ''revoked'', Some ''SESSION_REVOKED''),
      (5, ''launch_failed'', Some ''PROTECTED_LAUNCH_FAILED'')]"

definition status_registry :: registry_lib where
  "status_registry = sample_registry
     \<lparr>rl_status_to_vec := (\<lambda>s.
        map_option (\<lambda>(b, _). b # le_bytes 8 (unat (st_updated_at_unix s)))
          (find (\<lambda>(_, entry). entry = (st_state s, st_public_reason s)) status_entries)),
      rl_status_from_slice := (\<lambda>bs.
        case bs of
          [] \<Rightarrow> None
        | b # t \<Rightarrow>
            map_option (\<lambda>(_, entry). status_of status_binding (of_nat (le_value t)) entry)
              (find (\<lambda>(c, _). c = b) status_entries))\<rparr>"

declare le_bytes.simps [simp del]

lemma le_time: "of_nat (le_value (le_bytes 8 (unat now))) = (now :: i64)"
  using unsigned_less [of now, where 'a = nat] by (simp add: le_value_bytes)

lemma status_registry_encodes:
  assumes "entry \<in> snd ` set status_entries"
  shows "status_encodes status_registry status_binding entry"
proof -
  from assms obtain b where entry: "(b, entry) \<in> set status_entries"
    by auto
  have "find (\<lambda>(_, e). e = (st_state (status_of status_binding now entry), st_public_reason (status_of status_binding now entry)))
      status_entries = Some (b, entry)" "find (\<lambda>(c, _). c = b) status_entries = Some (b, entry)" for now
    using entry by (auto simp: status_entries_def status_of_def)
  then have "rl_status_to_vec status_registry (status_of status_binding now entry) = Some (b # le_bytes 8 (unat now))"
    "rl_status_from_slice status_registry (b # le_bytes 8 (unat now)) = Some (status_of status_binding now entry)"
    for now
    by (simp_all add: status_registry_def le_time) (simp add: status_of_def)
  then show ?thesis
    unfolding status_encodes_def by fastforce
qed

definition status_world :: world where
  "status_world = (sample_world registry_fs)\<lparr>wd_clock := replicate 12 (Some sample_nanos)\<rparr>"

definition status_dir :: path where
  "status_dir = [''home'', ''.local'', ''state'', ''certael-agent'']"

lemma status_binding_path: "bind_status_path status_binding = status_dir @ [''game-1.json'']"
  by (simp add: status_binding_def registration_binding_def sample_game_def status_dir_def)

lemma status_world_ready:
  assumes "n \<le> 6"
  shows "status_ready status_world status_dir ''game-1.json'' n"
proof -
  have "registry_fs (status_dir @ [c]) = None" for c
    by (simp add: registry_fs_def status_dir_def)
  moreover have "status_file_name ''game-1.json''"
    by (auto simp: status_file_name_def plain_name_def intro: exI [of _ "''game-1''"])
  ultimately show ?thesis
    using assms registry_state_dir
    by (simp add: status_ready_def status_world_def calm_def sample_world_def status_dir_def)
qed

section \<open>A session that is admitted and revoked\<close>

definition registered_session :: RuntimeState where
  "registered_session = sample_state\<lparr>rts_registration := Some status_binding\<rparr>"

definition revocation_tick :: tick where
  "revocation_tick =
     (sample_tick (Frame_received \<lparr>fr_message_type = Revocation, fr_payload = [6]\<rparr>))
       \<lparr>tk_handler_now := Some sample_now\<rparr>"

definition revoked_host :: "unit launch_host" where
  "revoked_host = sample_launch_host\<lparr>lh_ticks := [revocation_tick]\<rparr>"

definition session_entries :: "(string \<times> string option) list" where
  "session_entries =
     [(''awaiting_server_admission'', None), (''verifying_signed_launch_bundle'', None),
      (''protected'', None), (''revoked'', Some ''SESSION_REVOKED'')]"

lemma revoked_session:
  "\<exists>x. session_of sample_lib revoked_host registered_session = Finished (Inl ''Agent session was revoked'') x \<and>
     io_published x = session_entries"
proof -
  have adm: "\<exists>x s. admission sample_lib sample_host registered_session sample_io = (Inr (sample_launch, s), x) \<and>
     s = sample_loop\<lparr>ls_io := x\<rparr> \<and> w_room (io_writer x) = None \<and> w_flush_ok (io_writer x) \<and>
     io_published x = take 3 session_entries"
    by (simp add: admission_def then_io_def send_hello_def sample_io_def write_frame_def
      MAX_FRAME_PAYLOAD_def write_all_def flush_def publish_runtime_def sample_state_def sample_host_def
      await_bootstrap_def admit_bundle_def Let_def sample_bundle_accepted check_registration_def
      registration_mismatch_def check_files_def sample_files_ok become_ready_def write_health_def
      sample_window registered_session_def status_binding_def registration_binding_def sample_game_def
      sample_registration_def session_entries_def)
     (simp add: sample_loop_def i64_of_u32_def)
  then obtain x s where a: "admission sample_lib sample_host registered_session sample_io = (Inr (sample_launch, s), x)"
    "s = sample_loop\<lparr>ls_io := x\<rparr>" "w_room (io_writer x) = None" "w_flush_ok (io_writer x)"
    "io_published x = take 3 session_entries"
    by blast
  have check: "check_revocation sample_lib registered_session sample_launch (Some sample_now) [6] = Inr ()"
    using sample_verified
    by (simp add: check_revocation_def registered_session_def sample_envelope_def sample_revocation_def)
  have "\<exists>y. serve_step sample_lib registered_session sample_launch s revocation_tick
      = Finished (Inl ''Agent session was revoked'') y \<and> io_published y = session_entries"
    using a(2-) check
    by (simp add: serve_step_def revocation_tick_def sample_tick_def on_frame_def on_revocation_def
        health_then_def fails_def write_health_def write_frame_def write_all_def flush_def
        MAX_FRAME_PAYLOAD_def publish_runtime_def registered_session_def session_entries_def)
      (simp add: sample_loop_def sample_now_def)
  with a show ?thesis
    by (auto simp: session_of_def serve_def revoked_host_def sample_launch_host_def sample_io_def)
qed

section \<open>A repair program named in another case\<close>

definition tools_fs :: fs where
  "tools_fs =
     [[''opt''] \<mapsto> Dir, [''opt'', ''Tools''] \<mapsto> Dir, [''opt'', ''Tools'', ''repair''] \<mapsto> File [1],
      [''opt'', ''tools''] \<mapsto> Dir, [''opt'', ''tools'', ''repair''] \<mapsto> File [9]]"

definition tools_claims :: GameRegistrationClaimsV1 where
  "tools_claims = sample_registration
     \<lparr>reg_registered_files := [\<lparr>rgf_relative_path = ''Tools/repair'', rgf_size = 1, rgf_sha256 = sample_sha [1]\<rparr>],
      reg_repair_executable_relative_path := ''tools/repair''\<rparr>"

definition tools_machine :: machine where
  "tools_machine =
     \<lparr>mc_world = sample_world tools_fs, mc_starts = [Some 5], mc_spawned = [], mc_killed = []\<rparr>"

lemma tools_verified:
  "verify_registered_file sample_lib (sample_game\<lparr>rg_claims := tools_claims\<rparr>) ''tools/repair''
     (sample_world tools_fs) = (Inr (), sample_world tools_fs)"
proof -
  let ?f = "registered_entry \<lparr>rgf_relative_path = ''Tools/repair'', rgf_size = 1, rgf_sha256 = sample_sha [1]\<rparr>"
  have "entry_well_formed ?f"
    by (simp add: entry_well_formed_def registered_entry_def list_all_iff hex_encode_hexdigits
        platform_safe_relative_path_def is_absolute_def starts_with_def components_def slash_pieces_def
        sample_sha_def)
  moreover have "join_path [''opt''] ''Tools/repair'' = [''opt'', ''Tools'', ''repair'']"
    by (simp add: join_path_def is_absolute_def starts_with_def slash_pieces_def)
  then have "entry_ok sample_lib tools_fs [''opt''] ?f"
    by (simp add: entry_ok_lstat registered_entry_def lstat_def locate_def realpath_def tools_fs_def node_at_def
        MAX_SYMLINKS_def eq_ignore_ascii_case_def)
  moreover have "realpath tools_fs [''opt''] = Some [''opt'']" "stat tools_fs [''opt''] = Some Dir"
    by (simp_all add: stat_def realpath_def tools_fs_def node_at_def MAX_SYMLINKS_def)
  ultimately have verified: "verify_build_files sample_lib [''opt''] \<lparr>pbm_build_id = b, pbm_files = [?f]\<rparr>
      (sample_world tools_fs) = (Inr [], sample_world tools_fs)" if "b \<noteq> []" "length b \<le> 128" for b
    using that by (intro one_file_verified) (simp_all add: sample_world_def calm_def)
  have folded: "eq_ignore_ascii_case ''Tools/repair'' ''tools/repair''"
    by code_simp
  show ?thesis
    by (simp add: verified verify_registered_file_def registration_manifest_def tools_claims_def sample_registration_def
        sample_game_def andThen_def context_msg_def run_simps folded)
qed

text \<open>The program that repair starts is not the file whose digest it has checked.\<close>

lemma repair_starts_unverified_file:
  "\<exists>m'. run_registered_repair sample_lib (sample_game\<lparr>rg_claims := tools_claims\<rparr>) tools_machine = (Inr (), m') \<and>
     map cmd_program (mc_spawned m') = [[''opt'', ''tools'', ''repair'']] \<and>
     read_file (wd_fs (mc_world m')) [''opt'', ''tools'', ''repair''] = Some [9] \<and>
     (\<forall>f \<in> set (reg_registered_files tools_claims). rgf_sha256 f \<noteq> sample_sha [9])"
proof -
  have "join_path [''opt''] ''tools/repair'' = [''opt'', ''tools'', ''repair'']"
    by (simp add: join_path_def is_absolute_def starts_with_def slash_pieces_def)
  moreover have "read_file tools_fs [''opt'', ''tools'', ''repair''] = Some [9]"
    by (simp add: read_file_def stat_def realpath_def tools_fs_def node_at_def MAX_SYMLINKS_def)
  moreover have "reg_repair_executable_relative_path tools_claims = ''tools/repair''"
    "\<forall>f \<in> set (reg_registered_files tools_claims). rgf_sha256 f \<noteq> sample_sha [9]"
    by (simp_all add: tools_claims_def sample_sha_def)
  ultimately show ?thesis
    using tools_verified
    by (simp add: run_registered_repair_def Let_def act_then_def on_disk_def spawn_def act_ret_def
        tools_machine_def sample_game_def sample_world_def)
qed

end
