(* ===== verification/SessionMachine.thy ===== *)
theory SessionMachine
  imports LaunchOutcome
begin

text \<open>
  The abstract state machine of a session's published states, and that \<open>serve\<close> of
  \<^verbatim>\<open>crates/certael-agent/src/runtime.rs\<close> refines it: what a session of a registered game publishes is, for
  every host and every sequence of ticks, the trace of a run of this machine. What the readers of the
  status file may rely on is then proved of the machine, by rule induction.
\<close>

section \<open>The machine\<close>

datatype phase = Starting | Awaiting | Verifying | Outdated | Installing | Guarded | Closed

type_synonym status_entry = "string \<times> string option"

inductive phase_step :: "phase \<Rightarrow> status_entry \<Rightarrow> phase \<Rightarrow> bool" where
  hello: "phase_step Starting (''awaiting_server_admission'', None) Awaiting"
| refused: "phase_step Awaiting (''launch_failed'', Some reason) Closed"
| received: "phase_step Awaiting (''verifying_signed_launch_bundle'', None) Verifying"
| rejected: "phase_step Verifying (''launch_failed'', Some reason) Closed"
| outdated: "phase_step Verifying (''update_required'', Some ''AGENT_UPDATE_REQUIRED'') Outdated"
| installing: "phase_step Outdated (''installing_required_update'', Some ''AGENT_UPDATE_REQUIRED'') Installing"
| staged: "phase_step Installing (''update_ready'', Some ''RELAUNCH_TO_ACTIVATE_UPDATE'') Closed"
| unstaged: "phase_step Installing (''update_failed'', Some ''AGENT_UPDATE_FAILED'') Closed"
| admitted: "phase_step Verifying (''protected'', None) Guarded"
| alive: "phase_step Guarded (''protected'', None) Guarded"
| expired: "phase_step Guarded (''expired'', Some ''POLICY_EXPIRED'') Closed"
| lost: "phase_step Guarded (''lost'', Some ''REPORT_DEADLINE_MISSED'') Closed"
| revoked: "phase_step Guarded (''revoked'', Some ''SESSION_REVOKED'') Closed"
| stopped: "phase_step Guarded (''stopped'', None) Closed"
| hung_up: "phase_step Guarded (''stopped'', Some ''GAME_CHANNEL_CLOSED'') Closed"

inductive_cases from_phase:
  "phase_step Starting e p" "phase_step Awaiting e p" "phase_step Verifying e p" "phase_step Outdated e p"
  "phase_step Installing e p" "phase_step Guarded e p"

inductive_simps from_closed [simp]: "phase_step Closed e p"

text \<open>The trace of a run, by its last step.\<close>

inductive phase_run :: "phase \<Rightarrow> status_entry list \<Rightarrow> phase \<Rightarrow> bool" for p where
  here: "phase_run p [] p"
| on: "phase_run p es q \<Longrightarrow> phase_step q e r \<Longrightarrow> phase_run p (es @ [e]) r"

inductive_simps phase_run_Nil [simp]: "phase_run p [] q"

lemma phase_run_snoc: "phase_run p (es @ [e]) r \<longleftrightarrow> (\<exists>q. phase_run p es q \<and> phase_step q e r)"
  by (auto intro: phase_run.on elim: phase_run.cases)

section \<open>What the machine promises\<close>

definition final_states :: "string set" where
  "final_states =
     {''launch_failed'', ''update_ready'', ''update_failed'', ''expired'', ''lost'', ''revoked'', ''stopped''}"

lemma step_to_closed: "phase_step p e q \<Longrightarrow> q = Closed \<longleftrightarrow> fst e \<in> final_states"
  by (cases rule: phase_step.cases) (auto simp: final_states_def)

text \<open>A final state is published once, and nothing after it.\<close>

lemma run_final_last:
  assumes "phase_run p es q" and "p \<noteq> Closed"
  shows "fst ` set (butlast es) \<inter> final_states = {} \<and> (q = Closed \<longleftrightarrow> es \<noteq> [] \<and> fst (last es) \<in> final_states)"
  using assms
proof (induction rule: phase_run.induct)
  case here
  then show ?case by simp
next
  case (on es q e r)
  from on.hyps(2) have "q \<noteq> Closed"
    by auto
  with on.IH [OF on.prems] have "fst ` set es \<inter> final_states = {}"
    by (cases es rule: rev_cases) auto
  with step_to_closed [OF on.hyps(2)] show ?case by simp
qed

text \<open>The states before \<open>Guarded\<close> occur in one order; the trace of an admitted session begins with them.\<close>

definition admitted_prefix :: "status_entry list" where
  "admitted_prefix = [(''awaiting_server_admission'', None), (''verifying_signed_launch_bundle'', None)]"

fun phase_trace :: "phase \<Rightarrow> status_entry list \<Rightarrow> bool" where
  "phase_trace Starting es \<longleftrightarrow> es = []"
| "phase_trace Awaiting es \<longleftrightarrow> es = take 1 admitted_prefix"
| "phase_trace Verifying es \<longleftrightarrow> es = admitted_prefix"
| "phase_trace Guarded es \<longleftrightarrow> (\<exists>n. es = admitted_prefix @ replicate (Suc n) (''protected'', None))"
| "phase_trace Outdated es \<longleftrightarrow> ''protected'' \<notin> fst ` set es"
| "phase_trace Installing es \<longleftrightarrow> ''protected'' \<notin> fst ` set es"
| "phase_trace Closed es \<longleftrightarrow>
     ''protected'' \<in> fst ` set es \<longrightarrow>
     (\<exists>n e. es = admitted_prefix @ replicate (Suc n) (''protected'', None) @ [e])"

lemma run_trace:
  assumes "phase_run Starting es p"
  shows "phase_trace p es"
  using assms
proof (induction rule: phase_run.induct)
  case here
  then show ?case by simp
next
  case (on es q e r)
  from on.hyps(2) on.IH show ?case
  proof (cases rule: phase_step.cases)
    case alive
    with on.IH obtain n where "es = admitted_prefix @ replicate (Suc n) (''protected'', None)"
      by auto
    then have "es @ [e] = admitted_prefix @ replicate (Suc (Suc n)) (''protected'', None)"
      by (simp add: alive replicate_append_same)
    with alive show ?thesis
      by (auto simp del: replicate_Suc)
  qed (auto simp: admitted_prefix_def)
qed

lemma run_protected:
  assumes "phase_run Starting es p" and "''protected'' \<in> fst ` set es"
  shows "\<exists>n rest. es = admitted_prefix @ replicate (Suc n) (''protected'', None) @ rest \<and> length rest \<le> 1"
proof -
  from run_trace [OF assms(1)] have "phase_trace p es" .
  then consider n where "es = admitted_prefix @ replicate (Suc n) (''protected'', None) @ []"
    | n e where "es = admitted_prefix @ replicate (Suc n) (''protected'', None) @ [e]"
    using assms(2) by (cases p) (auto simp: admitted_prefix_def simp del: replicate_Suc)
  then show ?thesis
    by cases (fastforce simp del: replicate_Suc)+
qed

section \<open>\<open>serve\<close> refines the machine\<close>

definition follows :: "phase \<Rightarrow> io \<Rightarrow> bool" where
  "follows p x \<longleftrightarrow> phase_run Starting (io_published x) p"

lemma follows_publish:
  assumes "rts_registration state = Some b" and "follows p x" and "phase_step p (st, reason) q"
  shows "follows q (publish_runtime state st reason x)"
  using assms by (auto simp: follows_def publish_runtime_def phase_run_snoc)

lemma follows_writer [simp]:
  "follows p (x\<lparr>io_writer := w\<rparr>) = follows p x"
  "follows p (snd (write_health L sid hs t rs x)) = follows p x"
  by (simp_all add: follows_def)

text \<open>A step of the admission: after an error some phase, after success the given one.\<close>

definition reaches :: "phase \<Rightarrow> (string + 'a) \<times> io \<Rightarrow> bool" where
  "reaches p r \<longleftrightarrow> (case r of (Inl e, x) \<Rightarrow> \<exists>q. follows q x | (Inr v, x) \<Rightarrow> follows p x)"

lemma reaches_intros:
  "follows p x \<Longrightarrow> reaches p (Inr v, x)" "follows q x \<Longrightarrow> reaches p (Inl e, x)"
  by (auto simp: reaches_def)

lemma reaches_then:
  assumes "reaches p r" and "\<And>v x. follows p x \<Longrightarrow> reaches q (f v x)"
  shows "reaches q (then_io r f)"
proof (cases r)
  case (Pair v x)
  with assms show ?thesis
    by (cases v) (auto simp: then_io_def reaches_def)
qed

lemma reaches_reject:
  assumes "rts_registration state = Some b" and "follows p x" and "phase_step p (st, Some reason) q"
  shows "reaches r (reject L state st sid hs reason m x)"
  using follows_publish [OF assms] by (auto simp: reaches_def reject_def)

lemma send_hello_reaches:
  assumes "rts_registration state = Some b" and "follows Starting x"
  shows "reaches Awaiting (send_hello L state x)"
  using assms follows_publish [OF assms(1) _ phase_step.hello]
  by (auto simp: reaches_def send_hello_def split: prod.splits sum.splits)

lemma await_bootstrap_reaches:
  assumes "rts_registration state = Some b" and "follows Awaiting x"
  shows "reaches Awaiting (await_bootstrap L state sp rc x)"
  using assms
  by (auto simp: await_bootstrap_def split: recv.splits
      intro: reaches_intros reaches_reject [OF assms phase_step.refused])

lemma update_required_reaches:
  assumes "rts_registration state = Some b" and "follows Verifying x"
  shows "reaches p (update_required L h state x)"
proof -
  note publish = follows_publish [OF assms(1)]
  let ?x1 = "snd (write_health L ''unbound'' ''update_required'' 0 [''AGENT_UPDATE_REQUIRED'']
    (publish_runtime state ''update_required'' (Some ''AGENT_UPDATE_REQUIRED'') x))"
  have x1: "follows Outdated ?x1"
    using publish [OF assms(2) phase_step.outdated] by simp
  from publish [OF this phase_step.installing]
  have "follows Installing (publish_runtime state ''installing_required_update'' (Some ''AGENT_UPDATE_REQUIRED'') ?x1)" .
  from this publish [OF this phase_step.staged] publish [OF this phase_step.unstaged] x1 show ?thesis
    by (auto simp: update_required_def Let_def intro: reaches_intros split: option.splits sum.splits bool.splits)
qed

lemma admit_bundle_reaches:
  assumes "rts_registration state = Some b" and "follows Awaiting x"
  shows "reaches Verifying (admit_bundle L h state payload x)"
proof -
  from follows_publish [OF assms phase_step.received]
  have "follows Verifying (publish_runtime state ''verifying_signed_launch_bundle'' None x)" .
  then show ?thesis
    using assms(1)
    by (auto simp: admit_bundle_def Let_def split: option.splits sum.splits
        intro: reaches_intros update_required_reaches reaches_reject [OF _ _ phase_step.rejected])
qed

lemma check_registration_reaches:
  assumes "rts_registration state = Some b" and "follows Verifying x"
  shows "reaches Verifying (check_registration L state launch x)"
  using assms
  by (auto simp: check_registration_def intro: reaches_intros reaches_reject [OF _ _ phase_step.rejected])

lemma check_files_reaches:
  assumes "rts_registration state = Some b" and "follows Verifying x"
  shows "reaches Verifying (check_files L state disk launch x)"
  using assms
  by (auto simp: check_files_def split: sum.splits
      intro: reaches_intros reaches_reject [OF _ _ phase_step.rejected])

lemma become_ready_reaches:
  assumes "rts_registration state = Some b" and "follows Verifying x"
  shows "reaches Guarded (become_ready L h state launch x)"
proof -
  obtain r x1 where w: "write_health L (launch_session_id launch) ''ready'' 0 [] x = (r, x1)"
    by fastforce
  have x1: "follows Verifying x1"
    using assms(2) follows_writer(2) [of Verifying L _ _ _ _ x] w by (metis snd_conv)
  with follows_publish [OF assms(1) x1 phase_step.admitted] w show ?thesis
    by (auto simp: become_ready_def Let_def intro: reaches_intros split: sum.splits option.splits)
qed

lemma admission_reaches:
  assumes "rts_registration state = Some b" and "follows Starting x"
  shows "reaches Guarded (admission L h state x)"
  unfolding admission_def
  by (rule reaches_then [OF send_hello_reaches [OF assms]],
      rule reaches_then [OF await_bootstrap_reaches [OF assms(1)]], assumption,
      rule reaches_then [OF admit_bundle_reaches [OF assms(1)]], assumption,
      rule reaches_then [OF check_registration_reaches [OF assms(1)]], assumption,
      rule reaches_then [OF check_files_reaches [OF assms(1)]], assumption,
      rule reaches_then [OF become_ready_reaches [OF assms(1)]], assumption,
      rule reaches_intros)

section \<open>The loop\<close>

definition run_follows :: "run \<Rightarrow> bool" where
  "run_follows r \<longleftrightarrow>
     (case r of
        Running s \<Rightarrow> follows Guarded (ls_io s)
      | Finished (Inl e) x \<Rightarrow> \<exists>p. follows p x
      | Finished (Inr u) x \<Rightarrow> follows Closed x \<and> fst (last (io_published x)) = ''stopped'')"

lemma fails_follows: "follows p (ls_io s) \<Longrightarrow> run_follows (fails e s)"
  by (auto simp: run_follows_def fails_def)

lemma health_then_follows:
  assumes "rts_registration state = Some b" and "follows Guarded (ls_io s)"
    and "phase_step Guarded (health, reason) p"
    and "\<And>x. follows p x \<Longrightarrow> run_follows (continue (s\<lparr>ls_io := x\<rparr>))"
  shows "run_follows (health_then L state launch health reasons reason s continue)"
proof -
  obtain r x where w: "write_health L (launch_session_id launch) health (ls_last_report_at s) reasons (ls_io s) = (r, x)"
    by fastforce
  have "follows Guarded x"
    using assms(2) follows_writer(2) [of Guarded L _ _ _ _ "ls_io s"] w by (metis snd_conv)
  with w assms(4) follows_publish [OF assms(1) this assms(3)] show ?thesis
    by (auto simp: health_then_def run_follows_def split: sum.splits)
qed

lemma stopped_follows:
  assumes "rts_registration state = Some b" and "follows Guarded x" and "reason \<in> {None, Some ''GAME_CHANNEL_CLOSED''}"
  shows "run_follows (Finished (Inr ()) (publish_runtime state ''stopped'' reason x))"
  using assms follows_publish [OF assms(1,2), of "''stopped''" reason Closed]
  by (auto simp: run_follows_def publish_runtime_def phase_step.stopped phase_step.hung_up)

lemma on_timeout_follows:
  assumes "rts_registration state = Some b" and "follows Guarded (ls_io s)"
  shows "run_follows (on_timeout L state launch clock s)"
  using assms
  by (auto simp: on_timeout_def run_follows_def [of "Running _"] fails_follows split: option.splits
      intro!: health_then_follows [OF assms phase_step.alive])

lemma deliver_report_follows:
  assumes "rts_registration state = Some b" and "follows Guarded (ls_io s)"
  shows "run_follows (deliver_report L state launch s report now)"
proof -
  have "follows Guarded (publish_runtime state ''protected'' None ((ls_io s)\<lparr>io_writer := w\<rparr>))" for w
    using assms follows_publish [OF assms(1) _ phase_step.alive] by simp
  then show ?thesis
    using assms(2)
    by (auto simp: deliver_report_def fails_follows run_follows_def [of "Running _"]
        run_follows_def [of "Finished _ _"] split: option.splits prod.splits sum.splits)
qed

lemma on_frame_follows:
  assumes "rts_registration state = Some b" and "follows Guarded (ls_io s)"
  shows "run_follows (on_frame L state launch tk fr s)"
proof -
  have "run_follows (on_revocation L state launch clock payload s)" for clock payload
    using assms(2)
    by (auto simp: on_revocation_def fails_follows split: sum.splits
        intro!: health_then_follows [OF assms phase_step.revoked] fails_follows)
  then show ?thesis
    using assms stopped_follows [OF assms, of None]
    by (auto simp: on_frame_def on_challenge_def on_shutdown_def fails_follows deliver_report_follows
        split: MessageType.splits sum.splits)
qed

lemma serve_step_follows:
  assumes "rts_registration state = Some b" and "follows Guarded (ls_io s)"
  shows "run_follows (serve_step L state launch s tk)"
proof -
  have "run_follows (channel_closed state s)"
    unfolding channel_closed_def using stopped_follows [OF assms] by simp
  then show ?thesis
    using assms
    by (auto simp: serve_step_def fails_follows on_frame_follows on_timeout_follows
        split: option.splits recv.splits
        intro!: health_then_follows [OF assms phase_step.expired] health_then_follows [OF assms phase_step.lost]
          fails_follows)
qed

lemma serve_loop_follows:
  assumes "rts_registration state = Some b" and "follows Guarded (ls_io s)"
  shows "run_follows (serve_loop L state launch s ticks)"
  using assms(2)
proof (induction ticks arbitrary: s)
  case Nil
  then show ?case by (simp add: run_follows_def)
next
  case (Cons tk ticks)
  note step = serve_step_follows [OF assms(1) Cons.prems, of L launch tk]
  show ?case
  proof (cases "serve_step L state launch s tk")
    case (Running t)
    with step Cons.IH show ?thesis by (simp add: run_follows_def [of "Running t"])
  next
    case (Finished r x)
    with step show ?thesis by simp
  qed
qed

lemma serve_follows:
  assumes "rts_registration state = Some b" and "io_published x = []"
  shows "run_follows (serve L h state x ticks)"
proof -
  have start: "follows Starting x"
    by (simp add: follows_def assms(2))
  obtain r x' where adm: "admission L h state x = (r, x')"
    by fastforce
  show ?thesis
  proof (cases r)
    case (Inl e)
    with adm admission_reaches [OF assms(1) start, of L h] show ?thesis
      by (auto simp: serve_def run_follows_def reaches_def)
  next
    case (Inr v)
    with adm admission_ok [of L h state x "fst v" "snd v" x'] have "x' = ls_io (snd v)"
      by simp
    with Inr adm admission_reaches [OF assms(1) start, of L h] serve_loop_follows [OF assms(1), of "snd v" L "fst v" ticks]
    show ?thesis
      by (auto simp: serve_def reaches_def split: prod.splits)
  qed
qed

end
