(* ===== verification/Preview.thy ===== *)
theory Preview
  imports Splash
begin

text \<open>
  The native windows of \<^verbatim>\<open>crates/certael-agent/src/ui.rs\<close> (\<open>run\<close>, \<open>run_splash\<close>), and the preview of the splash
  that debug builds have: \<open>preview_launch_splash\<close> of \<^verbatim>\<open>crates/certael-agent/src/main.rs\<close>, its frames with a
  screenshot, and \<open>save_screenshot\<close>.

  \<open>eframe::run_native\<close> is a parameter: it gets the options of the window and the creator of the application, and
  gives the result of the event loop. An \<open>f32\<close> is the number \<open>m * 2 ^ e\<close> of its
  mantissa and exponent; an infinity or NaN is \<open>Nonfinite\<close>. The encoder of the \<open>png\<close> crate is a parameter.
\<close>

section \<open>Windows\<close>

datatype f32 = Finite int int | Nonfinite

record native_options =
  no_title :: string
  no_inner_size :: "f32 \<times> f32"
  no_min_inner_size :: "f32 \<times> f32"

type_synonym 'app run_native = "string \<Rightarrow> native_options \<Rightarrow> (string, 'app) call \<Rightarrow> (string, unit) call"

definition run_agent_window ::
    "AgentApp run_native \<Rightarrow> registry_lib \<Rightarrow> (string \<rightharpoonup> path) \<Rightarrow> string list \<Rightarrow> int \<Rightarrow> (string, unit) call"
where
  "run_agent_window run_native G env entries now =
     run_native ''Certael Agent''
       \<lparr>no_title = ''Certael Agent'', no_inner_size = (Finite 720 0, Finite 600 0),
        no_min_inner_size = (Finite 560 0, Finite 440 0)\<rparr>
       (agent_default G env entries now)"

text \<open>The application of a splash: its zoom factor, its state, and in a preview where the screenshot goes.\<close>

record splash_session =
  ss_zoom :: f32
  ss_app :: SplashApp
  ss_screenshot_path :: "path option"
  ss_screenshot_requested :: bool

definition splash_title :: "RegisteredGame \<Rightarrow> string" where
  "splash_title registered =
     ''Launching '' @
       (case rg_branding registered of
          Some b \<Rightarrow> brand_display_name (vb_claims b)
        | None \<Rightarrow> reg_game_id (rg_claims registered))"

definition run_splash_inner ::
    "splash_session run_native \<Rightarrow> registry_lib \<Rightarrow> RegisteredGame \<Rightarrow> string \<Rightarrow> path option \<Rightarrow> f32 \<times> f32 \<Rightarrow> f32
      \<Rightarrow> int \<Rightarrow> (string, unit) call"
where
  "run_splash_inner run_native G registered launch_attempt_id screenshot_path viewport_size zoom now =
     run_native ''Certael Agent launch''
       \<lparr>no_title = splash_title registered, no_inner_size = viewport_size,
        no_min_inner_size = (Finite 720 0, Finite 560 0)\<rparr>
       (andThen (splash_new G registered launch_attempt_id now) (\<lambda>app.
        ret \<lparr>ss_zoom = zoom, ss_app = app, ss_screenshot_path = screenshot_path,
             ss_screenshot_requested = False\<rparr>))"

definition run_splash ::
    "splash_session run_native \<Rightarrow> registry_lib \<Rightarrow> RegisteredGame \<Rightarrow> string \<Rightarrow> int \<Rightarrow> (string, unit) call"
where
  "run_splash run_native G registered launch_attempt_id now =
     run_splash_inner run_native G registered launch_attempt_id None (Finite 1040 0, Finite 800 0) (Finite 1 0) now"

definition run_splash_preview ::
    "splash_session run_native \<Rightarrow> registry_lib \<Rightarrow> RegisteredGame \<Rightarrow> string \<Rightarrow> path \<Rightarrow> f32 \<times> f32 \<Rightarrow> f32
      \<Rightarrow> int \<Rightarrow> (string, unit) call"
where
  "run_splash_preview run_native G registered launch_attempt_id screenshot_path viewport_size zoom now =
     run_splash_inner run_native G registered launch_attempt_id (Some screenshot_path) viewport_size zoom now"

section \<open>Screenshots\<close>

record ColorImage =
  ci_size :: "nat \<times> nat"
  ci_pixels :: "(byte \<times> byte \<times> byte \<times> byte) list"

text \<open>What the encoder writes for an 8-bit RGBA image: its header, its data, or an error, and its end.\<close>

record png_encoder =
  pe_header :: "u32 \<Rightarrow> u32 \<Rightarrow> bytes option"
  pe_image_data :: "u32 \<Rightarrow> u32 \<Rightarrow> bytes \<Rightarrow> bytes option"
  pe_end :: bytes

text \<open>\<open>File::create\<close>: an existing file is emptied.\<close>

definition create_file :: "path \<Rightarrow> fs \<Rightarrow> (path \<times> fs) option" where
  "create_file p fs =
     (case (realpath fs p, stat fs p) of
        (Some q, Some (File _)) \<Rightarrow> Some (q, fs(q \<mapsto> File []))
      | (_, Some _) \<Rightarrow> None
      | _ \<Rightarrow> create_new p fs)"

definition to_array :: "byte \<times> byte \<times> byte \<times> byte \<Rightarrow> bytes" where
  "to_array p = (case p of (r, g, b, a) \<Rightarrow> [r, g, b, a])"

definition save_screenshot :: "png_encoder \<Rightarrow> path \<Rightarrow> ColorImage \<Rightarrow> (string, unit) call" where
  "save_screenshot E p picture =
     (let width = of_nat (fst (ci_size picture)); height = of_nat (snd (ci_size picture));
          bytes = concat (map to_array (ci_pixels picture)) in
      andThen (change ''cannot create file'' (create_file p)) (\<lambda>handle.
      andThen (lift (ok_or ''cannot encode PNG'' (pe_header E width height))) (\<lambda>header.
      andThen (write_handle ''cannot encode PNG'' handle header) (\<lambda>_.
      andThen (attempt
        (andThen (lift (ok_or ''cannot encode PNG'' (pe_image_data E width height bytes))) (\<lambda>data.
         write_handle ''cannot encode PNG'' handle data))) (\<lambda>result.
      andThen (attempt (write_handle () handle (pe_end E))) (\<lambda>_.
      lift result))))))"

section \<open>A frame of a debug build\<close>

datatype debug_viewport = View viewport | Screenshot_view

text \<open>The frame of a release build, then the request for the screenshot.\<close>

definition debug_frame ::
    "registry_lib \<Rightarrow> int \<Rightarrow> bool \<Rightarrow> bool \<Rightarrow> splash_session
      \<Rightarrow> (string, debug_viewport list \<times> splash_view option \<times> splash_session) call"
where
  "debug_frame G now escape roomy session =
     andThen (splash_frame G now escape roomy (ss_app session)) (\<lambda>(views, shown, app).
     let session = session\<lparr>ss_app := app\<rparr> in
     if shown \<noteq> None \<and> ss_screenshot_path session \<noteq> None \<and> \<not> ss_screenshot_requested session
     then ret (map View views @ [Screenshot_view], shown, session\<lparr>ss_screenshot_requested := True\<rparr>)
     else ret (map View views, shown, session))"

text \<open>\<open>screenshot\<close> is the first picture among the events of the frame. Once it is saved the window closes.\<close>

definition preview_frame ::
    "registry_lib \<Rightarrow> png_encoder \<Rightarrow> int \<Rightarrow> bool \<Rightarrow> bool \<Rightarrow> ColorImage option \<Rightarrow> splash_session
      \<Rightarrow> (string, debug_viewport list \<times> splash_view option \<times> splash_session) call"
where
  "preview_frame G E now escape roomy screenshot session =
     (case (ss_screenshot_path session, screenshot) of
        (Some p, Some picture) \<Rightarrow>
          andThen (attempt (save_screenshot E p picture)) (\<lambda>(r :: string + unit).
          if is_ok r then ret ([View Close_view], None, session)
          else debug_frame G now escape roomy session)
      | _ \<Rightarrow> debug_frame G now escape roomy session)"

section \<open>The preview\<close>

record SplashPreviewArgs =
  pa_hero :: path
  pa_icon :: path
  pa_state :: string
  pa_reason :: "string option"
  pa_screenshot :: path
  pa_width :: f32
  pa_height :: f32
  pa_zoom :: f32

text \<open>\<open>(low..=high).contains(&x)\<close>, which no infinity and no NaN satisfies for finite bounds.\<close>

definition at_least :: "int \<Rightarrow> int \<Rightarrow> int \<Rightarrow> bool" where
  "at_least low m e \<longleftrightarrow> (if 0 \<le> e then low \<le> m * 2 ^ nat e else low * 2 ^ nat (- e) \<le> m)"

definition at_most :: "int \<Rightarrow> int \<Rightarrow> int \<Rightarrow> bool" where
  "at_most high m e \<longleftrightarrow> (if 0 \<le> e then m * 2 ^ nat e \<le> high else m \<le> high * 2 ^ nat (- e))"

definition contains :: "int \<Rightarrow> int \<Rightarrow> f32 \<Rightarrow> bool" where
  "contains low high x = (case x of Finite m e \<Rightarrow> at_least low m e \<and> at_most high m e | Nonfinite \<Rightarrow> False)"

definition preview_claims :: GameRegistrationClaimsV1 where
  "preview_claims =
     \<lparr>reg_protocol_version = PROTOCOL_VERSION, reg_registration_id = ''preview-production'',
      reg_publisher_id = ''northline-games'', reg_tenant_id = ''preview'', reg_game_id = ''hollowstar'',
      reg_environment_id = ''preview'', reg_executable_relative_path = ''preview-game'',
      reg_trust_store_sha256 = replicate 32 0, reg_update_root_sha256 = replicate 32 0,
      reg_update_metadata_url = ''https://updates.example/metadata/'',
      reg_update_targets_url = ''https://updates.example/targets/'', reg_update_channel = ''stable'',
      reg_not_before_unix = 1, reg_expires_at_unix = 2 ^ 63 - 1, reg_registered_files = [],
      reg_repair_executable_relative_path = ''repair.exe'', reg_repair_arguments = [],
      reg_offline_play_allowed = True, reg_offline_arguments = []\<rparr>"

definition preview_branding :: "path \<Rightarrow> path \<Rightarrow> VerifiedBranding" where
  "preview_branding icon hero =
     \<lparr>vb_claims =
        \<lparr>brand_protocol_version = PROTOCOL_VERSION, brand_registration_id = ''preview-production'',
         brand_game_id = ''hollowstar'', brand_display_name = ''Hollowstar'',
         brand_publisher_name = ''Northline Games'', brand_icon_relative_path = ''icon.png'',
         brand_icon_sha256 = replicate 32 0, brand_not_before_unix = 1, brand_expires_at_unix = 2 ^ 63 - 1,
         brand_hero_relative_path = ''hero.png'', brand_hero_sha256 = replicate 32 0\<rparr>,
      vb_icon = icon, vb_hero = Some hero\<rparr>"

definition preview_game :: "path \<Rightarrow> path \<Rightarrow> path \<Rightarrow> path \<Rightarrow> RegisteredGame" where
  "preview_game executable preview_root icon hero =
     \<lparr>rg_claims = preview_claims, rg_game = executable, rg_game_root = butlast executable,
      rg_trust_store = executable, rg_update_root = executable, rg_state_root = preview_root,
      rg_status_path = join_path preview_root ''preview-status.json'',
      rg_branding = Some (preview_branding icon hero)\<rparr>"

definition preview_status :: "SplashPreviewArgs \<Rightarrow> i64 \<Rightarrow> RuntimeStatus" where
  "preview_status args now =
     \<lparr>st_format_version = 2, st_registration_id = ''preview-production'', st_game_id = ''hollowstar'',
      st_state = pa_state args, st_public_reason = pa_reason args, st_updated_at_unix = now,
      st_launch_attempt_id = Some ''preview-attempt'', st_milestone_index = Some 6,
      st_milestone_total = Some 8\<rparr>"

definition preview_in_range :: "SplashPreviewArgs \<Rightarrow> bool" where
  "preview_in_range args \<longleftrightarrow>
     contains 720 3840 (pa_width args) \<and> contains 560 2160 (pa_height args) \<and> contains 1 2 (pa_zoom args)"

text \<open>\<open>temp_dir\<close> and \<open>current_exe\<close> are the host's answers, \<open>uuid\<close> is fresh.\<close>

definition preview_launch_splash ::
    "splash_session run_native \<Rightarrow> registry_lib \<Rightarrow> path \<Rightarrow> path option \<Rightarrow> string \<Rightarrow> int \<Rightarrow> SplashPreviewArgs
      \<Rightarrow> (string, unit) call"
where
  "preview_launch_splash run_native G temp_dir current_exe uuid instant args =
     (if \<not> preview_in_range args then throw ''preview viewport or zoom is outside the supported QA range''
      else
      andThen (decode_icon_rgba (rl_png G) (pa_icon args)) (\<lambda>_.
      andThen (decode_hero_rgba (rl_png G) (pa_hero args)) (\<lambda>_.
      let preview_root = join_path temp_dir (''certael-splash-preview-'' @ uuid) in
      andThen (create_dir_all ''cannot create directory'' preview_root) (\<lambda>_.
      andThen now_unix (\<lambda>now.
      andThen (status_publish G (join_path preview_root ''preview-status.json'') (preview_status args now)) (\<lambda>_.
      andThen (lift (ok_or ''cannot find the executable'' current_exe)) (\<lambda>executable.
      if executable = [] then throw ''preview executable has no parent''
      else
        andThen (attempt (run_splash_preview run_native G
          (preview_game executable preview_root (pa_icon args) (pa_hero args)) ''preview-attempt''
          (pa_screenshot args) (pa_width args, pa_height args) (pa_zoom args) instant)) (\<lambda>result.
        andThen (attempt (remove_tree () preview_root)) (\<lambda>_. lift result)))))))))"

section \<open>What a preview is not\<close>

text \<open>Without a screenshot to take, a frame of a debug build is that of a release build.\<close>

lemma debug_frame_release:
  assumes "ss_screenshot_path session = None"
  shows "preview_frame G E now escape roomy screenshot session =
    andThen (splash_frame G now escape roomy (ss_app session)) (\<lambda>(views, shown, app).
    ret (map View views, shown, session\<lparr>ss_app := app\<rparr>))"
  using assms by (simp add: preview_frame_def debug_frame_def Let_def)

text \<open>A preview outside its range touches nothing.\<close>

lemma preview_refused:
  "\<not> preview_in_range args \<Longrightarrow> preview_launch_splash run_native G temp_dir current_exe uuid instant args w
     = (Inl ''preview viewport or zoom is outside the supported QA range'', w)"
  by (simp add: preview_launch_splash_def throw_def)

text \<open>The range of a value does not depend on how it is scaled.\<close>

lemma contains_scaled: "contains low high (Finite (2 * m) e) = contains low high (Finite m (e + 1))"
proof (cases "0 \<le> e")
  case True
  then have "nat (e + 1) = Suc (nat e)" by simp
  with True show ?thesis by (simp add: contains_def at_least_def at_most_def mult_ac)
next
  case False
  then have e: "nat (- e) = Suc (nat (- (e + 1)))" by simp
  show ?thesis
  proof (cases "e = - 1")
    case True
    then show ?thesis by (simp add: contains_def at_least_def at_most_def)
  next
    case False
    with \<open>\<not> 0 \<le> e\<close> e show ?thesis by (simp add: contains_def at_least_def at_most_def)
  qed
qed

lemma contains_integer: "contains low high (Finite m 0) \<longleftrightarrow> low \<le> m \<and> m \<le> high"
  by (simp add: contains_def at_least_def at_most_def)

text \<open>The screenshot is asked for at most once.\<close>

lemma screenshot_requested_once:
  assumes "debug_frame G now escape roomy session w = (Inr (views, shown, session'), w')"
  shows "ss_screenshot_requested session' = (ss_screenshot_requested session \<or> Screenshot_view \<in> set views) \<and>
    (Screenshot_view \<in> set views \<longrightarrow> \<not> ss_screenshot_requested session)"
  using assms by (auto simp: debug_frame_def Let_def andThen_ok ret_def split: prod.splits if_splits)

end
