(* ===== verification/Hardening.thy ===== *)
theory Hardening
  imports FileSystem
begin

text \<open>
  \<^verbatim>\<open>crates/certael-agent/src/hardening.rs\<close>: what the Agent forbids itself before it does anything else. The
  results of the system calls are parameters; on Windows the state is the policies in force.
\<close>

unbundle bit_operations_syntax

text \<open>\<open>apply\<close> on Linux, given whether \<open>setrlimit\<close> and \<open>prctl\<close> return 0.\<close>

definition hardening_apply :: "bool \<Rightarrow> bool \<Rightarrow> string + unit" where
  "hardening_apply setrlimit_ok prctl_ok =
     (if \<not> setrlimit_ok then Inl ''failed to disable Agent core dumps''
      else if \<not> prctl_ok then Inl ''failed to restrict Agent process-memory access''
      else Inr ())"

section \<open>Windows\<close>

datatype process_policy = Strict_handle_check | Extension_point_disable | Image_load

text \<open>\<open>pa_dep_flags\<close> is what \<open>GetProcessDEPPolicy\<close> reads, when it succeeds.\<close>

record policy_answers =
  pa_dep_flags :: "u32 option"
  pa_set_dep :: bool
  pa_set_policy :: "process_policy \<Rightarrow> u32 \<Rightarrow> bool"

record policies =
  po_dep :: bool
  po_set :: "(process_policy \<times> u32) list"

definition PROCESS_DEP_ENABLE :: u32 where "PROCESS_DEP_ENABLE = 1"

definition dep_is_enabled :: "policy_answers \<Rightarrow> bool" where
  "dep_is_enabled A =
     (case pa_dep_flags A of None \<Rightarrow> False | Some flags \<Rightarrow> flags AND PROCESS_DEP_ENABLE \<noteq> 0)"

definition enable_dep :: "policy_answers \<Rightarrow> (policies, string, unit) fallible" where
  "enable_dep A p =
     (if dep_is_enabled A then (Inr (), p\<lparr>po_dep := True\<rparr>)
      else if pa_set_dep A then (Inr (), p\<lparr>po_dep := True\<rparr>)
      else (Inl ''failed to enable Agent DEP policy'', p))"

fun set_policies ::
    "policy_answers \<Rightarrow> (process_policy \<times> u32 \<times> string) list \<Rightarrow> (policies, string, unit) fallible"
where
  "set_policies A [] p = (Inr (), p)"
| "set_policies A ((policy, flags, reason) # rest) p =
     (if pa_set_policy A policy flags
      then set_policies A rest (p\<lparr>po_set := po_set p @ [(policy, flags)]\<rparr>)
      else (Inl (''failed to enable Agent '' @ reason), p))"

definition AGENT_POLICIES :: "(process_policy \<times> u32 \<times> string) list" where
  "AGENT_POLICIES =
     [(Strict_handle_check, 3, ''strict-handle checks''),
      (Extension_point_disable, 1, ''extension-point disablement''),
      (Image_load, 7, ''safe image-loading policy'')]"

definition apply_windows :: "policy_answers \<Rightarrow> (policies, string, unit) fallible" where
  "apply_windows A = andThen (enable_dep A) (\<lambda>_. set_policies A AGENT_POLICIES)"

section \<open>Facts\<close>

text \<open>It succeeds exactly when everything it asks for is in force.\<close>

lemma apply_windows_complete:
  "case apply_windows A \<lparr>po_dep = False, po_set = []\<rparr> of (r, p) \<Rightarrow>
     is_ok r \<longleftrightarrow> po_dep p \<and> po_set p = map (\<lambda>(policy, flags, _). (policy, flags)) AGENT_POLICIES"
  by (simp add: apply_windows_def andThen_def enable_dep_def AGENT_POLICIES_def)

end
