(* ===== verification/Commands.thy ===== *)
theory Commands
  imports LaunchOutcome Compatibility Preview Hardening
begin

text \<open>
  The command line of \<^verbatim>\<open>crates/certael-agent/src/main.rs\<close>: one constructor per subcommand, the arms of
  \<open>main\<close> whose work is not a single call, and the dispatch. What is printed is the result of the
  command. The path of a started update and the URL parser belong to the host of the updater.
\<close>

section \<open>Arguments\<close>

datatype Commands =
    Inspect path
  | ValidateTrustStore path
  | CompatibilityCheck path path string string u32
  | Launch path path "string list"
  | RegisterGame path path path path "path option" "path option" "path option"
  | UpdateGameRegistration path path path path "path option" "path option" "path option"
  | ListGames "path option"
  | LaunchGame string "path option" "string list"
  | LaunchSplash string string "path option"
  | RepairGame string "path option"
  | LaunchOfflineGame string "path option"
  | PreviewLaunchSplash SplashPreviewArgs
  | UpdateRegisteredGame string "path option" "path option" bool
  | Update PathBuf string string PathBuf PathBuf PathBuf string string string
  | ActivateUpdate PathBuf
  | RollbackUpdate PathBuf
  | RecoverUpdate PathBuf
  | UpdateStatus PathBuf
  | RegisterInstalledVersion PathBuf string string bool

definition parse_product :: "string \<Rightarrow> string + CertaelProductV1" where
  "parse_product value =
     (let name = to_ascii_lowercase value in
      if name = ''core'' then Inr Core
      else if name = ''agent'' then Inr Agent
      else if name \<in> {''godot'', ''godot-adapter''} then Inr GodotAdapter
      else if name \<in> {''unity'', ''unity-adapter''} then Inr UnityAdapter
      else if name \<in> {''unreal'', ''unreal-adapter''} then Inr UnrealAdapter
      else if name = ''dotnet-server-sdk'' then Inr DotNetServerSdk
      else if name = ''native-server-sdk'' then Inr NativeServerSdk
      else Inl ''unknown Certael product'')"

text \<open>The \<open>Display\<close> of \<open>UpdateError\<close>, the message of an updater's error.\<close>

primrec update_error_text :: "UpdateError \<Rightarrow> string" where
  "update_error_text InvalidConfiguration = ''update configuration is invalid''"
| "update_error_text TrustedRoot = ''trusted root cannot be read''"
| "update_error_text Verification = ''TUF metadata or target verification failed''"
| "update_error_text TargetMissing = ''update target is not present''"
| "update_error_text Installation = ''update installation failed''"
| "update_error_text InvalidActivationState = ''update activation state is invalid''"
| "update_error_text NoPendingUpdate = ''no valid update is pending''"
| "update_error_text NoRollback = ''no valid previous update is available''"

definition updating :: "(UpdateError, 'a) call \<Rightarrow> (string, 'a) call" where
  "updating c w = (case c w of (r, w') \<Rightarrow> (mapErr update_error_text r, w'))"

section \<open>Commands of several calls\<close>

text \<open>\<^const>\<open>None\<close> stands for the panic of \<open>evaluate_compatibility\<close>.\<close>

definition compatibility_check ::
    "'v lib \<Rightarrow> registry_lib \<Rightarrow> path \<Rightarrow> path \<Rightarrow> string \<Rightarrow> string \<Rightarrow> u32
      \<Rightarrow> (string, CompatibilityDecisionV1 option) call"
where
  "compatibility_check L G manifest trust_store product version protocol =
     andThen (query ''cannot read the compatibility manifest'' (\<lambda>fs. read_file fs manifest)) (\<lambda>bytes.
     andThen (lift (signed_registration L ''signed compatibility manifest'' bytes)) (\<lambda>so.
     andThen (trust_load (rl_trust G) trust_store) (\<lambda>keys.
     andThen now_unix (\<lambda>now.
     andThen (lift (mapErr (\<lambda>_. ''the compatibility manifest was rejected'')
       (verify_compatibility_manifest L so keys now))) (\<lambda>claims.
     andThen (lift (parse_product product)) (\<lambda>parsed.
     andThen now_unix (\<lambda>later.
     case evaluate_compatibility L (Some claims) parsed version protocol later of
       None \<Rightarrow> ret None
     | Some d \<Rightarrow>
         if allows_new_protected_session d then ret (Some d)
         else throw ''this Certael component cannot start a new protected session'')))))))"

definition update_registered_game ::
    "'v lib \<Rightarrow> registry_lib \<Rightarrow> (string \<rightharpoonup> path) \<Rightarrow> 'r host \<Rightarrow> string \<Rightarrow> path option \<Rightarrow> path option \<Rightarrow> bool
      \<Rightarrow> (string, path) call"
where
  "update_registered_game L G env h registration_id registry_root install_root activate =
     andThen (registry_load L G env (selected_root registry_root) registration_id) (\<lambda>registered.
     let install_root = AbsolutePath
           (case install_root of Some p \<Rightarrow> p | None \<Rightarrow> default_install_root);
         update_state = join_path (rg_state_root registered) ''update'';
         claims = rg_claims registered in
     if \<not> host_starts_updater h then throw ''cannot start the updater''
     else
     andThen (lift (ok_or ''invalid metadata URL'' (host_url_parse h (reg_update_metadata_url claims))))
       (\<lambda>metadata_url.
     andThen (lift (ok_or ''invalid targets URL'' (host_url_parse h (reg_update_targets_url claims))))
       (\<lambda>targets_url.
     andThen (updating (verify_stage_and_install_automatic L (host_json h) (host_tough h)
       \<lparr>upd_trusted_root = AbsolutePath (rg_update_root registered),
        upd_metadata_base_url = metadata_url,
        upd_targets_base_url = targets_url,
        upd_datastore = AbsolutePath (join_path update_state ''metadata''),
        upd_staging_directory = AbsolutePath (join_path update_state ''staging''),
        upd_target_name = ''certael-agent/'' @ reg_update_channel claims @ ''/'' @ target_platform\<rparr>
       install_root platform_agent_name (reg_update_channel claims) target_platform)) (\<lambda>staged.
     andThen (if activate then andThen (updating (activate_pending L (host_json h) install_root)) (\<lambda>_. ret ())
       else ret ()) (\<lambda>_.
     ret staged)))))"

definition update_agent ::
    "'v lib \<Rightarrow> 'r host \<Rightarrow> PathBuf \<Rightarrow> string \<Rightarrow> string \<Rightarrow> PathBuf \<Rightarrow> PathBuf \<Rightarrow> PathBuf \<Rightarrow> string \<Rightarrow> string
      \<Rightarrow> string \<Rightarrow> (string, path) call"
where
  "update_agent L h trusted_root metadata_url targets_url datastore staging install_root version target_name
     installed_name =
     (if \<not> host_starts_updater h then throw ''cannot start the updater''
      else
     andThen (lift (ok_or ''invalid metadata URL'' (host_url_parse h metadata_url))) (\<lambda>metadata.
     andThen (lift (ok_or ''invalid targets URL'' (host_url_parse h targets_url))) (\<lambda>targets.
     updating (verify_stage_and_install L (host_json h) (host_tough h)
       \<lparr>upd_trusted_root = trusted_root,
        upd_metadata_base_url = metadata,
        upd_targets_base_url = targets,
        upd_datastore = datastore,
        upd_staging_directory = staging,
        upd_target_name = target_name\<rparr>
       \<lparr>inst_install_root = install_root, inst_version = version,
        inst_installed_name = installed_name\<rparr>))))"

section \<open>Dispatch\<close>

datatype outcome =
    Snapshot IntegritySnapshot
  | Trust_store_valid
  | Decision "CompatibilityDecisionV1 option"
  | Session session_end
  | Registered GameRegistrationClaimsV1
  | Games "string list"
  | Started
  | Staged path
  | Activation_state ActivationState
  | Nothing

definition showing :: "('a \<Rightarrow> outcome) \<Rightarrow> 'a act \<Rightarrow> outcome act" where
  "showing f a = act_then a (\<lambda>x. act_ret (f x))"

text \<open>
  \<open>env\<close> gives the paths of the user's environment, \<open>entries\<close> what \<open>read_dir\<close> yields for the registry,
  \<open>uuid\<close> a fresh attempt id and \<open>instant\<close> the monotonic clock; \<open>desktop\<close> is the GUI library and the
  directory for temporary files. Only debug builds have \<open>PreviewLaunchSplash\<close>.
\<close>

record desktop =
  dk_agent :: "AgentApp run_native"
  dk_splash :: "splash_session run_native"
  dk_temp_dir :: path

definition run_command ::
    "'v lib \<Rightarrow> registry_lib \<Rightarrow> (string \<rightharpoonup> path) \<Rightarrow> 'r launch_host \<Rightarrow> desktop \<Rightarrow> string list \<Rightarrow> string \<Rightarrow> int
      \<Rightarrow> Commands option \<Rightarrow> outcome act"
where
  "run_command L G env H D entries uuid instant c =
     (let h = lh_serve H; J = host_json h in
      case c of
        None \<Rightarrow> showing (\<lambda>_. Nothing) (on_disk (run_agent_window (dk_agent D) G env entries instant))
      | Some (Inspect game) \<Rightarrow> showing Snapshot (on_disk (inspect_executable L (lh_procs H) game))
      | Some (ValidateTrustStore p) \<Rightarrow> showing (\<lambda>_. Trust_store_valid) (on_disk (trust_load (rl_trust G) p))
      | Some (CompatibilityCheck manifest p product version protocol) \<Rightarrow>
          showing Decision (on_disk (compatibility_check L G manifest p product version protocol))
      | Some (Launch game p args) \<Rightarrow> showing Session (launch_unregistered L G H game p args)
      | Some (RegisterGame registration p update_root game_root root manifest branding) \<Rightarrow>
          showing Registered (on_disk
            (register L G (selected_root root) registration p update_root game_root manifest branding))
      | Some (UpdateGameRegistration registration p update_root game_root root manifest branding) \<Rightarrow>
          showing Registered (on_disk
            (update_registration L G (selected_root root) registration p update_root game_root manifest branding))
      | Some (ListGames root) \<Rightarrow> showing Games (on_disk (registry_list (selected_root root) entries))
      | Some (LaunchGame rid root args) \<Rightarrow> showing Session (launch_game L J G env H rid root args uuid)
      | Some (LaunchSplash rid attempt_id root) \<Rightarrow>
          showing (\<lambda>_. Nothing) (act_then (on_disk (registry_load L G env (selected_root root) rid)) (\<lambda>registered.
            on_disk (run_splash (dk_splash D) G registered attempt_id instant)))
      | Some (RepairGame rid root) \<Rightarrow>
          showing (\<lambda>_. Started) (act_then (on_disk (registry_load L G env (selected_root root) rid))
            (run_registered_repair L))
      | Some (LaunchOfflineGame rid root) \<Rightarrow>
          showing (\<lambda>_. Started) (act_then (on_disk (registry_load L G env (selected_root root) rid))
            (launch_registered_offline L (lh_procs H)))
      | Some (PreviewLaunchSplash args) \<Rightarrow>
          showing (\<lambda>_. Nothing) (on_disk (preview_launch_splash (dk_splash D) G (dk_temp_dir D)
            (lh_current_exe H) uuid instant args))
      | Some (UpdateRegisteredGame rid root install_root activate) \<Rightarrow>
          showing Staged (on_disk (update_registered_game L G env h rid root install_root activate))
      | Some (Update trusted metadata targets datastore staging install_root version target name) \<Rightarrow>
          showing Staged (on_disk (update_agent L h trusted metadata targets datastore staging install_root
            version target name))
      | Some (ActivateUpdate install_root) \<Rightarrow>
          showing Activation_state (on_disk (updating (activate_pending L J install_root)))
      | Some (RollbackUpdate install_root) \<Rightarrow>
          showing Activation_state (on_disk (updating (rollback L J install_root)))
      | Some (RecoverUpdate install_root) \<Rightarrow>
          showing Activation_state (on_disk (updating (recover L J install_root)))
      | Some (UpdateStatus install_root) \<Rightarrow>
          showing Activation_state (on_disk (updating (read_activation_state J install_root)))
      | Some (RegisterInstalledVersion install_root version name activate) \<Rightarrow>
          showing (\<lambda>_. Nothing) (on_disk
            (updating (register_existing_version L J version name activate install_root))))"

text \<open>\<open>main\<close> on Linux: nothing runs before the process is hardened.\<close>

definition agent_main ::
    "'v lib \<Rightarrow> registry_lib \<Rightarrow> (string \<rightharpoonup> path) \<Rightarrow> 'r launch_host \<Rightarrow> desktop \<Rightarrow> string list \<Rightarrow> string \<Rightarrow> int
      \<Rightarrow> bool \<Rightarrow> bool \<Rightarrow> Commands option \<Rightarrow> outcome act"
where
  "agent_main L G env H D entries uuid instant setrlimit_ok prctl_ok c =
     act_then (on_disk (lift (hardening_apply setrlimit_ok prctl_ok))) (\<lambda>_.
     run_command L G env H D entries uuid instant c)"

section \<open>The compatibility check\<close>

lemma compatibility_check_returns:
  assumes "compatibility_check L G manifest trust_store product version protocol w = (Inr r, w')"
  shows "\<exists>d bytes so K claims parsed now later.
    r = Some d \<and> allows_new_protected_session d \<and>
    read_file (wd_fs w) manifest = Some bytes \<and>
    decode (signed_codec L) bytes = Some so \<and> encode_to_vec (signed_codec L) so = bytes \<and>
    verify_compatibility_manifest L so K now = Inr claims \<and> key_ring_new K = Inr K \<and>
    parse_product product = Inr parsed \<and>
    evaluate_compatibility L (Some claims) parsed version protocol later = Some d"
proof -
  from assms obtain bytes w1 so K w2 now w3 claims parsed later w4 where
    q: "query ''cannot read the compatibility manifest'' (\<lambda>fs. read_file fs manifest) w = (Inr bytes, w1)" and
    so: "signed_registration L ''signed compatibility manifest'' bytes = Inr so" and
    K: "trust_load (rl_trust G) trust_store w1 = (Inr K, w2)" and
    claims: "verify_compatibility_manifest L so K now = Inr claims" and
    parsed: "parse_product product = Inr parsed" and
    last: "(case evaluate_compatibility L (Some claims) parsed version protocol later of
       None \<Rightarrow> ret None
     | Some d \<Rightarrow>
         if allows_new_protected_session d then ret (Some d)
         else throw ''this Certael component cannot start a new protected session'') w4 = (Inr r, w')"
    by (auto simp: compatibility_check_def andThen_ok lift_def mapErr_ok)
  from claims have "validate_compatibility_manifest L claims now = Inr ()"
    by (simp add: compatibility_verifier.accepts_iff)
  from evaluate_total [OF this] obtain d where
    d: "evaluate_compatibility L (Some claims) parsed version protocol later = Some d" by blast
  with last have "r = Some d" "allows_new_protected_session d"
    by (auto simp: ret_def throw_def split: if_splits)
  with d so claims parsed reads_ok [OF reads_query q] reads_ok [OF reads_trust_load K] show ?thesis
    by (auto simp: signed_registration_ok)
qed

end
