(* ===== verification/Deployment.thy ===== *)
theory Deployment
  imports Staging LaunchOutcome
begin

text \<open>
  From an update to the next start: what \<open>activate_pending\<close> makes of an installation, and which program the
  stable launcher then starts. Each step is a process of its own that finds the disk as the one before left it.
\<close>

section \<open>Activating an installation\<close>

lemma activates_installation:
  assumes json: "\<forall>s bs. json_to_vec J s = Some bs \<longrightarrow> json_from_slice J bs = Some s"
    and update: "installed L J config digest (root @ [''versions'', v, n]) (wd_fs w)"
    and root: "plain_dir (wd_fs w) root"
    and act: "activate_pending L J (AbsolutePath root) w = (Inr s, w')"
  shows "act_active s = Some (install_slot config digest) \<and> state_swapped J root (wd_fs w) s (wd_fs w')"
proof -
  from update obtain F old where
    swap: "state_swapped J root F (old\<lparr>act_pending := Some (install_slot config digest)\<rparr>) (wd_fs w)"
    by (auto simp: installed_def)
  from activate_pending_update.update_returns [OF act] realpath_dir [OF root] have
    s: "activated L J (wd_fs w) root s" "state_swapped J root (wd_fs w) s (wd_fs w')" by auto
  then obtain stored slot where "stored_state J (wd_fs w) root stored" "act_pending stored = Some slot"
    "act_active s = Some slot"
    by (auto simp: activated_def)
  with swapped_stored [OF json swap root this(1)] s(2) show ?thesis by simp
qed

section \<open>The launcher\<close>

lemma launcher_recovers:
  assumes "launcher_main L J (Some exe) args w = (Inr c, w')"
    and "realpath (wd_fs w) exe = Some (root @ [launcher])" and root: "plain_dir (wd_fs w) root"
  shows "\<exists>s w1 w2 slot bs. recover L J (AbsolutePath root) w1 = (Inr s, w2) \<and> wd_fs w1 = wd_fs w \<and>
    (calm w \<longrightarrow> w1 = w) \<and> act_active s = Some slot \<and>
    wd_fs w' (cmd_program c) = Some (File bs) \<and> hex_encode (sha256 L bs) = slot_sha256 slot"
proof -
  from assms(1) obtain l w0 target where
    q: "query ''cannot resolve the Certael Agent launcher'' (\<lambda>fs. realpath fs exe) w = (Inr l, w0)" and
    t: "active_target L J (AbsolutePath (butlast l)) w0 = (Inr target, w')" and c: "cmd_program c = target"
    by (auto simp: launcher_main_def attempt_then_ok andThen_ok [of "lift _"] andThen_ok [of "query _ _"]
        lift_def ok_or_ok throw_def ret_def launcher_command_def split: if_splits)
  from reads_ok [OF reads_query q] assms(2) have w0: "wd_fs w0 = wd_fs w" and l: "butlast l = root" by auto
  from t obtain r w1 s w2 slot w3 where
    r: "canonical_install_root (AbsolutePath root) w0 = (Inr r, w1)" and
    s: "recover L J (AbsolutePath r) w1 = (Inr s, w2)" and
    a: "act_active s = Some slot" and
    v: "verify_slot L r slot w2 = (Inr (), w3)" and
    p: "query InvalidActivationState (\<lambda>fs. realpath fs (join_path r (slot_relative_path slot))) w3
      = (Inr target, w')"
    unfolding l by (auto simp: active_target_def andThen_ok lift_def ok_or_ok)
  from reads_ok [OF reads_canonical_install_root r] w0 realpath_dir [OF root] have
    "r = root" "wd_fs w1 = wd_fs w" by auto
  moreover have "calm w \<Longrightarrow> w1 = w"
    using calm_reader_run [OF calm_reader_rules(4) _ q] calm_reader_run [OF calm_reader_state(1) _ r] by simp
  moreover from reads_ok [OF reads_verify_slot v] reads_ok [OF reads_query p] have
    "\<exists>bs. wd_fs w' target = Some (File bs) \<and> hex_encode (sha256 L bs) = slot_sha256 slot"
    by (auto simp: slot_verified_def node_at_file)
  ultimately show ?thesis
    using s a c by blast
qed

lemma launches_installation:
  assumes json: "\<forall>s bs. json_to_vec J s = Some bs \<longrightarrow> json_from_slice J bs = Some s"
    and swap: "state_swapped J root F s (wd_fs w)" and root: "plain_dir (wd_fs w) root"
    and active: "act_active s = Some new"
    and launch: "launcher_main L J (Some exe) args w = (Inr c, w')"
    and exe: "realpath (wd_fs w) exe = Some (root @ [launcher])"
  shows "\<exists>bs. wd_fs w' (cmd_program c) = Some (File bs) \<and>
    hex_encode (sha256 L bs) \<in> slot_sha256 ` ({new} \<union> set_option (act_previous s)) \<and>
    (calm w \<and> slot_verified L (wd_fs w) root new \<longrightarrow> hex_encode (sha256 L bs) = slot_sha256 new)"
proof -
  from launcher_recovers [OF launch exe root] obtain t w1 w2 slot bs where
    r: "recover L J (AbsolutePath root) w1 = (Inr t, w2)" "wd_fs w1 = wd_fs w" "calm w \<longrightarrow> w1 = w" and
    a: "act_active t = Some slot" and
    b: "wd_fs w' (cmd_program c) = Some (File bs)" "hex_encode (sha256 L bs) = slot_sha256 slot"
    by blast
  from recover_returns [OF r(1)] r(2) realpath_dir [OF root] obtain old where
    old: "old = default_activation_state \<or> stored_state J (wd_fs w) root old" and
    t: "act_active t = act_active old \<or>
        act_active old \<noteq> None \<and> act_active t = act_previous old" and
    calm: "calm w1 \<longrightarrow> surviving L (wd_fs w) root (act_active old) = act_active old \<longrightarrow>
        act_active t = act_active old"
    by (auto split: if_splits)
  from old t a have "stored_state J (wd_fs w) root old"
    by auto
  from swapped_stored [OF json swap root this] have "old = s" .
  with t a active have "slot \<in> {new} \<union> set_option (act_previous s)"
    by auto
  moreover have "calm w \<and> slot_verified L (wd_fs w) root new \<longrightarrow> slot = new"
    using calm r(3) \<open>old = s\<close> active a by (auto simp: surviving_def)
  ultimately show ?thesis
    using b by auto
qed

end
