(* ===== verification/LaunchProperties.thy ===== *)
theory LaunchProperties
  imports SessionFixtures SessionMachine Commands Deployment StagingFixtures
begin

text \<open>
  The properties of the command line and the windows: what a launch starts and after which checks, what
  the status file says, what the recovery commands start, and what the launch splash shows.
\<close>

section \<open>Starting a registered game\<close>

text \<open>C9: \<open>launch-game\<close> starts a game, after its launch window, only after these steps, each on the disk the
  one before it left: the stored registration was loaded and is signed by a key of the trust store it binds; the
  running Agent was verified (the launcher named this very file and version, or it is the active version of
  the installation, or this is a debug build); every registered file was on disk with its signed size and
  digest. The game's executable is read from the disk on which these files were checked, and the session is bound
  to its digest, to this Agent's key and to the claims of the registration; the process is killed exactly when
  the session ends in an error.\<close>

theorem launched_game_trusted:
  assumes "launch_game L J G env H rid root args uuid m = (r, m')"
    and "Suc (length (mc_spawned m)) < length (mc_spawned m')"
  shows "\<exists>g w0 v v1 v2 v3 w1 m1 q exe keys state.
    registry_load L G env (selected_root root) rid (mc_world m) = (Inr g, w0) \<and>
    wd_fs w0 = wd_fs (mc_world m) \<and>
    loaded_game_ok L G (wd_fs (mc_world m)) (selected_root root) rid g \<and>
    publish_binding G (registration_binding g uuid) ''verifying_agent_version'' None w0 = (Inr (), v) \<and>
    verify_selected_agent L J H v = (Inr (), v1) \<and> selected_agent_ok L J H (wd_fs v) \<and>
    publish_binding G (registration_binding g uuid) ''loading_signed_registration'' None v1 = (Inr (), v2) \<and>
    publish_binding G (registration_binding g uuid) ''hashing_registered_game_files'' None v2 = (Inr (), v3) \<and>
    check_registered_files L G (lh_procs H) g (registration_binding g uuid) v3 = (Inr (), w1) \<and>
    registered_files_ok L (wd_fs w1) g \<and>
    realpath (wd_fs w1) (rg_game g) = Some q \<and> read_file (wd_fs w1) q = Some exe \<and>
    served_state L H (rg_game g) (rg_game_root g) exe keys (Some (registration_binding g uuid)) state \<and>
    mc_spawned m1 = mc_spawned m @ [splash_command (the (lh_current_exe H)) rid uuid (selected_root root)] \<and>
    mc_killed m1 = mc_killed m \<and>
    started_game L H (game_command (rg_game g) args (lh_child_fd H)) state m1 r m'"
proof -
  from launch_game_started [OF assms] obtain g w0 w1 m1 q exe keys state where
    load: "registry_load L G env (selected_root root) rid (mc_world m) = (Inr g, w0)" and
    prep: "prepare_launch L J G H g (registration_binding g uuid) w0 = (Inr (), w1)" and
    rest: "realpath (wd_fs w1) (rg_game g) = Some q" "read_file (wd_fs w1) q = Some exe"
      "served_state L H (rg_game g) (rg_game_root g) exe keys (Some (registration_binding g uuid)) state"
      "mc_spawned m1 = mc_spawned m @ [splash_command (the (lh_current_exe H)) rid uuid (selected_root root)]"
      "mc_killed m1 = mc_killed m"
      "started_game L H (game_command (rg_game g) args (lh_child_fd H)) state m1 r m'"
    by blast
  from reads_ok [OF reads_registry_load load]
  have "wd_fs w0 = wd_fs (mc_world m)" "loaded_game_ok L G (wd_fs (mc_world m)) (selected_root root) rid g"
    by simp_all
  moreover from prepare_launch_ok [OF prep] obtain v v1 v2 v3 where
    steps: "publish_binding G (registration_binding g uuid) ''verifying_agent_version'' None w0 = (Inr (), v)"
      "verify_selected_agent L J H v = (Inr (), v1)"
      "publish_binding G (registration_binding g uuid) ''loading_signed_registration'' None v1 = (Inr (), v2)"
      "publish_binding G (registration_binding g uuid) ''hashing_registered_game_files'' None v2 = (Inr (), v3)"
      "check_registered_files L G (lh_procs H) g (registration_binding g uuid) v3 = (Inr (), w1)"
    by blast
  moreover note verify_selected_agent_ok [OF steps(2)] check_registered_files_ok [OF steps(5)]
  ultimately show ?thesis
    using load rest by blast
qed

lemma launched_game_trusted_witness:
  "\<exists>g r m1 m' state. loaded_game_ok sample_lib sample_registry registry_fs [''r''] ''game-1'' g \<and>
     started_game sample_lib sample_launch_host (game_command (rg_game g) [] 5) state m1 r m'"
proof -
  from sample_launch_starts obtain r m' where run:
    "launch_game sample_lib sample_json sample_registry [''HOME'' \<mapsto> [''home'']] sample_launch_host
       ''game-1'' (Some [''r'']) [] ''attempt'' sample_machine = (r, m')"
    "Suc (length (mc_spawned sample_machine)) < length (mc_spawned m')"
    by blast
  have "wd_fs (mc_world sample_machine) = registry_fs"
    by (simp add: sample_machine_def sample_world_def)
  with launched_game_trusted [OF run] show ?thesis
    by (simp add: selected_root_def) blast
qed

text \<open>C10: the state \<open>protected\<close> is published for a registered game only if its session was admitted:
  the server's signed launch bundle was accepted for the digest of the executable that was started, and
  it names the tenant, the game and the environment of the registration.\<close>

theorem protected_means_admitted:
  assumes "served_state L H game root exe keys (Some b) state"
    and "publishes_protected (run_io (session_of L H state))"
  shows "\<exists>payload now launch.
    host_bootstrap (lh_serve H) = Frame_received \<lparr>fr_message_type = LaunchGrant, fr_payload = payload\<rparr> \<and>
    host_admission_now (lh_serve H) = Some now \<and>
    verify_launch_bundle L payload keys now (sk_verifying L (lh_key H)) (hex_encode (sha256 L exe))
      AGENT_VERSION = Inr launch \<and>
    (launch_tenant_id launch, launch_game_id launch, launch_environment_id launch)
      = (bind_tenant_id b, bind_game_id b, bind_environment_id b)"
proof -
  have "\<not> publishes_protected \<lparr>io_writer = lh_writer H, io_published = []\<rparr>"
    by (simp add: publishes_protected_def)
  with serve_protected assms(2) obtain launch where "admitted L (lh_serve H) state launch"
    unfolding session_of_def by blast
  with assms(1) show ?thesis
    by (auto simp: admitted_def served_state_def registration_mismatch_def)
qed

lemma protected_means_admitted_witness:
  "\<exists>launch. verify_launch_bundle sample_lib [20] sample_keys sample_now sample_agent_key
      (hex_encode (sample_sha sample_exe)) AGENT_VERSION = Inr launch \<and>
     (launch_tenant_id launch, launch_game_id launch) = (''tenant'', ''game'')"
proof -
  have fields: "lh_serve revoked_host = sample_host" "lh_key revoked_host = sample_agent_key"
    "host_bootstrap sample_host = Frame_received \<lparr>fr_message_type = LaunchGrant, fr_payload = [20]\<rparr>"
    "host_admission_now sample_host = Some sample_now"
    "bind_tenant_id status_binding = ''tenant''" "bind_game_id status_binding = ''game''"
    by (simp_all add: revoked_host_def sample_launch_host_def sample_host_def status_binding_def
        registration_binding_def sample_game_def sample_registration_def)
  have served: "served_state sample_lib revoked_host [''opt'', ''game''] [''opt''] sample_exe sample_keys
      (Some status_binding) registered_session"
    by (simp add: served_state_def registered_session_def fields sample_build_id_def)
  have "publishes_protected (run_io (session_of sample_lib revoked_host registered_session))"
    using revoked_session by (auto simp: publishes_protected_def run_io_def session_entries_def)
  from protected_means_admitted [OF served this] show ?thesis
    by (auto simp: fields)
qed

section \<open>The status file\<close>

text \<open>C13: publishing a status replaces the status file whole or not at all, under every schedule of
  failures and crashes: on success it holds the new status, on an error it and every other file are as
  before, but for one temporary.\<close>

theorem status_publish_atomic:
  assumes "plain_dir (wd_fs w) d" and "status_file_name name"
    and "status_publish G (d @ [name]) status w = (r, w')"
  shows "(r = Inr () \<longrightarrow> (\<exists>bytes. rl_status_to_vec G status = Some bytes \<and>
      wd_fs w' = (wd_fs w)(d @ [name] \<mapsto> File bytes))) \<and>
    (\<forall>e. r = Inl e \<longrightarrow> wd_fs w' (d @ [name]) = wd_fs w (d @ [name]) \<and>
      (\<exists>pid t x. wd_fs w' = (wd_fs w)(d @ [status_temporary pid t] := x)))"
proof (cases r)
  case (Inl e)
  with assms(3) validD_err [OF valid_status_publish [OF assms(1,2)], of G status w e w']
  have "status_kept (wd_fs w) d (wd_fs w')"
    by simp
  with Inl show ?thesis
    using status_name_not_temporary [OF assms(2)] by (auto simp: status_kept_def)
next
  case (Inr u)
  with assms(3) validD_ok [OF valid_status_publish [OF assms(1,2)], of G status w u w'] show ?thesis
    by simp
qed

lemma status_publish_atomic_witness:
  "\<exists>w' bytes. status_publish status_registry (status_dir @ [''game-1.json''])
       (status_of status_binding 0 (''protected'', None)) status_world = (Inr (), w') \<and>
     wd_fs w' = registry_fs(status_dir @ [''game-1.json''] \<mapsto> File bytes)"
proof -
  note ready = status_world_ready [of 6]
  have "status_encodes status_registry status_binding (''protected'', None)"
    by (rule status_registry_encodes) (simp add: status_entries_def)
  then obtain bytes where bytes:
    "rl_status_to_vec status_registry (status_of status_binding 0 (''protected'', None)) = Some bytes"
    unfolding status_encodes_def by blast
  obtain r w' where run: "status_publish status_registry (status_dir @ [''game-1.json''])
      (status_of status_binding 0 (''protected'', None)) status_world = (r, w')"
    by fastforce
  have fs: "wd_fs status_world = registry_fs" "wd_pid status_world = 9"
    "wd_clock status_world = Some sample_nanos # replicate 11 (Some sample_nanos)"
    by (simp_all add: status_world_def sample_world_def numeral_eq_Suc)
  from ready have d: "plain_dir (wd_fs status_world) status_dir" "status_file_name ''game-1.json''"
    by (simp_all add: status_ready_def)
  have "calm status_world" "wd_fs status_world (status_dir @ [status_temporary (wd_pid status_world) sample_nanos]) = None"
    "wd_fs status_world (status_dir @ [''game-1.json'']) \<noteq> Some Dir"
    using ready unfolding status_ready_def fs by simp_all
  from status_publish_calm [OF this(1) d fs(3) this(2,3) bytes] run have "r = Inr ()"
    by simp
  with status_publish_atomic [OF d run] run show ?thesis
    by (auto simp: fs)
qed

text \<open>C12: what the status file says after a session has failed, where nothing else fails: the last state
  the session published only if it is \<open>launch_failed\<close>, \<open>update_failed\<close> or \<open>update_ready\<close>. Every other
  last state, among them \<open>revoked\<close>, \<open>expired\<close> and \<open>lost\<close>, is overwritten by \<open>launch_failed\<close> with the
  reason \<open>PROTECTED_LAUNCH_FAILED\<close>.\<close>

theorem failed_session_status:
  assumes "session_of L H state = Finished (Inl e) x" and "io_published x \<noteq> []"
    and "rts_registration state = Some b" and "bind_status_path b = d @ [name]"
    and "status_ready (mc_world m) d name (length (io_published x) + 1)"
    and "\<forall>entry \<in> insert (''launch_failed'', Some ''PROTECTED_LAUNCH_FAILED'') (set (io_published x)).
      status_encodes G b entry"
  shows "\<exists>m1 w. serve_game L G H state pid m = (Inl e, m1) \<and> mc_killed m1 = mc_killed m @ [pid] \<and>
    publish_failed_launch G b (mc_world m1) = (Inr (), w) \<and>
    status_holds G b w (final_state (last (io_published x)))"
proof -
  from publish_states_ready [OF assms(5,4)] assms(2,6) obtain w1 where
    w1: "publish_states G (Some b) (io_published x) (mc_world m) = (Inr (), w1)" "status_ready w1 d name (Suc 0)"
      "status_holds G b w1 (last (io_published x))"
    by auto
  from publish_failed_launch_ready [OF w1(2) assms(4) w1(3)] assms(6) obtain w where
    "publish_failed_launch G b w1 = (Inr (), w)" "status_holds G b w (final_state (last (io_published x)))"
    by auto
  with w1(1) assms(1,3) show ?thesis
    by (simp add: serve_game_def session_of_def act_then_def on_disk_def kill_process_def act_fail_def)
qed

lemma failed_session_status_witness:
  "\<exists>m1 w. serve_game sample_lib status_registry revoked_host registered_session 11
       (sample_machine\<lparr>mc_world := status_world\<rparr>) = (Inl ''Agent session was revoked'', m1) \<and>
     publish_failed_launch status_registry status_binding (mc_world m1) = (Inr (), w) \<and>
     status_holds status_registry status_binding w (''launch_failed'', Some ''PROTECTED_LAUNCH_FAILED'')"
proof -
  from revoked_session obtain x where
    x: "session_of sample_lib revoked_host registered_session = Finished (Inl ''Agent session was revoked'') x"
      "io_published x = session_entries"
    by blast
  have enc: "\<forall>entry \<in> insert (''launch_failed'', Some ''PROTECTED_LAUNCH_FAILED'') (set session_entries).
      status_encodes status_registry status_binding entry"
    by (auto intro!: status_registry_encodes simp: status_entries_def session_entries_def)
  have "final_state (last session_entries) = (''launch_failed'', Some ''PROTECTED_LAUNCH_FAILED'')"
    by (simp add: final_state_def session_entries_def)
  moreover have "status_ready status_world status_dir ''game-1.json'' (length session_entries + 1)"
    by (rule status_world_ready) (simp add: session_entries_def)
  ultimately show ?thesis
    using failed_session_status [OF x(1), of status_binding status_dir "''game-1.json''"
        "sample_machine\<lparr>mc_world := status_world\<rparr>" status_registry 11] enc x(2)
    by (auto simp: registered_session_def status_binding_path session_entries_def)
qed

text \<open>C11: what a session of a registered game publishes is the trace of a run of the session machine, for
  every host and every sequence of ticks; while the session runs the machine is in its guarded phase,
  and when it ends well it has published \<open>stopped\<close> last. So nothing follows a final state, and a trace
  that says \<open>protected\<close> says first that the game was waited for and the bundle verified, and after
  \<open>protected\<close> nothing but one final state.\<close>

theorem session_follows_machine:
  assumes "rts_registration state = Some b" and "es = io_published (run_io (session_of L H state))"
  shows "\<exists>p. phase_run Starting es p \<and>
    (\<forall>s. session_of L H state = Running s \<longrightarrow> p = Guarded) \<and>
    (\<forall>x. session_of L H state = Finished (Inr ()) x \<longrightarrow> p = Closed \<and> fst (last es) = ''stopped'') \<and>
    fst ` set (butlast es) \<inter> final_states = {} \<and>
    (''protected'' \<in> fst ` set es \<longrightarrow>
      (\<exists>n rest. es = admitted_prefix @ replicate (Suc n) (''protected'', None) @ rest \<and> length rest \<le> 1))"
proof -
  have run: "run_follows (session_of L H state)"
    unfolding session_of_def by (rule serve_follows [OF assms(1)]) simp
  then obtain p where p: "phase_run Starting es p"
    "\<forall>s. session_of L H state = Running s \<longrightarrow> p = Guarded"
    "\<forall>x. session_of L H state = Finished (Inr ()) x \<longrightarrow> p = Closed \<and> fst (last es) = ''stopped''"
    using assms(2) by (auto simp: run_follows_def run_io_def follows_def split: run.splits sum.splits)
  show ?thesis
    using p run_final_last [OF p(1)] run_protected [OF p(1)]
    by (intro exI [of _ p]) (simp add: final_states_def)
qed

lemma session_follows_machine_witness:
  "\<exists>p. phase_run Starting session_entries p \<and> fst ` set (butlast session_entries) \<inter> final_states = {}"
proof -
  from revoked_session have "session_entries = io_published (run_io (session_of sample_lib revoked_host registered_session))"
    by (auto simp: run_io_def)
  from session_follows_machine [OF _ this] show ?thesis
    by (auto simp: registered_session_def)
qed

text \<open>C14: every session ends. On a clock that passes any limit, or stops to be readable, the session has
  finished after finitely many ticks, whatever is received in them, and further ticks change nothing.\<close>

theorem session_terminates:
  assumes "\<And>limit :: i64. \<exists>i. \<forall>now. tk_now (tick i) = Some now \<longrightarrow> sint limit \<le> sint now"
  shows "\<exists>n r y. \<forall>m \<ge> n. serve L h state x (map tick [0..<m]) = Finished r y"
proof (cases "admission L h state x")
  case (Pair r y)
  show ?thesis
  proof (cases r)
    case (Inl e)
    with Pair show ?thesis by (auto simp: serve_def)
  next
    case (Inr a)
    obtain launch s where a: "a = (launch, s)" by fastforce
    from assms [of "launch_policy_expires_at_unix launch"] obtain i where
      i: "\<forall>now. tk_now (tick i) = Some now \<longrightarrow> sint (launch_policy_expires_at_unix launch) \<le> sint now" ..
    have "\<nexists>t. serve_loop L state launch s (map tick [0..<Suc i]) = Running t"
      using loop_running_clock [of L state launch s "map tick [0..<Suc i]"] i by fastforce
    then obtain q z where z: "serve_loop L state launch s (map tick [0..<Suc i]) = Finished q z"
      by (cases "serve_loop L state launch s (map tick [0..<Suc i])") auto
    have "serve L h state x (map tick [0..<m]) = Finished q z" if "Suc i \<le> m" for m
    proof -
      from that have "[0..<m] = [0..<Suc i] @ [Suc i..<m]"
        using upt_add_eq_append [of 0 "Suc i" "m - Suc i"] by simp
      then have split: "map tick [0..<m] = map tick [0..<Suc i] @ map tick [Suc i..<m]"
        by simp
      show ?thesis
        unfolding serve_def Pair Inr a split by (simp add: serve_loop_append z del: upt_Suc)
    qed
    then show ?thesis by blast
  qed
qed

lemma session_terminates_witness:
  "\<exists>n r y. \<forall>m \<ge> n. serve sample_lib sample_host sample_state
     \<lparr>io_writer = \<lparr>w_out = [], w_room = None, w_flush_ok = True\<rparr>, io_published = []\<rparr>
     (map (\<lambda>i. (challenge_tick 30)\<lparr>tk_now := Some (2 ^ 63 - 1)\<rparr>) [0..<m]) = Finished r y"
proof (rule session_terminates)
  fix limit :: i64
  have "sint (2 ^ 63 - 1 :: i64) = 2 ^ 63 - 1"
    by simp
  with sint_bounds64(2) [of limit] show "\<exists>i. \<forall>now. tk_now ((challenge_tick 30)\<lparr>tk_now := Some (2 ^ 63 - 1)\<rparr>) = Some now \<longrightarrow> sint limit \<le> sint now"
    by simp
qed

section \<open>The launcher\<close>

text \<open>C21: the program the stable launcher executes in its place is another file than the launcher, below
  the launcher's own directory, with the digest of the version that is active in the recovered state,
  and it receives the launcher's arguments. Started with the variables the launcher adds, that Agent
  accepts itself as the selected version.\<close>

theorem launcher_agent_accepted:
  assumes "launcher_main L J exe args w = (Inr c, w')"
  shows "\<exists>e launcher root s slot bs.
    exe = Some e \<and> realpath (wd_fs w) e = Some launcher \<and> cmd_program c \<noteq> launcher \<and> cmd_args c = args \<and>
    realpath (wd_fs w) (butlast launcher) = Some root \<and> take (length root) (cmd_program c) = root \<and>
    recovered L J (wd_fs w) root s \<and> act_active s = Some slot \<and>
    wd_fs w' (cmd_program c) = Some (File bs) \<and> hex_encode (sha256 L bs) = slot_sha256 slot \<and>
    (\<forall>v H env J'. calm v \<longrightarrow> wd_fs v = wd_fs w' \<longrightarrow> lh_current_exe H = Some (cmd_program c) \<longrightarrow>
       lh_env H = command_env env c \<longrightarrow> verify_selected_agent L J' H v = (Inr (), v))"
proof -
  from launcher_starts [OF assms] obtain e launcher target w1 where
    l: "exe = Some e" "realpath (wd_fs w) e = Some launcher" "target \<noteq> launcher"
      "c = launcher_command target args" "wd_fs w1 = wd_fs w" and
    t: "active_target L J (AbsolutePath (butlast launcher)) w1 = (Inr target, w')"
    by blast
  from active_target_ok [OF t] obtain root s slot bs where
    "realpath (wd_fs w) (butlast launcher) = Some root" "recovered L J (wd_fs w) root s"
    "act_active s = Some slot" "take (length root) target = root" "wd_fs w' target = Some (File bs)"
    "hex_encode (sha256 L bs) = slot_sha256 slot"
    by (auto simp: l(5))
  moreover have "cmd_program c = target" "cmd_args c = args"
    by (simp_all add: l(4) launcher_command_def)
  moreover have "\<forall>v H env J'. calm v \<longrightarrow> wd_fs v = wd_fs w' \<longrightarrow> lh_current_exe H = Some (cmd_program c) \<longrightarrow>
      lh_env H = command_env env c \<longrightarrow> verify_selected_agent L J' H v = (Inr (), v)"
    using launcher_agent_accepts [OF assms] by blast
  ultimately show ?thesis
    using l(1-3) by blast
qed

lemma launcher_agent_accepted_witness:
  "\<exists>c w w'. launcher_main sample_lib agent_json (Some [''a'', ''launcher'']) [''launch-game''] w = (Inr c, w') \<and>
     cmd_program c = [''a'', ''versions'', ''1'', ''agent''] \<and> cmd_args c = [''launch-game''] \<and>
     wd_fs w' (cmd_program c) \<noteq> None"
proof -
  let ?w = "sample_world (agent_fs 1)"
  obtain w' where a: "active_target sample_lib agent_json (AbsolutePath [''a'']) ?w
      = (Inr [''a'', ''versions'', ''1'', ''agent''], w')"
    using agent_active by blast
  have "realpath (agent_fs 1) [''a'', ''launcher''] = Some [''a'', ''launcher'']"
    by (simp add: agent_fs_def realpath_def node_at_def MAX_SYMLINKS_def)
  with a have run: "launcher_main sample_lib agent_json (Some [''a'', ''launcher'']) [''launch-game''] ?w
      = (Inr (launcher_command [''a'', ''versions'', ''1'', ''agent''] [''launch-game'']), w')"
    by (simp add: launcher_main_def andThen_def attempt_def run_simps calm_query)
  from launcher_agent_accepted [OF run] run show ?thesis
    by (fastforce simp: launcher_command_def)
qed

text \<open>C31: what the launcher starts after an update is what the TUF metadata signed. When an automatic update, the
  activation of what it staged and a start of the launcher succeed one after the other, under any schedule of
  failures in each, the active version is the one the metadata names, with the metadata's digest, and the program
  started has that digest or that of the version it replaced. Without failures, and with that version still intact
  on disk, it has that digest.\<close>

theorem signed_update_started:
  assumes tuf: "saves_verified L T tuf_digest"
    and json: "\<forall>s bs. json_to_vec J s = Some bs \<longrightarrow> json_from_slice J bs = Some s"
    and update: "verify_stage_and_install_automatic L J T update install_root name channel platform w1
      = (Inr (root @ [''versions'', v, n]), w2)"
    and root: "plain_dir (wd_fs w2) root"
    and act: "activate_pending L J (AbsolutePath root) w3 = (Inr s, w4)" "wd_fs w3 = wd_fs w2"
    and launch: "launcher_main L J (Some exe) args w5 = (Inr c, w6)" "wd_fs w5 = wd_fs w4"
    and exe: "realpath (wd_fs w5) exe = Some (root @ [launcher])"
  shows "\<exists>repository target version new bs. names_release T repository update target version channel platform \<and>
    act_active s = Some new \<and> slot_version new = version \<and>
    slot_sha256 new = to_ascii_lowercase (tuf_digest repository target) \<and>
    wd_fs w6 (cmd_program c) = Some (File bs) \<and>
    hex_encode (sha256 L bs) \<in> slot_sha256 ` ({new} \<union> set_option (act_previous s)) \<and>
    (calm w5 \<and> slot_verified L (wd_fs w5) root new \<longrightarrow> hex_encode (sha256 L bs) = slot_sha256 new)"
proof -
  from automatic_update_ok [OF tuf update] obtain repository target version where
    release: "names_release T repository update target version channel platform" and
    new: "installed L J \<lparr>inst_install_root = install_root, inst_version = version, inst_installed_name = name\<rparr>
      (tuf_digest repository target) (root @ [''versions'', v, n]) (wd_fs w2)" by blast
  from root act(2) have root3: "plain_dir (wd_fs w3) root" by simp
  from activates_installation [OF json new [folded act(2)] root3 act(1)] launch(2) have
    active: "act_active s = Some (install_slot \<lparr>inst_install_root = install_root, inst_version = version,
      inst_installed_name = name\<rparr> (tuf_digest repository target))" and
    swap: "state_swapped J root (wd_fs w3) s (wd_fs w5)" by auto
  from launches_installation [OF json swap swapped_keeps_root [OF swap root3] active launch(1) exe] release active
  show ?thesis by (auto simp: install_slot_def)
qed

lemma signed_update_started_witness:
  "\<exists>c w bs. launcher_main sample_lib agent_json (Some [''a'', ''launcher'']) [] (sample_world (agent_fs 2)) = (Inr c, w) \<and>
     wd_fs w (cmd_program c) = Some (File bs) \<and> hex_encode (sample_sha bs) = hex_encode (sample_sha [62])"
proof -
  let ?w = "sample_world (agent_fs 2)"
  obtain w2 where update: "verify_stage_and_install_automatic sample_lib agent_json staging_tough staging_update
      (AbsolutePath [''a'']) ''agent'' ''stable'' ''linux'' (sample_world (agent_fs 1))
      = (Inr ([''a''] @ [''versions'', ''2'', ''agent'']), w2)" "wd_fs w2 = agent_fs 1"
    using staging_runs by auto
  obtain w4 where act: "activate_pending sample_lib agent_json (AbsolutePath [''a'']) (sample_world (agent_fs 1))
      = (Inr (agent_state (Some slot_2) (Some slot_1) None), w4)" "wd_fs w4 = agent_fs 2"
    using agent_activates by blast
  obtain w6 where t: "active_target sample_lib agent_json (AbsolutePath [''a'']) ?w
      = (Inr [''a'', ''versions'', ''2'', ''agent''], w6)"
    using staged_active by blast
  have fs: "wd_fs ?w = agent_fs 2" "wd_fs (sample_world (agent_fs 1)) = agent_fs 1" "calm ?w"
    by (simp_all add: sample_world_def calm_def)
  have exe: "realpath (agent_fs 2) [''a'', ''launcher''] = Some ([''a''] @ [''launcher''])"
    by (simp add: agent_fs_def realpath_def node_at_def MAX_SYMLINKS_def)
  with t fs have run: "launcher_main sample_lib agent_json (Some [''a'', ''launcher'']) [] ?w
      = (Inr (launcher_command [''a'', ''versions'', ''2'', ''agent''] []), w6)"
    by (simp add: launcher_main_def andThen_def attempt_def run_simps calm_query)
  have json: "\<forall>s bs. json_to_vec agent_json s = Some bs \<longrightarrow> json_from_slice agent_json bs = Some s"
    using agent_json_roundtrip by blast
  have root: "plain_dir (wd_fs w2) [''a'']"
    by (simp add: update(2) agent_paths(1) [OF refl])
  from signed_update_started [OF staging_saves json update(1) root act(1) _ run] fs update(2) act(2) exe agent_slots
  obtain bs where "wd_fs w6 (cmd_program (launcher_command [''a'', ''versions'', ''2'', ''agent''] [])) = Some (File bs)"
    "hex_encode (sha256 sample_lib bs) = slot_sha256 slot_2"
    by fastforce
  then show ?thesis
    using run slot_paths(4) by (auto simp: slot_2_def sample_slot_def)
qed

section \<open>Repair and offline play\<close>

text \<open>C22: \<open>repair-game\<close> starts nothing but the repair program the claims name, with the claims' arguments,
  and only after a registered file of that name, up to case, was verified on disk.
  \<open>launch-offline-game\<close> starts nothing but the registered executable with the claims' offline arguments
  and without the Agent's channel in its environment, only if the claims allow offline play, and after
  verifying the executable if it is among the registered files.\<close>

theorem recovery_starts_registered:
  "(run_registered_repair L g m = (r, m') \<and> mc_spawned m' \<noteq> mc_spawned m \<longrightarrow>
      r = Inr () \<and> mc_spawned m' = mc_spawned m @
        [\<lparr>cmd_program = join_path (rg_game_root g) (reg_repair_executable_relative_path (rg_claims g)),
          cmd_args = reg_repair_arguments (rg_claims g), cmd_env = []\<rparr>] \<and>
      (\<exists>f. registered_file_ok L (wd_fs (mc_world m)) g (reg_repair_executable_relative_path (rg_claims g)) f)) \<and>
   (launch_registered_offline L V g m = (r, m') \<and> mc_spawned m' \<noteq> mc_spawned m \<longrightarrow>
      r = Inr () \<and> mc_spawned m' = mc_spawned m @ [offline_command g] \<and>
      reg_offline_play_allowed (rg_claims g) \<and>
      ((\<exists>f \<in> set (reg_registered_files (rg_claims g)).
          eq_ignore_ascii_case (rgf_relative_path f) (reg_executable_relative_path (rg_claims g))) \<longrightarrow>
       (\<exists>f. registered_file_ok L (wd_fs (mc_world m)) g (reg_executable_relative_path (rg_claims g)) f)))"
proof (intro conjI [of "_ \<longrightarrow> _"] impI)
  assume "run_registered_repair L g m = (r, m') \<and> mc_spawned m' \<noteq> mc_spawned m"
  then show "r = Inr () \<and> mc_spawned m' = mc_spawned m @
        [\<lparr>cmd_program = join_path (rg_game_root g) (reg_repair_executable_relative_path (rg_claims g)),
          cmd_args = reg_repair_arguments (rg_claims g), cmd_env = []\<rparr>] \<and>
      (\<exists>f. registered_file_ok L (wd_fs (mc_world m)) g (reg_repair_executable_relative_path (rg_claims g)) f)"
    by (blast dest: repair_started)
next
  assume "launch_registered_offline L V g m = (r, m') \<and> mc_spawned m' \<noteq> mc_spawned m"
  then show "r = Inr () \<and> mc_spawned m' = mc_spawned m @ [offline_command g] \<and>
      reg_offline_play_allowed (rg_claims g) \<and>
      ((\<exists>f \<in> set (reg_registered_files (rg_claims g)).
          eq_ignore_ascii_case (rgf_relative_path f) (reg_executable_relative_path (rg_claims g))) \<longrightarrow>
       (\<exists>f. registered_file_ok L (wd_fs (mc_world m)) g (reg_executable_relative_path (rg_claims g)) f))"
    by (elim conjE) (rule offline_started)
qed

lemma recovery_starts_registered_witness:
  "\<exists>m' f. run_registered_repair sample_lib (sample_game\<lparr>rg_claims := tools_claims\<rparr>) tools_machine = (Inr (), m') \<and>
     registered_file_ok sample_lib tools_fs (sample_game\<lparr>rg_claims := tools_claims\<rparr>) ''tools/repair'' f"
proof -
  from repair_starts_unverified_file obtain m' where
    run: "run_registered_repair sample_lib (sample_game\<lparr>rg_claims := tools_claims\<rparr>) tools_machine = (Inr (), m')"
    "map cmd_program (mc_spawned m') = [[''opt'', ''tools'', ''repair'']]"
    by (elim exE conjE)
  then have "mc_spawned m' \<noteq> mc_spawned tools_machine"
    by (auto simp: tools_machine_def)
  moreover have "wd_fs (mc_world tools_machine) = tools_fs"
    "reg_repair_executable_relative_path tools_claims = ''tools/repair''"
    by (simp_all add: tools_machine_def sample_world_def tools_claims_def)
  ultimately show ?thesis
    using recovery_starts_registered [of sample_lib "sample_game\<lparr>rg_claims := tools_claims\<rparr>" tools_machine
        "Inr ()" m' sample_procs] run(1) by auto
qed

section \<open>The compatibility check\<close>

text \<open>C24: \<open>compatibility-check\<close> never panics, and it succeeds only with a canonical manifest, signed by a
  key of the trust store and valid when it was checked, that allows a new protected session: the version
  parses, is not revoked and not below the minimum of its product's rule, on a protocol version inside
  the rule's range.\<close>

theorem compatibility_check_sound:
  assumes "compatibility_check L G manifest trust_store product version protocol w = (Inr r, w')"
  shows "\<exists>d bytes so K claims parsed now later rule current minimum.
    r = Some d \<and> read_file (wd_fs w) manifest = Some bytes \<and>
    decode (signed_codec L) bytes = Some so \<and> encode_to_vec (signed_codec L) so = bytes \<and>
    verify_compatibility_manifest L so K now = Inr claims \<and> parse_product product = Inr parsed \<and>
    manifest_live claims later \<and> version_parse L version = Some current \<and>
    \<not> version_revoked claims parsed version later \<and> product_rule claims parsed = Some rule \<and>
    rule_minimum_protocol_version rule \<le> protocol \<and> protocol \<le> rule_maximum_protocol_version rule \<and>
    version_parse L (rule_minimum_supported_version rule) = Some minimum \<and>
    \<not> version_less L current minimum"
proof -
  from compatibility_check_returns [OF assms] obtain d bytes so K claims parsed now later where
    c: "r = Some d" "read_file (wd_fs w) manifest = Some bytes" "decode (signed_codec L) bytes = Some so"
      "encode_to_vec (signed_codec L) so = bytes" "verify_compatibility_manifest L so K now = Inr claims"
      "parse_product product = Inr parsed" and
    e: "evaluate_compatibility L (Some claims) parsed version protocol later = Some d"
      "allows_new_protected_session d"
    by blast
  from e have "\<exists>d. evaluate_compatibility L (Some claims) parsed version protocol later = Some d \<and>
      allows_new_protected_session d"
    by blast
  then show ?thesis
    unfolding evaluate_allows_iff using c by blast
qed

lemma compatibility_check_sound_witness:
  "\<exists>d w'. compatibility_check sample_lib sample_registry [''compat''] [''r'', ''game-1'', ''trust-store.json'']
      ''AGENT'' ''0.1.0'' 1 (sample_world registry_fs) = (Inr (Some d), w') \<and>
     (\<exists>claims later. manifest_live claims later \<and> \<not> version_revoked claims Agent ''0.1.0'' later)"
proof -
  let ?w = "sample_world registry_fs"
  have bytes: "read_file registry_fs [''compat''] = Some [7]"
    by (simp add: registry_fs_def read_file_def stat_def realpath_def node_at_def MAX_SYMLINKS_def)
  have so: "signed_registration sample_lib e [7] = Inr (sample_envelope COMPATIBILITY_DOMAIN 7)" for e
    by (simp add: signed_registration_ok sample_signed_codec_def) (simp add: sample_envelope_def)
  have agent: "parse_product ''AGENT'' = Inr Agent"
    by code_simp
  obtain later w1 where later: "now_unix loaded_world = (Inr later, w1)" "later = sample_now"
    by (simp add: loaded_world_def now_unix_def read_clock_def andThen_def run_simps sample_world_def
        sample_nanos_def sample_now_def Let_def)
  obtain d where d: "evaluate_compatibility sample_lib (Some sample_compatibility) Agent ''0.1.0'' 1 sample_now
      = Some d \<and> allows_new_protected_session d"
  proof -
    have "\<exists>d. evaluate_compatibility sample_lib (Some sample_compatibility) Agent ''0.1.0'' 1 sample_now
        = Some d \<and> allows_new_protected_session d"
      unfolding evaluate_allows_iff
      by (simp add: sample_compatibility_def manifest_live_def version_revoked_def product_rule_def sample_now_def
          sample_version_def)
    with that show thesis by blast
  qed
  have world: "calm ?w" "wd_fs ?w = registry_fs"
    by (simp_all add: sample_world_def calm_def)
  have run: "compatibility_check sample_lib sample_registry [''compat''] [''r'', ''game-1'', ''trust-store.json'']
      ''AGENT'' ''0.1.0'' 1 ?w = (Inr (Some d), w1)"
    using world sample_trust_loaded [OF world] sample_now_read [of registry_fs] later
    by (simp add: compatibility_check_def andThen_def calm_query bytes so run_simps agent sample_verified d
        loaded_world_def)
  from compatibility_check_sound [OF this] agent show ?thesis
    using run by auto
qed

end
