(* ===== verification/WindowProperties.thy ===== *)
theory WindowProperties
  imports SessionFixtures
begin

text \<open>The properties of the launch splash, \<^verbatim>\<open>SplashApp\<close> of \<^verbatim>\<open>crates/certael-agent/src/ui.rs\<close>.\<close>

section \<open>What the splash shows is true\<close>

text \<open>C23: the splash claims protection only after it has read it. Whatever frames have been drawn, the
  next one succeeds, draws what \<open>render_splash\<close> says or nothing, and marks the third step as complete
  only if some frame so far read a status of this very launch attempt with the state \<open>protected\<close> from
  the game's status file. Without the escape key it closes the window only if that was so in a frame at
  least 1200 milliseconds before.\<close>

theorem splash_claims_grounded:
  assumes "splash_new G g attempt_id t0 w0 = (Inr new, w1)"
  shows "\<exists>vs drawn app.
    splash_step G i (splash_after G frames new) = Inr (vs, drawn, app) \<and>
    (\<forall>v. drawn = Some v \<longrightarrow> v = render_splash (si_roomy i) app) \<and>
    (\<forall>v. drawn = Some v \<and> sv_marks v ! 2 = Complete_mark \<longrightarrow>
      (\<exists>fr \<in> set (frames @ [i]). \<exists>st. frame_read G new fr st \<and> st_state st = ''protected'')) \<and>
    (Close_view \<in> set vs \<and> \<not> si_escape i \<longrightarrow>
      (\<exists>fr \<in> set (frames @ [i]). \<exists>st. frame_read G new fr st \<and> st_state st = ''protected'' \<and>
         si_now fr + 1200 \<le> si_now i))"
proof -
  have before: "splash_grounded G frames (splash_after G frames new)" "same_window new (splash_after G frames new)"
    using splash_after_grounded [OF splash_new_grounded [OF assms], where frames = frames] by simp_all
  from splash_step_grounded [OF before(1), of i] obtain vs drawn app where
    f: "splash_step G i (splash_after G frames new) = Inr (vs, drawn, app)"
      "same_window (splash_after G frames new) app" "splash_grounded G (frames @ [i]) app"
      "Close_view \<in> set vs \<longrightarrow>
         si_escape i \<or> (\<exists>ready. sp_ready_since app = Some ready \<and> 1200 \<le> si_now i - ready)"
      "\<forall>v. drawn = Some v \<longrightarrow> v = render_splash (si_roomy i) app"
    by blast
  have read: "frame_read G app = frame_read G new"
    using frame_read_same [OF f(2)] frame_read_same [OF before(2)] by simp
  have "\<exists>fr \<in> set (frames @ [i]). \<exists>st. frame_read G new fr st \<and> st_state st = ''protected''"
    if "drawn = Some v" "sv_marks v ! 2 = Complete_mark" for v
  proof -
    from that f(5) have "progress_mark app 2 = Complete_mark"
      by (simp add: render_splash_def)
    then obtain st where "sp_status app = Some st" "st_state st = ''protected''"
      using mark_complete [of app] by (auto simp: splash_state_def split: option.splits)
    with f(3) show ?thesis
      unfolding splash_grounded_def read by blast
  qed
  moreover have "\<exists>fr \<in> set (frames @ [i]). \<exists>st. frame_read G new fr st \<and> st_state st = ''protected'' \<and>
      si_now fr + 1200 \<le> si_now i" if "Close_view \<in> set vs" "\<not> si_escape i"
    using f(3,4) that unfolding splash_grounded_def read by fastforce
  ultimately show ?thesis
    using f(1,5) by blast
qed

lemma protected_status_read:
  "\<exists>w. status_holds status_registry status_binding w (''protected'', None)"
proof -
  have "status_encodes status_registry status_binding (''protected'', None)"
    by (rule status_registry_encodes) (simp add: status_entries_def)
  from publish_binding_ready [OF status_world_ready status_binding_path this] show ?thesis
    by (metis Suc_leI zero_less_numeral)
qed

lemma splash_claims_grounded_witness:
  "\<exists>new i v app. splash_step status_registry i new = Inr ([], Some v, app) \<and> sv_marks v ! 2 = Complete_mark \<and>
     (\<exists>st. frame_read status_registry new i st \<and> st_state st = ''protected'')"
proof -
  from protected_status_read obtain w now where read:
    "status_read status_registry (bind_status_path status_binding) w
      = (Inr (status_of status_binding now (''protected'', None)), w)"
    unfolding status_holds_def by blast
  obtain new w1 where new: "splash_new status_registry sample_game ''attempt'' 0 w = (Inr new, w1)"
    using splash_new_total by blast
  define i where "i = \<lparr>si_now = 5000, si_escape = False, si_roomy = True, si_world = w\<rparr>"
  obtain app where step: "splash_step status_registry i new = Inr ([], Some (render_splash True app), app)"
    "splash_state app = ''protected''" "\<not> splash_failed app"
    using read splash_new_ok [OF new]
    by (simp add: splash_step_def i_def status_binding_def registration_binding_def splash_frame_def
        splash_refresh_def andThen_def attempt_def ret_def Let_def status_of_def splash_state_def splash_failed_def)
  then have "sv_marks (render_splash True app) ! 2 = Complete_mark"
    by (simp add: render_splash_def progress_mark_def Let_def)
  with step(1) splash_claims_grounded [OF new, of i "[]"] show ?thesis
    by auto
qed

text \<open>The window closes 1200 milliseconds after the first \<open>protected\<close> it read, also if it has read a
  failure since and shows that one.\<close>

lemma splash_closes_over_failure:
  assumes "sp_ready_since app = Some ready" and "1200 \<le> now - ready" and "now - sp_last_refresh app < 100"
  shows "splash_frame G now escape roomy app w = (Inr ([Close_view], None, app), w)"
  using assms by (simp add: splash_frame_def andThen_def ret_def)

text \<open>The progress rail reads from left to right, whatever was read: its marks are sorted, complete
  steps before the one that is active or has failed and that before pending ones; there is exactly one
  of the middle kind, a failed one after a failure, unless the state is \<open>protected\<close>, and all three steps
  are complete exactly then. The rail never moves back while a launch advances from milestone to
  milestone, and every milestone but that of a failed update has a text of its own.\<close>

theorem splash_progress:
  "sorted (sv_marks (render_splash roomy app)) \<and>
   filter (\<lambda>k. k \<noteq> Complete_mark \<and> k \<noteq> Pending_mark) (sv_marks (render_splash roomy app))
     = (if splash_state app = ''protected'' then []
        else if splash_failed app then [Failed_mark] else [Active_mark]) \<and>
   (set (sv_marks (render_splash roomy app)) = {Complete_mark} \<longleftrightarrow> splash_state app = ''protected'') \<and>
   (milestone_index s = Some i \<and> milestone_index s' = Some j \<and> i \<le> j \<longrightarrow>
      phase_for_state s \<le> phase_for_state s') \<and>
   (milestone_index s = Some i \<and> s \<noteq> ''update_failed'' \<longrightarrow> fst (state_copy s game) \<noteq> default_title)"
  using progress_rail [of "sv_marks (render_splash roomy app)" app] milestone_phase [of s i s' j]
    milestone_text [of s i game]
  by (simp add: render_splash_def)

definition sample_splash :: SplashApp where
  "sample_splash =
     \<lparr>sp_registered = sample_game, sp_launch_attempt_id = ''attempt'', sp_icon = None, sp_hero = None,
      sp_status = None, sp_last_refresh = 0, sp_ready_since = None, sp_action_message = None,
      sp_failure_resized = False\<rparr>"

lemma splash_progress_witness:
  "phase_for_state ''checking_required_update'' \<le> phase_for_state ''starting_game'' \<and>
   fst (state_copy ''checking_required_update'' ''Game'') \<noteq> default_title"
proof -
  have "milestone_index ''checking_required_update'' = Some 3" "milestone_index ''starting_game'' = Some 5"
    by (simp_all add: milestone_index_def)
  with splash_progress [of True sample_splash "''checking_required_update''" 3 "''starting_game''" 5 "''Game''"]
  show ?thesis by simp
qed

end
