(* ===== verification/RegistryReplace.thy ===== *)
theory RegistryReplace
  imports Registry StatusFile
begin

text \<open>
  What the directory of a registered game holds while \<open>install_registration\<close> of
  \<^verbatim>\<open>crates/certael-agent/src/registry.rs\<close> replaces it: under every schedule of failures and crashes the
  registration is the old one or the new one, whole.

  The directory of a game, its backup and the staging directories are \<^emph>\<open>slots\<close> below the registry's root.
  A slot is read as the tree below it. The registration in force is the tree in the game's own slot or, when
  that is empty, the one in the backup slot, from where \<open>recover_registration\<close> restores it.
\<close>

section \<open>Slots\<close>

type_synonym tree = "path \<rightharpoonup> node"

definition tree_at :: "fs \<Rightarrow> path \<Rightarrow> tree" where
  "tree_at fs p = (\<lambda>q. fs (p @ q))"

definition below :: "path \<Rightarrow> path \<Rightarrow> bool" where
  "below p q \<longleftrightarrow> take (length p) q = p"

definition backup_name :: "string \<Rightarrow> string" where
  "backup_name rid = ''.backup-'' @ rid"

definition slot_name :: "string \<Rightarrow> string \<Rightarrow> bool" where
  "slot_name rid n \<longleftrightarrow> n = rid \<or> n = backup_name rid \<or> (\<exists>pid t. n = registration_temporary pid t)"

definition slots :: "fs \<Rightarrow> path \<Rightarrow> string \<Rightarrow> (string \<Rightarrow> tree) \<Rightarrow> fs \<Rightarrow> bool" where
  "slots F root rid S fs \<longleftrightarrow>
     (\<forall>n. slot_name rid n \<longrightarrow> tree_at fs (root @ [n]) = S n) \<and>
     (\<forall>q. (\<forall>n. slot_name rid n \<longrightarrow> \<not> below (root @ [n]) q) \<longrightarrow> fs q = F q)"

definition visible_id :: "string \<Rightarrow> bool" where
  "visible_id rid \<longleftrightarrow> safe_id rid \<and> \<not> starts_with rid ''.''"

lemma below_append [simp]: "below p (p @ q)"
  by (simp add: below_def)

lemma belowE: "below p q \<Longrightarrow> (\<And>r. q = p @ r \<Longrightarrow> thesis) \<Longrightarrow> thesis"
  unfolding below_def by (metis append_take_drop_id)

lemma below_sibling: "below (root @ [a]) ((root @ [b]) @ q) \<longleftrightarrow> a = b"
  by (auto simp: below_def)

lemma below_prefix: "\<not> below (root @ [a]) (take i root)"
  by (auto simp: below_def dest!: arg_cong [where f = length])

lemma visible_names:
  assumes "visible_id rid"
  shows "plain_name rid" "CHR ''/'' \<notin> set rid" "rid \<noteq> []" "rid \<noteq> registration_temporary pid t"
    "rid \<noteq> backup_name rid" "backup_name rid \<noteq> registration_temporary pid t"
    "plain_name (backup_name rid)" "plain_name (registration_temporary pid t)"
    "CHR ''/'' \<notin> set (backup_name rid)" "CHR ''/'' \<notin> set (registration_temporary pid t)"
    "backup_name rid \<noteq> []" "registration_temporary pid t \<noteq> []"
proof -
  have "\<not> (is_ascii_alphanumeric (CHR ''/'') \<or> CHR ''/'' \<in> {CHR ''.'', CHR ''_'', CHR ''-''})"
    by (simp add: ascii_class_defs)
  with assms show no_slash: "CHR ''/'' \<notin> set rid"
    unfolding visible_id_def safe_id_def list_all_iff by blast
  from assms show "plain_name rid" "rid \<noteq> []" "rid \<noteq> registration_temporary pid t"
    by (auto simp: visible_id_def safe_id_def plain_name_def registration_temporary_def starts_with_def)
  show "rid \<noteq> backup_name rid"
    by (auto simp: backup_name_def dest: arg_cong [where f = length])
  show "CHR ''/'' \<notin> set (backup_name rid)" "CHR ''/'' \<notin> set (registration_temporary pid t)"
    using no_slash by (auto simp: backup_name_def registration_temporary_def show_nat_no_slash)
qed (simp_all add: backup_name_def registration_temporary_def plain_name_def)

lemma slot_names [simp]:
  "slot_name rid rid" "slot_name rid (backup_name rid)" "slot_name rid (registration_temporary pid t)"
  by (auto simp: slot_name_def)

lemma slot_plain: "visible_id rid \<Longrightarrow> slot_name rid n \<Longrightarrow> plain_name n"
  by (auto simp: slot_name_def visible_names)

lemma slots_tree: "slots F root rid S fs \<Longrightarrow> slot_name rid n \<Longrightarrow> fs ((root @ [n]) @ q) = S n q"
  by (auto simp: slots_def tree_at_def fun_eq_iff)

lemma slots_at: "slots F root rid S fs \<Longrightarrow> slot_name rid n \<Longrightarrow> tree_at fs (root @ [n]) = S n"
  by (simp add: slots_def)

lemma slots_node: "slots F root rid S fs \<Longrightarrow> slot_name rid n \<Longrightarrow> fs (root @ [n]) = S n []"
  using slots_tree [of F root rid S fs n "[]"] by simp

lemma slots_dir:
  assumes "plain_dir F root" and "slots F root rid S fs"
  shows "plain_dir fs root"
  using assms(1) by (rule plain_dir_cong) (use assms(2) in \<open>simp add: slots_def below_prefix\<close>)

lemma slots_refl: "slots F root rid (\<lambda>n. tree_at F (root @ [n])) F"
  by (simp add: slots_def)

text \<open>A change inside one slot.\<close>

lemma slots_update:
  assumes "slots F root rid S fs" and "slot_name rid n"
    and "\<And>q. \<not> below (root @ [n]) q \<Longrightarrow> fs' q = fs q"
  shows "slots F root rid (S(n := tree_at fs' (root @ [n]))) fs'"
proof -
  have "fs' ((root @ [m]) @ q) = fs ((root @ [m]) @ q)" if "m \<noteq> n" for m q
    using that below_sibling [of root n m q] assms(3) by simp
  with assms show ?thesis
    by (auto simp: slots_def tree_at_def fun_eq_iff)
qed

section \<open>Calls on a slot\<close>

definition bare_tree :: tree where
  "bare_tree = [[] \<mapsto> Dir]"

definition slot_changed :: "fs \<Rightarrow> path \<Rightarrow> string \<Rightarrow> (string \<Rightarrow> tree) \<Rightarrow> string \<Rightarrow> fs \<Rightarrow> bool" where
  "slot_changed F root rid S n fs \<longleftrightarrow> (\<exists>T. slots F root rid (S(n := T)) fs)"

lemma slot_changed_refl: "slots F root rid S fs \<Longrightarrow> slot_changed F root rid S n fs"
  unfolding slot_changed_def by (metis fun_upd_triv)

text \<open>A removal that may have stopped half-way: the directory itself is the last to go.\<close>

definition slot_cut :: "fs \<Rightarrow> path \<Rightarrow> string \<Rightarrow> (string \<Rightarrow> tree) \<Rightarrow> string \<Rightarrow> fs \<Rightarrow> bool" where
  "slot_cut F root rid S n fs \<longleftrightarrow> (\<exists>T. (T = S n \<or> S n [] = Some Dir \<and> (T [] = Some Dir \<or> T = Map.empty) \<or> (\<exists>p. S n [] = Some (Symlink p)))
       \<and> slots F root rid (S(n := T)) fs)"

lemma slot_cut_changed: "slot_cut F root rid S n fs \<Longrightarrow> slot_changed F root rid S n fs"
  by (auto simp: slot_cut_def slot_changed_def)

lemma slots_locate:
  assumes "plain_dir F root" and "slots F root rid S fs" and "plain_name n"
  shows "locate fs (root @ [n]) = Some (root @ [n])"
  using locate_child [OF slots_dir [OF assms(1,2)] assms(3)] .

lemma slots_children:
  "slots F root rid S fs \<Longrightarrow> slot_name rid n \<Longrightarrow>
     has_children fs (root @ [n]) \<longleftrightarrow> (\<exists>q. q \<noteq> [] \<and> S n q \<noteq> None)"
  unfolding has_children_def below_def [symmetric]
  by (auto elim!: belowE simp: slots_tree dom_def simp flip: append_assoc)
    (metis append.right_neutral append_assoc below_append not_Some_eq same_append_eq slots_tree)

lemma slots_rename:
  assumes root: "plain_dir F root" and st: "slots F root rid S fs"
    and a: "slot_name rid a" "plain_name a" and b: "slot_name rid b" "plain_name b" and ab: "a \<noteq> b"
    and dir: "S a [] \<noteq> None \<Longrightarrow> S a [] = Some Dir"
    and ren: "rename (root @ [a]) (root @ [b]) fs = Some (x, fs')"
  shows "slots F root rid (S(b := S a, a := Map.empty)) fs' \<and> S a [] = Some Dir \<and> (\<forall>q. q \<noteq> [] \<longrightarrow> S b q = None)"
proof -
  have loc: "locate fs (root @ [a]) = Some (root @ [a])" "locate fs (root @ [b]) = Some (root @ [b])"
    using slots_locate [OF root st] a b by blast+
  have node: "node_at fs (root @ [a]) = S a []" "node_at fs (root @ [b]) = S b []"
    using slots_node [OF st] a b by (simp_all add: node_at_def)
  from ren loc node dir ab have "S a [] = Some Dir" and free: "\<not> has_children fs (root @ [b])"
    and fs': "fs' = move_tree (root @ [a]) (root @ [b]) fs"
    by (auto simp: rename_def split: option.splits if_splits node.splits)
  moreover from free have "\<forall>q. q \<noteq> [] \<longrightarrow> S b q = None"
    using slots_children [OF st b(1)] by blast
  moreover have moved: "fs' q = (if below (root @ [b]) q then fs ((root @ [a]) @ drop (length root + 1) q)
      else if below (root @ [a]) q then None else fs q)" for q
    by (simp add: fs' move_tree_def below_def)
  have "fs' ((root @ [n]) @ q) = (if n = b then S a q else if n = a then None else fs ((root @ [n]) @ q))" for n q
    using moved [of "(root @ [n]) @ q"] slots_tree [OF st a(1)] ab
    by (simp add: below_sibling) (simp add: below_def)
  then have "tree_at fs' (root @ [n]) = (S(b := S a, a := Map.empty)) n" if "slot_name rid n" for n
    using slots_tree [OF st that] ab by (auto simp: tree_at_def fun_eq_iff)
  moreover have "fs' q = fs q" if "\<forall>n. slot_name rid n \<longrightarrow> \<not> below (root @ [n]) q" for q
    using that a(1) b(1) moved [of q] by simp
  ultimately show ?thesis
    using st by (simp add: slots_def)
qed

lemma valid_slot_rename:
  assumes "plain_dir F root" and "slot_name rid a" "plain_name a" and "slot_name rid b" "plain_name b"
    and "a \<noteq> b" and "S a [] \<noteq> None \<Longrightarrow> S a [] = Some Dir"
  shows "valid (slots F root rid S) (change e (rename (root @ [a]) (root @ [b])))
    (\<lambda>_ fs. slots F root rid (S(b := S a, a := Map.empty)) fs \<and> S a [] = Some Dir \<and> (\<forall>q. q \<noteq> [] \<longrightarrow> S b q = None))
    (slots F root rid S)"
  by (rule valid_change, rule slots_rename [OF assms(1) _ assms(2-6)]) (use assms(7) in blast)+

text \<open>After a removal that succeeds the slot is empty.\<close>

lemma removed_slot:
  assumes root: "plain_dir F root" and n: "slot_name rid n" "plain_name n"
    and st: "slots F root rid S fs" and dir: "S n [] = Some Dir"
    and rem: "remove_dir_all (root @ [n]) fs = Some (x, fs')"
  shows "slots F root rid (S(n := Map.empty)) fs'"
proof -
  have "locate fs (root @ [n]) = Some (root @ [n])"
    by (rule slots_locate [OF root st n(2)])
  moreover have "node_at fs (root @ [n]) = Some Dir"
    using slots_node [OF st n(1)] dir by (simp add: node_at_def)
  ultimately have fs': "fs' = (\<lambda>r. if below (root @ [n]) r then None else fs r)"
    using rem by (simp add: remove_dir_all_def below_def)
  then have "tree_at fs' (root @ [n]) = Map.empty"
    by (simp add: tree_at_def below_def fun_eq_iff)
  with slots_update [OF st n(1), of fs'] show ?thesis
    by (simp add: fs')
qed

lemma valid_remove_slot:
  assumes root: "plain_dir F root" and n: "slot_name rid n" "plain_name n"
  shows "valid (slots F root rid S) (remove_tree e (root @ [n]))
    (\<lambda>_. slot_cut F root rid S n) (slot_cut F root rid S n)"
  unfolding remove_tree_def
proof (rule valid_syscall)
  have loc: "locate fs (root @ [n]) = Some (root @ [n])" "node_at fs (root @ [n]) = S n []"
    if "slots F root rid S fs" for fs
    using slots_locate [OF root that n(2)] slots_node [OF that n(1)] by (simp_all add: node_at_def)
  have same: "slot_cut F root rid S n fs" if "slots F root rid S fs" for fs
    unfolding slot_cut_def using that by (intro exI [of _ "S n"]) simp
  then show "slot_cut F root rid S n fs" if "slots F root rid S fs" for fs
    using that .
  have changed: "slots F root rid (S(n := tree_at fs' (root @ [n]))) fs'"
    if "slots F root rid S fs" "\<And>r. take (length (root @ [n])) r \<noteq> root @ [n] \<Longrightarrow> fs' r = fs r" for fs fs'
    using slots_update [OF that(1) n(1), of fs'] that(2) by (simp add: below_def)
  show "slot_cut F root rid S n fs'"
    if st: "slots F root rid S fs" and rem: "remove_dir_all (root @ [n]) fs = Some (x, fs')" for x fs fs'
  proof (cases "S n [] = Some Dir")
    case True
    with removed_slot [OF root n st True rem] show ?thesis
      by (auto simp: slot_cut_def)
  next
    case False
    with rem loc [OF st] obtain p where "S n [] = Some (Symlink p)"
      by (auto simp: remove_dir_all_def split: option.splits node.splits)
    with changed [OF st remove_all_outside [OF rem loc(1) [OF st]]] show ?thesis
      by (auto simp: slot_cut_def)
  qed
  show "slot_cut F root rid S n (remove_part (root @ [n]) (extent_removed y) fs)"
    if st: "slots F root rid S fs" for y fs
  proof (cases "S n [] = Some Dir")
    case True
    have "remove_part (root @ [n]) (extent_removed y) fs (root @ [n]) = fs (root @ [n])"
      by (rule remove_part_outside [OF loc(1) [OF st]]) simp
    with True slots_node [OF st n(1)] have "tree_at (remove_part (root @ [n]) (extent_removed y) fs) (root @ [n]) [] = Some Dir"
      by (simp add: tree_at_def)
    moreover note changed [OF st, of "remove_part (root @ [n]) (extent_removed y) fs"]
      remove_part_outside [OF loc(1) [OF st]]
    ultimately show ?thesis
      using True unfolding slot_cut_def by blast
  next
    case False
    with same [OF st] loc [OF st] show ?thesis
      by (simp add: remove_part_def)
  qed
qed

lemma reads_slot_exists:
  "reads (path_exists (root @ [n])) (\<lambda>b fs. b \<longrightarrow> plain_dir fs root \<longrightarrow> plain_name n \<longrightarrow> fs (root @ [n]) \<noteq> None)"
proof (rule reads_conseq [OF reads_path_exists])
  fix b fs
  assume b: "b \<longrightarrow> stat fs (root @ [n]) \<noteq> None"
  show "b \<longrightarrow> plain_dir fs root \<longrightarrow> plain_name n \<longrightarrow> fs (root @ [n]) \<noteq> None"
  proof (intro impI notI)
    assume "b" and dir: "plain_dir fs root" and n: "plain_name n" and none: "fs (root @ [n]) = None"
    obtain m where "realpath fs (root @ [n]) = resolve_from m fs root [n]"
      using resolve_from_append [OF realpath_dir [OF dir, unfolded realpath_def], of "[n]"]
      unfolding realpath_def by blast
    with dir n none have "stat fs (root @ [n]) = None"
      by (simp add: stat_def plain_dir_node plain_name_def)
    with b \<open>b\<close> show False by simp
  qed
qed

lemma valid_slot_exists:
  assumes "plain_dir F root" and "slot_name rid n" "plain_name n"
    and "\<And>fs. slots F root rid S fs \<Longrightarrow> E fs"
  shows "valid (slots F root rid S) (path_exists (root @ [n]))
    (\<lambda>b fs. slots F root rid S fs \<and> (b \<longrightarrow> S n [] \<noteq> None)) E"
  by (rule valid_reads [OF reads_slot_exists])
    (use assms slots_dir slots_node in \<open>fastforce+\<close>)

section \<open>The registration in force\<close>

definition current :: "string \<Rightarrow> (string \<Rightarrow> tree) \<Rightarrow> tree" where
  "current rid S = (if S rid [] \<noteq> None then S rid else S (backup_name rid))"

definition sound :: "string \<Rightarrow> (string \<Rightarrow> tree) \<Rightarrow> bool" where
  "sound rid S \<longleftrightarrow>
     (S rid = Map.empty \<or> S rid [] = Some Dir) \<and>
     (S (backup_name rid) = Map.empty \<or> S (backup_name rid) [] = Some Dir)"

definition well_formed :: "string \<Rightarrow> (string \<Rightarrow> tree) \<Rightarrow> bool" where
  "well_formed rid S \<longleftrightarrow>
     sound rid S \<and>
     (current rid S = Map.empty \<or> (\<exists>q. q \<noteq> [] \<and> current rid S q \<noteq> None))"

definition recovered_slots :: "string \<Rightarrow> (string \<Rightarrow> tree) \<Rightarrow> (string \<Rightarrow> tree) \<Rightarrow> bool" where
  "recovered_slots rid S S' \<longleftrightarrow>
     current rid S' = current rid S \<and> sound rid S' \<and>
     (\<forall>n. n \<noteq> rid \<longrightarrow> n \<noteq> backup_name rid \<longrightarrow> S' n = S n)"

lemma recovered_slots_refl: "well_formed rid S \<Longrightarrow> recovered_slots rid S S"
  by (simp add: recovered_slots_def well_formed_def)

lemma valid_slots_any:
  "(\<And>S. I S \<Longrightarrow> valid (slots F root rid S) m Q E) \<Longrightarrow>
     valid (\<lambda>fs. \<exists>S. I S \<and> slots F root rid S fs) m Q E"
  unfolding valid_def by blast

lemma valid_recover:
  assumes vis: "visible_id rid" and root: "plain_dir F root" and wf: "well_formed rid S"
  shows "valid (slots F root rid S) (recover_registration (root @ [rid]) (root @ [backup_name rid]))
    (\<lambda>_ fs. \<exists>S'. recovered_slots rid S S' \<and> slots F root rid S' fs)
    (\<lambda>fs. \<exists>S'. recovered_slots rid S S' \<and> slots F root rid S' fs)"
    (is "valid _ _ (\<lambda>_. ?R) _")
proof -
  note names = visible_names [OF vis]
  have same: "?R fs" if "slots F root rid S fs" for fs
    using that recovered_slots_refl [OF wf] by blast
  have restore: "valid (slots F root rid S) (change e (rename (root @ [backup_name rid]) (root @ [rid])))
    (\<lambda>_. ?R) ?R" for e :: string
  proof (rule valid_change)
    fix x fs fs'
    assume st: "slots F root rid S fs"
      and ren: "rename (root @ [backup_name rid]) (root @ [rid]) fs = Some (x, fs')"
    from wf have dir: "S (backup_name rid) [] \<noteq> None \<Longrightarrow> S (backup_name rid) [] = Some Dir"
      by (auto simp: well_formed_def sound_def)
    from slots_rename [OF root st _ names(7) _ names(1) _ dir ren] names(5)
    have st': "slots F root rid (S(rid := S (backup_name rid), backup_name rid := Map.empty)) fs'"
      and backup: "S (backup_name rid) [] = Some Dir" and free: "\<forall>q. q \<noteq> [] \<longrightarrow> S rid q = None"
      by auto
    from wf free have "S rid [] = None"
      by (auto simp: well_formed_def current_def split: if_splits)
    with backup names(5) have "recovered_slots rid S (S(rid := S (backup_name rid), backup_name rid := Map.empty))"
      by (auto simp: recovered_slots_def current_def sound_def)
    with st' show "?R fs'" by blast
  qed (rule same)
  have retire: "valid (\<lambda>fs. slots F root rid S fs \<and> S rid [] \<noteq> None) (remove_tree e (root @ [backup_name rid]))
    (\<lambda>_. ?R) ?R" for e :: string
  proof (cases "S rid [] = None")
    case False
    with wf names(5) have "recovered_slots rid S (S(backup_name rid := T))"
      if "T = S (backup_name rid) \<or> S (backup_name rid) [] = Some Dir \<and> (T [] = Some Dir \<or> T = Map.empty)" for T
      using that by (auto simp: recovered_slots_def current_def well_formed_def sound_def)
    moreover from wf have "S (backup_name rid) [] \<noteq> Some (Symlink p)" for p
      by (auto simp: well_formed_def sound_def)
    ultimately have "?R fs" if "slot_cut F root rid S (backup_name rid) fs" for fs
      using that unfolding slot_cut_def by blast
    then show ?thesis
      by (intro valid_conseq [OF valid_remove_slot [OF root _ names(7)]]) auto
  qed (simp add: valid_def)
  have decide: "valid (\<lambda>fs. (slots F root rid S fs \<and> (d \<longrightarrow> S rid [] \<noteq> None)) \<and> slots F root rid S fs)
      (if \<not> d \<and> b then change e1 (rename (root @ [backup_name rid]) (root @ [rid]))
       else if d \<and> b then remove_tree e2 (root @ [backup_name rid])
       else ret ()) (\<lambda>_. ?R) ?R" for d b and e1 e2 :: string
    by (auto intro!: valid_if valid_ret valid_conseq [OF restore] valid_conseq [OF retire] same)
  have backup: "valid (\<lambda>fs. slots F root rid S fs \<and> (d \<longrightarrow> S rid [] \<noteq> None))
      (path_exists (root @ [backup_name rid]))
      (\<lambda>_ fs. (slots F root rid S fs \<and> (d \<longrightarrow> S rid [] \<noteq> None)) \<and> slots F root rid S fs) ?R" for d
    by (rule valid_reads [OF reads_path_exists]) (use same in auto)
  show ?thesis
    unfolding recover_registration_def
    by (rule valid_andThen [OF valid_slot_exists [OF root _ names(1) same] valid_andThen [OF backup decide]]) simp_all
qed

section \<open>Staging\<close>

definition registration_tree :: "checked_registration \<Rightarrow> bytes \<Rightarrow> tree" where
  "registration_tree c record_bytes =
     (let files = bare_tree([''trust-store.json''] \<mapsto> File (cr_trust c),
            [''update-root.json''] \<mapsto> File (cr_update c), [''registration.json''] \<mapsto> File record_bytes) in
      case cr_branding c of
        None \<Rightarrow> files
      | Some b \<Rightarrow>
          let art = files([''branding''] \<mapsto> Dir, [''branding'', ''icon.png''] \<mapsto> File (ib_icon b)) in
          (case ib_hero b of
             None \<Rightarrow> art
           | Some hero \<Rightarrow> art([''branding'', ''hero.png''] \<mapsto> File hero)))"

definition tree_dir :: "tree \<Rightarrow> path \<Rightarrow> bool" where
  "tree_dir T d \<longleftrightarrow> list_all plain_name d \<and> (\<forall>i \<le> length d. T (take i d) = Some Dir)"

lemma tree_dir_Nil [simp]: "tree_dir T [] \<longleftrightarrow> T [] = Some Dir"
  by (simp add: tree_dir_def)

lemma tree_dir_single [simp]: "tree_dir T [c] \<longleftrightarrow> plain_name c \<and> T [] = Some Dir \<and> T [c] = Some Dir"
  by (auto simp: tree_dir_def le_Suc_eq)

lemma slot_dir:
  assumes root: "plain_dir F root" and st: "slots F root rid S fs" and n: "slot_name rid n" "plain_name n"
    and d: "tree_dir (S n) d"
  shows "plain_dir fs (root @ n # d)"
  using d
proof (induction d rule: rev_induct)
  case Nil
  then show ?case
    using slots_dir [OF root st] slots_node [OF st n(1)] n(2) by (simp add: plain_dir_snoc)
next
  case (snoc c d)
  then have "tree_dir (S n) d"
    by (auto simp: tree_dir_def) (metis le_SucI take_append diff_is_0_eq append.right_neutral take0)
  moreover from snoc.prems have "plain_name c" "S n (d @ [c]) = Some Dir"
    by (auto simp: tree_dir_def dest: spec [of _ "Suc (length d)"])
  ultimately show ?case
    using snoc.IH slots_tree [OF st n(1), of "d @ [c]"] plain_dir_snoc [of fs "root @ n # d" c] by simp
qed

lemma slot_put:
  assumes "slots F root rid S fs" and "slot_name rid n"
  shows "slots F root rid (S(n := (S n)(q := x))) (fs(root @ n # q := x))"
proof -
  have "tree_at (fs(root @ n # q := x)) (root @ [n]) = (S n)(q := x)"
    using slots_tree [OF assms] by (auto simp: tree_at_def fun_eq_iff)
  moreover have "(fs(root @ n # q := x)) r = fs r" if "\<not> below (root @ [n]) r" for r
    using that below_append [of "root @ [n]" q] by auto
  ultimately show ?thesis
    using slots_update [OF assms, of "fs(root @ n # q := x)"] by simp
qed

lemma valid_slot_mkdir:
  assumes root: "plain_dir F root" and n: "slot_name rid n" "plain_name n"
    and d: "tree_dir (S n) d" and f: "plain_name f"
  shows "valid (slots F root rid S) (change e (mkdir (root @ n # d @ [f])))
    (\<lambda>_. slots F root rid (S(n := (S n)(d @ [f] \<mapsto> Dir)))) (slot_changed F root rid S n)"
proof (rule valid_change)
  fix x fs fs'
  assume st: "slots F root rid S fs" and made: "mkdir (root @ n # d @ [f]) fs = Some (x, fs')"
  have "locate fs (root @ n # d @ [f]) = Some (root @ n # d @ [f])"
    using locate_child [OF slot_dir [OF root st n d] f] by simp
  with made have "fs' = fs(root @ n # d @ [f] \<mapsto> Dir)"
    by (simp add: mkdir_def split: if_splits)
  with slot_put [OF st n(1), of "d @ [f]"] show "slots F root rid (S(n := (S n)(d @ [f] \<mapsto> Dir))) fs'"
    by simp
qed (rule slot_changed_refl)

lemma valid_slot_file:
  assumes root: "plain_dir F root" and n: "slot_name rid n" "plain_name n"
    and d: "tree_dir (S n) d" and f: "plain_name f"
  shows "valid (slots F root rid S) (write_new (root @ n # d @ [f]) bytes)
    (\<lambda>_. slots F root rid (S(n := (S n)(d @ [f] \<mapsto> File bytes)))) (slot_changed F root rid S n)"
proof -
  let ?p = "root @ n # d @ [f]"
  let ?st = "\<lambda>b. slots F root rid (S(n := (S n)(d @ [f] \<mapsto> File b)))"
  have changed: "slot_changed F root rid S n fs" if "?st b fs" for b fs
    using that by (auto simp: slot_changed_def)
  have create: "valid (slots F root rid S) (change e (create_new ?p)) (\<lambda>h fs. h = ?p \<and> ?st [] fs)
      (slot_changed F root rid S n)" for e :: string
  proof (rule valid_change)
    fix h fs fs'
    assume st: "slots F root rid S fs" and made: "create_new ?p fs = Some (h, fs')"
    have "locate fs ?p = Some ?p"
      using locate_child [OF slot_dir [OF root st n d] f] by simp
    with made have "h = ?p" "fs' = fs(?p \<mapsto> File [])"
      by (auto simp: create_new_def split: if_splits)
    with slot_put [OF st n(1), of "d @ [f]"] show "h = ?p \<and> ?st [] fs'"
      by simp
  qed (rule slot_changed_refl)
  have append: "?st b (append_file ?p b fs)" if "?st [] fs" for b fs
  proof -
    from slots_tree [OF that n(1), of "d @ [f]"] have "fs ?p = Some (File [])"
      by simp
    moreover from slot_put [OF that n(1), of "d @ [f]" "Some (File b)"] have "?st b (fs(?p \<mapsto> File b))"
      by simp
    ultimately show ?thesis
      by (simp add: append_file_def)
  qed
  have wrote: "valid (?st []) (write_handle e ?p bytes) (\<lambda>_. ?st bytes) (slot_changed F root rid S n)" for e :: string
    unfolding write_handle_def by (rule valid_syscall) (use append changed in blast)+
  have touched: "valid (?st b) (touch e) (\<lambda>_. ?st b) (slot_changed F root rid S n)" for b and e :: string
    by (rule valid_reads [OF reads_touch]) (use changed in blast)+
  have rest: "valid (\<lambda>fs. h = ?p \<and> ?st [] fs)
      (andThen (touch e1) (\<lambda>_. andThen (write_handle e2 h bytes) (\<lambda>_. touch e3)))
      (\<lambda>_. ?st bytes) (slot_changed F root rid S n)" for h and e1 e2 e3 :: string
  proof (cases "h = ?p")
    case True
    with valid_andThen [OF touched valid_andThen [OF wrote touched]] show ?thesis by simp
  qed (simp add: valid_def)
  show ?thesis
    unfolding write_new_def by (rule valid_andThen [OF create rest])
qed

lemma slot_changed_upd [simp]: "slot_changed F root rid (S(n := T)) n = slot_changed F root rid S n"
  by (simp add: slot_changed_def fun_eq_iff)

lemma valid_put_file:
  assumes "plain_dir F root" and "slot_name rid n" "plain_name n" and "tree_dir T d" "plain_name f"
    and "valid (slots F root rid (S(n := T(d @ [f] \<mapsto> File b)))) m Q (slot_changed F root rid S n)"
  shows "valid (slots F root rid (S(n := T))) (andThen (write_new (root @ n # d @ [f]) b) (\<lambda>_. m)) Q
    (slot_changed F root rid S n)"
  using valid_andThen [OF valid_slot_file [OF assms(1-3), where S = "S(n := T)" and d = d and f = f], of b "\<lambda>_. m" Q] assms
  by simp

lemma valid_put_dir:
  assumes "plain_dir F root" and "slot_name rid n" "plain_name n" and "tree_dir T d" "plain_name f"
    and "valid (slots F root rid (S(n := T(d @ [f] \<mapsto> Dir)))) m Q (slot_changed F root rid S n)"
  shows "valid (slots F root rid (S(n := T))) (andThen (change e (mkdir (root @ n # d @ [f]))) (\<lambda>_. m)) Q
    (slot_changed F root rid S n)"
  using valid_andThen [OF valid_slot_mkdir [OF assms(1-3), where S = "S(n := T)" and d = d and f = f and e = e], of "\<lambda>_. m" Q] assms
  by simp

lemma valid_put_last:
  assumes "plain_dir F root" and "slot_name rid n" "plain_name n" and "tree_dir T d" "plain_name f"
    and "\<And>fs. slots F root rid (S(n := T(d @ [f] \<mapsto> File b))) fs \<Longrightarrow> Q () fs"
  shows "valid (slots F root rid (S(n := T))) (write_new (root @ n # d @ [f]) b) Q (slot_changed F root rid S n)"
  by (rule valid_conseq [OF valid_slot_file [OF assms(1-3), where S = "S(n := T)" and d = d and f = f]])
    (use assms in simp_all)

lemma valid_write_files:
  assumes root: "plain_dir F root" and n: "slot_name rid n" "plain_name n" and bare: "T = bare_tree"
  shows "valid (slots F root rid (S(n := T))) (write_registration_files L G (root @ [n]) c)
    (\<lambda>_ fs. \<exists>rb. rl_record_to_vec G (stored_record L G c) = Some rb \<and>
       slots F root rid (S(n := registration_tree c rb)) fs) (slot_changed F root rid S n)"
proof -
  have paths: "join_path (root @ [n]) ''trust-store.json'' = root @ n # [] @ [''trust-store.json'']"
    "join_path (root @ [n]) ''update-root.json'' = root @ n # [] @ [''update-root.json'']"
    "join_path (root @ [n]) ''registration.json'' = root @ n # [] @ [''registration.json'']"
    "join_path (root @ [n]) ''branding'' = root @ n # [] @ [''branding'']"
    "join_path (root @ n # [] @ [''branding'']) ''icon.png'' = root @ n # [''branding''] @ [''icon.png'']"
    "join_path (root @ n # [] @ [''branding'']) ''hero.png'' = root @ n # [''branding''] @ [''hero.png'']"
    by (simp_all add: join_path_child)
  note put = valid_put_file [OF root n] valid_put_dir [OF root n]
  have tail: "valid (slots F root rid (S(n := T'))) (throw e) Q (slot_changed F root rid S n)"
    for T' Q and e :: string
    by (rule valid_throw) (auto simp: slot_changed_def)
  show ?thesis
  proof (cases "rl_record_to_vec G (stored_record L G c)")
    case None
    then show ?thesis
      unfolding write_registration_files_def paths
      by (intro put) (simp_all add: bare bare_tree_def plain_name_def andThen_lift tail)
  next
    case rb: (Some rb)
    have art: "valid (slots F root rid (S(n := T'))) 
       (case cr_branding c of
          None \<Rightarrow> ret ()
        | Some branding \<Rightarrow>
            andThen (change ''cannot create directory'' (mkdir (root @ n # [] @ [''branding'']))) (\<lambda>_.
            andThen (write_new (root @ n # [''branding''] @ [''icon.png'']) (ib_icon branding)) (\<lambda>_.
            case ib_hero branding of
              None \<Rightarrow> ret ()
            | Some hero \<Rightarrow> write_new (root @ n # [''branding''] @ [''hero.png'']) hero)))
       (\<lambda>_. slots F root rid (S(n := registration_tree c rb))) (slot_changed F root rid S n)"
      if T': "T' = bare_tree([''trust-store.json''] \<mapsto> File (cr_trust c),
            [''update-root.json''] \<mapsto> File (cr_update c), [''registration.json''] \<mapsto> File rb)" for T'
    proof (cases "cr_branding c")
      case None
      then show ?thesis
        by (auto simp: T' registration_tree_def intro: valid_ret)
    next
      case b: (Some b)
      show ?thesis
      proof (cases "ib_hero b")
        case None
        then show ?thesis
          unfolding b None option.case
          by (intro put valid_ret)
            (use b None in \<open>simp_all add: T' bare_tree_def plain_name_def registration_tree_def\<close>)
      next
        case hero: (Some hero)
        show ?thesis
          unfolding b hero option.case
          by (intro put valid_put_last [OF root n])
            (use b hero in \<open>simp_all add: T' bare_tree_def plain_name_def registration_tree_def\<close>)
      qed
    qed
    have "valid (slots F root rid (S(n := T))) (write_registration_files L G (root @ [n]) c)
      (\<lambda>_. slots F root rid (S(n := registration_tree c rb))) (slot_changed F root rid S n)"
      unfolding write_registration_files_def paths rb ok_or_simps andThen_lift
      by (intro put art) (simp_all add: bare bare_tree_def plain_name_def)
    then show ?thesis
      by (rule valid_conseq) (use rb in auto)
  qed
qed

section \<open>Activation\<close>

definition in_force :: "fs \<Rightarrow> path \<Rightarrow> string \<Rightarrow> tree set \<Rightarrow> fs \<Rightarrow> bool" where
  "in_force F root rid X fs \<longleftrightarrow> (\<exists>S. (current rid S \<in> X \<and> sound rid S) \<and> slots F root rid S fs)"

lemma in_forceI: "slots F root rid S fs \<Longrightarrow> current rid S \<in> X \<Longrightarrow> sound rid S \<Longrightarrow> in_force F root rid X fs"
  by (auto simp: in_force_def)

lemma in_force_mono: "in_force F root rid X fs \<Longrightarrow> X \<subseteq> Y \<Longrightarrow> in_force F root rid Y fs"
  by (auto simp: in_force_def)

lemma current_other: "n \<noteq> rid \<Longrightarrow> n \<noteq> backup_name rid \<Longrightarrow> current rid (S(n := T)) = current rid S"
  by (simp add: current_def)

lemma sound_other: "n \<noteq> rid \<Longrightarrow> n \<noteq> backup_name rid \<Longrightarrow> sound rid (S(n := T)) = sound rid S"
  by (simp add: sound_def)

lemma changed_in_force:
  "slot_changed F root rid S n fs \<Longrightarrow> n \<noteq> rid \<Longrightarrow> n \<noteq> backup_name rid \<Longrightarrow> current rid S \<in> X \<Longrightarrow>
     sound rid S \<Longrightarrow> in_force F root rid X fs"
  by (auto simp: slot_changed_def current_other sound_other intro: in_forceI)

text \<open>\<open>stored\<close>: the game's own slot holds the new registration.\<close>

definition stored :: "fs \<Rightarrow> path \<Rightarrow> string \<Rightarrow> tree \<Rightarrow> fs \<Rightarrow> bool" where
  "stored F root rid N fs \<longleftrightarrow> (\<exists>S. (S rid = N \<and> sound rid S) \<and> slots F root rid S fs)"

lemma stored_in_force: "stored F root rid N fs \<Longrightarrow> N [] \<noteq> None \<Longrightarrow> N \<in> X \<Longrightarrow> in_force F root rid X fs"
  by (auto simp: stored_def in_force_def current_def)

lemma valid_activate:
  assumes vis: "visible_id rid" and root: "plain_dir F root" and tmp: "tmp = registration_temporary pid t"
    and S: "current rid S = Old" "sound rid S" "S tmp = N" "N [] = Some Dir"
  shows "valid (slots F root rid S)
    (activate_registration replace (root @ [tmp]) (root @ [rid]) (root @ [backup_name rid]))
    (\<lambda>_. stored F root rid N) (in_force F root rid {Old, N})"
proof -
  let ?b = "backup_name rid"
  let ?S1 = "S(?b := S rid, rid := Map.empty)"
  note names = visible_names [OF vis]
  have tmp_names: "slot_name rid tmp" "plain_name tmp" "tmp \<noteq> rid" "tmp \<noteq> ?b"
    using names(4,6,8) [of pid t] by (auto simp: tmp)
  have dir: "S rid [] \<noteq> None \<Longrightarrow> S rid [] = Some Dir"
    using S(2) by (auto simp: sound_def)
  have swap: "valid (slots F root rid S') (change e (rename (root @ [tmp]) (root @ [rid])))
      (\<lambda>_. slots F root rid (S'(rid := N, tmp := Map.empty))) (slots F root rid S')"
    if "S' tmp = N" for S' and e :: string
    by (rule valid_conseq [OF valid_slot_rename [where S = S', OF root tmp_names(1,2) slot_names(1) names(1) tmp_names(3)]])
      (use that S(4) in auto)
  show ?thesis
  proof (cases replace)
    case False
    have "in_force F root rid {Old, N} fs" if "slots F root rid S fs" for fs
      using that S(1,2) by (auto intro: in_forceI)
    moreover have "stored F root rid N fs" if "slots F root rid (S(rid := N, tmp := Map.empty)) fs" for fs
      unfolding stored_def
      by (rule exI, rule conjI [OF _ that]) (use S(2,4) tmp_names(3,4) names(5) in \<open>auto simp: sound_def\<close>)
    ultimately show ?thesis
      unfolding activate_registration_def
      by (simp only: False if_False) (rule valid_conseq [OF swap [where S' = S, OF S(3)]])
  next
    case True
    have old: "in_force F root rid {Old, N} fs" if "slots F root rid S fs" for fs
      using that S(1,2) by (auto intro: in_forceI)
    have aside: "valid (slots F root rid S) (change e (rename (root @ [rid]) (root @ [?b])))
        (\<lambda>_ fs. S rid = Old \<and> slots F root rid ?S1 fs) (in_force F root rid {Old, N})" for e :: string
      by (rule valid_conseq [OF valid_slot_rename [where S = S, OF root slot_names(1) names(1) slot_names(2) names(7,5) dir]])
        (use old S(1) in \<open>auto simp: current_def\<close>)
    show ?thesis
    proof (cases "S rid = Old")
      case kept: True
      have parked: "in_force F root rid {Old, N} fs" if "slots F root rid ?S1 fs" for fs
        using that kept names(5) S(2) by (intro in_forceI) (auto simp: current_def sound_def)
      have restored: "in_force F root rid {Old, N} fs"
        if "slots F root rid (?S1(rid := ?S1 ?b, ?b := Map.empty)) fs" "?S1 ?b [] = Some Dir" for fs
        using that kept names(5) by (intro in_forceI) (auto simp: current_def sound_def)
      have "valid (slots F root rid ?S1) (change e (rename (root @ [?b]) (root @ [rid])))
          (\<lambda>_. in_force F root rid {Old, N}) (in_force F root rid {Old, N})" for e :: unit
        by (rule valid_conseq [OF valid_slot_rename [where S = ?S1, OF root slot_names(2) names(7) slot_names(1) names(1)]])
          (use dir names(5) parked restored in auto)
      from valid_attempt [OF this]
      have undo: "valid (slots F root rid ?S1) (attempt (change () (rename (root @ [?b]) (root @ [rid]))))
          (\<lambda>_. in_force F root rid {Old, N}) (in_force F root rid {Old, N})"
        by (rule valid_conseq) (auto split: sum.splits)
      have finished: "stored F root rid N fs" if "slot_cut F root rid (?S1(rid := N, tmp := Map.empty)) ?b fs" for fs
      proof -
        have before: "(?S1(rid := N, tmp := Map.empty)) ?b = S rid"
          using tmp_names(4) names(5) by simp
        from that obtain T where
          cut: "T = S rid \<or> S rid [] = Some Dir \<and> (T [] = Some Dir \<or> T = Map.empty) \<or> (\<exists>p. S rid [] = Some (Symlink p))"
          and T: "slots F root rid (?S1(rid := N, tmp := Map.empty, ?b := T)) fs"
          unfolding slot_cut_def before by blast
        from cut S(2) have whole: "T = Map.empty \<or> T [] = Some Dir"
          by (auto simp: sound_def)
        show ?thesis
          unfolding stored_def
          by (rule exI, rule conjI [OF _ T]) (use whole S(4) names(5) tmp_names(3) in \<open>simp add: sound_def\<close>)
      qed
      have retire: "valid (slots F root rid (?S1(rid := N, tmp := Map.empty))) (remove_tree e (root @ [?b]))
          (\<lambda>_. stored F root rid N) (in_force F root rid {Old, N})" for e :: string
        by (rule valid_conseq [OF valid_remove_slot [OF root slot_names(2) names(7)]])
          (auto intro!: finished stored_in_force [OF finished] simp: S(4))
      have aside': "valid (slots F root rid S) (change e (rename (root @ [rid]) (root @ [?b])))
          (\<lambda>_. slots F root rid ?S1) (in_force F root rid {Old, N})" for e :: string
        by (rule valid_conseq [OF aside]) auto
      have "?S1 tmp = N"
        using S(3) tmp_names by simp
      note swapped = valid_attempt [OF swap [where S' = ?S1, OF this], where E' = "in_force F root rid {Old, N}"]
      have tail: "valid (\<lambda>fs. case r of Inl _ \<Rightarrow> slots F root rid ?S1 fs
            | Inr _ \<Rightarrow> slots F root rid (?S1(rid := N, tmp := Map.empty)) fs)
          (case r of
             Inl e \<Rightarrow> andThen (attempt (change () (rename (root @ [?b]) (root @ [rid])))) (\<lambda>_. throw e)
           | Inr _ \<Rightarrow> remove_tree e3 (root @ [?b]))
          (\<lambda>_. stored F root rid N) (in_force F root rid {Old, N})" for r :: "string + unit" and e3
      proof (cases r)
        case (Inl e)
        with valid_andThen [OF undo valid_throw] show ?thesis by simp
      next
        case (Inr u)
        with retire show ?thesis by simp
      qed
      note valid_andThen [OF aside' valid_andThen [OF swapped tail]]
      with True show ?thesis
        by (simp add: activate_registration_def)
    next
      case False
      with aside have never: "valid (slots F root rid S) (change e (rename (root @ [rid]) (root @ [?b])))
          (\<lambda>_ _. False) (in_force F root rid {Old, N})" for e :: string
        by simp
      have "valid (\<lambda>_. False) m Q E" for m :: "(string, 'a) call" and Q E
        by (simp add: valid_def)
      note valid_andThen [OF never this]
      with True show ?thesis
        by (simp add: activate_registration_def)
    qed
  qed
qed

section \<open>Storing a registration\<close>

lemma valid_slot_new:
  assumes root: "plain_dir F root" and n: "slot_name rid n" "plain_name n"
    and closed: "S n [] = None \<longrightarrow> S n = Map.empty"
  shows "valid (slots F root rid S) (change e (mkdir (root @ [n])))
    (\<lambda>_. slots F root rid (S(n := bare_tree))) (slots F root rid S)"
proof (rule valid_change)
  fix x fs fs'
  assume st: "slots F root rid S fs" and made: "mkdir (root @ [n]) fs = Some (x, fs')"
  with slots_locate [OF root st n(2)] have "node_at fs (root @ [n]) = None" and fs': "fs' = fs(root @ n # [] \<mapsto> Dir)"
    by (auto simp: mkdir_def split: if_splits)
  then have "S n = Map.empty"
    using closed slots_node [OF st n(1)] by (simp add: node_at_def split: if_splits)
  with slot_put [OF st n(1), of "[]" "Some Dir"] show "slots F root rid (S(n := bare_tree)) fs'"
    by (simp add: fs' bare_tree_def)
qed

definition new_trees :: "'v lib \<Rightarrow> registry_lib \<Rightarrow> checked_registration \<Rightarrow> tree set" where
  "new_trees L G c = {T. \<exists>rb. rl_record_to_vec G (stored_record L G c) = Some rb \<and> T = registration_tree c rb}"

lemma registration_tree_root: "registration_tree c rb [] = Some Dir"
  by (simp add: registration_tree_def bare_tree_def Let_def split: option.split)

lemma valid_stage_and_activate:
  assumes vis: "visible_id rid" and root: "plain_dir F root" and tmp: "tmp = registration_temporary pid t"
    and S: "current rid S = Old" "sound rid S"
  shows "valid (slots F root rid (S(tmp := bare_tree)))
    (andThen (write_registration_files L G (root @ [tmp]) c) (\<lambda>_.
     activate_registration replace (root @ [tmp]) (root @ [rid]) (root @ [backup_name rid])))
    (\<lambda>_ fs. \<exists>N \<in> new_trees L G c. stored F root rid N fs)
    (in_force F root rid (insert Old (new_trees L G c)))"
proof -
  note names = visible_names [OF vis]
  have tmp_names: "slot_name rid tmp" "plain_name tmp" "tmp \<noteq> rid" "tmp \<noteq> backup_name rid"
    using names(4,6,8) [of pid t] by (auto simp: tmp)
  have wrote: "valid (slots F root rid (S(tmp := bare_tree))) (write_registration_files L G (root @ [tmp]) c)
    (\<lambda>_ fs. \<exists>S'. (\<exists>N \<in> new_trees L G c. S' = S(tmp := N)) \<and> slots F root rid S' fs)
    (in_force F root rid (insert Old (new_trees L G c)))"
  proof (rule valid_conseq [OF valid_write_files [OF root tmp_names(1,2) refl]])
    show "in_force F root rid (insert Old (new_trees L G c)) fs" if "slot_changed F root rid S tmp fs" for fs
      using changed_in_force [OF that tmp_names(3,4)] S by auto
  qed (auto simp: new_trees_def)
  have swapped: "valid (slots F root rid S')
     (activate_registration replace (root @ [tmp]) (root @ [rid]) (root @ [backup_name rid]))
     (\<lambda>_ fs. \<exists>N \<in> new_trees L G c. stored F root rid N fs)
     (in_force F root rid (insert Old (new_trees L G c)))"
    if "\<exists>N \<in> new_trees L G c. S' = S(tmp := N)" for S'
  proof -
    from that obtain N where N: "N \<in> new_trees L G c" "S' = S(tmp := N)" by blast
    then have "N [] = Some Dir"
      by (auto simp: new_trees_def registration_tree_root)
    with N S tmp_names(3,4) have "valid (slots F root rid S')
      (activate_registration replace (root @ [tmp]) (root @ [rid]) (root @ [backup_name rid]))
      (\<lambda>_. stored F root rid N) (in_force F root rid {Old, N})"
      by (intro valid_activate [OF vis root tmp]) (simp_all add: current_other sound_other)
    then show ?thesis
      by (rule valid_conseq) (use N(1) in \<open>auto elim: in_force_mono\<close>)
  qed
  show ?thesis
    by (rule valid_andThen [OF wrote valid_slots_any [OF swapped]])
qed

lemma valid_cleanup:
  assumes vis: "visible_id rid" and root: "plain_dir F root"
  shows "valid (in_force F root rid X) (attempt (remove_tree () (root @ [registration_temporary pid t])))
    (\<lambda>_. in_force F root rid X) (in_force F root rid X)"
proof -
  let ?tmp = "registration_temporary pid t"
  note names = visible_names [OF vis]
  have "valid (slots F root rid S) (remove_tree () (root @ [?tmp])) (\<lambda>_. in_force F root rid X) (in_force F root rid X)"
    if "current rid S \<in> X \<and> sound rid S" for S
    by (rule valid_conseq [OF valid_remove_slot [OF root slot_names(3) names(8)]])
      (use changed_in_force [OF slot_cut_changed names(4) [symmetric] names(6) [symmetric]] that in auto)
  then have "valid (in_force F root rid X) (remove_tree () (root @ [?tmp]))
      (\<lambda>_. in_force F root rid X) (in_force F root rid X)"
    unfolding in_force_def by (rule valid_slots_any)
  then show ?thesis
    by (rule valid_conseq [OF valid_attempt]) (auto split: sum.splits)
qed

definition registered_tree :: "fs \<Rightarrow> path \<Rightarrow> string \<Rightarrow> tree" where
  "registered_tree fs root rid = current rid (\<lambda>n. tree_at fs (root @ [n]))"

text \<open>
  A registry as the program leaves it: each of the two slots is empty or a directory, and the registration in
  force, if any, is not an empty directory. Nothing lies below an absent entry.
\<close>

definition registry_ready :: "fs \<Rightarrow> path \<Rightarrow> string \<Rightarrow> bool" where
  "registry_ready fs root rid \<longleftrightarrow>
     plain_dir fs root \<and> well_formed rid (\<lambda>n. tree_at fs (root @ [n])) \<and>
     (\<forall>n. fs (root @ [n]) = None \<longrightarrow> tree_at fs (root @ [n]) = Map.empty)"

lemma valid_store_registration:
  assumes vis: "visible_id rid" and rid: "rid = reg_registration_id (cr_claims c)"
    and ready: "registry_ready F root rid"
  shows "valid (\<lambda>fs. fs = F) (store_registration L G root replace c)
    (\<lambda>claims fs. claims = cr_claims c \<and> (\<exists>N \<in> new_trees L G c. stored F root rid N fs))
    (in_force F root rid (insert (registered_tree F root rid) (new_trees L G c)))"
proof -
  let ?Old = "registered_tree F root rid"
  let ?E = "in_force F root rid (insert ?Old (new_trees L G c))"
  let ?Q = "\<lambda>claims fs. claims = cr_claims c \<and> (\<exists>N \<in> new_trees L G c. stored F root rid N fs)"
  note names = visible_names [OF vis]
  let ?S0 = "\<lambda>n. tree_at F (root @ [n])"
  from ready have root: "plain_dir F root" and wf: "well_formed rid ?S0"
    and closed: "?S0 n [] = None \<longrightarrow> ?S0 n = Map.empty" for n
    by (auto simp: registry_ready_def tree_at_def)
  have paths: "join_path root rid = root @ [rid]" "join_path root (''.backup-'' @ rid) = root @ [backup_name rid]"
    "join_path root (registration_temporary pid t) = root @ [registration_temporary pid t]" for pid t
    unfolding backup_name_def [symmetric] using names by (simp_all add: join_path_child)
  have finish: "valid (\<lambda>fs. case r of Inl _ \<Rightarrow> ?E fs | Inr _ \<Rightarrow> \<exists>N \<in> new_trees L G c. stored F root rid N fs)
      (if is_ok r then ret (cr_claims c)
       else andThen (attempt (remove_tree () (root @ [registration_temporary pid t]))) (\<lambda>_ :: unit + unit.
         andThen (lift r) (\<lambda>_. ret (cr_claims c)))) ?Q ?E" for r :: "string + unit" and pid t
  proof (cases r)
    case (Inl e)
    with valid_andThen [OF valid_cleanup [OF vis root] valid_throw] show ?thesis
      by (simp add: andThen_lift)
  qed (auto intro: valid_ret)
  have staged: "valid (slots F root rid S)
      (andThen (change e (mkdir (root @ [tmp]))) (\<lambda>_.
       andThen (attempt
         (andThen (write_registration_files L G (root @ [tmp]) c) (\<lambda>_.
          activate_registration replace (root @ [tmp]) (root @ [rid]) (root @ [backup_name rid])))) (\<lambda>r.
       if is_ok r then ret (cr_claims c)
       else andThen (attempt (remove_tree () (root @ [tmp]))) (\<lambda>_ :: unit + unit.
         andThen (lift r) (\<lambda>_. ret (cr_claims c)))))) ?Q ?E"
    if S: "recovered_slots rid ?S0 S" and tmp: "tmp = registration_temporary pid t" for S tmp pid t and e :: string
  proof -
    have tmp_names: "slot_name rid tmp" "plain_name tmp" "tmp \<noteq> rid" "tmp \<noteq> backup_name rid"
      using names(4,6,8) [of pid t] by (auto simp: tmp)
    from S have S': "current rid S = ?Old" "sound rid S" "S tmp = ?S0 tmp"
      using tmp_names by (auto simp: recovered_slots_def registered_tree_def)
    have kept: "?E fs" if "slots F root rid S fs" for fs
      using that S'(1,2) by (auto intro: in_forceI)
    from S'(3) closed [of tmp] have "S tmp [] = None \<longrightarrow> S tmp = Map.empty"
      by simp
    from valid_slot_new [where S = S, OF root tmp_names(1,2) this]
    have made: "valid (slots F root rid S) (change e (mkdir (root @ [tmp])))
        (\<lambda>_. slots F root rid (S(tmp := bare_tree))) ?E"
      by (rule valid_conseq) (use kept in auto)
    show ?thesis
      by (rule valid_andThen [OF made valid_andThen [OF valid_attempt
            [OF valid_stage_and_activate [OF vis root tmp S'(1,2)]] finish [of _ pid t, folded tmp]]])
  qed
  have rest: "valid (slots F root rid S)
      (andThen (path_exists (root @ [rid])) (\<lambda>present.
       if present \<and> \<not> replace then throw e1
       else andThen (path_exists (root @ [rid])) (\<lambda>present.
         if \<not> present \<and> replace then throw e2
         else andThen process_id (\<lambda>pid. andThen (read_clock e3) (\<lambda>t.
           andThen (change e4 (mkdir (root @ [registration_temporary pid t]))) (\<lambda>_.
           andThen (attempt
             (andThen (write_registration_files L G (root @ [registration_temporary pid t]) c) (\<lambda>_.
              activate_registration replace (root @ [registration_temporary pid t]) (root @ [rid])
                (root @ [backup_name rid])))) (\<lambda>r.
           if is_ok r then ret (cr_claims c)
           else andThen (attempt (remove_tree () (root @ [registration_temporary pid t]))) (\<lambda>_ :: unit + unit.
             andThen (lift r) (\<lambda>_. ret (cr_claims c)))))))))) ?Q ?E"
    if S: "recovered_slots rid ?S0 S" for S and e1 e2 e3 e4 :: string
  proof -
    have kept: "?E fs" if "slots F root rid S fs" for fs
      using that S by (auto intro: in_forceI simp: recovered_slots_def registered_tree_def)
    note staged [OF S refl]
    then show ?thesis
      by (auto intro!: valid_pass [OF reads_path_exists] valid_pass [OF reads_process_id]
          valid_pass [OF reads_clock] valid_if valid_throw kept)
  qed
  have recover: "valid (\<lambda>fs. fs = F) (recover_registration (root @ [rid]) (root @ [backup_name rid]))
      (\<lambda>_ fs. \<exists>S. recovered_slots rid ?S0 S \<and> slots F root rid S fs) ?E"
    by (rule valid_conseq [OF valid_recover [OF vis root wf]])
      (auto simp: slots_refl recovered_slots_def registered_tree_def intro: in_forceI)
  have dirs: "valid (\<lambda>fs. fs = F) (create_dir_all e root) (\<lambda>_ fs. fs = F) ?E" for e :: string
    unfolding create_dir_all_def
    by (rule valid_conseq [OF valid_existing_dirs])
      (use root wf in \<open>auto intro!: in_forceI [OF slots_refl] simp: registered_tree_def well_formed_def\<close>)
  show ?thesis
    unfolding store_registration_def Let_def rid [symmetric] paths
    by (rule valid_andThen [OF dirs valid_andThen [OF recover valid_slots_any [OF rest]]])
qed

section \<open>Recovery where nothing fails\<close>

lemma path_exists_calm: "calm w \<Longrightarrow> path_exists p w = (Inr (stat (wd_fs w) p \<noteq> None), w)"
  by (simp add: path_exists_def andThen_def attempt_def ret_def calm_query split: option.split)

lemma stat_slot:
  assumes "plain_dir fs root" and "plain_name n" and "fs (root @ [n]) = None \<or> fs (root @ [n]) = Some Dir"
  shows "stat fs (root @ [n]) = fs (root @ [n])"
proof (cases "fs (root @ [n])")
  case None
  obtain m where "realpath fs (root @ [n]) = resolve_from m fs root [n]"
    using resolve_from_append [OF realpath_dir [OF assms(1), unfolded realpath_def], of "[n]"]
    unfolding realpath_def by blast
  with assms(1,2) None show ?thesis
    by (simp add: stat_def plain_dir_node plain_name_def)
next
  case (Some x)
  with assms have "plain_dir fs (root @ [n])"
    by (simp add: plain_dir_snoc)
  with assms(3) Some show ?thesis
    by (simp add: stat_def realpath_dir node_at_def)
qed

lemma rename_slot_calm:
  assumes "plain_dir fs root" and "plain_name a" "plain_name b" and "a \<noteq> b"
    and "fs (root @ [a]) = Some Dir" and "tree_at fs (root @ [b]) = Map.empty"
  shows "\<exists>fs'. rename (root @ [a]) (root @ [b]) fs = Some ((), fs')"
proof -
  have "fs q = None" if "below (root @ [b]) q" for q
    using that assms(6) by (auto elim!: belowE simp: tree_at_def fun_eq_iff)
  then have "\<not> has_children fs (root @ [b])"
    unfolding has_children_def below_def [symmetric] by fastforce
  moreover from fun_cong [OF assms(6), of "[]"] have "fs (root @ [b]) = None"
    by (simp add: tree_at_def)
  ultimately show ?thesis
    using assms by (simp add: rename_def locate_child node_at_def)
qed

lemma recover_slot_calm:
  assumes vis: "visible_id rid" and calm: "calm w" and root: "plain_dir (wd_fs w) root"
    and sound: "sound rid (\<lambda>n. tree_at (wd_fs w) (root @ [n]))"
  shows "\<exists>w'. recover_registration (root @ [rid]) (root @ [backup_name rid]) w = (Inr (), w') \<and> calm w' \<and>
    tree_at (wd_fs w') (root @ [rid]) = registered_tree (wd_fs w) root rid \<and>
    tree_at (wd_fs w') (root @ [backup_name rid]) = Map.empty"
proof -
  let ?b = "backup_name rid"
  let ?S = "\<lambda>n. tree_at (wd_fs w) (root @ [n])"
  note names = visible_names [OF vis]
  have node: "wd_fs w (root @ [n]) = ?S n []" for n
    by (simp add: tree_at_def)
  from sound have "stat (wd_fs w) (root @ [rid]) = ?S rid []" "stat (wd_fs w) (root @ [?b]) = ?S ?b []"
    using stat_slot [OF root names(1)] stat_slot [OF root names(7)] by (auto simp: sound_def node)
  then have run: "recover_registration (root @ [rid]) (root @ [?b]) w =
      (if ?S rid [] = None \<and> ?S ?b [] \<noteq> None
       then change ''cannot recover interrupted game registration'' (rename (root @ [?b]) (root @ [rid])) w
       else if ?S rid [] \<noteq> None \<and> ?S ?b [] \<noteq> None
       then remove_tree ''cannot finish interrupted game registration'' (root @ [?b]) w else (Inr (), w))"
    by (simp add: recover_registration_def andThen_def path_exists_calm [OF calm] ret_def)
  consider "?S ?b = Map.empty" | "?S ?b [] = Some Dir" "?S rid = Map.empty" | "?S ?b [] = Some Dir" "?S rid [] = Some Dir"
    using sound by (auto simp: sound_def)
  then show ?thesis
  proof cases
    case 1
    with run sound calm show ?thesis
      by (auto simp: registered_tree_def current_def sound_def)
  next
    case 2
    from 2 rename_slot_calm [OF root names(7,1) names(5) [symmetric]] obtain fs'
      where ren: "rename (root @ [?b]) (root @ [rid]) (wd_fs w) = Some ((), fs')"
      by (auto simp: node)
    from slots_rename [OF root slots_refl slot_names(2) names(7) slot_names(1) names(1) names(5) [symmetric] _ ren]
    have "slots (wd_fs w) root rid (?S(rid := ?S ?b, ?b := Map.empty)) fs'"
      using 2 by simp
    with 2 run ren calm names(5) show ?thesis
      by (auto simp: calm_change registered_tree_def current_def slots_def)
  next
    case 3
    let ?fs' = "\<lambda>r. if below (root @ [?b]) r then None else wd_fs w r"
    have "locate (wd_fs w) (root @ [?b]) = Some (root @ [?b])"
      by (rule locate_child [OF root names(7)])
    with 3 have rem: "remove_dir_all (root @ [?b]) (wd_fs w) = Some ((), ?fs')"
      by (simp add: remove_dir_all_def node_at_def below_def node)
    from removed_slot [OF root slot_names(2) names(7) slots_refl 3(1) rem]
    have "slots (wd_fs w) root rid (?S(?b := Map.empty)) ?fs'" .
    from slots_at [OF this slot_names(1)] slots_at [OF this slot_names(2)] names(5)
    have "tree_at ?fs' (root @ [rid]) = ?S rid" "tree_at ?fs' (root @ [?b]) = Map.empty"
      by simp_all
    with 3 run rem calm show ?thesis
      by (auto simp: remove_tree_def calm_syscall registered_tree_def current_def)
  qed
qed

end
