(* ===== verification/RegistryStored.thy ===== *)
theory RegistryStored
  imports RegistryReplace
begin

text \<open>
  The registry as a store: what the checks of \<open>install_registration\<close> establish, what holds of the disk after
  it under every schedule, and that \<open>registry::load\<close> reads back what was stored
  (\<^verbatim>\<open>crates/certael-agent/src/registry.rs\<close>).
\<close>

section \<open>What the checks establish\<close>

text \<open>The signed registration is accepted at time \<open>t\<close> under the trust store that comes with it.\<close>

definition accepted_at :: "'v lib \<Rightarrow> registry_lib \<Rightarrow> checked_registration \<Rightarrow> i64 \<Rightarrow> bool" where
  "accepted_at L G c t \<longleftrightarrow>
     (\<exists>so K parsed. signed_registration L [] (cr_registration c) = Inr so \<and>
        tl_from_slice (rl_trust G) (cr_trust c) = Some parsed \<and>
        parse_trust_keys (rl_trust G) parsed = Inr K \<and> key_ring_new K = Inr K \<and>
        verify_game_registration L so K t = Inr (cr_claims c))"

definition registration_checked :: "'v lib \<Rightarrow> registry_lib \<Rightarrow> checked_registration \<Rightarrow> bool" where
  "registration_checked L G c \<longleftrightarrow>
     cr_registration c \<noteq> [] \<and> length (cr_registration c) \<le> MAX_REGISTRATION_BYTES \<and>
     cr_trust c \<noteq> [] \<and> length (cr_trust c) \<le> 64 * 1024 \<and>
     cr_update c \<noteq> [] \<and> length (cr_update c) \<le> MAX_ROOT_BYTES \<and>
     sha256 L (cr_trust c) = reg_trust_store_sha256 (cr_claims c) \<and>
     sha256 L (cr_update c) = reg_update_root_sha256 (cr_claims c) \<and>
     (\<exists>t. accepted_at L G c t)"

lemmas keeps_calls = keeps_rules keeps_reads [OF reads_now] keeps_reads [OF reads_context [OF reads_read_regular]]
  keeps_reads [OF reads_read_regular] keeps_reads [OF reads_trust_load]

lemma keeps_check_game_files: "keeps (check_game_files game_root claims)"
  unfolding check_game_files_def by (intro keeps_calls)

lemma keeps_verify_install: "keeps (verify_install L P manifest root keys rid gid now)"
  unfolding verify_install_def install_image_def by (intro keeps_calls)

lemma keeps_check_branding: "keeps (check_install_branding L P manifest root keys claims)"
  unfolding check_install_branding_def by (intro keeps_calls keeps_verify_install)

lemma keeps_check_registration:
  "keeps (check_registration_args L G signed_path trust update_root game_root manifest brand)"
  unfolding check_registration_args_def
  by (intro keeps_calls keeps_check_game_files keeps_check_branding)

lemma lstat_read: "lstat fs p = Some (File b) \<Longrightarrow> read_file fs p = Some b"
  using realpath_locate [of fs p]
  by (auto simp: lstat_def bind_eq_Some_conv plain_node_def read_file_def stat_def)

lemma trust_load_bounded:
  assumes "trust_load T p w = (Inr K, w')"
  shows "\<exists>b. read_file (wd_fs w) p = Some b \<and> length b \<le> 64 * 1024"
proof -
  from assms obtain m wa where m: "query ''Agent trust store does not exist'' (\<lambda>fs. lstat fs p) w = (Inr m, wa)"
    and rest: "(case m of
       File contents \<Rightarrow>
         if 64 * 1024 < length contents
         then throw ''Agent trust store must be a regular file no larger than 64 KiB''
         else if and (tl_mode T p) 18 \<noteq> 0
         then throw ''Agent trust store must not be group- or world-writable''
         else
           andThen (query ''cannot read Agent trust store'' (\<lambda>fs. read_file fs p)) (\<lambda>input.
           andThen (lift (ok_or ''Agent trust store is not valid JSON'' (tl_from_slice T input))) (\<lambda>parsed.
           andThen (lift (parse_trust_keys T parsed)) (\<lambda>keys.
           lift (mapErr (\<lambda>_. ''Agent trust store is invalid'') (key_ring_new keys)))))
     | _ \<Rightarrow> throw ''Agent trust store must be a regular file no larger than 64 KiB'') wa = (Inr K, w')"
    unfolding trust_load_def andThen_ok by blast
  obtain b where "m = File b" "length b \<le> 64 * 1024"
    using rest by (cases m) (simp_all add: throw_def split: if_splits)
  with m have "lstat (wd_fs w) p = Some (File b)"
    using reads_ok [OF reads_query m] by simp
  with \<open>length b \<le> 64 * 1024\<close> lstat_read show ?thesis by blast
qed

lemma signed_registration_kind: "signed_registration L kind b = Inr so \<Longrightarrow> signed_registration L kind' b = Inr so"
  by (auto simp: signed_registration_ok)

lemma check_registration_checked:
  assumes "check_registration_args L G signed_path trust update_root game_root manifest brand w = (Inr c, w1)"
  shows "registration_checked L G c"
proof -
  from assms obtain reg wa so wb K wc now wd claims we tr wf up wg root wh branding wi where
    reg: "context_msg ''signed game registration is invalid'' (read_regular signed_path MAX_REGISTRATION_BYTES) w = (Inr reg, wa)" and
    so: "signed_registration L ''signed game registration'' reg = Inr so" and
    K: "trust_load (rl_trust G) trust wb = (Inr K, wc)" "wd_fs wb = wd_fs wa" and
    now: "now_unix wc = (Inr now, wd)" and
    claims: "verify_game_registration L so K now = Inr claims" and
    tr: "context_msg ''publisher trust store is invalid'' (read_regular trust MAX_ROOT_BYTES) we = (Inr tr, wf)"
      "wd_fs we = wd_fs wd" and
    up: "context_msg ''TUF update root is invalid'' (read_regular update_root MAX_ROOT_BYTES) wf = (Inr up, wg)" and
    bound: "sha256 L tr = reg_trust_store_sha256 claims" "sha256 L up = reg_update_root_sha256 claims" and
    c: "c = \<lparr>cr_claims = claims, cr_registration = reg, cr_trust = tr, cr_update = up, cr_game_root = root,
      cr_branding = branding\<rparr>"
    unfolding check_registration_args_def
    by (auto simp: andThen_ok lift_def mapErr_ok ret_def throw_def split: if_splits)
  note regular = reads_ok [OF reads_context [OF reads_read_regular]]
  from regular [OF reg] have r: "reg \<noteq> []" "length reg \<le> MAX_REGISTRATION_BYTES" "wd_fs wa = wd_fs w" by auto
  from regular [OF tr(1)] regular [OF up] have
    t: "tr \<noteq> []" "length tr \<le> MAX_ROOT_BYTES" "read_file (wd_fs we) trust = Some tr" and
    u: "up \<noteq> []" "length up \<le> MAX_ROOT_BYTES"
    by auto
  have "wd_fs we = wd_fs wb"
    using keeps_run [OF keeps_reads [OF reads_trust_load] K(1)] keeps_run [OF keeps_reads [OF reads_now] now] tr(2) by simp
  with reads_ok [OF reads_trust_load K(1)] t(3) obtain parsed where
    "tl_from_slice (rl_trust G) tr = Some parsed" "parse_trust_keys (rl_trust G) parsed = Inr K" "key_ring_new K = Inr K"
    by auto
  with claims signed_registration_kind [OF so] have "accepted_at L G c now"
    unfolding accepted_at_def c by auto
  moreover have "length tr \<le> 64 * 1024"
    using trust_load_bounded [OF K(1)] t(3) \<open>wd_fs we = wd_fs wb\<close> by auto
  ultimately show ?thesis
    using r t u bound
    unfolding registration_checked_def c by auto
qed

text \<open>The whole operation, from a registry as the program leaves it.\<close>

lemma store_outcome:
  assumes "visible_id rid" and "rid = reg_registration_id (cr_claims c)" and "registry_ready (wd_fs w) root rid"
    and same: "wd_fs w1 = wd_fs w" and run: "store_registration L G root replace c w1 = (r, w')"
  shows "in_force (wd_fs w) root rid (insert (registered_tree (wd_fs w) root rid) (new_trees L G c)) (wd_fs w') \<and>
    (\<forall>claims. r = Inr claims \<longrightarrow>
       claims = cr_claims c \<and> (\<exists>N \<in> new_trees L G c. stored (wd_fs w) root rid N (wd_fs w')))"
proof (cases r)
  case (Inl e)
  with validD_err [OF valid_store_registration [OF assms(1-3)]] run same show ?thesis by auto
next
  case (Inr claims)
  with validD_ok [OF valid_store_registration [OF assms(1-3)]] run same
  have "claims = cr_claims c \<and> (\<exists>N \<in> new_trees L G c. stored (wd_fs w) root rid N (wd_fs w'))"
    by blast
  moreover from this have "in_force (wd_fs w) root rid (insert (registered_tree (wd_fs w) root rid) (new_trees L G c)) (wd_fs w')"
    by (auto simp: new_trees_def registration_tree_root intro: stored_in_force)
  ultimately show ?thesis
    using Inr by simp
qed

section \<open>Loading what was stored\<close>

lemma slot_file:
  assumes "plain_dir fs p" and "plain_name f" and "tree_at fs p [f] = Some (File b)"
  shows "lstat fs (p @ [f]) = Some (File b)" "read_file fs (p @ [f]) = Some b"
proof -
  show "lstat fs (p @ [f]) = Some (File b)"
    using assms by (simp add: lstat_def locate_child node_at_def tree_at_def)
  then show "read_file fs (p @ [f]) = Some b"
    by (rule lstat_read)
qed

lemma read_stored:
  assumes "calm w" and "plain_dir (wd_fs w) p" and "plain_name f"
    and "tree_at (wd_fs w) p [f] = Some (File b)" and "b \<noteq> []"
  shows "read_regular (p @ [f]) n w = (if length b \<le> n then (Inr b, w)
    else (Inl ''file is not a bounded regular file'', w))"
  using assms slot_file [OF assms(2-4)]
  by (simp add: read_regular_def andThen_def calm_query run_simps Let_def)

lemma registration_tree_files:
  "registration_tree c rb [''trust-store.json''] = Some (File (cr_trust c))"
  "registration_tree c rb [''update-root.json''] = Some (File (cr_update c))"
  "registration_tree c rb [''registration.json''] = Some (File rb)"
  by (simp_all add: registration_tree_def bare_tree_def Let_def split: option.split)

lemma trust_load_stored:
  assumes "calm w" and "plain_dir (wd_fs w) p" and "plain_name f"
    and "tree_at (wd_fs w) p [f] = Some (File b)" and "length b \<le> 64 * 1024"
    and "and (tl_mode T (p @ [f])) 18 = 0" and "tl_from_slice T b = Some parsed"
    and "parse_trust_keys T parsed = Inr K" "key_ring_new K = Inr K"
  shows "trust_load T (p @ [f]) w = (Inr K, w)"
  using assms slot_file [OF assms(2-4)]
  by (simp add: trust_load_def andThen_def calm_query run_simps)

lemma pieces_text:
  "\<forall>d \<in> set (c # p). CHR ''/'' \<notin> set d \<Longrightarrow> slash_pieces (c @ concat (map ((#) (CHR ''/'')) p)) = c # p"
proof (induction p arbitrary: c)
  case Nil
  then show ?case by (simp add: slash_pieces_single)
next
  case (Cons d p)
  then have "slash_pieces c = [c]" "slash_pieces (d @ concat (map ((#) (CHR ''/'')) p)) = d # p"
    by (simp_all add: slash_pieces_single)
  then show ?case
    by (simp add: slash_pieces_def split_on_append_sep)
qed

lemma join_path_text:
  assumes "\<forall>c \<in> set p. CHR ''/'' \<notin> set c" and "p \<noteq> []"
  shows "join_path [] (path_text p) = [] # p"
proof -
  have "slash_pieces (concat (map ((#) (CHR ''/'')) p)) = [] # p"
    using pieces_text [of "[]" p] assms(1) by simp
  moreover have "(@) ''/'' = (#) (CHR ''/'')"
    by (simp add: fun_eq_iff)
  ultimately show ?thesis
    using assms(2) by (cases p) (simp_all add: join_path_def path_text_def is_absolute_def starts_with_def)
qed

lemma load_game_path_calm:
  assumes "calm w" and "\<forall>c \<in> set root. CHR ''/'' \<notin> set c" and "root \<noteq> []" and "plain_dir (wd_fs w) root"
    and "game_found (wd_fs w) claims root game"
  shows "load_game_path (path_text root) claims w = (Inr (root, game), w)"
proof -
  have "realpath (wd_fs w) ([] # root) = Some root"
    using realpath_dir [OF assms(4)] by (simp add: realpath_def node_at_def)
  with assms show ?thesis
    by (auto simp: load_game_path_def andThen_def calm_query attempt_def run_simps join_path_text game_found_def)
qed

text \<open>The record on disk decodes to what was stored, where the JSON and base64 libraries do.\<close>

definition record_encodes :: "'v lib \<Rightarrow> registry_lib \<Rightarrow> checked_registration \<Rightarrow> bytes \<Rightarrow> bool" where
  "record_encodes L G c rb \<longleftrightarrow>
     rl_record_to_vec G (stored_record L G c) = Some rb \<and> rb \<noteq> [] \<and>
     rl_record_from_slice G rb = Some (stored_record L G c) \<and>
     rl_base64_decode G (rl_base64_encode G (cr_registration c)) = Some (cr_registration c)"

lemma load_record_stored:
  assumes "calm w" and dir: "plain_dir (wd_fs w) p"
    and tree: "tree_at (wd_fs w) p = registration_tree c rb" and enc: "record_encodes L G c rb"
    and so: "signed_registration L [] (cr_registration c) = Inr so"
  shows "load_record L G p w = (if length rb \<le> MAX_REGISTRATION_BYTES then (Inr (stored_record L G c, so), w)
    else (Inl ''registered game metadata is unavailable'', w))"
proof -
  have path: "join_path p ''registration.json'' = p @ [''registration.json'']"
    by (rule join_path_child) simp_all
  have "read_regular (p @ [''registration.json'']) n w = (if length rb \<le> n then (Inr rb, w)
      else (Inl ''file is not a bounded regular file'', w))" for n
    using assms(1,2) enc
    by (intro read_stored) (simp_all add: tree registration_tree_files plain_name_def record_encodes_def)
  moreover have "signed_registration L ''registered game signature'' (cr_registration c) = Inr so"
    by (rule signed_registration_kind [OF so])
  ultimately show ?thesis
    using enc by (simp add: load_record_def path context_msg_def andThen_def run_simps record_encodes_def stored_record_def)
qed

lemma load_claims_stored:
  assumes calm: "calm w" and dir: "plain_dir (wd_fs w) p"
    and tree: "tree_at (wd_fs w) p = registration_tree c rb" and checked: "registration_checked L G c"
    and rid: "rid = reg_registration_id (cr_claims c)"
    and mode: "and (tl_mode (rl_trust G) (p @ [''trust-store.json''])) 18 = 0"
    and clock: "wd_clock w = Some nanos # ts" "nanos div 1000000000 < 2 ^ 63"
    and so: "signed_registration L [] (cr_registration c) = Inr so"
    and K: "tl_from_slice (rl_trust G) (cr_trust c) = Some parsed" "parse_trust_keys (rl_trust G) parsed = Inr K"
      "key_ring_new K = Inr K"
    and ok: "verify_game_registration L so K (of_nat (nanos div 1000000000)) = Inr (cr_claims c)"
  shows "load_claims L G rid p so w = (Inr (K, cr_claims c), w\<lparr>wd_clock := ts\<rparr>)"
proof -
  have paths: "join_path p ''trust-store.json'' = p @ [''trust-store.json'']"
    "join_path p ''update-root.json'' = p @ [''update-root.json'']"
    by (simp_all add: join_path_child)
  have bounds: "cr_trust c \<noteq> []" "length (cr_trust c) \<le> 64 * 1024" "cr_update c \<noteq> []"
    "length (cr_update c) \<le> MAX_ROOT_BYTES"
    using checked by (simp_all add: registration_checked_def)
  have t: "read_regular (p @ [''trust-store.json'']) MAX_ROOT_BYTES w = (Inr (cr_trust c), w)"
    using read_stored [OF calm dir, of "''trust-store.json''" "cr_trust c" MAX_ROOT_BYTES] bounds
    by (simp add: tree registration_tree_files plain_name_def MAX_ROOT_BYTES_def)
  have u: "read_regular (p @ [''update-root.json'']) MAX_ROOT_BYTES w = (Inr (cr_update c), w)"
    using read_stored [OF calm dir, of "''update-root.json''" "cr_update c" MAX_ROOT_BYTES] bounds
    by (simp add: tree registration_tree_files plain_name_def)
  have k: "trust_load (rl_trust G) (p @ [''trust-store.json'']) w = (Inr K, w)"
    by (rule trust_load_stored [OF calm dir _ _ bounds(2) mode K]) (simp_all add: tree registration_tree_files plain_name_def)
  have n: "now_unix w = (Inr (of_nat (nanos div 1000000000)), w\<lparr>wd_clock := ts\<rparr>)"
    using clock by (simp add: now_unix_def andThen_def read_clock_def Let_def run_simps)
  show ?thesis
    using checked rid
    by (simp add: load_claims_def paths Let_def andThen_def t u k n ok run_simps registration_checked_def)
qed

lemma load_stored:
  assumes calm: "calm w" and vis: "visible_id rid" and root: "plain_dir (wd_fs w) root"
    and tree: "tree_at (wd_fs w) (root @ [rid]) = registration_tree c rb"
    and checked: "registration_checked L G c" and rid: "rid = reg_registration_id (cr_claims c)"
    and enc: "record_encodes L G c rb" and bare: "cr_branding c = None"
    and mode: "and (tl_mode (rl_trust G) (root @ [rid, ''trust-store.json''])) 18 = 0"
    and clock: "wd_clock w = Some nanos # ts" "nanos div 1000000000 < 2 ^ 63"
    and ok: "accepted_at L G c (of_nat (nanos div 1000000000))"
    and game: "\<forall>d \<in> set (cr_game_root c). CHR ''/'' \<notin> set d" "cr_game_root c \<noteq> []"
      "plain_dir (wd_fs w) (cr_game_root c)" "game_found (wd_fs w) (cr_claims c) (cr_game_root c) game"
    and env: "status_path env rid = Inr st"
  shows "\<exists>r w'. registry_load L G env root rid w = (r, w') \<and>
    (if length rb \<le> MAX_REGISTRATION_BYTES
     then (\<exists>g. r = Inr g \<and> rg_claims g = cr_claims c \<and> rg_game g = game \<and> rg_game_root g = cr_game_root c)
     else r = Inl ''registered game metadata is unavailable'')"
proof -
  let ?p = "root @ [rid]"
  note names = visible_names [OF vis]
  from fun_cong [OF tree, of "[]"] have "wd_fs w ?p = Some Dir"
    by (simp add: tree_at_def registration_tree_root)
  with root names(1) have dir: "plain_dir (wd_fs w) ?p"
    by (simp add: plain_dir_snoc)
  from ok obtain so K parsed where so: "signed_registration L [] (cr_registration c) = Inr so"
    and K: "tl_from_slice (rl_trust G) (cr_trust c) = Some parsed" "parse_trust_keys (rl_trust G) parsed = Inr K"
      "key_ring_new K = Inr K"
    and v: "verify_game_registration L so K (of_nat (nanos div 1000000000)) = Inr (cr_claims c)"
    by (auto simp: accepted_at_def)
  have "join_path root rid = ?p"
    using names by (simp add: join_path_child)
  moreover note load_record_stored [OF calm dir tree enc so]
  moreover have "load_claims L G rid ?p so w = (Inr (K, cr_claims c), w\<lparr>wd_clock := ts\<rparr>)"
    by (rule load_claims_stored [OF calm dir tree checked rid _ clock so K v]) (simp add: mode)
  moreover have "load_game_path (path_text (cr_game_root c)) (cr_claims c) (w\<lparr>wd_clock := ts\<rparr>)
      = (Inr (cr_game_root c, game), w\<lparr>wd_clock := ts\<rparr>)"
    by (rule load_game_path_calm) (use calm game in \<open>simp_all add: calm_def\<close>)
  ultimately show ?thesis
    using vis env bare
    by (auto simp: registry_load_def visible_id_def Let_def andThen_def run_simps load_branding_def stored_record_def)
qed

section \<open>Identifiers that collide with backups\<close>

text \<open>
  An identifier may start with \<open>.backup-\<close>; its directory is then the backup slot of another game, which
  \<open>recover_registration\<close> of that game removes.
\<close>

lemma backup_id_collides:
  assumes "visible_id rid" and "length rid \<le> 120"
  shows "is_identifier (backup_name rid)" "safe_id (backup_name rid)"
    "join_path root (backup_name rid) = root @ [backup_name rid]"
proof -
  have "list_all (\<lambda>c. is_ascii_alphanumeric c \<or> c \<in> {CHR ''.'', CHR ''_'', CHR ''-''}) (backup_name rid)"
    using assms(1) by (auto simp: visible_id_def safe_id_def backup_name_def ascii_class_defs list_all_iff)
  with assms show "is_identifier (backup_name rid)" "safe_id (backup_name rid)"
    by (simp_all add: is_identifier_def safe_id_def backup_name_def)
  show "join_path root (backup_name rid) = root @ [backup_name rid]"
    using visible_names [OF assms(1)] by (simp add: join_path_child)
qed

end
