(* ===== verification/RegistryProperties.thy ===== *)
theory RegistryProperties
  imports HostFixtures RegistryStored
begin

text \<open>
  Properties of the registry of games as a store: that replacing a registration is atomic and recoverable,
  and that what is stored can be loaded again.
\<close>

section \<open>A registry to store in\<close>

text \<open>The registry of the fixtures, with the files a publisher ships beside it.\<close>

definition store_registry :: registry_lib where
  "store_registry = sample_registry\<lparr>rl_record_to_vec := (\<lambda>_. Some [50])\<rparr>"

definition store_fs :: fs where
  "store_fs = registry_fs([''in''] \<mapsto> Dir, [''in'', ''registration''] \<mapsto> File [4],
     [''in'', ''trust''] \<mapsto> File sample_trust_file, [''in'', ''root''] \<mapsto> File [52])"

definition store_world :: world where
  "store_world = sample_world store_fs"

definition sample_checked :: checked_registration where
  "sample_checked =
     \<lparr>cr_claims = sample_registration, cr_registration = [4], cr_trust = sample_trust_file, cr_update = [52],
      cr_game_root = [''opt''], cr_branding = None\<rparr>"

lemma sample_checked_fields:
  "cr_claims sample_checked = sample_registration" "cr_game_root sample_checked = [''opt'']"
  "cr_branding sample_checked = None"
  by (simp_all add: sample_checked_def)

lemma store_files:
  "lstat store_fs [''in'', ''registration''] = Some (File [4])"
  "read_file store_fs [''in'', ''registration''] = Some [4]"
  "lstat store_fs [''in'', ''trust''] = Some (File sample_trust_file)"
  "read_file store_fs [''in'', ''trust''] = Some sample_trust_file"
  "lstat store_fs [''in'', ''root''] = Some (File [52])"
  "read_file store_fs [''in'', ''root''] = Some [52]"
  "realpath store_fs [''opt''] = Some [''opt'']" "stat store_fs [''opt''] = Some Dir"
  "realpath store_fs [''opt'', ''game''] = Some [''opt'', ''game'']"
  "read_file store_fs [''opt'', ''game''] = Some sample_exe"
  by (simp_all add: store_fs_def registry_fs_def lstat_def read_file_def stat_def locate_def realpath_def
      node_at_def MAX_SYMLINKS_def)

lemma store_calm [simp]: "calm store_world" "wd_fs store_world = store_fs"
  by (simp_all add: store_world_def sample_world_def calm_def)

lemma store_trust_loaded:
  "trust_load (rl_trust store_registry) [''in'', ''trust''] store_world = (Inr sample_keys, store_world)"
proof -
  have "key_ring_new sample_keys = Inr sample_keys"
    by (simp add: key_ring_new_ok sample_keys_def)
  then show ?thesis
    by (simp add: trust_load_def andThen_def calm_query store_files run_simps store_registry_def sample_registry_def
        sample_trust_file_def parse_trust_key_def)
      (simp add: sample_keys_def sample_root_key_def)
qed

lemma store_checks:
  "\<exists>w1. check_registration_args sample_lib store_registry [''in'', ''registration''] [''in'', ''trust''] [''in'', ''root'']
     [''opt''] None None store_world = (Inr sample_checked, w1)"
proof -
  have calm: "calm (store_world\<lparr>wd_clock := ts\<rparr>)" "wd_fs (store_world\<lparr>wd_clock := ts\<rparr>) = store_fs" for ts
    by (simp_all add: store_world_def sample_world_def calm_def)
  have now: "now_unix store_world = (Inr sample_now, store_world\<lparr>wd_clock := [Some sample_nanos, Some sample_nanos]\<rparr>)"
    by (simp add: store_world_def sample_now_read)
  have envelope: "signed_registration sample_lib kind [4] = Inr (sample_envelope REGISTRATION_DOMAIN 4)" for kind
    by (simp add: signed_registration_def, simp add: sample_envelope_def)
  have claims: "reg_executable_relative_path sample_registration = ''game''"
    "reg_trust_store_sha256 sample_registration = sample_sha sample_trust_file"
    "reg_update_root_sha256 sample_registration = sample_sha [52]"
    by (simp_all add: sample_registration_def)
  show ?thesis
    by (simp add: check_registration_args_def andThen_def context_msg_def read_regular_calm calm store_files
        MAX_REGISTRATION_BYTES_def MAX_ROOT_BYTES_def run_simps envelope store_trust_loaded now sample_verified
        check_game_files_def calm_query attempt_def registry_joins check_install_branding_def claims sample_checked_def)
qed

lemma store_slots:
  "plain_dir store_fs [''r'']" "tree_at store_fs [''r'', ''game-1''] = registration_tree sample_checked [50]"
  "tree_at store_fs [''r'', ''.backup-game-1''] = Map.empty"
  "n \<noteq> ''game-1'' \<Longrightarrow> tree_at store_fs [''r'', n] = Map.empty"
  by (simp_all add: plain_dir_def le_Suc_eq node_at_def plain_name_def tree_at_def fun_eq_iff store_fs_def
      registry_fs_def registration_tree_def bare_tree_def sample_checked_def)

lemma store_ready: "registry_ready store_fs [''r''] ''game-1''" "visible_id ''game-1''"
proof -
  have "\<exists>q. q \<noteq> [] \<and> registration_tree sample_checked [50] q \<noteq> None"
    by (rule exI [of _ "[''trust-store.json'']"]) (simp add: registration_tree_files)
  then have "well_formed ''game-1'' (\<lambda>n. tree_at store_fs ([''r''] @ [n]))"
    by (simp add: well_formed_def sound_def current_def backup_name_def store_slots registration_tree_root)
  moreover have "store_fs ([''r''] @ [''game-1'']) \<noteq> None"
    by (simp add: store_fs_def registry_fs_def)
  then have "tree_at store_fs ([''r''] @ [n]) = Map.empty" if "store_fs ([''r''] @ [n]) = None" for n
    using that store_slots(4) [of n] by (cases "n = ''game-1''") simp_all
  ultimately show "registry_ready store_fs [''r''] ''game-1''"
    using store_slots(1) by (simp add: registry_ready_def)
  show "visible_id ''game-1''"
    by (simp add: visible_id_def safe_id_def ascii_class_defs starts_with_def)
qed

lemma store_encodes: "record_encodes sample_lib store_registry sample_checked [50]"
  by (simp add: record_encodes_def store_registry_def sample_registry_def stored_record_def sample_checked_def
      path_text_def)

section \<open>Replacing a registration\<close>

text \<open>C15: \<open>install_registration\<close>, which registers a game or updates its registration, leaves the old
  registration or the new one in force, whole, however its calls fail and wherever the process is killed:
  in the game's own directory, or in the backup from which the next run restores it. If it reports success
  the new one is in the game's directory. Nothing else in the file system changes but staging directories.\<close>

theorem registration_replaced_whole:
  assumes "check_registration_args L G signed_path trust update_root game_root manifest brand w = (Inr c, w1)"
    and "rid = reg_registration_id (cr_claims c)" and "visible_id rid" and "registry_ready (wd_fs w) root rid"
    and "install_registration L G root signed_path trust update_root game_root manifest brand replace w = (r, w')"
  shows "registered_tree (wd_fs w') root rid \<in> insert (registered_tree (wd_fs w) root rid) (new_trees L G c) \<and>
    (\<forall>claims. r = Inr claims \<longrightarrow> claims = cr_claims c \<and> tree_at (wd_fs w') (root @ [rid]) \<in> new_trees L G c) \<and>
    (\<forall>w2. calm w2 \<and> wd_fs w2 = wd_fs w' \<longrightarrow>
       (\<exists>w3. recover_registration (root @ [rid]) (root @ [backup_name rid]) w2 = (Inr (), w3) \<and>
          tree_at (wd_fs w3) (root @ [rid]) = registered_tree (wd_fs w') root rid)) \<and>
    (\<forall>q. (\<forall>n. slot_name rid n \<longrightarrow> \<not> below (root @ [n]) q) \<longrightarrow> wd_fs w' q = wd_fs w q)"
proof -
  let ?F = "wd_fs w"
  let ?New = "new_trees L G c"
  have "wd_fs w1 = ?F"
    by (rule keeps_run [OF keeps_check_registration assms(1)])
  moreover from assms(1,5) have run: "store_registration L G root replace c w1 = (r, w')"
    by (simp add: install_registration_def andThen_def)
  ultimately have "in_force ?F root rid (insert (registered_tree ?F root rid) ?New) (wd_fs w') \<and>
      (\<forall>claims. r = Inr claims \<longrightarrow> claims = cr_claims c \<and> (\<exists>N \<in> ?New. stored ?F root rid N (wd_fs w')))"
    using store_outcome [OF assms(3,2,4) _ run] by simp
  then obtain S where S: "current rid S \<in> insert (registered_tree ?F root rid) ?New" "sound rid S"
      "slots ?F root rid S (wd_fs w')"
    and ok: "\<forall>claims. r = Inr claims \<longrightarrow> claims = cr_claims c \<and> (\<exists>N \<in> ?New. stored ?F root rid N (wd_fs w'))"
    by (auto simp: in_force_def)
  have "tree_at (wd_fs w') (root @ [rid]) = N" if "stored ?F root rid N (wd_fs w')" for N
    using that slots_at [OF _ slot_names(1)] unfolding stored_def by blast
  with ok have "\<forall>claims. r = Inr claims \<longrightarrow> claims = cr_claims c \<and> tree_at (wd_fs w') (root @ [rid]) \<in> ?New"
    by blast
  moreover have "registered_tree (wd_fs w') root rid = current rid S"
    and "sound rid (\<lambda>n. tree_at (wd_fs w') (root @ [n]))"
    using S(2) slots_at [OF S(3) slot_names(1)] slots_at [OF S(3) slot_names(2)]
    by (simp_all add: registered_tree_def current_def sound_def)
  moreover have root: "plain_dir (wd_fs w') root"
    using slots_dir [OF _ S(3)] assms(4) by (simp add: registry_ready_def)
  moreover have "\<exists>w3. recover_registration (root @ [rid]) (root @ [backup_name rid]) w2 = (Inr (), w3) \<and>
      tree_at (wd_fs w3) (root @ [rid]) = registered_tree (wd_fs w') root rid"
    if "calm w2" "wd_fs w2 = wd_fs w'" "sound rid (\<lambda>n. tree_at (wd_fs w') (root @ [n]))" for w2
    using recover_slot_calm [OF assms(3) that(1), of root] root that(2,3) by auto
  moreover have "\<forall>q. (\<forall>n. slot_name rid n \<longrightarrow> \<not> below (root @ [n]) q) \<longrightarrow> wd_fs w' q = wd_fs w q"
    using S(3) by (simp add: slots_def)
  ultimately show ?thesis
    using S(1) by auto
qed

lemma registration_replaced_whole_witness:
  "\<exists>r w'. install_registration sample_lib store_registry [''r''] [''in'', ''registration''] [''in'', ''trust'']
       [''in'', ''root''] [''opt''] None None True store_world = (r, w') \<and>
     registered_tree (wd_fs w') [''r''] ''game-1'' = registration_tree sample_checked [50]"
proof -
  have rid: "''game-1'' = reg_registration_id (cr_claims sample_checked)"
    by (simp add: sample_checked_def sample_registration_def)
  have new: "new_trees sample_lib store_registry sample_checked = {registration_tree sample_checked [50]}"
    by (simp add: new_trees_def store_registry_def)
  have old: "registered_tree store_fs [''r''] ''game-1'' = registration_tree sample_checked [50]"
    by (simp add: registered_tree_def current_def store_slots registration_tree_root)
  from store_checks obtain w1 where checks: "check_registration_args sample_lib store_registry
      [''in'', ''registration''] [''in'', ''trust''] [''in'', ''root''] [''opt''] None None store_world
    = (Inr sample_checked, w1)" by blast
  obtain r w' where run: "install_registration sample_lib store_registry [''r''] [''in'', ''registration'']
     [''in'', ''trust''] [''in'', ''root''] [''opt''] None None True store_world = (r, w')"
    by fastforce
  have "registry_ready (wd_fs store_world) [''r''] ''game-1''"
    using store_ready(1) by simp
  from conjunct1 [OF registration_replaced_whole [OF checks rid store_ready(2) this run]]
  have "registered_tree (wd_fs w') [''r''] ''game-1'' = registration_tree sample_checked [50]"
    by (simp add: new old)
  with run show ?thesis by blast
qed

section \<open>Loading what was stored\<close>

text \<open>C16: a registration without artwork that \<open>install_registration\<close> stored is loaded again, with the claims that were
  checked and the game of their root, as long as it is still valid and its game still there, exactly when its
  record has at most 64 KiB. The checks bound the signed registration by 64 KiB, but the record holds it in
  base64, so a larger registration is stored, also over one that could be loaded, and never loads.\<close>

theorem stored_registration_loads:
  assumes "check_registration_args L G signed_path trust update_root game_root manifest brand w0 = (Inr c, w1)"
    and "rid = reg_registration_id (cr_claims c)" and "visible_id rid" and "cr_branding c = None"
    and "record_encodes L G c rb" and "tree_at (wd_fs w) (root @ [rid]) = registration_tree c rb"
    and "calm w" and "plain_dir (wd_fs w) root" and "wd_clock w = Some nanos # ts"
    and "nanos div 1000000000 < 2 ^ 63" and "accepted_at L G c (of_nat (nanos div 1000000000))"
    and "and (tl_mode (rl_trust G) (root @ [rid, ''trust-store.json''])) 18 = 0"
    and "\<forall>d \<in> set (cr_game_root c). CHR ''/'' \<notin> set d" and "cr_game_root c \<noteq> []"
    and "plain_dir (wd_fs w) (cr_game_root c)" and "game_found (wd_fs w) (cr_claims c) (cr_game_root c) game"
    and "status_path env rid = Inr st"
  shows "\<exists>r w'. registry_load L G env root rid w = (r, w') \<and>
    (if length rb \<le> MAX_REGISTRATION_BYTES
     then (\<exists>g. r = Inr g \<and> rg_claims g = cr_claims c \<and> rg_game g = game \<and> rg_game_root g = cr_game_root c)
     else r = Inl ''registered game metadata is unavailable'')"
  by (rule load_stored [OF assms(7,3,8,6) check_registration_checked [OF assms(1)] assms(2,5,4,12,9,10,11,13-17)])

lemma stored_registration_loads_witness:
  "\<exists>g w'. registry_load sample_lib store_registry [''HOME'' \<mapsto> [''home'']] [''r''] ''game-1'' store_world = (Inr g, w') \<and>
     rg_game g = [''opt'', ''game'']"
proof -
  from store_checks obtain w1 where checks: "check_registration_args sample_lib store_registry
      [''in'', ''registration''] [''in'', ''trust''] [''in'', ''root''] [''opt''] None None store_world
    = (Inr sample_checked, w1)" by blast
  have "plain_dir store_fs [''opt'']"
    by (simp add: plain_dir_def le_Suc_eq node_at_def plain_name_def store_fs_def registry_fs_def)
  moreover have "game_found store_fs sample_registration [''opt''] [''opt'', ''game'']"
    by (simp add: game_found_def sample_registration_def registry_joins store_files)
  moreover have "accepted_at sample_lib store_registry sample_checked sample_now"
  proof -
    have "signed_registration sample_lib [] [4] = Inr (sample_envelope REGISTRATION_DOMAIN 4)"
      by (simp add: signed_registration_def, simp add: sample_envelope_def)
    moreover have "key_ring_new sample_keys = Inr sample_keys"
      by (simp add: key_ring_new_ok sample_keys_def)
    moreover have "\<exists>parsed. tl_from_slice (rl_trust store_registry) sample_trust_file = Some parsed \<and>
        parse_trust_keys (rl_trust store_registry) parsed = Inr sample_keys"
      by (simp add: store_registry_def sample_registry_def parse_trust_key_def)
        (simp add: sample_keys_def sample_root_key_def)
    ultimately show ?thesis
      using sample_verified by (auto simp: accepted_at_def sample_checked_def)
  qed
  moreover have "of_nat (sample_nanos div 1000000000) = sample_now" "sample_nanos div 1000000000 < 2 ^ 63"
    by (simp_all add: sample_nanos_def sample_now_def)
  moreover have "wd_clock store_world = Some sample_nanos # [Some sample_nanos, Some sample_nanos]"
    by (simp add: store_world_def sample_world_def)
  moreover have "and (tl_mode (rl_trust store_registry) ([''r''] @ [''game-1'', ''trust-store.json''])) 18 = 0"
    by (simp add: store_registry_def sample_registry_def)
  moreover have "\<exists>st. status_path [''HOME'' \<mapsto> [''home'']] ''game-1'' = Inr st"
    using store_ready(2) by (simp add: status_path_def visible_id_def)
  then obtain st where "status_path [''HOME'' \<mapsto> [''home'']] ''game-1'' = Inr st" by blast
  moreover have "''game-1'' = reg_registration_id sample_registration"
    by (simp add: sample_registration_def)
  ultimately show ?thesis
    using stored_registration_loads [OF checks _ store_ready(2) _ store_encodes, of store_world "[''r'']"
        sample_nanos "[Some sample_nanos, Some sample_nanos]" "[''opt'', ''game'']" "[''HOME'' \<mapsto> [''home'']]" st]
      store_slots(1,2)
    by (simp add: sample_checked_fields MAX_REGISTRATION_BYTES_def) blast
qed

end
