(* ===== verification/RustUnicode.thy ===== *)
theory RustUnicode
  imports RustText
begin

text \<open>
  Rust's conversions between text and code units: \<open>String::from_utf16_lossy\<close>, the UTF-8 encoding of a
  character, and \<open>str::from_utf8\<close>, the check that bytes are text.
\<close>

section \<open>Encoding\<close>

definition is_scalar :: "nat \<Rightarrow> bool" where
  "is_scalar n \<longleftrightarrow> n < 0xD800 \<or> 0xDFFF < n \<and> n < 0x110000"

definition utf8_encode :: "nat \<Rightarrow> string" where
  "utf8_encode n =
     (if n < 0x80 then [char_of n]
      else if n < 0x800 then [char_of (192 + n div 64), char_of (128 + n mod 64)]
      else if n < 0x10000 then
        [char_of (224 + n div 4096), char_of (128 + n div 64 mod 64), char_of (128 + n mod 64)]
      else
        [char_of (240 + n div 262144), char_of (128 + n div 4096 mod 64), char_of (128 + n div 64 mod 64),
         char_of (128 + n mod 64)])"

definition utf8_string :: "nat list \<Rightarrow> string" where
  "utf8_string cs = concat (map utf8_encode cs)"

definition from_utf8 :: "string \<Rightarrow> string option" where
  "from_utf8 s =
     (let cs = utf8_chars s in if list_all is_scalar cs \<and> utf8_string cs = s then Some s else None)"

text \<open>A surrogate without its partner becomes the replacement character.\<close>

fun utf16_chars :: "16 word list \<Rightarrow> nat list" where
  "utf16_chars [] = []"
| "utf16_chars (u # us) =
     (let n = unat u in
      if n < 0xD800 \<or> 0xDFFF < n then n # utf16_chars us
      else if 0xDC00 \<le> n then 0xFFFD # utf16_chars us
      else
        (case us of
           [] \<Rightarrow> [0xFFFD]
         | v # vs \<Rightarrow>
             if 0xDC00 \<le> unat v \<and> unat v \<le> 0xDFFF
             then (0x10000 + (n - 0xD800) * 0x400 + (unat v - 0xDC00)) # utf16_chars vs
             else 0xFFFD # utf16_chars us))"

definition from_utf16_lossy :: "16 word list \<Rightarrow> string" where
  "from_utf16_lossy us = utf8_string (utf16_chars us)"

text \<open>\<open>encode_utf16\<close>, and \<open>OsStr::encode_wide\<close> of a text.\<close>

definition encode_utf16 :: "nat \<Rightarrow> 16 word list" where
  "encode_utf16 n =
     (if n < 0x10000 then [of_nat n]
      else [of_nat (0xD800 + (n - 0x10000) div 0x400), of_nat (0xDC00 + (n - 0x10000) mod 0x400)])"

definition encode_wide :: "string \<Rightarrow> 16 word list" where
  "encode_wide s = concat (map encode_utf16 (utf8_chars s))"

section \<open>Facts\<close>

lemma code_char_of: "n < 256 \<Longrightarrow> code (char_of n) = n"
  by (simp add: of_char_of take_bit_nat_eq_self)

lemma length_utf8_encode: "length (utf8_encode n) \<le> 4" "n < 0x10000 \<Longrightarrow> length (utf8_encode n) \<le> 3"
  "utf8_encode n \<noteq> []"
  by (simp_all add: utf8_encode_def)

lemma utf8_chars_encode:
  assumes "is_scalar n"
  shows "utf8_chars (utf8_encode n @ s) = n # utf8_chars s"
proof -
  have n: "n < 0x110000"
    using assms by (auto simp: is_scalar_def)
  have small: "m mod 64 < 64" for m :: nat
    by simp
  have a: "n = n div 64 * 64 + n mod 64" "n div 64 = n div 4096 * 64 + n div 64 mod 64"
    "n div 4096 = n div 262144 * 64 + n div 4096 mod 64"
    using div_mult_mod_eq [of n 64] div_mult_mod_eq [of "n div 64" 64] div_mult_mod_eq [of "n div 4096" 64]
    by (simp_all add: div_mult2_eq [symmetric])
  consider "n < 0x80" | "0x80 \<le> n" "n < 0x800" | "0x800 \<le> n" "n < 0x10000" | "0x10000 \<le> n"
    by linarith
  then show ?thesis
  proof cases
    case 2
    then have "n div 64 < 32" "2 \<le> n div 64"
      by auto
    then show ?thesis
      using 2 by (simp add: utf8_encode_def code_char_of)
  next
    case 3
    then have "n div 4096 < 16"
      by auto
    moreover have "n div 4096 * 4096 + n div 64 mod 64 * 64 + n mod 64 = n"
      using a(1,2) by linarith
    ultimately show ?thesis
      using 3 small [of n] small [of "n div 64"] by (simp add: utf8_encode_def code_char_of)
  next
    case 4
    with n have "n div 262144 < 5"
      by auto
    moreover have "n div 262144 * 262144 + n div 4096 mod 64 * 4096 + n div 64 mod 64 * 64 + n mod 64 = n"
      using a by linarith
    ultimately show ?thesis
      using 4 small [of n] small [of "n div 64"] small [of "n div 4096"]
      by (simp add: utf8_encode_def code_char_of)
  qed (simp add: utf8_encode_def code_char_of)
qed

lemma utf8_chars_string: "list_all is_scalar cs \<Longrightarrow> utf8_chars (utf8_string cs) = cs"
  by (induction cs) (simp_all add: utf8_string_def utf8_chars_encode)

lemma from_utf8_iff: "from_utf8 s = Some t \<longleftrightarrow> t = s \<and> (\<exists>cs. list_all is_scalar cs \<and> s = utf8_string cs)"
  by (auto simp: from_utf8_def Let_def utf8_chars_string)

lemma utf16_chars_scalar: "list_all is_scalar (utf16_chars us)"
proof (induction us rule: utf16_chars.induct)
  case (2 u us)
  have "unat u < 65536"
    using unsigned_less [of u, where 'a = nat] by simp
  with 2 show ?case
    by (auto simp: is_scalar_def Let_def split: list.splits)
qed simp

lemma from_utf16_lossy_text: "from_utf8 (from_utf16_lossy us) = Some (from_utf16_lossy us)"
  unfolding from_utf8_iff from_utf16_lossy_def using utf16_chars_scalar by blast

lemma length_utf8_string: "length (utf8_string (n # cs)) = length (utf8_encode n) + length (utf8_string cs)"
  by (simp add: utf8_string_def)

text \<open>A character comes from one code unit, or is four bytes and comes from two.\<close>

lemma utf16_chars_step:
  obtains (unit) n where "utf16_chars (u # us) = n # utf16_chars us" "n < 0x10000"
  | (pair) n v vs where "us = v # vs" "utf16_chars (u # us) = n # utf16_chars vs"
proof -
  have u: "unat u < 65536"
    using unsigned_less [of u, where 'a = nat] by simp
  consider "unat u < 0xD800 \<or> 0xDFFF < unat u" | "0xDC00 \<le> unat u" "unat u \<le> 0xDFFF"
    | "0xD800 \<le> unat u" "unat u < 0xDC00"
    by linarith
  then show thesis
  proof cases
    case 1
    with u show thesis by (intro unit [of "unat u"]) auto
  next
    case 2
    then show thesis by (intro unit [of "0xFFFD"]) auto
  next
    case 3
    show thesis
    proof (cases us)
      case (Cons v vs)
      with 3 show thesis
        by (cases "0xDC00 \<le> unat v \<and> unat v \<le> 0xDFFF") (auto intro: unit [of "0xFFFD"] pair [OF Cons])
    qed (use 3 in \<open>auto intro: unit [of "0xFFFD"]\<close>)
  qed
qed

lemma utf16_chars_nonempty: "utf16_chars (u # us) \<noteq> []"
  by (rule utf16_chars_step [of u us]) (simp_all del: utf16_chars.simps)

lemma length_utf16_chars: "length (utf8_string (utf16_chars us)) \<le> 3 * length us"
proof (induction us rule: length_induct)
  case (1 us)
  show ?case
  proof (cases us)
    case (Cons u rest)
    show ?thesis
    proof (cases rule: utf16_chars_step [of u rest])
      case (unit n)
      from 1 Cons have "length (utf8_string (utf16_chars rest)) \<le> 3 * length rest"
        by simp
      with unit Cons length_utf8_encode(2) [of n] show ?thesis
        by (simp add: length_utf8_string del: utf16_chars.simps)
    next
      case (pair n v vs)
      from 1 Cons pair(1) have "length (utf8_string (utf16_chars vs)) \<le> 3 * length vs"
        by simp
      with pair Cons length_utf8_encode(1) [of n] show ?thesis
        by (simp add: length_utf8_string del: utf16_chars.simps)
    qed
  qed (simp add: utf8_string_def)
qed

lemma length_from_utf16_lossy: "length (from_utf16_lossy us) \<le> 3 * length us"
  by (simp add: from_utf16_lossy_def length_utf16_chars)

lemma utf16_encode_Cons:
  assumes "is_scalar n"
  shows "utf16_chars (encode_utf16 n @ us) = n # utf16_chars us"
proof (cases "n < 0x10000")
  case True
  then have "unat (of_nat n :: 16 word) = n"
    by (simp add: unat_of_nat)
  with True assms show ?thesis
    by (auto simp: encode_utf16_def is_scalar_def)
next
  case False
  define m where "m = n - 0x10000"
  from False assms have n: "n = m + 0x10000" "m < 0x100000"
    by (auto simp: m_def is_scalar_def)
  then have "m div 0x400 < 0x400" "m mod 0x400 < 0x400"
    by auto
  moreover from this have "unat (of_nat (0xD800 + m div 0x400) :: 16 word) = 0xD800 + m div 0x400"
    "unat (of_nat (0xDC00 + m mod 0x400) :: 16 word) = 0xDC00 + m mod 0x400"
    by (simp_all only: unat_of_nat, simp_all)
  ultimately show ?thesis
    using False by (simp add: encode_utf16_def n Let_def del: of_nat_add)
qed

lemma utf16_roundtrip: "list_all is_scalar cs \<Longrightarrow> utf16_chars (concat (map encode_utf16 cs)) = cs"
  by (induction cs) (simp_all add: utf16_encode_Cons del: utf16_chars.simps(2))

text \<open>Text, as Rust's \<open>String\<close> always is: it comes back from UTF-16 as it was.\<close>

definition is_text :: "string \<Rightarrow> bool" where
  "is_text s \<longleftrightarrow> from_utf8 s = Some s"

lemma is_text_iff: "is_text s \<longleftrightarrow> (\<exists>cs. list_all is_scalar cs \<and> s = utf8_string cs)"
  by (simp add: is_text_def from_utf8_iff)

lemma is_text_append: "is_text s \<Longrightarrow> is_text t \<Longrightarrow> is_text (s @ t)"
  unfolding is_text_iff by (metis concat_append list_all_append map_append utf8_string_def)

lemma is_text_ascii:
  assumes "\<forall>c \<in> set s. code c < 128"
  shows "is_text s"
proof -
  have "s = utf8_string (map of_char s)"
    using assms by (induction s) (simp_all add: utf8_string_def utf8_encode_def)
  moreover have "list_all is_scalar (map of_char s)"
    using assms by (force simp: list_all_iff is_scalar_def)
  ultimately show ?thesis
    unfolding is_text_iff by blast
qed

lemma from_utf16_encode_wide:
  assumes "is_text s"
  shows "from_utf16_lossy (encode_wide s) = s"
  using assms by (auto simp: is_text_iff from_utf16_lossy_def encode_wide_def utf8_chars_string utf16_roundtrip)

lemma encode_utf16_zero: "is_scalar n \<Longrightarrow> 0 \<in> set (encode_utf16 n) \<longleftrightarrow> n = 0"
proof -
  assume n: "is_scalar n"
  have small: "of_nat k = (0 :: 16 word) \<longleftrightarrow> k = 0" if "k < 65536" for k
  proof
    assume "of_nat k = (0 :: 16 word)"
    then have "unat (of_nat k :: 16 word) = 0"
      by simp
    with that show "k = 0"
      by (simp only: unat_of_nat) simp
  qed simp
  show ?thesis
  proof (cases "n < 0x10000")
    case False
    with n have "(n - 0x10000) div 0x400 < 0x400"
      by (auto simp: is_scalar_def)
    then have "of_nat (0xD800 + (n - 0x10000) div 0x400) \<noteq> (0 :: 16 word)"
      "of_nat (0xDC00 + (n - 0x10000) mod 0x400) \<noteq> (0 :: 16 word)"
      by (subst small; simp)+
    with False show ?thesis
      by (auto simp: encode_utf16_def)
  qed (auto simp: encode_utf16_def small)
qed

lemma encode_wide_zero:
  assumes "is_text s" and "CHR 0x00 \<notin> set s"
  shows "0 \<notin> set (encode_wide s)"
proof -
  from assms(1) obtain cs where cs: "list_all is_scalar cs" "s = utf8_string cs"
    by (auto simp: is_text_iff)
  have "utf8_encode 0 = [CHR 0x00]"
    by (simp add: utf8_encode_def char_of_def)
  with cs(2) assms(2) have "0 \<notin> set cs"
    by (force simp: utf8_string_def)
  with cs show ?thesis
    by (auto simp: encode_wide_def utf8_chars_string list_all_iff encode_utf16_zero)
qed

end
