(* ===== verification/WindowsLaunch.thy ===== *)
theory WindowsLaunch
  imports Launch LaunchEnvironment RustUnicode
begin

text \<open>
  Starting a game on Windows: \<open>launch\<close> of \<^verbatim>\<open>crates/certael-agent/src/windows_launch.rs\<close> with its helpers.

  A step acts on a \<open>kernel\<close>: whether each of the next system calls succeeds, the next handle value, the
  handles that a value of the program still owns, and the calls that succeeded, in order. The calls
  themselves are events; what they do is documented, not in the sources, and no definition here depends on it.
  Handle values are never reused. \<open>OwnedHandle\<close> and \<open>File\<close> close what they own when they go out of scope, on
  every way out, in the reverse order of their declaration: \<open>owning\<close>, \<open>guarded\<close>.
\<close>

unbundle bit_operations_syntax

section \<open>System calls\<close>

type_synonym handle = nat

datatype creation_flag = Extended_startup_info | Unicode_environment | Create_suspended

datatype job_limit = Kill_on_job_close

record creation =
  pc_application :: "16 word list"
  pc_command_line :: "16 word list"
  pc_environment :: "16 word list"
  pc_inherit_handles :: bool
  pc_flags :: "creation_flag list"

datatype event =
    Pipe_created handle handle
  | Inheritance_cleared handle
  | Attribute_size_read
  | Attributes_initialized
  | Handle_list_set "handle list"
  | Mitigations_set u64
  | Attributes_deleted
  | Process_created creation handle handle
  | Job_created handle
  | Job_limited handle job_limit
  | Job_assigned handle handle
  | Thread_resumed handle
  | Moved_to_reader handle
  | Session_ongoing "(string \<times> string option) list"
  | Session_ended "string + unit" "(string \<times> string option) list"
  | Waited_for handle
  | Exit_code_read handle
  | Closed handle

record kernel =
  kn_answers :: "bool list"
  kn_next :: handle
  kn_owned :: "handle list"
  kn_events :: "event list"

type_synonym 'a win = "(kernel, string, 'a) fallible"

definition note_event :: "event \<Rightarrow> kernel \<Rightarrow> kernel" where
  "note_event e k = k\<lparr>kn_events := kn_events k @ [e]\<rparr>"

text \<open>A call that succeeds or fails as the kernel answers; a failed call has no effect.\<close>

definition api :: "string \<Rightarrow> event \<Rightarrow> unit win" where
  "api message e k =
     (case kn_answers k of
        True # answers \<Rightarrow> (Inr (), note_event e (k\<lparr>kn_answers := answers\<rparr>))
      | answers \<Rightarrow> (Inl message, k\<lparr>kn_answers := tl answers\<rparr>))"

definition fresh :: "handle win" where
  "fresh k = (Inr (kn_next k), k\<lparr>kn_next := kn_next k + 1\<rparr>)"

section \<open>Owned handles\<close>

text \<open>\<open>CloseHandle\<close>, for a handle that is still owned.\<close>

definition drop_handle :: "handle \<Rightarrow> kernel \<Rightarrow> kernel" where
  "drop_handle h k =
     (if h \<in> set (kn_owned k) then note_event (Closed h) (k\<lparr>kn_owned := remove1 h (kn_owned k)\<rparr>) else k)"

text \<open>What happens on the way out of a scope. A launch that is still going on has not left it.\<close>

definition leaving :: "(kernel \<Rightarrow> kernel) \<Rightarrow> session_end win \<Rightarrow> session_end win" where
  "leaving out m k = (case m k of (r, k') \<Rightarrow> (r, if r = Inr Ongoing then k' else out k'))"

definition guarded :: "handle \<Rightarrow> session_end win \<Rightarrow> session_end win" where
  "guarded h = leaving (drop_handle h)"

definition owning :: "handle list \<Rightarrow> session_end win \<Rightarrow> session_end win" where
  "owning hs m k = leaving (fold drop_handle (rev hs)) m (k\<lparr>kn_owned := hs @ kn_owned k\<rparr>)"

definition drop_now :: "handle \<Rightarrow> unit win" where
  "drop_now h k = (Inr (), drop_handle h k)"

text \<open>A handle given away to the thread that reads the channel.\<close>

definition move_to_reader :: "handle \<Rightarrow> unit win" where
  "move_to_reader h k = (Inr (), note_event (Moved_to_reader h) (k\<lparr>kn_owned := remove1 h (kn_owned k)\<rparr>))"

definition with_attributes :: "session_end win \<Rightarrow> session_end win" where
  "with_attributes = leaving (note_event Attributes_deleted)"

definition create_pipe :: "(handle \<Rightarrow> handle \<Rightarrow> session_end win) \<Rightarrow> session_end win" where
  "create_pipe body =
     andThen fresh (\<lambda>read. andThen fresh (\<lambda>write.
     andThen (api ''failed to create inherited Agent pipe'' (Pipe_created read write)) (\<lambda>_.
     owning [read, write] (body read write))))"

definition clear_inheritance :: "handle \<Rightarrow> unit win" where
  "clear_inheritance h = api ''failed to secure Agent pipe handle'' (Inheritance_cleared h)"

definition create_containment_job :: "(handle \<Rightarrow> session_end win) \<Rightarrow> session_end win" where
  "create_containment_job body =
     andThen fresh (\<lambda>job.
     andThen (api ''failed to create game containment job'' (Job_created job)) (\<lambda>_.
     owning [job]
       (andThen (api ''failed to configure game containment job'' (Job_limited job Kill_on_job_close)) (\<lambda>_.
        body job))))"

section \<open>What the child is given\<close>

definition mitigation_policy :: u64 where
  "mitigation_policy =
     0x00000001 OR 0x00000004 OR 0x00000100 OR 0x00001000 OR 0x00010000 OR 0x00100000 OR 0x01000000"

definition wide :: "string \<Rightarrow> 16 word list" where
  "wide value = encode_wide value @ [0]"

definition environment_block_from ::
    "(string \<Rightarrow> string) \<Rightarrow> (string \<times> string) list \<Rightarrow> handle \<Rightarrow> handle \<Rightarrow> string + 16 word list"
where
  "environment_block_from upper values read write =
     bindE (sanitize_environment_entries upper values read write) (\<lambda>entries.
     Inr (concat (map (\<lambda>(key, v). encode_wide (key @ ''='' @ v) @ [0]) entries) @ [0]))"

text \<open>\<open>vars\<close> are the variables of the Agent, \<^const>\<open>None\<close> where a name or value is not Unicode.\<close>

definition environment_block ::
    "(string \<Rightarrow> string) \<Rightarrow> (string option \<times> string option) list \<Rightarrow> handle \<Rightarrow> handle \<Rightarrow> string + 16 word list"
where
  "environment_block upper vars read write =
     environment_block_from upper
       (List.map_filter (\<lambda>(key, v). case (key, v) of (Some k, Some x) \<Rightarrow> Some (k, x) | _ \<Rightarrow> None) vars) read write"

section \<open>The launch\<close>

definition create_process :: "creation \<Rightarrow> (handle \<Rightarrow> handle \<Rightarrow> session_end win) \<Rightarrow> session_end win" where
  "create_process c body =
     andThen fresh (\<lambda>process. andThen fresh (\<lambda>thread.
     andThen (api ''failed to launch protected game'' (Process_created c process thread)) (\<lambda>_.
     owning [process, thread] (body process thread))))"

text \<open>
  Running the session on the channel. The reader's handle goes to the thread that reads frames, the
  writer's is closed when the session has ended well, and on every other way out. \<open>Ongoing\<close>: the ticks end first.
\<close>

definition run_session ::
    "'v lib \<Rightarrow> 'r launch_host \<Rightarrow> RuntimeState \<Rightarrow> handle \<Rightarrow> handle \<Rightarrow> session_end win \<Rightarrow> session_end win"
where
  "run_session L H state agent_read agent_write after =
     guarded agent_write
       (andThen (move_to_reader agent_read) (\<lambda>_.
        case serve L (lh_serve H) state \<lparr>io_writer = lh_writer H, io_published = []\<rparr> (lh_ticks H) of
          Running s \<Rightarrow> (\<lambda>k. (Inr Ongoing, note_event (Session_ongoing (io_published (ls_io s))) k))
        | Finished r x \<Rightarrow>
            (\<lambda>k. let k = note_event (Session_ended r (io_published x)) k in
             case r of
               Inl e \<Rightarrow> (Inl ''protected Agent session failed'', k)
             | Inr _ \<Rightarrow> andThen (drop_now agent_write) (\<lambda>_. after) k)))"

definition wait_for_game :: "'r launch_host \<Rightarrow> handle \<Rightarrow> session_end win" where
  "wait_for_game H process =
     andThen (api ''failed while waiting for protected game'' (Waited_for process)) (\<lambda>_.
     andThen (api ''failed to read protected game exit code'' (Exit_code_read process)) (\<lambda>_.
     if lh_exit_success H \<noteq> Some True then throw ''game exited unsuccessfully'' else ret Ended))"

text \<open>From the suspended process on: contain it, let it run, serve it. \<open>identity\<close> is \<open>process_identity\<close>.\<close>

definition run_contained ::
    "'v lib \<Rightarrow> 'r launch_host \<Rightarrow> (nat \<Rightarrow> nat option) \<Rightarrow> nat \<Rightarrow> RuntimeState
      \<Rightarrow> handle \<Rightarrow> handle \<Rightarrow> handle \<Rightarrow> handle \<Rightarrow> handle \<Rightarrow> handle \<Rightarrow> session_end win"
where
  "run_contained L H identity pid state game_read game_write agent_read agent_write process thread =
     create_containment_job (\<lambda>job.
     andThen (api ''failed to contain protected game'' (Job_assigned job process)) (\<lambda>_.
     andThen (api ''failed to resume contained game'' (Thread_resumed thread)) (\<lambda>_.
     andThen (drop_now game_read) (\<lambda>_.
     andThen (drop_now game_write) (\<lambda>_.
     run_session L H
       (state\<lparr>rts_game_process_id := pid, rts_game_process_identity := identity pid\<rparr>)
       agent_read agent_write (wait_for_game H process))))))"

text \<open>The attributes of the child: the two handles it inherits and its mitigations.\<close>

definition with_child_attributes :: "handle list \<Rightarrow> session_end win \<Rightarrow> session_end win" where
  "with_child_attributes child_handles body =
     andThen (api ''Windows did not provide an attribute-list size'' Attribute_size_read) (\<lambda>_.
     andThen (api ''failed to initialize process attributes'' Attributes_initialized) (\<lambda>_.
     with_attributes
       (andThen (api ''failed to restrict inherited handles'' (Handle_list_set child_handles)) (\<lambda>_.
        andThen (api ''failed to apply protected-game process mitigations'' (Mitigations_set mitigation_policy)) (\<lambda>_.
        body)))))"

definition child_creation :: "string \<Rightarrow> string list \<Rightarrow> 16 word list \<Rightarrow> creation" where
  "child_creation game args environment =
     \<lparr>pc_application = wide game, pc_command_line = wide (windows_command_line game args),
      pc_environment = environment, pc_inherit_handles = True,
      pc_flags = [Extended_startup_info, Unicode_environment, Create_suspended]\<rparr>"

definition launch_windows ::
    "'v lib \<Rightarrow> 'r launch_host \<Rightarrow> (string \<Rightarrow> string) \<Rightarrow> (string option \<times> string option) list
      \<Rightarrow> (nat \<Rightarrow> nat option) \<Rightarrow> nat \<Rightarrow> string \<Rightarrow> string list \<Rightarrow> RuntimeState \<Rightarrow> session_end win"
where
  "launch_windows L H upper vars identity pid game args state =
     create_pipe (\<lambda>game_read agent_write.
     create_pipe (\<lambda>agent_read game_write.
     andThen (clear_inheritance agent_write) (\<lambda>_.
     andThen (clear_inheritance agent_read) (\<lambda>_.
     with_child_attributes [game_read, game_write]
       (andThen (lift (environment_block upper vars game_read game_write)) (\<lambda>environment.
        create_process (child_creation game args environment)
          (\<lambda>process thread.
             run_contained L H identity pid state game_read game_write agent_read agent_write process thread)))))))"

text \<open>The kernel when the launch begins.\<close>

definition boot :: "bool list \<Rightarrow> kernel" where
  "boot answers = \<lparr>kn_answers = answers, kn_next = 1, kn_owned = [], kn_events = []\<rparr>"

text \<open>
  The documented reading of an environment block: entries up to an empty one, each ended by a zero.
\<close>

fun block_units :: "16 word list \<Rightarrow> 16 word list \<Rightarrow> 16 word list list" where
  "block_units entry [] = []"
| "block_units entry (c # cs) =
     (if c \<noteq> 0 then block_units (entry @ [c]) cs
      else if entry = [] then []
      else entry # block_units [] cs)"

definition block_entries :: "16 word list \<Rightarrow> string list" where
  "block_entries block = map from_utf16_lossy (block_units [] block)"

text \<open>A name ends at the first equals sign after its first character.\<close>

fun split_entry :: "string \<Rightarrow> string \<times> string" where
  "split_entry [] = ([], [])"
| "split_entry (c # cs) =
     (c # takeWhile (\<lambda>d. d \<noteq> CHR ''='') cs, drop 1 (dropWhile (\<lambda>d. d \<noteq> CHR ''='') cs))"

end
