(* ===== verification/WindowsFacts.thy ===== *)
theory WindowsFacts
  imports WindowsLaunch UpdaterFacts
begin

text \<open>
  What a launch on Windows does, as a rule for its list of calls: which calls may follow which, and which
  handles a call may name. A step is \<open>proper\<close> when it keeps the rule; there is one lemma for each kind of
  step, and the launch follows from them.
\<close>

section \<open>The rule\<close>

text \<open>Every call of a list stands in the relation \<open>P\<close> to the calls before it.\<close>

definition always :: "(event list \<Rightarrow> event \<Rightarrow> bool) \<Rightarrow> event list \<Rightarrow> bool" where
  "always P es \<longleftrightarrow> (\<forall>before e later. es = before @ e # later \<longrightarrow> P before e)"

lemma always_empty [simp]: "always P []"
  by (simp add: always_def)

lemma always_snoc [simp]: "always P (es @ [e]) \<longleftrightarrow> always P es \<and> P es e"
proof -
  have split: "es @ [e] = before @ x # later \<longleftrightarrow>
      (later = [] \<and> before = es \<and> x = e) \<or> (\<exists>later'. later = later' @ [e] \<and> es = before @ x # later')"
    for before x later
    by (cases later rule: rev_cases) auto
  show ?thesis
    unfolding always_def split by blast
qed

text \<open>
  A process is created suspended, and only when the handles it inherits are its ends of two pipes whose other
  ends are not inherited, and its mitigations are set. A thread is resumed only when its process is in a job
  that kills it when the job is closed.
\<close>

definition prepared :: "event set \<Rightarrow> creation \<Rightarrow> bool" where
  "prepared E c \<longleftrightarrow>
     Create_suspended \<in> set (pc_flags c) \<and> Mitigations_set mitigation_policy \<in> E \<and>
     (\<exists>game_read agent_write agent_read game_write.
        Pipe_created game_read agent_write \<in> E \<and> Inheritance_cleared agent_write \<in> E \<and>
        Pipe_created agent_read game_write \<in> E \<and> Inheritance_cleared agent_read \<in> E \<and>
        Handle_list_set [game_read, game_write] \<in> E)"

definition contained :: "event set \<Rightarrow> handle \<Rightarrow> bool" where
  "contained E thread \<longleftrightarrow>
     (\<exists>c process job. Process_created c process thread \<in> E \<and>
        Job_limited job Kill_on_job_close \<in> E \<and> Job_assigned job process \<in> E)"

fun containment_rule :: "event list \<Rightarrow> event \<Rightarrow> bool" where
  "containment_rule before (Process_created c process thread) \<longleftrightarrow> prepared (set before) c"
| "containment_rule before (Thread_resumed thread) \<longleftrightarrow> contained (set before) thread"
| "containment_rule before e \<longleftrightarrow> True"

text \<open>The handles a call opens, those it gives up and those it names.\<close>

fun opens :: "event \<Rightarrow> handle list" where
  "opens (Pipe_created read write) = [read, write]"
| "opens (Process_created c process thread) = [process, thread]"
| "opens (Job_created job) = [job]"
| "opens e = []"

fun releases :: "event \<Rightarrow> handle list" where
  "releases (Moved_to_reader h) = [h]"
| "releases (Closed h) = [h]"
| "releases e = []"

fun uses :: "event \<Rightarrow> handle list" where
  "uses (Inheritance_cleared h) = [h]"
| "uses (Handle_list_set hs) = hs"
| "uses (Job_limited job limit) = [job]"
| "uses (Job_assigned job process) = [job, process]"
| "uses (Thread_resumed thread) = [thread]"
| "uses (Waited_for process) = [process]"
| "uses (Exit_code_read process) = [process]"
| "uses e = releases e"

definition opened :: "event list \<Rightarrow> handle set" where
  "opened es = set (concat (map opens es))"

definition held :: "event list \<Rightarrow> handle set" where
  "held es = opened es - set (concat (map releases es))"

definition handle_rule :: "event list \<Rightarrow> event \<Rightarrow> bool" where
  "handle_rule before e \<longleftrightarrow> set (uses e) \<subseteq> held before \<and> set (opens e) \<inter> opened before = {}"

section \<open>Steps that keep it\<close>

definition in_order :: "kernel \<Rightarrow> bool" where
  "in_order k \<longleftrightarrow>
     always containment_rule (kn_events k) \<and> always handle_rule (kn_events k) \<and>
     distinct (kn_owned k) \<and> set (kn_owned k) = held (kn_events k) \<and>
     (\<forall>h \<in> opened (kn_events k). h < kn_next k)"

text \<open>After the calls \<open>E\<close> and with the handles \<open>H\<close> owned, a step keeps the rule and leaves no new handle behind.\<close>

definition proper :: "event set \<Rightarrow> handle set \<Rightarrow> session_end win \<Rightarrow> bool" where
  "proper E H m \<longleftrightarrow>
     (\<forall>k r k'. in_order k \<and> E \<subseteq> set (kn_events k) \<and> H \<subseteq> set (kn_owned k) \<and> m k = (r, k') \<longrightarrow>
        in_order k' \<and> (r \<noteq> Inr Ongoing \<longrightarrow> set (kn_owned k') \<subseteq> set (kn_owned k)))"

lemma note_event_simps [simp]:
  "kn_events (note_event e k) = kn_events k @ [e]" "kn_owned (note_event e k) = kn_owned k"
  "kn_next (note_event e k) = kn_next k"
  by (simp_all add: note_event_def)

lemma api_cases:
  assumes "andThen (api msg e) f k = (r, k')"
  obtains (refused) answers where "r = Inl msg" "k' = k\<lparr>kn_answers := answers\<rparr>"
  | (granted) answers where "f () (note_event e (k\<lparr>kn_answers := answers\<rparr>)) = (r, k')"
  using assms by (auto simp: api_def andThen_def split: list.splits bool.splits)

lemma in_order_answers [simp]:
  "in_order (k\<lparr>kn_answers := answers\<rparr>) = in_order k"
  by (simp add: in_order_def)

text \<open>A call that opens no handle and gives none up.\<close>

lemma in_order_note:
  assumes "in_order k" and "containment_rule (kn_events k) e"
    and "opens e = []" and "releases e = []" and "set (uses e) \<subseteq> set (kn_owned k)"
  shows "in_order (note_event e k)"
  using assms by (auto simp: in_order_def handle_rule_def held_def opened_def)

lemma in_order_drop:
  assumes "in_order k"
  shows "in_order (drop_handle h k)" "set (kn_owned (drop_handle h k)) = set (kn_owned k) - {h}"
    "E \<subseteq> set (kn_events k) \<Longrightarrow> E \<subseteq> set (kn_events (drop_handle h k))"
  using assms by (auto simp: in_order_def drop_handle_def note_event_def handle_rule_def held_def opened_def)

lemma properI:
  assumes "\<And>k r k'. \<lbrakk> in_order k; E \<subseteq> set (kn_events k); H \<subseteq> set (kn_owned k); m k = (r, k') \<rbrakk>
      \<Longrightarrow> in_order k' \<and> (r \<noteq> Inr Ongoing \<longrightarrow> set (kn_owned k') \<subseteq> set (kn_owned k))"
  shows "proper E H m"
  using assms unfolding proper_def by blast

lemma properD:
  assumes "proper E H m" and "m k = (r, k')" and "in_order k" "E \<subseteq> set (kn_events k)" "H \<subseteq> set (kn_owned k)"
  shows "in_order k' \<and> (r \<noteq> Inr Ongoing \<longrightarrow> set (kn_owned k') \<subseteq> set (kn_owned k))"
  using assms unfolding proper_def by blast

lemma proper_done: "proper E H (ret x)" "proper E H (throw msg)"
  by (rule properI; simp add: ret_def throw_def)+

lemma proper_lift:
  assumes "\<And>x. r = Inr x \<Longrightarrow> proper E H (f x)"
  shows "proper E H (andThen (lift r) f)"
  using assms by (cases r) (auto simp: proper_def andThen_def lift_def)

lemma proper_call:
  assumes "opens e = []" and "releases e = []" and "set (uses e) \<subseteq> H"
    and "\<And>es. E \<subseteq> set es \<Longrightarrow> containment_rule es e"
    and "proper (insert e E) H (f ())"
  shows "proper E H (andThen (api msg e) f)"
proof (rule properI)
  fix k r k'
  assume k: "in_order k" "E \<subseteq> set (kn_events k)" "H \<subseteq> set (kn_owned k)"
    and run: "andThen (api msg e) f k = (r, k')"
  from run show "in_order k' \<and> (r \<noteq> Inr Ongoing \<longrightarrow> set (kn_owned k') \<subseteq> set (kn_owned k))"
  proof (cases rule: api_cases)
    case (granted answers)
    let ?k = "note_event e (k\<lparr>kn_answers := answers\<rparr>)"
    have "in_order ?k"
      using k assms(1-4) by (intro in_order_note) auto
    from properD [OF assms(5) granted this] k show ?thesis by auto
  qed (use k in auto)
qed

lemma proper_drop:
  assumes "proper E (H - {h}) (f ())"
  shows "proper E H (andThen (drop_now h) f)"
proof (rule properI)
  fix k r k'
  assume k: "in_order k" "E \<subseteq> set (kn_events k)" "H \<subseteq> set (kn_owned k)"
    and run: "andThen (drop_now h) f k = (r, k')"
  note dropped = in_order_drop [OF k(1), where h = h]
  from run have "f () (drop_handle h k) = (r, k')"
    by (simp add: andThen_def drop_now_def)
  from properD [OF assms this dropped(1) dropped(3) [OF k(2)]] dropped(2) k(3)
  show "in_order k' \<and> (r \<noteq> Inr Ongoing \<longrightarrow> set (kn_owned k') \<subseteq> set (kn_owned k))"
    by auto
qed

lemma proper_move:
  assumes "h \<in> H" and "proper E (H - {h}) (f ())"
  shows "proper E H (andThen (move_to_reader h) f)"
proof (rule properI)
  fix k r k'
  assume k: "in_order k" "E \<subseteq> set (kn_events k)" "H \<subseteq> set (kn_owned k)"
    and run: "andThen (move_to_reader h) f k = (r, k')"
  let ?k = "note_event (Moved_to_reader h) (k\<lparr>kn_owned := remove1 h (kn_owned k)\<rparr>)"
  from run have run: "f () ?k = (r, k')"
    by (simp add: andThen_def move_to_reader_def)
  have "in_order ?k"
    using k assms(1) by (auto simp: in_order_def handle_rule_def held_def opened_def note_event_def)
  moreover have "set (kn_owned ?k) = set (kn_owned k) - {h}"
    using k(1) by (simp add: in_order_def)
  ultimately show "in_order k' \<and> (r \<noteq> Inr Ongoing \<longrightarrow> set (kn_owned k') \<subseteq> set (kn_owned k))"
    using properD [OF assms(2) run] k by auto
qed

lemma leaving_cases:
  assumes "leaving out m k = (r, k')"
  obtains k1 where "m k = (r, k1)" "k' = (if r = Inr Ongoing then k1 else out k1)"
  using assms by (auto simp: leaving_def split: prod.splits)

lemma proper_guarded:
  assumes "proper E H m"
  shows "proper E H (guarded h m)"
proof (rule properI)
  fix k r k'
  assume k: "in_order k" "E \<subseteq> set (kn_events k)" "H \<subseteq> set (kn_owned k)" and "guarded h m k = (r, k')"
  then obtain k1 where k1: "m k = (r, k1)" "k' = (if r = Inr Ongoing then k1 else drop_handle h k1)"
    unfolding guarded_def by (elim leaving_cases)
  from properD [OF assms k1(1) k] k1(2) in_order_drop(1,2) [of k1 h]
  show "in_order k' \<and> (r \<noteq> Inr Ongoing \<longrightarrow> set (kn_owned k') \<subseteq> set (kn_owned k))"
    by auto
qed

lemma proper_attributes:
  assumes "proper E H m"
  shows "proper E H (with_attributes m)"
proof (rule properI)
  fix k r k'
  assume k: "in_order k" "E \<subseteq> set (kn_events k)" "H \<subseteq> set (kn_owned k)" and "with_attributes m k = (r, k')"
  then obtain k1 where k1: "m k = (r, k1)" "k' = (if r = Inr Ongoing then k1 else note_event Attributes_deleted k1)"
    unfolding with_attributes_def by (elim leaving_cases)
  from properD [OF assms k1(1) k] k1(2) in_order_note [of k1 Attributes_deleted]
  show "in_order k' \<and> (r \<noteq> Inr Ongoing \<longrightarrow> set (kn_owned k') \<subseteq> set (kn_owned k))"
    by auto
qed

text \<open>Handles that are owned for the length of a step are gone after it.\<close>

lemma in_order_drops:
  "in_order k \<Longrightarrow> in_order (fold drop_handle hs k) \<and> set (kn_owned (fold drop_handle hs k)) = set (kn_owned k) - set hs"
  by (induction hs arbitrary: k) (auto simp: in_order_drop)

lemma releases_opened:
  "always handle_rule es \<Longrightarrow> set (concat (map releases es)) \<subseteq> opened es"
proof (induction es rule: rev_induct)
  case (snoc e es)
  have "set (releases e) \<subseteq> set (uses e)"
    by (cases e) auto
  with snoc show ?case
    by (auto simp: handle_rule_def held_def opened_def)
qed simp

lemma proper_open:
  assumes opens: "opens e = hs" "uses e = []" "releases e = []" "distinct hs"
    and rule: "\<And>es. E \<subseteq> set es \<Longrightarrow> containment_rule es e"
    and body: "proper (insert e E) (set hs \<union> H) m"
    and k: "in_order k" "E \<subseteq> set (kn_events k)" "H \<subseteq> set (kn_owned k)"
    and new: "\<forall>h \<in> set hs. kn_next k \<le> h" "\<forall>h \<in> set hs. h < n" and n: "kn_next k \<le> n"
    and run: "andThen (api msg e) (\<lambda>_. owning hs m) (k\<lparr>kn_next := n\<rparr>) = (r, k')"
  shows "in_order k' \<and> (r \<noteq> Inr Ongoing \<longrightarrow> set (kn_owned k') \<subseteq> set (kn_owned k))"
  using run
proof (cases rule: api_cases)
  case (refused answers)
  have "in_order (k\<lparr>kn_next := n\<rparr>)"
    using k(1) n by (fastforce simp: in_order_def)
  with refused k show ?thesis
    by (auto simp: in_order_def)
next
  case (granted answers)
  let ?k = "note_event e (k\<lparr>kn_next := n, kn_answers := answers\<rparr>)"
  from granted obtain k1 where k1: "m (?k\<lparr>kn_owned := hs @ kn_owned k\<rparr>) = (r, k1)"
    "k' = (if r = Inr Ongoing then k1 else fold drop_handle (rev hs) k1)"
    unfolding owning_def by (elim leaving_cases) simp
  have fresh: "set hs \<inter> opened (kn_events k) = {}"
    using new(1) k(1) by (fastforce simp: in_order_def)
  with k(1) have gone: "set hs \<inter> set (concat (map releases (kn_events k))) = {}"
    using releases_opened unfolding in_order_def by blast
  have older: "\<forall>h \<in> opened (kn_events k). h < n"
    using k(1) n by (fastforce simp: in_order_def)
  have "in_order (?k\<lparr>kn_owned := hs @ kn_owned k\<rparr>)"
    unfolding in_order_def
  proof (intro conjI)
    show "distinct (kn_owned (?k\<lparr>kn_owned := hs @ kn_owned k\<rparr>))"
      using opens(4) k(1) fresh by (auto simp: in_order_def held_def)
    show "set (kn_owned (?k\<lparr>kn_owned := hs @ kn_owned k\<rparr>)) = held (kn_events (?k\<lparr>kn_owned := hs @ kn_owned k\<rparr>))"
      using opens gone k(1) by (auto simp: in_order_def held_def opened_def)
    show "\<forall>h \<in> opened (kn_events (?k\<lparr>kn_owned := hs @ kn_owned k\<rparr>)). h < kn_next (?k\<lparr>kn_owned := hs @ kn_owned k\<rparr>)"
      using opens(1) new(2) older by (auto simp: opened_def)
  qed (use opens rule k fresh in \<open>auto simp: in_order_def handle_rule_def\<close>)
  from properD [OF body k1(1) this] k in_order_drops [of k1 "rev hs"] k1(2)
  show ?thesis by auto
qed


section \<open>The launch\<close>

lemma fresh_run: "andThen fresh f k = f (kn_next k) (k\<lparr>kn_next := kn_next k + 1\<rparr>)"
  by (simp add: andThen_def fresh_def)

lemma fresh_handle: "in_order k \<Longrightarrow> H \<subseteq> set (kn_owned k) \<Longrightarrow> kn_next k \<le> h \<Longrightarrow> h \<notin> H"
  by (force simp: in_order_def held_def)

lemma proper_pipe:
  assumes "\<And>read write. \<lbrakk> read \<noteq> write; read \<notin> H; write \<notin> H \<rbrakk> \<Longrightarrow>
      proper (insert (Pipe_created read write) E) (insert read (insert write H)) (body read write)"
  shows "proper E H (create_pipe body)"
proof (rule properI)
  fix k r k'
  assume k: "in_order k" "E \<subseteq> set (kn_events k)" "H \<subseteq> set (kn_owned k)" and "create_pipe body k = (r, k')"
  then show "in_order k' \<and> (r \<noteq> Inr Ongoing \<longrightarrow> set (kn_owned k') \<subseteq> set (kn_owned k))"
    using assms [of "kn_next k" "kn_next k + 1"] fresh_handle [OF k(1,3)]
    by (intro proper_open [where e = "Pipe_created (kn_next k) (kn_next k + 1)"
          and hs = "[kn_next k, kn_next k + 1]" and n = "kn_next k + 2" and k = k and H = H and E = E
          and m = "body (kn_next k) (kn_next k + 1)" and msg = "''failed to create inherited Agent pipe''"])
      (auto simp: create_pipe_def fresh_run)
qed

lemma proper_process:
  assumes "prepared E c"
    and "\<And>process thread. \<lbrakk> process \<noteq> thread; process \<notin> H; thread \<notin> H \<rbrakk> \<Longrightarrow>
      proper (insert (Process_created c process thread) E) (insert process (insert thread H)) (body process thread)"
  shows "proper E H (create_process c body)"
proof (rule properI)
  fix k r k'
  assume k: "in_order k" "E \<subseteq> set (kn_events k)" "H \<subseteq> set (kn_owned k)" and "create_process c body k = (r, k')"
  moreover have "prepared (set es) c" if "E \<subseteq> set es" for es
    using assms(1) that unfolding prepared_def by blast
  ultimately show "in_order k' \<and> (r \<noteq> Inr Ongoing \<longrightarrow> set (kn_owned k') \<subseteq> set (kn_owned k))"
    using assms(2) [of "kn_next k" "kn_next k + 1"] fresh_handle [OF k(1,3)]
    by (intro proper_open [where e = "Process_created c (kn_next k) (kn_next k + 1)"
          and hs = "[kn_next k, kn_next k + 1]" and n = "kn_next k + 2" and k = k and H = H and E = E
          and m = "body (kn_next k) (kn_next k + 1)" and msg = "''failed to launch protected game''"])
      (auto simp: create_process_def fresh_run)
qed

lemma proper_job:
  assumes "\<And>job. proper (insert (Job_limited job Kill_on_job_close) (insert (Job_created job) E)) (insert job H) (body job)"
  shows "proper E H (create_containment_job body)"
proof (rule properI)
  fix k r k'
  let ?m = "\<lambda>job. andThen (api ''failed to configure game containment job'' (Job_limited job Kill_on_job_close))
      (\<lambda>_. body job)"
  assume k: "in_order k" "E \<subseteq> set (kn_events k)" "H \<subseteq> set (kn_owned k)"
    and "create_containment_job body k = (r, k')"
  then have run: "andThen (api ''failed to create game containment job'' (Job_created (kn_next k)))
      (\<lambda>_. owning [kn_next k] (?m (kn_next k))) (k\<lparr>kn_next := kn_next k + 1\<rparr>) = (r, k')"
    by (simp add: create_containment_job_def fresh_run)
  have "proper (insert (Job_created (kn_next k)) E) (set [kn_next k] \<union> H) (?m (kn_next k))"
    by (rule proper_call) (use assms in auto)
  from proper_open [OF _ _ _ _ _ this k _ _ _ run]
  show "in_order k' \<and> (r \<noteq> Inr Ongoing \<longrightarrow> set (kn_owned k') \<subseteq> set (kn_owned k))"
    by simp
qed

lemma proper_wait: "process \<in> H \<Longrightarrow> proper E H (wait_for_game L process)"
  unfolding wait_for_game_def by (intro proper_call) (auto intro: proper_done)

lemma proper_session:
  assumes "agent_read \<in> H" and "proper E (H - {agent_read} - {agent_write}) after"
  shows "proper E H (run_session L h state agent_read agent_write after)"
  unfolding run_session_def
proof (intro proper_guarded proper_move assms(1), goal_cases)
  case 1
  define x where "x = serve L (lh_serve h) state \<lparr>io_writer = lh_writer h, io_published = []\<rparr> (lh_ticks h)"
  have note_first: "proper E H' (\<lambda>k. m (note_event e k))"
    if "proper (insert e E) H' m" "opens e = []" "uses e = []" "releases e = []" "\<And>es. containment_rule es e"
    for e H' m
  proof (rule properI)
    fix k r k'
    assume k: "in_order k" "E \<subseteq> set (kn_events k)" "H' \<subseteq> set (kn_owned k)"
      and run: "m (note_event e k) = (r, k')"
    have "in_order (note_event e k)"
      using k that by (intro in_order_note) simp_all
    from properD [OF that(1) run this] k show "in_order k' \<and> (r \<noteq> Inr Ongoing \<longrightarrow> set (kn_owned k') \<subseteq> set (kn_owned k))"
      by auto
  qed
  show ?case
  proof (cases x)
    case (Running s)
    have "proper E (H - {agent_read}) (\<lambda>k. ret Ongoing (note_event (Session_ongoing (io_published (ls_io s))) k))"
      by (rule note_first) (simp_all add: proper_done)
    then show ?thesis
      unfolding x_def [symmetric] Running by (simp add: ret_def)
  next
    case (Finished r y)
    let ?rest = "case r of Inl e \<Rightarrow> throw ''protected Agent session failed''
      | Inr u \<Rightarrow> andThen (drop_now agent_write) (\<lambda>_. after)"
    have after: "proper (insert e E) (H - {agent_read} - {agent_write}) after" for e
      using assms(2) unfolding proper_def by blast
    have "proper (insert (Session_ended r (io_published y)) E) (H - {agent_read}) ?rest"
      by (cases r) (auto intro: proper_done proper_drop after)
    then have "proper E (H - {agent_read}) (\<lambda>k. ?rest (note_event (Session_ended r (io_published y)) k))"
      by (rule note_first) simp_all
    then show ?thesis
      unfolding x_def [symmetric] Finished by (cases r) (simp_all add: throw_def Let_def)
  qed
qed

lemma proper_run_contained:
  assumes "Process_created c process thread \<in> E"
    and "{game_read, game_write, agent_read, agent_write, process, thread} \<subseteq> H"
    and "distinct [game_read, game_write, agent_read, agent_write, process, thread]"
  shows "proper E H
    (run_contained L h identity pid state game_read game_write agent_read agent_write process thread)"
  unfolding run_contained_def
  by (intro proper_job proper_call proper_drop proper_session proper_wait)
    (use assms in \<open>auto simp: contained_def\<close>)

lemma proper_child_attributes:
  assumes "set hs \<subseteq> H" and "proper ({Handle_list_set hs, Mitigations_set mitigation_policy} \<union> E) H body"
  shows "proper E H (with_child_attributes hs body)"
proof -
  have "proper (insert Attributes_initialized (insert Attribute_size_read E)) H
      (with_attributes
        (andThen (api ''failed to restrict inherited handles'' (Handle_list_set hs)) (\<lambda>_.
         andThen (api ''failed to apply protected-game process mitigations'' (Mitigations_set mitigation_policy)) (\<lambda>_.
         body))))"
  proof (intro proper_attributes proper_call, goal_cases)
    case 9
    from assms(2) show ?case
      unfolding proper_def by blast
  qed (use assms(1) in auto)
  then show ?thesis
    unfolding with_child_attributes_def by (intro proper_call) auto
qed

lemma launch_windows_proper: "proper {} {} (launch_windows L h upper vars identity pid game args state)"
  unfolding launch_windows_def clear_inheritance_def
  by (intro proper_pipe proper_call proper_child_attributes proper_lift proper_process proper_run_contained)
    (auto simp: prepared_def child_creation_def)


lemma in_order_boot: "in_order (boot answers)"
  by (simp add: in_order_def boot_def held_def opened_def)

lemma launch_windows_in_order:
  assumes "launch_windows L h upper vars identity pid game args state (boot answers) = (r, k)"
  shows "in_order k" "r \<noteq> Inr Ongoing \<Longrightarrow> kn_owned k = []"
  using properD [OF launch_windows_proper assms in_order_boot] by (simp_all add: boot_def)

text \<open>Running a launch on a kernel that is written out.\<close>

lemma api_run:
  "andThen (api msg e) f \<lparr>kn_answers = True # as, kn_next = n, kn_owned = hs, kn_events = es\<rparr>
     = f () \<lparr>kn_answers = as, kn_next = n, kn_owned = hs, kn_events = es @ [e]\<rparr>"
  "andThen (api msg e) f \<lparr>kn_answers = False # as, kn_next = n, kn_owned = hs, kn_events = es\<rparr>
     = (Inl msg, \<lparr>kn_answers = as, kn_next = n, kn_owned = hs, kn_events = es\<rparr>)"
  "andThen (api msg e) f \<lparr>kn_answers = [], kn_next = n, kn_owned = hs, kn_events = es\<rparr>
     = (Inl msg, \<lparr>kn_answers = [], kn_next = n, kn_owned = hs, kn_events = es\<rparr>)"
  by (simp_all add: api_def andThen_def note_event_def)

lemma owning_leaving:
  "owning hs m \<lparr>kn_answers = as, kn_next = n, kn_owned = os, kn_events = es\<rparr>
     = leaving (fold drop_handle (rev hs)) m \<lparr>kn_answers = as, kn_next = n, kn_owned = hs @ os, kn_events = es\<rparr>"
  by (simp add: owning_def)

lemma leaving_run:
  "m k = (r, k') \<Longrightarrow> leaving out m k = (r, if r = Inr Ongoing then k' else out k')"
  by (simp add: leaving_def)

lemma drop_run:
  "drop_handle h \<lparr>kn_answers = as, kn_next = n, kn_owned = os, kn_events = es\<rparr>
     = (if h \<in> set os then \<lparr>kn_answers = as, kn_next = n, kn_owned = remove1 h os, kn_events = es @ [Closed h]\<rparr>
        else \<lparr>kn_answers = as, kn_next = n, kn_owned = os, kn_events = es\<rparr>)"
  "andThen (drop_now h) f k = f () (drop_handle h k)"
  "andThen (move_to_reader h) f k
     = f () (note_event (Moved_to_reader h) (k\<lparr>kn_owned := remove1 h (kn_owned k)\<rparr>))"
  by (simp_all add: drop_handle_def note_event_def andThen_def drop_now_def move_to_reader_def)

lemma lift_run: "andThen (lift (Inr x)) f k = f x k" "andThen (lift (Inl e)) f k = (Inl e, k)"
  by (simp_all add: andThen_def lift_def)

lemmas windows_run = fresh_run api_run owning_leaving drop_run lift_run

lemmas windows_steps = launch_windows_def create_pipe_def clear_inheritance_def with_child_attributes_def
  create_process_def run_contained_def create_containment_job_def wait_for_game_def with_attributes_def
  guarded_def run_session_def

section \<open>The environment block\<close>

lemma block_units_take:
  "0 \<notin> set e \<Longrightarrow> entry @ e \<noteq> [] \<Longrightarrow> block_units entry (e @ 0 # rest) = (entry @ e) # block_units [] rest"
  by (induction e arbitrary: entry) auto

lemma encode_wide_empty: "is_text e \<Longrightarrow> e \<noteq> [] \<Longrightarrow> encode_wide e \<noteq> []"
  using from_utf16_encode_wide [of e] by (auto simp: from_utf16_lossy_def utf8_string_def)

lemma block_entries_block:
  "\<forall>e \<in> set es. e \<noteq> [] \<and> CHR 0x00 \<notin> set e \<and> is_text e \<Longrightarrow>
     block_entries (concat (map (\<lambda>e. encode_wide e @ [0]) es) @ [0]) = es"
  by (induction es)
    (simp_all add: block_entries_def block_units_take encode_wide_zero encode_wide_empty from_utf16_encode_wide)

lemma split_entry_join:
  assumes "environment_entry_ok (key, v)"
  shows "split_entry (key @ ''='' @ v) = (key, v)"
proof -
  have "\<not> is_ascii_alphabetic (CHR ''='')"
    by code_simp
  then have "CHR ''='' \<notin> set (tl key)" if "is_drive_current_directory_key key"
    using that by (cases key) (auto simp: is_drive_current_directory_key_def numeral_3_eq_3 length_Suc_conv)
  with assms obtain c cs where key: "key = c # cs" "CHR ''='' \<notin> set cs"
    by (cases key) (auto simp: environment_entry_ok_def)
  then have "\<forall>d \<in> set cs. d \<noteq> CHR ''=''"
    by auto
  with key show ?thesis
    by simp
qed

lemma handle_text: "is_text READ_HANDLE" "is_text WRITE_HANDLE" "is_text (show_nat n)" "is_text ''=''"
proof -
  have "\<forall>c \<in> set (show_nat n). code c < 128"
    using show_nat_digits [of n] by (auto simp: is_ascii_digit_def)
  then show "is_text (show_nat n)"
    by (rule is_text_ascii)
qed (auto intro!: is_text_ascii simp: READ_HANDLE_def WRITE_HANDLE_def)

lemma entry_text: "is_text k \<Longrightarrow> is_text v \<Longrightarrow> is_text (k @ CHR ''='' # v)"
  using is_text_append [of k "''='' @ v"] is_text_append [of "''=''" v] handle_text(4) by simp

lemma environment_block_entries:
  assumes "environment_block_from upper values read write = Inr block"
    and "\<forall>e \<in> set values. is_text (fst e) \<and> is_text (snd e)"
  obtains entries where "sanitize_environment_entries upper values read write = Inr entries"
    and "map split_entry (block_entries block) = entries"
proof -
  from assms(1) obtain entries where entries: "sanitize_environment_entries upper values read write = Inr entries"
    and block: "block = concat (map (\<lambda>e. encode_wide e @ [0]) (map (\<lambda>(key, v). key @ ''='' @ v) entries)) @ [0]"
    by (auto simp: environment_block_from_def bindE_ok comp_def case_prod_unfold)
  from sanitize_sorted_ok [OF entries [unfolded sanitize_environment_entries_def]]
  have ok: "\<forall>e \<in> set entries. environment_entry_ok e"
    by (simp add: list_all_iff)
  have strings: "\<forall>e \<in> set entries. is_text (fst e) \<and> is_text (snd e)"
    using sanitize_environment_set [OF entries] assms(2) handle_text by auto
  have "block_entries block = map (\<lambda>(key, v). key @ ''='' @ v) entries"
    unfolding block using ok strings
    by (intro block_entries_block) (auto simp: environment_entry_ok_def intro!: entry_text)
  moreover have "map split_entry (map (\<lambda>(key, v). key @ ''='' @ v) entries) = entries"
    using ok split_entry_join by (simp add: map_idI split_beta)
  ultimately show thesis
    using that entries by simp
qed

end
