(* ===== verification/WindowsProperties.thy ===== *)
theory WindowsProperties
  imports WindowsFacts LaunchFixtures
begin

text \<open>
  What starting a game on Windows guarantees: the game never runs outside the job that ends it with the
  session, every handle is given up once, the calls and their order, what is left when a call fails, and what
  the game reads from its environment block.
\<close>

section \<open>The game and its job\<close>

text \<open>C17: On Windows the game's process is created suspended, and only once the handles it may inherit are
  exactly its own ends of two pipes, the Agent's ends are not inherited and its mitigations are set; its thread
  is resumed only once the process is in a job that kills it when the job is closed. This holds whichever
  system calls fail.\<close>

theorem windows_game_contained:
  "always containment_rule
     (kn_events (snd (launch_windows L H upper vars identity pid game args state (boot answers))))"
  using launch_windows_in_order(1) [of L H upper vars identity pid game args state answers]
  by (simp add: in_order_def prod_eq_iff)

text \<open>C18: On Windows a handle is named only between the call that opens it and the one place it is given up,
  no value is opened twice, and a launch that has ended, well or with any error, holds no handle.\<close>

theorem windows_handles_balanced:
  "case launch_windows L H upper vars identity pid game args state (boot answers) of (r, k) \<Rightarrow>
     always handle_rule (kn_events k) \<and>
     (if r = Inr Ongoing then set (kn_owned k) = held (kn_events k) else kn_owned k = [] \<and> held (kn_events k) = {})"
proof (cases "launch_windows L H upper vars identity pid game args state (boot answers)")
  case (Pair r k)
  from launch_windows_in_order [OF Pair] show ?thesis
    unfolding Pair by (auto simp: in_order_def)
qed


text \<open>C19: When every system call succeeds, a launch on Windows makes its calls in one order: pipes, inheritance,
  attributes, the suspended process, its job, and only then the game runs, with the Agent's copies of the
  game's ends closed before the session starts. A session that fails closes the channel and then the job, which
  ends the game; one that ends well closes the channel and waits for the game first. The launch succeeds
  exactly when the session ended well and the game's exit code is zero.\<close>

theorem windows_launch_order:
  assumes "environment_block upper vars 1 4 = Inr block"
  shows "let session = session_of L H (state\<lparr>rts_game_process_id := pid, rts_game_process_identity := identity pid\<rparr>);
      closing = [Closed 7, Closed 6, Closed 5, Attributes_deleted] in
    case launch_windows L H upper vars identity pid game args state (boot (replicate 15 True)) of (r, k) \<Rightarrow>
    kn_events k =
      [Pipe_created 1 2, Pipe_created 3 4, Inheritance_cleared 2, Inheritance_cleared 3,
       Attribute_size_read, Attributes_initialized, Handle_list_set [1, 4], Mitigations_set mitigation_policy,
       Process_created (child_creation game args block) 5 6, Job_created 7, Job_limited 7 Kill_on_job_close, Job_assigned 7 5,
       Thread_resumed 6, Closed 1, Closed 4, Moved_to_reader 3] @
      (case session of
         Running s \<Rightarrow> [Session_ongoing (io_published (ls_io s))]
       | Finished (Inl e) x \<Rightarrow> [Session_ended (Inl e) (io_published x), Closed 2] @ closing
       | Finished (Inr u) x \<Rightarrow>
           [Session_ended (Inr u) (io_published x), Closed 2, Waited_for 5, Exit_code_read 5] @ closing) \<and>
    (r = Inr Ongoing \<longleftrightarrow> (\<exists>s. session = Running s)) \<and>
    (r = Inr Ended \<longleftrightarrow> (\<exists>u x. session = Finished (Inr u) x) \<and> lh_exit_success H = Some True)"
proof -
  have "boot (replicate 15 True) = \<lparr>kn_answers = [True, True, True, True, True, True, True, True, True, True, True,
      True, True, True, True], kn_next = 1, kn_owned = [], kn_events = []\<rparr>"
    by (simp add: boot_def numeral_eq_Suc del: One_nat_def)
  then show ?thesis
    unfolding windows_steps session_of_def Let_def
    by (auto simp add: windows_run assms(1) leaving_def note_event_def ret_def throw_def simp del: One_nat_def
        split: run.splits sum.splits)
qed


lemma sample_environment: "\<exists>block. environment_block id [] 1 4 = Inr block"
  by (simp add: environment_block_def environment_block_from_def sanitize_environment_entries_def
      READ_HANDLE_def WRITE_HANDLE_def show_nat.simps is_drive_current_directory_key_def starts_with_def
      less_char_def less_eq_char_def List.map_filter_def char_of_def bit_0)

lemma windows_launch_order_witness:
  "Thread_resumed 6 \<in> set (kn_events (snd (launch_windows sample_lib sample_launch_host id [] (\<lambda>_. None) 9
     ''game.exe'' [''-x''] sample_state (boot (replicate 15 True)))))"
proof -
  from sample_environment obtain block where "environment_block id [] 1 4 = Inr block" ..
  from windows_launch_order [OF this, where L = sample_lib and H = sample_launch_host and identity = "\<lambda>_. None"
      and pid = 9 and game = "''game.exe''" and args = "[''-x'']" and state = sample_state]
  show ?thesis
    by (simp add: Let_def split: prod.splits)
qed

text \<open>C20: When the job cannot be made, limited or given the game's process, the launch on Windows fails with the
  process created and suspended: no call resumes it or puts it in a job, and every handle to it is closed, so
  that it stays behind suspended.\<close>

theorem windows_containment_failure:
  assumes "environment_block upper vars 1 4 = Inr block" and "n \<in> {9, 10, 11}"
  shows "case launch_windows L H upper vars identity pid game args state (boot (replicate n True)) of (r, k) \<Rightarrow>
    (\<exists>e. r = Inl e) \<and> Process_created (child_creation game args block) 5 6 \<in> set (kn_events k) \<and>
    Create_suspended \<in> set (pc_flags (child_creation game args block)) \<and>
    (\<forall>e \<in> set (kn_events k). e \<noteq> Thread_resumed 6 \<and> (\<forall>job. e \<noteq> Job_assigned job 5)) \<and>
    kn_owned k = []"
proof -
  have "boot (replicate 9 True) = \<lparr>kn_answers = [True, True, True, True, True, True, True, True, True],
      kn_next = 1, kn_owned = [], kn_events = []\<rparr>"
    "boot (replicate 10 True) = \<lparr>kn_answers = [True, True, True, True, True, True, True, True, True, True],
      kn_next = 1, kn_owned = [], kn_events = []\<rparr>"
    "boot (replicate 11 True) = \<lparr>kn_answers = [True, True, True, True, True, True, True, True, True, True, True],
      kn_next = 1, kn_owned = [], kn_events = []\<rparr>"
    by (simp_all add: boot_def numeral_eq_Suc del: One_nat_def)
  with assms(2) show ?thesis
    unfolding windows_steps
    by (auto simp: windows_run assms(1) leaving_def note_event_def child_creation_def simp del: One_nat_def)
qed

lemma windows_containment_failure_witness:
  "case launch_windows sample_lib sample_launch_host id [] (\<lambda>_. None) 9 ''game.exe'' [''-x''] sample_state
      (boot (replicate 11 True)) of (r, k) \<Rightarrow>
    (\<exists>e. r = Inl e) \<and> (\<exists>c. Process_created c 5 6 \<in> set (kn_events k)) \<and> Job_assigned 7 5 \<notin> set (kn_events k)"
proof -
  from sample_environment obtain block where "environment_block id [] 1 4 = Inr block" ..
  from windows_containment_failure [OF this, where n = 11 and L = sample_lib and H = sample_launch_host
      and identity = "\<lambda>_. None" and pid = 9 and game = "''game.exe''" and args = "[''-x'']" and state = sample_state]
  show ?thesis
    by (auto split: prod.splits)
qed

section \<open>The environment of the game\<close>



end
