(* ===== verification/PlatformOther.thy ===== *)
theory PlatformOther
  imports Platform RustUnicode
begin

text \<open>
  The Windows and macOS branches of \<^verbatim>\<open>crates/certael-agent-platform/src/lib.rs\<close>: what the Agent reads about the
  game's process and its own.

  What a system call answers is the parameter: \<open>windows_view\<close> and \<open>macos_view\<close>, one field for each call. A
  handle that a function opens it closes before it returns; the functions only read. Windows paths are text, and
  \<open>canonicalize\<close> of them is a field.
\<close>

unbundle bit_operations_syntax

section \<open>The part that every platform shares\<close>

definition absent_process :: GameProcessSnapshot where
  "absent_process =
     \<lparr>game_running = False, game_executable_matches = False, game_parent_is_agent = None,
      game_loaded_module_basenames = [], game_process_identity_stable = None\<rparr>"

definition identity_of :: "(nat \<Rightarrow> nat option) \<Rightarrow> nat \<Rightarrow> nat option" where
  "identity_of platform_identity pid = (if pid \<noteq> 0 then platform_identity pid else None)"

definition inspect_bound_with ::
    "(nat \<Rightarrow> GameProcessSnapshot) \<Rightarrow> (nat \<Rightarrow> nat option) \<Rightarrow> nat \<Rightarrow> nat option \<Rightarrow> GameProcessSnapshot"
where
  "inspect_bound_with inspect platform_identity pid expected_identity =
     (if pid = 0 then absent_process
      else
        let snapshot = inspect pid in
        snapshot\<lparr>game_process_identity_stable :=
          (case expected_identity of
             Some expected \<Rightarrow> Some (identity_of platform_identity pid = Some expected)
           | None \<Rightarrow> game_process_identity_stable snapshot)\<rparr>)"

text \<open>Collecting into a \<open>BTreeSet\<close> and back.\<close>

definition btree_names :: "string list \<Rightarrow> string list" where
  "btree_names names = sort (remdups names)"

section \<open>Windows\<close>

record windows_view =
  wv_self :: nat
  wv_canonicalize :: "string \<Rightarrow> string option"
  wv_open_limited :: "nat \<Rightarrow> bool"
  wv_creation_time :: "nat \<Rightarrow> (u32 \<times> u32) option"
  wv_image_name :: "nat \<Rightarrow> 16 word list option"
  wv_process_snapshot :: "(nat \<times> nat) list option"
  wv_open_modules :: "nat \<Rightarrow> bool"
  wv_modules_needed :: "nat \<Rightarrow> nat"
  wv_enum_modules :: "nat \<Rightarrow> nat \<Rightarrow> nat list option"
  wv_module_base_name :: "nat \<Rightarrow> nat \<Rightarrow> 16 word list"
  wv_debugger_present :: int

text \<open>High and low half of the creation time.\<close>

definition windows_process_identity :: "windows_view \<Rightarrow> nat \<Rightarrow> nat option" where
  "windows_process_identity V pid =
     (if \<not> wv_open_limited V pid then None
      else map_option (\<lambda>(high, low). unat (push_bit 32 (ucast high :: u64) OR ucast low)) (wv_creation_time V pid))"

definition windows_paths_equal :: "windows_view \<Rightarrow> string \<Rightarrow> string \<Rightarrow> bool" where
  "windows_paths_equal V actual expected =
     (let actual = (case wv_canonicalize V actual of Some p \<Rightarrow> p | None \<Rightarrow> actual);
          expected = (case wv_canonicalize V expected of Some p \<Rightarrow> p | None \<Rightarrow> expected) in
      eq_ignore_ascii_case actual expected)"

definition SIZE_OF_HMODULE :: nat where "SIZE_OF_HMODULE = 8"

text \<open>
  The names of the modules of a process. \<open>modules\<close> starts as null handles and the second call fills it from the
  front. A base name of 256 code units may have been cut off and is dropped.
\<close>

definition windows_module_names :: "windows_view \<Rightarrow> nat \<Rightarrow> nat list \<Rightarrow> string list" where
  "windows_module_names V process modules =
     btree_names (List.map_filter
       (\<lambda>module. let name = wv_module_base_name V process module in
          if 0 < length name \<and> length name < 256 then Some (from_utf16_lossy name) else None) modules)"

definition enumerated_modules :: "windows_view \<Rightarrow> nat \<Rightarrow> nat list option" where
  "enumerated_modules V process =
     (let count = min (wv_modules_needed V process div SIZE_OF_HMODULE) 1024 in
      map_option (\<lambda>filled. take count (filled @ replicate count 0)) (wv_enum_modules V process count))"

definition windows_process_modules :: "windows_view \<Rightarrow> nat \<Rightarrow> string list" where
  "windows_process_modules V pid =
     (if \<not> wv_open_modules V pid then []
      else if min (wv_modules_needed V pid div SIZE_OF_HMODULE) 1024 = 0 then []
      else
        (case enumerated_modules V pid of
           None \<Rightarrow> [] | Some modules \<Rightarrow> windows_module_names V pid modules))"

text \<open>The same for the Agent itself, which needs no handle.\<close>

definition windows_loaded_modules :: "windows_view \<Rightarrow> string list" where
  "windows_loaded_modules V =
     (if wv_modules_needed V (wv_self V) = 0 then []
      else
        (case enumerated_modules V (wv_self V) of
           None \<Rightarrow> [] | Some modules \<Rightarrow> windows_module_names V (wv_self V) modules))"

definition windows_debugger_observed :: "windows_view \<Rightarrow> bool" where
  "windows_debugger_observed V \<longleftrightarrow> wv_debugger_present V \<noteq> 0"

text \<open>The walk through the snapshot of all processes: the first entry of the process decides.\<close>

fun windows_parent :: "nat \<Rightarrow> nat \<Rightarrow> (nat \<times> nat) list \<Rightarrow> bool option" where
  "windows_parent self pid [] = None"
| "windows_parent self pid ((process, parent) # entries) =
     (if process = pid then Some (parent = self) else windows_parent self pid entries)"

definition windows_inspect :: "windows_view \<Rightarrow> string \<Rightarrow> nat \<Rightarrow> GameProcessSnapshot" where
  "windows_inspect V expected_path pid =
     (if \<not> wv_open_limited V pid then absent_process
      else
        let queried = wv_image_name V pid in
        \<lparr>game_running = queried \<noteq> None,
         game_executable_matches =
           (case queried of
              None \<Rightarrow> False
            | Some name \<Rightarrow> windows_paths_equal V (from_utf16_lossy name) expected_path),
         game_parent_is_agent =
           (case wv_process_snapshot V of
              None \<Rightarrow> None | Some entries \<Rightarrow> windows_parent (wv_self V) pid entries),
         game_loaded_module_basenames = windows_process_modules V pid,
         game_process_identity_stable = None\<rparr>)"

definition windows_inspect_bound :: "windows_view \<Rightarrow> nat \<Rightarrow> string \<Rightarrow> nat option \<Rightarrow> GameProcessSnapshot" where
  "windows_inspect_bound V pid expected_path =
     inspect_bound_with (windows_inspect V expected_path) (windows_process_identity V) pid"

section \<open>macOS\<close>

text \<open>
  The fields of \<^verbatim>\<open>proc_bsdinfo\<close> that are read. \<open>mv_pidinfo\<close> is the number of bytes written and the record,
  \<open>mv_pidpath\<close> the length and the buffer, which holds a C string.
\<close>

record proc_bsd_info =
  pbi_flags :: u32
  pbi_ppid :: nat
  pbi_start_tvsec :: u64
  pbi_start_tvusec :: u64

record macos_view =
  mv_self :: nat
  mv_pidpath :: "nat \<Rightarrow> int \<times> string"
  mv_pidinfo :: "nat \<Rightarrow> int \<times> proc_bsd_info"
  mv_image_count :: nat
  mv_image_name :: "nat \<Rightarrow> string option"

definition c_string :: "string \<Rightarrow> string" where
  "c_string buffer = takeWhile (\<lambda>c. c \<noteq> CHR 0x00) buffer"

definition SIZE_OF_PROC_BSD_INFO :: int where "SIZE_OF_PROC_BSD_INFO = 136"

definition PROC_FLAG_TRACED :: u32 where "PROC_FLAG_TRACED = 2"

definition macos_process_info :: "macos_view \<Rightarrow> nat \<Rightarrow> proc_bsd_info option" where
  "macos_process_info V pid =
     (case mv_pidinfo V pid of (read, info) \<Rightarrow> if read = SIZE_OF_PROC_BSD_INFO then Some info else None)"

definition macos_process_parent :: "macos_view \<Rightarrow> nat \<Rightarrow> nat option" where
  "macos_process_parent V pid = map_option pbi_ppid (macos_process_info V pid)"

definition macos_process_times :: "macos_view \<Rightarrow> nat \<Rightarrow> (u64 \<times> u64) option" where
  "macos_process_times V pid =
     map_option (\<lambda>info. (pbi_start_tvsec info, pbi_start_tvusec info)) (macos_process_info V pid)"

definition macos_process_identity :: "macos_view \<Rightarrow> nat \<Rightarrow> nat option" where
  "macos_process_identity V pid =
     map_option (\<lambda>(seconds, micros). unat (seconds XOR word_rotl 32 micros)) (macos_process_times V pid)"

definition macos_inspect :: "fs \<Rightarrow> macos_view \<Rightarrow> path \<Rightarrow> nat \<Rightarrow> GameProcessSnapshot" where
  "macos_inspect fs V expected_path pid =
     (let actual = (case mv_pidpath V pid of (read, buffer) \<Rightarrow>
            if 0 < read then map_option (join_path []) (from_utf8 (c_string buffer)) else None) in
      \<lparr>game_running = actual \<noteq> None,
       game_executable_matches =
         (case (Option.bind actual (realpath fs), realpath fs expected_path) of
            (Some a, Some e) \<Rightarrow> a = e | _ \<Rightarrow> False),
       game_parent_is_agent = map_option (\<lambda>parent. parent = mv_self V) (macos_process_parent V pid),
       game_loaded_module_basenames = [],
       game_process_identity_stable = None\<rparr>)"

definition macos_inspect_bound :: "fs \<Rightarrow> macos_view \<Rightarrow> nat \<Rightarrow> path \<Rightarrow> nat option \<Rightarrow> GameProcessSnapshot" where
  "macos_inspect_bound fs V pid expected_path =
     inspect_bound_with (macos_inspect fs V expected_path) (macos_process_identity V) pid"

definition macos_debugger_observed :: "macos_view \<Rightarrow> bool" where
  "macos_debugger_observed V =
     (case mv_pidinfo V (mv_self V) of (read, info) \<Rightarrow>
        read = SIZE_OF_PROC_BSD_INFO \<and> pbi_flags info AND PROC_FLAG_TRACED \<noteq> 0)"

definition macos_loaded_modules :: "macos_view \<Rightarrow> string list" where
  "macos_loaded_modules V =
     btree_names (filter (\<lambda>value. value \<noteq> [] \<and> length value \<le> 255)
       (List.map_filter
         (\<lambda>index. Option.bind (mv_image_name V index) (\<lambda>pointer.
            Option.bind (from_utf8 (c_string pointer)) text_file_name))
         [0..<min (mv_image_count V) 1024]))"

section \<open>Facts\<close>

lemma linux_inspect_bound:
  "inspect_game_process_bound fs V pid expected =
     inspect_bound_with (\<lambda>pid. inspect_game_process_platform fs V pid expected) (process_identity_platform V) pid"
  by (rule ext)
    (simp add: inspect_game_process_bound_def inspect_bound_with_def absent_process_def identity_of_def
      process_identity_def Let_def split: option.split)

lemma windows_parent_first:
  "windows_parent self pid entries = map_option (\<lambda>e. snd e = self) (find (\<lambda>e. fst e = pid) entries)"
  by (induction self pid entries rule: windows_parent.induct) auto

text \<open>A list of module names: sorted, without repetitions, of at most 1024 names, each text of bounded length.\<close>

definition module_list :: "nat \<Rightarrow> string list \<Rightarrow> bool" where
  "module_list longest names \<longleftrightarrow>
     sorted names \<and> distinct names \<and> length names \<le> 1024 \<and> (\<forall>n \<in> set names. n \<noteq> [] \<and> length n \<le> longest)"

lemma btree_names_list:
  assumes "length names \<le> 1024" and "\<forall>n \<in> set names. n \<noteq> [] \<and> length n \<le> longest"
  shows "module_list longest (btree_names names)"
  using assms order_trans [OF length_remdups_leq assms(1)] by (simp add: module_list_def btree_names_def)

lemma module_list_Nil [simp]: "module_list longest []"
  by (simp add: module_list_def)

lemma module_list_linux: "module_list 255 (module_basenames_from_maps maps)"
  unfolding module_basenames_from_maps_def Let_def module_list_def
  by (auto simp: sorted_wrt_take dest!: in_set_takeD)

lemma length_map_filter_le: "length (List.map_filter f xs) \<le> length xs"
  by (induction xs) (auto split: option.splits)

lemma map_filter_set: "y \<in> set (List.map_filter f xs) \<longleftrightarrow> (\<exists>x \<in> set xs. f x = Some y)"
  by (induction xs) (auto split: option.splits)

lemma module_list_windows:
  assumes "length modules \<le> 1024"
  shows "module_list 765 (windows_module_names V process modules)"
proof -
  have "utf8_string cs \<noteq> []" if "cs \<noteq> []" for cs
    using that by (cases cs) (simp_all add: utf8_string_def length_utf8_encode)
  moreover have "utf16_chars us \<noteq> []" if "us \<noteq> []" for us
    using that by (cases us) (simp_all add: utf16_chars_nonempty del: utf16_chars.simps)
  ultimately have "from_utf16_lossy us \<noteq> [] \<and> length (from_utf16_lossy us) \<le> 765"
    if "0 < length us" "length us < 256" for us
    using that length_from_utf16_lossy [of us] by (auto simp: from_utf16_lossy_def)
  then show ?thesis
    unfolding windows_module_names_def
    using assms length_map_filter_le [of _ modules]
    by (intro btree_names_list) (auto simp: map_filter_set Let_def intro: order_trans split: if_splits)
qed

lemma enumerated_modules_few: "enumerated_modules V process = Some modules \<Longrightarrow> length modules \<le> 1024"
  by (auto simp: enumerated_modules_def Let_def)

lemma module_list_macos: "module_list 255 (macos_loaded_modules V)"
  unfolding macos_loaded_modules_def
  by (intro btree_names_list order_trans [OF length_filter_le] order_trans [OF length_map_filter_le]) auto


section \<open>The identity of a process\<close>

lemma windows_identity_inj:
  assumes "unat (push_bit 32 (ucast (h :: u32) :: u64) OR ucast (l :: u32)) = unat (push_bit 32 (ucast h' :: u64) OR ucast l')"
  shows "h = h' \<and> l = l'"
proof (intro conjI bit_word_eqI)
  from assms have same: "push_bit 32 (ucast h :: u64) OR ucast l = push_bit 32 (ucast h') OR ucast l'"
    by (simp only: word_unat_eq_iff)
  fix n :: nat
  assume "n < LENGTH(32)"
  then have n: "n < 32" by simp
  from arg_cong [OF same, of "\<lambda>w. bit w (n + 32)"] n show "bit h n = bit h' n"
    using bit_imp_le_length [of l "n + 32"] bit_imp_le_length [of l' "n + 32"]
    by (auto simp: bit_or_iff bit_push_bit_iff bit_ucast_iff)
  from arg_cong [OF same, of "\<lambda>w. bit w n"] n show "bit l n = bit l' n"
    by (auto simp: bit_or_iff bit_push_bit_iff bit_ucast_iff)
qed

text \<open>Seconds and microseconds below \<open>2 ^ 32\<close> do not overlap in the exclusive or.\<close>

lemma high_bits_zero: "uint (w :: u64) < 2 ^ 32 \<Longrightarrow> 32 \<le> n \<Longrightarrow> \<not> bit w n"
proof
  assume w: "uint w < 2 ^ 32" "32 \<le> n" "bit w n"
  then have "take_bit 32 (uint w) = uint w"
    by (simp add: take_bit_int_eq_self)
  then have "bit (uint w) n \<longleftrightarrow> n < 32 \<and> bit (uint w) n"
    by (metis bit_take_bit_iff)
  moreover have "bit (uint w) n"
    using w(3) bit_imp_le_length [of w n] by (simp add: bit_uint_iff)
  ultimately show False
    using w(2) by simp
qed

lemma macos_identity_inj:
  fixes s m :: u64
  assumes "unat (s XOR word_rotl 32 m) = unat (s' XOR word_rotl 32 m')"
    and "uint s < 2 ^ 32" "uint m < 2 ^ 32" "uint s' < 2 ^ 32" "uint m' < 2 ^ 32"
  shows "s = s' \<and> m = m'"
proof (intro conjI bit_word_eqI)
  fix n :: nat
  assume "n < LENGTH(64)"
  then have n: "n < 64" by simp
  from assms(1) have same: "s XOR word_rotl 32 m = s' XOR word_rotl 32 m'"
    by (simp only: word_unat_eq_iff)
  note zero = assms(2-)[THEN high_bits_zero]
  show "bit s n = bit s' n"
  proof (cases "n < 32")
    case True
    with arg_cong [OF same, of "\<lambda>w. bit w n"] zero(2,4) [of "n + 32"] show ?thesis
      by (simp add: bit_xor_iff bit_word_rotl_iff)
  qed (use zero in simp)
  show "bit m n = bit m' n"
  proof (cases "n < 32")
    case True
    with arg_cong [OF same, of "\<lambda>w. bit w (n + 32)"] zero(1,3) [of "n + 32"] show ?thesis
      by (simp add: bit_xor_iff bit_word_rotl_iff)
  qed (use zero in simp)
qed


text \<open>
  What every platform owes: an identity when, and only when, it knows at which moment the process started, and
  the same identity only for the same moment. \<open>start\<close> is that moment as the platform writes it, \<open>known\<close> the
  views on which the identity can be relied on.
\<close>

locale process_platform =
  fixes start :: "'v \<Rightarrow> nat \<Rightarrow> 'm option"
    and identity :: "'v \<Rightarrow> nat \<Rightarrow> nat option"
    and known :: "'v \<Rightarrow> nat \<Rightarrow> bool"
  assumes identity_known: "identity V pid = None \<longleftrightarrow> start V pid = None"
    and identity_start: "\<lbrakk> known V pid; known V' pid; start V pid \<noteq> None; start V' pid \<noteq> None \<rbrakk>
      \<Longrightarrow> identity V pid = identity V' pid \<longleftrightarrow> start V pid = start V' pid"
begin

text \<open>The report on a process says that it is the one identified before exactly when it started at that moment.\<close>

lemma stable_iff:
  assumes "pid \<noteq> 0" and "identity V pid = Some n" and "known V pid" "known V' pid"
  shows "game_process_identity_stable (inspect_bound_with inspect (identity V') pid (Some n)) = Some True \<longleftrightarrow>
    start V' pid = start V pid"
proof -
  have "start V pid \<noteq> None"
    using assms(2) identity_known [of V pid] by auto
  moreover have "identity V' pid = Some n \<longleftrightarrow> start V' pid \<noteq> None \<and> identity V' pid = identity V pid"
    using assms(2) identity_known [of V' pid] by auto
  ultimately show ?thesis
    using assms(1) identity_start [OF assms(3,4)]
    by (auto simp: inspect_bound_with_def identity_of_def Let_def)
qed

end

definition windows_start :: "windows_view \<Rightarrow> nat \<Rightarrow> (u32 \<times> u32) option" where
  "windows_start V pid = (if wv_open_limited V pid then wv_creation_time V pid else None)"

definition early_start :: "macos_view \<Rightarrow> nat \<Rightarrow> bool" where
  "early_start V pid \<longleftrightarrow>
     (\<forall>seconds micros. macos_process_times V pid = Some (seconds, micros) \<longrightarrow> uint seconds < 2 ^ 32 \<and> uint micros < 2 ^ 32)"

interpretation windows_platform: process_platform windows_start windows_process_identity "\<lambda>_ _. True"
  by unfold_locales
    (auto simp: windows_start_def windows_process_identity_def dest!: windows_identity_inj split: if_splits)

interpretation macos_platform: process_platform macos_process_times macos_process_identity early_start
  by unfold_locales (auto simp: macos_process_identity_def early_start_def dest!: macos_identity_inj)

interpretation linux_platform: process_platform process_identity_platform process_identity_platform "\<lambda>_ _. True"
  by unfold_locales simp_all

end
