(* ===== verification/PlatformProperties.thy ===== *)
theory PlatformProperties
  imports PlatformOther
begin

text \<open>
  What the evidence on the game's process is worth on each system: the lists of modules, the identity by which a
  process is told from a later one with the same number, and the walk to its parent.
\<close>

text \<open>C40: On every system the module names of a report are in strictly increasing order, at most 1024, none
  empty, and of at most 255 bytes on Linux and macOS; on Windows, where the limit is 255 UTF-16 code units, of at
  most 765 bytes.\<close>

theorem module_lists_well_formed:
  "module_list 255 (module_basenames_from_maps maps) \<and> module_list 255 (macos_loaded_modules M) \<and>
   module_list 765 (windows_process_modules W pid) \<and> module_list 765 (windows_loaded_modules W)"
proof (intro conjI)
  show "module_list 765 (windows_process_modules W pid)"
    unfolding windows_process_modules_def
    by (auto intro: module_list_windows enumerated_modules_few split: option.split)
  show "module_list 765 (windows_loaded_modules W)"
    unfolding windows_loaded_modules_def
    by (auto intro: module_list_windows enumerated_modules_few split: option.split)
qed (rule module_list_linux module_list_macos)+

text \<open>C39: A process that was identified when the game was launched is later reported as the same one exactly when
  a process with its number then exists and started at the same moment: on Windows always, on macOS for start
  times below \<open>2 ^ 32\<close> seconds.\<close>

theorem process_identity_stable:
  assumes "pid \<noteq> 0"
    and "windows_process_identity W pid = Some n"
    and "macos_process_identity M pid = Some m" and "early_start M pid" "early_start M' pid"
  shows "(game_process_identity_stable (windows_inspect_bound W' pid text_path (Some n)) = Some True \<longleftrightarrow>
      windows_start W' pid = windows_start W pid) \<and>
    (game_process_identity_stable (macos_inspect_bound fs M' pid path (Some m)) = Some True \<longleftrightarrow>
      macos_process_times M' pid = macos_process_times M pid)"
  unfolding windows_inspect_bound_def macos_inspect_bound_def
  using windows_platform.stable_iff [OF assms(1,2)] macos_platform.stable_iff [OF assms(1,3)] assms(4,5) by simp

definition sample_windows :: "u32 \<Rightarrow> windows_view" where
  "sample_windows low =
     \<lparr>wv_self = 4, wv_canonicalize = (\<lambda>_. None), wv_open_limited = (\<lambda>pid. pid = 8),
      wv_creation_time = (\<lambda>_. Some (7, low)), wv_image_name = (\<lambda>_. Some []),
      wv_process_snapshot = Some [(8, 4)], wv_open_modules = (\<lambda>_. False), wv_modules_needed = (\<lambda>_. 0),
      wv_enum_modules = (\<lambda>_ _. None), wv_module_base_name = (\<lambda>_ _. []), wv_debugger_present = 0\<rparr>"

definition sample_macos :: "u64 \<Rightarrow> macos_view" where
  "sample_macos micros =
     \<lparr>mv_self = 4, mv_pidpath = (\<lambda>_. (0, [])),
      mv_pidinfo = (\<lambda>_. (136, \<lparr>pbi_flags = 0, pbi_ppid = 4, pbi_start_tvsec = 9, pbi_start_tvusec = micros\<rparr>)),
      mv_image_count = 0, mv_image_name = (\<lambda>_. None)\<rparr>"

lemma process_identity_stable_witness:
  "\<exists>n m. windows_process_identity (sample_windows 3) 8 = Some n \<and> macos_process_identity (sample_macos 5) 8 = Some m \<and>
     game_process_identity_stable (windows_inspect_bound (sample_windows 3) 8 ''game'' (Some n)) = Some True \<and>
     game_process_identity_stable (windows_inspect_bound (sample_windows 4) 8 ''game'' (Some n)) \<noteq> Some True \<and>
     game_process_identity_stable (macos_inspect_bound Map.empty (sample_macos 6) 8 [''game''] (Some m)) \<noteq> Some True"
proof -
  have times: "macos_process_times (sample_macos micros) 8 = Some (9, micros)" for micros
    by (simp add: macos_process_times_def macos_process_info_def sample_macos_def SIZE_OF_PROC_BSD_INFO_def)
  obtain n where n: "windows_process_identity (sample_windows 3) 8 = Some n"
    by (simp add: windows_process_identity_def sample_windows_def)
  obtain m where m: "macos_process_identity (sample_macos 5) 8 = Some m"
    by (simp add: macos_process_identity_def times)
  have "early_start (sample_macos 5) 8" "early_start (sample_macos 6) 8"
    by (simp_all add: early_start_def times)
  note stable = process_identity_stable [OF _ n m this, simplified times]
  have "windows_start (sample_windows low) 8 = Some (7, low)" for low
    by (simp add: windows_start_def sample_windows_def)
  with n m stable [of "sample_windows 3"] stable [of "sample_windows 4" "''game''" Map.empty "[''game'']"]
  show ?thesis by auto
qed

end
