(* ===== verification/Elevation.thy ===== *)
theory Elevation
  imports Splash LaunchEnvironment
begin

text \<open>
  \<open>spawn_elevated_update\<close> of \<^verbatim>\<open>crates/certael-agent/src/ui.rs\<close> on macOS and Windows, where the request for
  administrator rights takes one text that is taken apart again: an AppleScript program that builds a shell
  command, and the parameters of \<open>ShellExecuteW\<close>. The branch for Linux is in \<open>Splash\<close>.
\<close>

section \<open>macOS\<close>

definition NEWLINE :: char where "NEWLINE = CHR 0x0A"

definition SCRIPT :: string where
  "SCRIPT =
     ''on run argv'' @ [NEWLINE] @
     ''set commandText to quoted form of item 1 of argv & '' @ [QUOTE]
       @ '' update-registered-game --registration-id '' @ [QUOTE]
       @ '' & quoted form of item 2 of argv & '' @ [QUOTE] @ '' --activate'' @ [QUOTE] @ [NEWLINE] @
     ''do shell script commandText with administrator privileges'' @ [NEWLINE] @
     ''end run''"

definition macos_elevated_update :: "path \<Rightarrow> string \<Rightarrow> nat act" where
  "macos_elevated_update executable registration_id =
     spawn ''not started''
       \<lparr>cmd_program = ['''', ''usr'', ''bin'', ''osascript''],
        cmd_args = [''-e'', SCRIPT, path_text executable, registration_id], cmd_env = []\<rparr>"

text \<open>What the script hands to the shell: AppleScript's \<open>quoted form\<close> puts a text in single quotes.\<close>

definition APOSTROPHE :: char where "APOSTROPHE = CHR 0x27"

definition quoted_form :: "string \<Rightarrow> string" where
  "quoted_form s =
     [APOSTROPHE] @ concat (map (\<lambda>c. if c = APOSTROPHE then [APOSTROPHE, BACKSLASH, APOSTROPHE, APOSTROPHE] else [c]) s)
       @ [APOSTROPHE]"

definition script_command :: "string \<Rightarrow> string \<Rightarrow> string" where
  "script_command executable registration_id =
     quoted_form executable @ '' update-registered-game --registration-id '' @ quoted_form registration_id @ '' --activate''"

text \<open>
  The words the shell reads, on a text without special characters outside single quotes and after no backslash:
  \<open>word\<close> is the word begun so far.
\<close>

fun shell_words :: "bool \<Rightarrow> string option \<Rightarrow> string \<Rightarrow> string list" where
  "shell_words quoted word [] = (case word of None \<Rightarrow> [] | Some w \<Rightarrow> [w])"
| "shell_words quoted word (c # cs) =
     (let begun = (case word of None \<Rightarrow> [] | Some w \<Rightarrow> w) in
      if quoted then
        (if c = APOSTROPHE then shell_words False word cs else shell_words True (Some (begun @ [c])) cs)
      else if c = APOSTROPHE then shell_words True (Some begun) cs
      else if c = BACKSLASH then
        (case cs of [] \<Rightarrow> [begun @ [c]] | d # ds \<Rightarrow> shell_words False (Some (begun @ [d])) ds)
      else if argument_gap c then
        (case word of None \<Rightarrow> shell_words False None cs | Some w \<Rightarrow> w # shell_words False None cs)
      else shell_words False (Some (begun @ [c])) cs)"

section \<open>Windows\<close>

record shell_execution =
  sx_operation :: string
  sx_file :: path
  sx_parameters :: string

definition elevated_parameters :: "string \<Rightarrow> string" where
  "elevated_parameters registration_id =
     ''update-registered-game --registration-id '' @ [QUOTE] @ registration_id @ [QUOTE] @ '' --activate''"

text \<open>\<open>answer\<close> is what \<open>ShellExecuteW\<close> returns for the request: at most 32 for a failure.\<close>

definition windows_elevated_update :: "(shell_execution \<Rightarrow> int) \<Rightarrow> path \<Rightarrow> string \<Rightarrow> string + unit" where
  "windows_elevated_update answer executable registration_id =
     (if answer \<lparr>sx_operation = ''runas'', sx_file = executable, sx_parameters = elevated_parameters registration_id\<rparr> \<le> 32
      then Inl ''administrator approval was denied or unavailable'' else Inr ())"

section \<open>Facts\<close>

lemma distinct_apostrophe [simp]:
  "APOSTROPHE \<noteq> BACKSLASH" "BACKSLASH \<noteq> APOSTROPHE" "\<not> argument_gap APOSTROPHE" "CHR '' '' \<noteq> APOSTROPHE"
  by (simp_all add: APOSTROPHE_def BACKSLASH_def argument_gap_def)

lemma shell_quoted_body:
  "shell_words True (Some w)
     (concat (map (\<lambda>c. if c = APOSTROPHE then [APOSTROPHE, BACKSLASH, APOSTROPHE, APOSTROPHE] else [c]) s)
        @ APOSTROPHE # tail)
   = shell_words False (Some (w @ s)) tail"
  by (induction s arbitrary: w) (simp_all add: Let_def)

lemma shell_quoted: "shell_words False None (quoted_form s @ tail) = shell_words False (Some s) tail"
  using shell_quoted_body [of "[]" s tail] by (simp add: quoted_form_def Let_def)

definition plain_word :: "string \<Rightarrow> bool" where
  "plain_word s \<longleftrightarrow> s \<noteq> [] \<and> (\<forall>c \<in> set s. c \<noteq> APOSTROPHE \<and> c \<noteq> BACKSLASH \<and> \<not> argument_gap c)"

lemma shell_plain_rest:
  "\<forall>c \<in> set s. c \<noteq> APOSTROPHE \<and> c \<noteq> BACKSLASH \<and> \<not> argument_gap c \<Longrightarrow>
     shell_words False (Some w) (s @ tail) = shell_words False (Some (w @ s)) tail"
  by (induction s arbitrary: w) (simp_all add: Let_def)

lemma shell_plain: "plain_word s \<Longrightarrow> shell_words False None (s @ tail) = shell_words False (Some s) tail"
  using shell_plain_rest [of "tl s" "[hd s]" tail] by (cases s) (auto simp: plain_word_def Let_def)

lemma shell_blank: "shell_words False (Some w) (CHR '' '' # tail) = w # shell_words False None tail"
  by (simp add: Let_def)

lemma shell_end: "shell_words False (Some w) [] = [w]"
  by simp

lemma script_command_words:
  "shell_words False None (script_command executable registration_id)
     = [executable, ''update-registered-game'', ''--registration-id'', registration_id, ''--activate'']"
proof -
  have plain: "plain_word ''update-registered-game''" "plain_word ''--registration-id''" "plain_word ''--activate''"
    by (simp_all add: plain_word_def APOSTROPHE_def BACKSLASH_def argument_gap_def)
  have "script_command executable registration_id =
      quoted_form executable @ CHR '' '' # ''update-registered-game'' @ CHR '' '' # ''--registration-id''
        @ CHR '' '' # quoted_form registration_id @ CHR '' '' # ''--activate'' @ []"
    by (simp add: script_command_def)
  then show ?thesis
    by (simp only: shell_quoted shell_blank shell_plain [OF plain(1)] shell_plain [OF plain(2)]
        shell_plain [OF plain(3)] shell_end)
qed

text \<open>On Windows the identifier stands between quotes as it is; those of registered games have none.\<close>

lemma take_quoted_plain:
  assumes "\<forall>c \<in> set v. c \<noteq> QUOTE \<and> c \<noteq> BACKSLASH"
  shows "take_argument True 0 arg (v @ tail) = take_argument True 0 (arg @ v) tail"
  using assms by (induction v arbitrary: arg) auto

lemma elevated_parameters_split:
  assumes "safe_id registration_id"
  shows "split_command_line 4 (elevated_parameters registration_id)
    = [''update-registered-game'', ''--registration-id'', registration_id, ''--activate'']"
proof -
  have "c \<noteq> QUOTE \<and> c \<noteq> BACKSLASH" if "c \<in> set registration_id" for c
  proof -
    have "\<not> (is_ascii_alphanumeric QUOTE \<or> is_ascii_alphanumeric BACKSLASH)"
      "QUOTE \<notin> {CHR ''.'', CHR ''_'', CHR ''-''}" "BACKSLASH \<notin> {CHR ''.'', CHR ''_'', CHR ''-''}"
      by (simp_all add: QUOTE_def BACKSLASH_def ascii_class_defs)
    with assms that show ?thesis
      by (auto simp: safe_id_def list_all_iff)
  qed
  then have quoted: "take_argument True 0 arg (registration_id @ tail) = take_argument True 0 (arg @ registration_id) tail"
    for arg tail
    using take_quoted_plain by blast
  have chars: "\<forall>c \<in> set ''update-registered-game--registration-id--activate''. c \<noteq> BACKSLASH \<and> c \<noteq> QUOTE \<and> \<not> argument_gap c"
    by (simp add: QUOTE_def BACKSLASH_def argument_gap_def)
  show ?thesis
    unfolding elevated_parameters_def using chars
    by (simp add: numeral_eq_Suc quoted)
qed

end
