(* ===== verification/Spec2Isabelle.thy ===== *)
theory Spec2Isabelle
  imports ProtocolProperties TransportProperties UpdaterProperties HostProperties LaunchProperties WindowProperties
    RegistryProperties WindowsProperties PlatformProperties Elevation
begin

text \<open>
  Certael Agent is a program a player runs beside a game. It starts the game, holds a private channel to
  it, and answers the game server's challenges with signed reports on the game's files and process. The
  repository has one crate per concern; this development follows them. All paths are under
  \<^verbatim>\<open>src/crates/\<close>.

  \<^bold>\<open>How the parts interact.\<close> A publisher signs a registration and a build manifest. \<open>register-game\<close> checks
  and stores the registration (\<open>Registry\<close>). The stable launcher (\<open>Launch\<close>) starts the version of the
  Agent that the updater's activation state names (\<open>Updater\<close>). \<open>launch-game\<close> loads the registration,
  opens the splash (\<open>Splash\<close>), checks the Agent and the registered files, and starts the game with one
  end of a socket pair (\<open>Launch\<close>), on Windows with the ends of two pipes and inside a job (\<open>WindowsLaunch\<close>).
  \<open>serve\<close> (\<open>Runtime\<close>) sends a hello frame (\<open>Ipc\<close>), receives the server's signed launch bundle, verifies it
  (\<open>ProtocolBundle\<close>) and the build on disk (\<open>Platform\<close>), and then answers challenges until the session ends. In the game, the probe (\<open>Probe\<close>) carries the frames.
  Every change is published to a status file, which the windows read.

  \<^bold>\<open>Theories and sources.\<close>
    \<^item> \<open>Prelude\<close>, \<open>RustText\<close>, \<open>RustUnicode\<close>: machine integers as words, errors as sums, \<open>str\<close>, hexadecimal,
      UTF-8 and UTF-16.
    \<^item> \<open>ProtocolTypes\<close>, \<open>ProtocolValidate\<close>, \<open>ProtocolVerify\<close>, \<open>ProtocolBundle\<close>, \<open>Compatibility\<close>,
      \<open>ProtocolReport\<close>: \<^verbatim>\<open>certael-agent-protocol/src/lib.rs\<close>, in the order of that file: messages,
      validators, key ring and signatures, launch admission, compatibility, reports.
    \<^item> \<open>Session\<close>: \<^verbatim>\<open>certael-agent-session/src/lib.rs\<close>; \<open>Ipc\<close>: \<^verbatim>\<open>certael-agent-ipc/src/lib.rs\<close>;
      \<open>Probe\<close>: \<^verbatim>\<open>certael-agent-probe/src/lib.rs\<close>.
    \<^item> \<open>FileSystem\<close>, \<open>FsLogic\<close>: the operations of \<open>std::fs\<close> that the crates use, and triples for them.
    \<^item> \<open>Updater\<close>, \<open>UpdaterFacts\<close>, \<open>Activation\<close>, \<open>Install\<close>, \<open>Progress\<close>, \<open>Staging\<close>:
      \<^verbatim>\<open>certael-agent-updater/src/lib.rs\<close>; \<open>Deployment\<close>: from an update to the next start of the launcher.
    \<^item> \<open>Platform\<close>: \<^verbatim>\<open>certael-agent-platform/src/lib.rs\<close> on Linux; \<open>PlatformOther\<close>: its branches for Windows and
      macOS; \<open>Handoff\<close>: how the runtime calls it.
    \<^item> \<open>Runtime\<close>, \<open>RuntimeFacts\<close>: \<^verbatim>\<open>certael-agent/src/runtime.rs\<close>; \<open>SessionMachine\<close>: the abstract machine of
      a session's published states, an inductive step relation, and that \<open>serve\<close> refines it.
    \<^item> \<open>LocalTrust\<close>: \<^verbatim>\<open>certael-agent/src/trust.rs\<close> and \<^verbatim>\<open>branding.rs\<close>; \<open>Registry\<close>:
      \<^verbatim>\<open>certael-agent/src/registry.rs\<close> and \<^verbatim>\<open>status.rs\<close>; \<open>RegistryReplace\<close>: which registration is in force while
      one is replaced; \<open>RegistryStored\<close>: what is loaded of a stored one; \<open>StatusFile\<close>: what can be relied on of a
      status file.
    \<^item> \<open>LaunchEnvironment\<close>: \<^verbatim>\<open>certael-agent/src/windows_environment.rs\<close> and the command line of
      \<^verbatim>\<open>windows_launch.rs\<close>; \<open>WindowsLaunch\<close>, \<open>WindowsFacts\<close>: the rest of \<^verbatim>\<open>windows_launch.rs\<close>, the launch as steps
      over a kernel, and the rule its calls obey.
    \<^item> \<open>Launch\<close>, \<open>LaunchFacts\<close>, \<open>LaunchOutcome\<close>, \<open>Commands\<close>: \<^verbatim>\<open>certael-agent/src/main.rs\<close>,
      \<^verbatim>\<open>bin/certael-agent-launcher.rs\<close>; \<open>Hardening\<close>: \<^verbatim>\<open>hardening.rs\<close>; \<open>Splash\<close>: \<^verbatim>\<open>certael-agent/src/ui.rs\<close>,
      \<open>Preview\<close>: its native windows and the preview of the splash, \<open>Elevation\<close>: its requests for administrator
      rights on macOS and Windows.
    \<^item> \<open>Fixtures\<close>, \<open>StagingFixtures\<close>, \<open>HostFixtures\<close>, \<open>LaunchFixtures\<close>, \<open>SessionFixtures\<close>: concrete inputs for the witnesses.
    \<^item> \<open>ProtocolProperties\<close>, \<open>TransportProperties\<close>, \<open>UpdaterProperties\<close>, \<open>HostProperties\<close>,
      \<open>LaunchProperties\<close>, \<open>WindowProperties\<close>, \<open>RegistryProperties\<close>, \<open>WindowsProperties\<close>, \<open>PlatformProperties\<close> and
      this theory: the properties, each with its witness.

  \<^bold>\<open>State and effects.\<close> Rust's \<open>Result\<close> is a sum with the error on the left. Integers keep their width
  where the source computes with them. A call on the file system maps a \<open>world\<close> to a result and a world;
  a world holds the tree of files, directories and symbolic links, the clock's next readings, the process
  id, and a schedule that makes each call succeed, fail, or be the last one before the process is killed,
  then possibly leaving a partial effect. Statements for all worlds are therefore statements about every
  sequence of I/O errors and crashes; \<open>calm\<close> worlds have neither. The loop of \<open>serve\<close> is driven by a
  list of ticks, one per iteration, each with what the clock, the channel, the disk and the process table
  yield then; its result is \<open>Running\<close> when the list ends first. A launch acts on a \<open>machine\<close>: a world and
  the processes started and killed; on Windows on a \<open>kernel\<close>: whether each next system call succeeds, the
  handles a value of the program owns, and the calls that succeeded, in order.

  \<^bold>\<open>Parameters.\<close> What is not under \<^verbatim>\<open>src/\<close> is an argument: \<open>lib\<close> (SHA-256, Ed25519, one protobuf codec
  per message, semantic versions), \<open>json\<close>, \<open>trust_lib\<close>, \<open>registry_lib\<close> and \<open>png\<close> (serde_json, base64, the
  PNG decoder), \<open>tough\<close> (the TUF client), \<open>proc_view\<close> (the files of \<^verbatim>\<open>/proc\<close> and pidfd),
  \<open>windows_view\<close> and \<open>macos_view\<close> (what the system calls on processes answer), \<open>host\<close> and
  \<open>launch_host\<close> (what the operating system answers). Nothing is assumed of them except by name in a
  theorem: that a signature made with a key verifies (\<open>signs_correctly\<close>), that a status, a record or an
  activation state is read back from its JSON (\<open>status_encodes\<close>, \<open>record_encodes\<close>), and that the TUF client
  saves a target only with its signed digest (\<open>saves_verified\<close>).

  \<^bold>\<open>Interfaces.\<close> \<open>signed_verifier\<close> is the steps the seven \<open>verify_\<close> functions share, from which their acceptance
  condition follows once; \<open>report_producer\<close>
  that of a source of chained reports, met by \<open>AgentSession\<close> and by the loop of \<open>serve\<close>; \<open>frame_transport\<close>
  that of a framed channel; \<open>activation_update\<close> that of the four operations on the activation state;
  \<open>process_platform\<close> that of a system that tells a process from a later one with the same number. Each
  is interpreted on the model's definitions in the theory of its provider.

  \<^bold>\<open>What the lemmas show.\<close> C1 to C8: a session is admitted only on a signed bundle for this executable, its
  reports form one chain and rest on fresh evidence, the channel carries exactly them, deadlines hold,
  errors and revocations end it, and the check of a manifest is exact. C9 to C14: what a launch starts,
  that the published states follow an abstract state machine, what the status file says afterwards, that
  it is replaced atomically, and that every session ends. C15 and C16: a registration is replaced whole
  under every schedule of failures and crashes, and what was stored is loaded again. C17 to C20: on Windows
  the game only ever runs inside its job, every handle is released once, the calls come in one order, and
  what is left when the containment fails. C21 to C24: the launcher's Agent accepts itself, what repair and
  offline play start, that the splash shows what was published, and that the compatibility check is sound.
  Then the protocol's acceptance conditions as equivalences with a specification that uses none of the code's
  functions (\<open>canonical\<close>, \<open>ring_key\<close>, \<open>authentic\<close>), what a grant pins, where an accepted path leads under the
  rules of Unix and of Windows, the transport's round trips, that an update puts in
  place, and the launcher then starts, what the TUF metadata signed, the updater's atomicity, progress, recovery
  and frame, and what the game and the Agent read from the host: command line, environment, process identities
  and module lists. Theorems without a number complete these.

  \<^bold>\<open>Bounds and fuel.\<close> Path resolution follows at most 40 symbolic links, as Linux does; a loop of links
  is then an error, as there. \<open>reader_thread\<close> takes the number of frames to read; \<open>frame_transport\<close> shows
  that the number of frames sent is enough. The clock of a world is a list; a reading past its end fails.
  All other recursion is structural or has a termination proof.

  \<^bold>\<open>Abstractions.\<close> The status file is written after \<open>serve\<close> has returned, in the order of its
  publications; the code writes it as it goes. \<open>HashSet\<close> iteration is nowhere observable. Permission bits
  and ownership appear only as calls that can fail. Messages of errors are those of the code's contexts.

  \<^bold>\<open>Not modelled.\<close> The meaning of the Windows and macOS system calls: a call is an event or an answer. Layout,
  colours and the crop of pictures, which are floating-point arguments to the GUI library. The parsing of
  arguments by clap, and what commands print. On Windows, the flags with which a file is replaced.
  \<^verbatim>\<open>src/vendor/\<close>, which is third-party code. The tests of the crates.
\<close>

section \<open>Sessions\<close>

text \<open>C1: a session that reaches its loop was admitted. The first frame from the game was a launch bundle
  that is admissible now for this Agent's key and this executable, the registered game, if there is one,
  is the bundle's game, every file of the signed manifest was on disk below the game root with its signed
  size and digest, and the loop starts its chain at 1 with the deadlines of the signed policy.\<close>

theorem session_admitted:
  assumes "admission L h state x = (Inr (launch, s), x')"
  shows "\<exists>payload now bundle p g m root.
    host_bootstrap h = Frame_received \<lparr>fr_message_type = LaunchGrant, fr_payload = payload\<rparr> \<and>
    host_admission_now h = Some now \<and>
    launch_admissible L payload (rts_trust state) now (sk_verifying L (rts_key state))
      (hello_build_id (rts_hello state)) bundle p g m \<and>
    launch = bind_launch p g m (sha256 L (bundle_signed_build_manifest bundle)) \<and>
    (\<forall>r. rts_registration state = Some r \<longrightarrow>
       (bind_tenant_id r, bind_game_id r, bind_environment_id r)
         = (grant_tenant_id g, grant_game_id g, grant_environment_id g)) \<and>
    realpath (wd_fs (host_disk h)) (rts_game_root state) = Some root \<and>
    (\<forall>f \<in> set (man_files m). entry_ok L (wd_fs (host_disk h)) root (protected_file f)) \<and>
    initial_loop_state h launch s"
proof -
  from admission_ok [OF assms] have adm: "admitted L h state launch" "initial_loop_state h launch s"
    by simp_all
  from adm(1) obtain payload now root where
    boot: "host_bootstrap h = Frame_received \<lparr>fr_message_type = LaunchGrant, fr_payload = payload\<rparr>"
      "host_admission_now h = Some now" and
    ok: "verify_launch_bundle L payload (rts_trust state) now (sk_verifying L (rts_key state))
      (hello_build_id (rts_hello state)) AGENT_VERSION = Inr launch" and
    reg: "\<not> registration_mismatch state launch" and
    files: "realpath (wd_fs (host_disk h)) (rts_game_root state) = Some root"
      "\<forall>f \<in> set (man_files (launch_build_manifest launch)).
         entry_ok L (wd_fs (host_disk h)) root (protected_file f)"
    unfolding admitted_def protected_file_def by blast
  from ok obtain lb p g m where
    b: "launch_admissible L payload (rts_trust state) now (sk_verifying L (rts_key state))
      (hello_build_id (rts_hello state)) lb p g m"
      "launch = bind_launch p g m (sha256 L (bundle_signed_build_manifest lb))"
    by (auto simp: bundle_accept_iff)
  have "\<forall>r. rts_registration state = Some r \<longrightarrow>
       (bind_tenant_id r, bind_game_id r, bind_environment_id r)
         = (grant_tenant_id g, grant_game_id g, grant_environment_id g)"
    using reg by (auto simp: registration_mismatch_def b(2) bind_launch_def)
  moreover have "launch_build_manifest launch = m"
    by (simp add: b(2) bind_launch_def)
  ultimately show ?thesis
    using boot b files adm(2) by auto
qed

lemma sample_admission:
  "admission sample_lib sample_host sample_state sample_io = (Inr (sample_launch, sample_loop), ls_io sample_loop)"
  by (simp add: admission_def then_io_def send_hello_def sample_io_def write_frame_def
      MAX_FRAME_PAYLOAD_def write_all_def flush_def publish_runtime_def sample_state_def sample_host_def
      await_bootstrap_def admit_bundle_def Let_def sample_bundle_accepted check_registration_def
      registration_mismatch_def check_files_def sample_files_ok become_ready_def write_health_def
      sample_window)
    (simp add: sample_loop_def sample_window frame_bytes_def i64_of_u32_def)

lemma session_admitted_witness:
  "sample_launch = bind_launch sample_policy sample_grant sample_manifest (sample_sha [3]) \<and>
   initial_loop_state sample_host sample_launch sample_loop"
  using session_admitted [OF sample_admission] by (auto simp: sample_launch_def)

text \<open>C2: the reports of a session are one chain from its first to its last: numbered 1, 2, 3, and so on
  without a gap, each with the digest of the one before it, the first one with 32 zero bytes, for every
  sequence of frames, time-outs, clock readings and disks.\<close>

theorem session_reports_chain:
  assumes "admission L h state x = (Inr (launch, s), x')"
  shows "report_chain (report_digest L) 1 (replicate 32 0) (loop_reports L state launch s ticks)"
  using loop_reports_chain [of L s state launch ticks] admission_ok [OF assms]
  by (auto simp: initial_loop_state_def)

lemma sample_loop_reports:
  "\<exists>r t. loop_reports sample_lib sample_state sample_launch sample_loop [challenge_tick 30] = [r] \<and>
     serve_loop sample_lib sample_state sample_launch sample_loop [challenge_tick 30] = Running t \<and>
     serve_step sample_lib sample_state sample_launch sample_loop (challenge_tick 30) = Running t"
  using sample_step by auto

lemma session_reports_chain_witness:
  "\<exists>r. loop_reports sample_lib sample_state sample_launch sample_loop [challenge_tick 30] = [r] \<and>
     report_chain (report_digest sample_lib) 1 (replicate 32 0) [r]"
  using session_reports_chain [OF sample_admission, of "[challenge_tick 30]"] sample_loop_reports by auto

text \<open>C3: every report of a session answers a challenge it received: one for this very session that was
  well formed and had not expired, with its nonce in the report, at a moment when the game's executable
  on disk hashed to the digest in the report and to the build the session was admitted for; and its
  signature verifies under the Agent's key, provided the signature scheme verifies its own signatures.\<close>

theorem session_report_grounds:
  assumes "r \<in> set (loop_reports L state launch s ticks)" and "signs_correctly L (rts_key state)"
  shows "(\<exists>tk \<in> set ticks. report_grounds L state launch tk r) \<and>
    verify_report L r (sk_verifying L (rts_key state)) = Inr ()"
  using loop_report_grounds [OF assms(1)] loop_report_signed [OF assms] by blast

lemma session_report_grounds_witness:
  "\<exists>r. report_grounds sample_lib sample_state sample_launch (challenge_tick 30) r \<and>
     verify_report sample_lib r sample_agent_key = Inr ()"
proof -
  obtain r where "loop_reports sample_lib sample_state sample_launch sample_loop [challenge_tick 30] = [r]"
    using sample_loop_reports by blast
  then have "r \<in> set (loop_reports sample_lib sample_state sample_launch sample_loop [challenge_tick 30])"
    by simp
  from session_report_grounds [OF this sample_signs] show ?thesis by auto
qed

text \<open>C4: what the game reads is what the session reported. While the loop runs, the bytes it has written
  are a whole number of frames; reading them back frame by frame with \<open>read_frame\<close> gives exactly them,
  they are health messages and reports only, and the reports among them are the reports of the run in
  their order.\<close>

theorem session_wire:
  assumes "serve_loop L state launch s ticks = Running t"
  shows "\<exists>fs. loop_out t = loop_out s @ concat (map frame_bytes fs) \<and>
    ipc.get_list (length fs) (drop (length (loop_out s)) (loop_out t)) = (Inr fs, []) \<and>
    (\<forall>f \<in> set fs. fr_message_type f \<in> {Health, IntegrityReport}) \<and>
    filter (\<lambda>f. fr_message_type f = IntegrityReport) fs
      = map (report_frame L) (loop_reports L state launch s ticks)"
proof -
  have read_back: "ipc.get_list (length fs) (concat (map frame_bytes fs)) = (Inr fs, [])"
    if "\<forall>f \<in> set fs. length (fr_payload f) \<le> MAX_FRAME_PAYLOAD" for fs
    using that by (induction fs) (simp_all add: read_frame_bytes)
  from loop_wrote [OF assms] obtain fs where "loop_out t = loop_out s @ concat (map frame_bytes fs)"
    "\<forall>f \<in> set fs. length (fr_payload f) \<le> MAX_FRAME_PAYLOAD \<and> fr_message_type f \<in> {Health, IntegrityReport}"
    "filter (\<lambda>f. fr_message_type f = IntegrityReport) fs
      = map (report_frame L) (loop_reports L state launch s ticks)"
    unfolding wrote_def by blast
  with read_back [of fs] show ?thesis
    by (intro exI [of _ fs]) simp
qed

lemma session_wire_witness:
  "\<exists>t fs. serve_loop sample_lib sample_state sample_launch sample_loop [challenge_tick 30] = Running t \<and>
     loop_out t = loop_out sample_loop @ concat (map frame_bytes fs) \<and>
     length (filter (\<lambda>f. fr_message_type f = IntegrityReport) fs) = 1"
proof -
  obtain r t where run: "loop_reports sample_lib sample_state sample_launch sample_loop [challenge_tick 30] = [r]"
    "serve_loop sample_lib sample_state sample_launch sample_loop [challenge_tick 30] = Running t"
    using sample_loop_reports by blast
  from session_wire [OF run(2)] run show ?thesis by auto
qed

text \<open>C5: a session outlives no deadline. Any further step it takes without ending happens before the
  policy expires and, measured on the same clock, before the report window after its last report (or
  after its start, when it has made none) is over. With a validated policy that window is the sum of the
  report interval and the grace period, and it never wraps.\<close>

theorem session_meets_deadlines:
  assumes "serve_loop L state launch s (ticks @ [tk]) = Running t"
    and "launch_report_seconds launch \<le> 3600" and "launch_disconnect_grace_seconds launch \<le> 300"
  shows "\<exists>now. tk_now tk = Some now \<and> sint now < sint (launch_policy_expires_at_unix launch) \<and>
    sint now < sint (if loop_reports L state launch s ticks = [] then ls_report_deadline s
      else rep_observed_at_unix (last (loop_reports L state launch s ticks)) + report_window launch) \<and>
    sint (report_window launch)
      = uint (launch_report_seconds launch) + uint (launch_disconnect_grace_seconds launch)"
proof -
  from assms(1) obtain u where u: "serve_loop L state launch s ticks = Running u"
    and step: "serve_step L state launch u tk = Running t"
    by (auto simp: serve_loop_append split: run.splits)
  from step obtain now where "tk_now tk = Some now" "sint now < sint (launch_policy_expires_at_unix launch)"
    "sint now < sint (ls_report_deadline u)"
    by (cases rule: serve_step_Running) auto
  with loop_deadline [OF u] report_window_bound [OF assms(2,3)] show ?thesis by simp
qed

lemma session_meets_deadlines_witness:
  "\<exists>t. serve_loop sample_lib sample_state sample_launch sample_loop ([] @ [challenge_tick 30]) = Running t \<and>
     sint (sample_now + 5) < sint (ls_report_deadline sample_loop)"
proof -
  obtain t where run: "serve_loop sample_lib sample_state sample_launch sample_loop ([] @ [challenge_tick 30]) = Running t"
    using sample_loop_reports by auto
  from session_meets_deadlines [OF this] run show ?thesis
    by (auto simp: challenge_tick_def sample_tick_def)
qed

text \<open>C6: the loop fails closed. It goes on only after a time-out, which leaves the chain as it is, or after
  a challenge it answered with a report that it sent, which advances the chain by exactly that report;
  every other frame, every error and every refused challenge ends the session.\<close>

theorem session_fails_closed:
  assumes "serve_step L state launch s tk = Running t"
  shows "tk_recv tk = Timed_out \<and> same_chain s t \<or>
    (\<exists>payload r. tk_recv tk = Frame_received \<lparr>fr_message_type = Challenge, fr_payload = payload\<rparr> \<and>
       report_of L state launch s tk = Some r \<and> checked_succ (ls_sequence s) = Some (ls_sequence t) \<and>
       ls_previous_digest t = report_digest L r \<and> ls_last_report_at t = rep_observed_at_unix r)"
  using assms
proof (cases rule: serve_step_Running)
  case (timeout now)
  then show ?thesis by (auto dest: on_timeout_Running)
next
  case (challenge now payload r at_time)
  from challenge(5) have "rep_observed_at_unix r = at_time"
    by (rule answer_challenge_ok) (auto dest: runtime_report_fields)
  with challenge show ?thesis
    by (auto elim!: deliver_report_Running)
qed

lemma session_fails_closed_witness:
  "\<exists>t. serve_step sample_lib sample_state sample_launch sample_loop (challenge_tick 30) = Running t \<and>
     checked_succ (ls_sequence sample_loop) = Some (ls_sequence t)"
proof -
  obtain t where step: "serve_step sample_lib sample_state sample_launch sample_loop (challenge_tick 30) = Running t"
    using sample_step by blast
  from session_fails_closed [OF this] step show ?thesis
    by (auto simp: challenge_tick_def sample_tick_def)
qed

text \<open>C7: a revocation takes effect at once. When a canonical revocation signed by a trusted key names this
  session, its tenant, game and environment, the step that receives it ends the session as revoked,
  after telling the game and publishing the state of a registered game.\<close>

theorem revocation_ends_session:
  assumes "tk_now tk = Some now" and "sint now < sint (launch_policy_expires_at_unix launch)"
    and "sint now < sint (ls_report_deadline s)"
    and "tk_recv tk = Frame_received \<lparr>fr_message_type = Revocation, fr_payload = payload\<rparr>"
    and "decode (signed_codec L) payload = Some so" and "encode_to_vec (signed_codec L) so = payload"
    and "tk_handler_now tk = Some later" and "verify_revocation L so (rts_trust state) later = Inr c"
    and "(rev_agent_session_id c, rev_tenant_id c, rev_game_id c, rev_environment_id c)
      = (launch_session_id launch, launch_tenant_id launch, launch_game_id launch, launch_environment_id launch)"
    and "write_health L (launch_session_id launch) ''revoked'' (ls_last_report_at s) [''SESSION_REVOKED'']
      (ls_io s) = (Inr (), x)"
  shows "serve_step L state launch s tk =
    Finished (Inl ''Agent session was revoked'')
      (publish_runtime state ''revoked'' (Some ''SESSION_REVOKED'') x)"
proof -
  have "check_revocation L state launch (Some later) payload = Inr ()"
    using assms(5,6,8,9) by (simp add: check_revocation_def)
  with assms(1-4,7,10) show ?thesis
    by (simp add: serve_step_def on_frame_def on_revocation_def health_then_def fails_def)
qed

lemma revocation_ends_session_witness:
  "\<exists>x. serve_step sample_lib sample_state sample_launch sample_loop
       (sample_tick (Frame_received \<lparr>fr_message_type = Revocation, fr_payload = [6]\<rparr>)\<lparr>tk_handler_now := Some sample_now\<rparr>)
     = Finished (Inl ''Agent session was revoked'') x"
proof -
  have "\<exists>x. write_health sample_lib (launch_session_id sample_launch) ''revoked'' (ls_last_report_at sample_loop)
      [''SESSION_REVOKED''] (ls_io sample_loop) = (Inr (), x)"
    by (simp add: write_health_def sample_loop_def write_frame_def write_all_def flush_def MAX_FRAME_PAYLOAD_def)
  then obtain x where x: "write_health sample_lib (launch_session_id sample_launch) ''revoked'' (ls_last_report_at sample_loop)
      [''SESSION_REVOKED''] (ls_io sample_loop) = (Inr (), x)" by blast
  have claims: "so_claims (sample_envelope REVOCATION_DOMAIN 6) = [6]"
    "(rev_agent_session_id sample_revocation, rev_tenant_id sample_revocation,
      rev_game_id sample_revocation, rev_environment_id sample_revocation)
     = (''grant'', ''tenant'', ''game'', ''production'')"
    by (simp_all add: sample_envelope_def sample_revocation_def)
  have times: "sint (sample_now + 5) < sint (launch_policy_expires_at_unix sample_launch)"
    "sint (sample_now + 5) < sint (ls_report_deadline sample_loop)"
    by (simp_all add: sample_loop_def sample_now_def)
  show ?thesis
    by (rule exI, rule revocation_ends_session [OF _ times _ _ _ _ _ _ x,
          where so = "sample_envelope REVOCATION_DOMAIN 6" and c = sample_revocation
          and later = sample_now and payload = "[6]"])
      (simp_all add: sample_tick_def sample_verified claims)
qed

text \<open>The loop does not remember the challenges it has answered. A game that repeats a challenge
  receives a second report with the same nonce; \<open>AgentSession\<close> of the session crate refuses that.\<close>

theorem repeated_challenge_answered:
  "\<exists>r r'. loop_reports sample_lib sample_state sample_launch sample_loop [challenge_tick 30, challenge_tick 30]
      = [r, r'] \<and> rep_sequence r \<noteq> rep_sequence r' \<and> rep_challenge_nonce r = rep_challenge_nonce r'"
proof -
  obtain r r' where rs: "loop_reports sample_lib sample_state sample_launch sample_loop
      [challenge_tick 30, challenge_tick 30] = [r, r']"
    using sample_steps_twice by blast
  have "rep_challenge_nonce q = chal_nonce (sample_challenge 30)" if "q \<in> {r, r'}" for q
  proof -
    have "q \<in> set (loop_reports sample_lib sample_state sample_launch sample_loop
        [challenge_tick 30, challenge_tick 30])"
      unfolding rs using that by simp
    from loop_report_grounds [OF this]
    have "report_grounds sample_lib sample_state sample_launch (challenge_tick 30) q" by simp
    then show ?thesis
      using sample_challenge_decoded [of 30]
      by (auto simp: report_grounds_def challenge_tick_def sample_tick_def)
  qed
  then have "rep_challenge_nonce r = rep_challenge_nonce r'"
    by simp
  moreover have "report_chain (report_digest sample_lib) 1 (replicate 32 0) [r, r']"
    using loop_reports_chain [of sample_lib sample_loop sample_state sample_launch
        "[challenge_tick 30, challenge_tick 30]"] sample_loop_ready(2)
    unfolding rs by (simp add: sample_loop_def)
  ultimately show ?thesis
    using rs by (intro exI [of _ r] exI [of _ r']) auto
qed

section \<open>The signed manifest on disk\<close>

text \<open>C8: the platform crate decides a signed manifest exactly. For a manifest the protocol crate
  validated, on a disk without I/O errors, \<open>verify_build_files\<close> never refuses an entry as malformed and
  returns the mismatches of exactly the files that differ, each with its reason, in the order of the
  manifest; the list is empty exactly when every file is as signed.\<close>

theorem manifest_check_decides:
  assumes "validate_build_manifest c now = Inr ()" and "calm w"
    and "realpath (wd_fs w) root = Some r" and "stat (wd_fs w) r = Some Dir"
  shows "\<exists>mismatches. verify_build_files L root (protected_manifest c) w = (Inr mismatches, w) \<and>
    mismatches = List.map_filter (entry_mismatch L (wd_fs w) r) (map protected_file (man_files c)) \<and>
    (mismatches = [] \<longleftrightarrow> (\<forall>f \<in> set (man_files c). entry_ok L (wd_fs w) r (protected_file f)))"
  using verify_manifest_calm [OF assms] by (simp add: mismatches_Nil)

lemma manifest_check_decides_witness:
  "verify_build_files sample_lib [''opt''] (protected_manifest sample_manifest) (sample_world game_fs)
     = (Inr [], sample_world game_fs)"
proof -
  have "\<forall>f \<in> set (man_files sample_manifest). entry_ok sample_lib game_fs [''opt''] (protected_file f)"
    using sample_game_ok by (simp add: sample_manifest_def)
  with manifest_check_decides [OF sample_valid(3) sample_world_calm, of game_fs "[''opt'']" "[''opt'']" sample_lib]
  show ?thesis by (auto simp: game_fs_paths)
qed

end
